(* ===== verification/Prelude.thy ===== *)
theory Prelude
  imports Main "HOL-Library.Word"
begin

text \<open>
  The vocabulary every component shares.

  A Rust \<open>&str\<close> or \<open>String\<close> is the list of its UTF-8 bytes, which is exactly
  Isabelle's \<open>string\<close> (a \<open>char\<close> is one of 256 byte values); a payload
  (\<open>&[u8]\<close>, \<open>Vec<u8>\<close>, \<open>Bytes\<close>) is a list of 8-bit words.
  \<open>Result<T, E>\<close> is \<open>'e + 't\<close> with \<open>Inl\<close> for \<open>Err\<close>, and
  \<open>try_then\<close> is the question-mark operator.  A \<open>std::time::Duration\<close> is its
  number of nanoseconds, with the saturating operations of the standard library, and an
  \<open>Instant\<close> is a number of nanoseconds on a monotonic clock.
\<close>

named_theorems rust_defs "definitions of the standard-library operations"
named_theorems rust_intros "introduction rules shared by the component proofs"

type_synonym bytes = "8 word list"
type_synonym duration = nat
type_synonym instant = nat

section \<open>Results\<close>

definition try_then :: "'e + 'a \<Rightarrow> ('a \<Rightarrow> 'e + 'b) \<Rightarrow> 'e + 'b" where
  "try_then r f = (case r of Inl e \<Rightarrow> Inl e | Inr x \<Rightarrow> f x)"

definition map_err :: "('e \<Rightarrow> 'f) \<Rightarrow> 'e + 'a \<Rightarrow> 'f + 'a" where
  "map_err g r = (case r of Inl e \<Rightarrow> Inl (g e) | Inr x \<Rightarrow> Inr x)"

definition map_ok :: "('a \<Rightarrow> 'b) \<Rightarrow> 'e + 'a \<Rightarrow> 'e + 'b" where
  "map_ok g r = (case r of Inl e \<Rightarrow> Inl e | Inr x \<Rightarrow> Inr (g x))"

definition ok_or :: "'e \<Rightarrow> 'a option \<Rightarrow> 'e + 'a" where
  "ok_or e r = (case r of None \<Rightarrow> Inl e | Some x \<Rightarrow> Inr x)"

definition ensure :: "bool \<Rightarrow> 'e \<Rightarrow> 'e + unit" where
  "ensure b e = (if b then Inr () else Inl e)"

definition is_ok :: "'e + 'a \<Rightarrow> bool" where
  "is_ok r = (case r of Inl _ \<Rightarrow> False | Inr _ \<Rightarrow> True)"

lemma try_then_simps [simp]:
  "try_then (Inl e) f = Inl e" "try_then (Inr x) f = f x"
  by (simp_all add: try_then_def)

lemma map_err_simps [simp]:
  "map_err g (Inl e) = Inl (g e)" "map_err g (Inr x) = Inr x"
  by (simp_all add: map_err_def)

lemma map_ok_simps [simp]:
  "map_ok h (Inl e) = Inl e" "map_ok h (Inr x) = Inr (h x)"
  by (simp_all add: map_ok_def)

lemma ok_or_simps [simp]:
  "ok_or e None = Inl e" "ok_or e (Some x) = Inr x"
  by (simp_all add: ok_or_def)

lemma is_ok_simps [simp]: "\<not> is_ok (Inl e)" "is_ok (Inr x)"
  by (simp_all add: is_ok_def)

lemma try_then_eq_Inr [simp]: "try_then r f = Inr y \<longleftrightarrow> (\<exists>x. r = Inr x \<and> f x = Inr y)"
  by (cases r) auto

lemma try_then_eq_Inl:
  "try_then r f = Inl e \<longleftrightarrow> r = Inl e \<or> (\<exists>x. r = Inr x \<and> f x = Inl e)"
  by (cases r) auto

lemma ensure_eq_Inr [simp]: "ensure b e = Inr u \<longleftrightarrow> b"
  by (simp add: ensure_def)

lemma ensure_eq_Inl [simp]: "ensure b e = Inl e' \<longleftrightarrow> \<not> b \<and> e = e'"
  by (auto simp: ensure_def)

lemma map_err_eq_Inr [simp]: "map_err g r = Inr x \<longleftrightarrow> r = Inr x"
  by (cases r) auto

lemma map_ok_eq_Inr [simp]: "map_ok h r = Inr y \<longleftrightarrow> (\<exists>x. r = Inr x \<and> y = h x)"
  by (cases r) auto

lemma ok_or_eq_Inr [simp]: "ok_or e r = Inr x \<longleftrightarrow> r = Some x"
  by (cases r) auto

lemma is_ok_iff: "is_ok r \<longleftrightarrow> (\<exists>x. r = Inr x)"
  by (cases r) auto

lemma is_ok_try_then [simp]: "is_ok (try_then r f) \<longleftrightarrow> (\<exists>x. r = Inr x \<and> is_ok (f x))"
  by (cases r) auto

section \<open>Characters and ASCII\<close>

definition byte_of :: "char \<Rightarrow> nat" where
  "byte_of c = of_char c"

definition is_ascii_digit :: "char \<Rightarrow> bool" where
  "is_ascii_digit c \<longleftrightarrow> 48 \<le> byte_of c \<and> byte_of c \<le> 57"

definition is_ascii_upper :: "char \<Rightarrow> bool" where
  "is_ascii_upper c \<longleftrightarrow> 65 \<le> byte_of c \<and> byte_of c \<le> 90"

definition is_ascii_lower :: "char \<Rightarrow> bool" where
  "is_ascii_lower c \<longleftrightarrow> 97 \<le> byte_of c \<and> byte_of c \<le> 122"

definition is_ascii_alphanumeric :: "char \<Rightarrow> bool" where
  "is_ascii_alphanumeric c \<longleftrightarrow> is_ascii_digit c \<or> is_ascii_upper c \<or> is_ascii_lower c"

definition ascii_lower :: "char \<Rightarrow> char" where
  "ascii_lower c = (if is_ascii_upper c then char_of (byte_of c + 32) else c)"

definition to_ascii_lowercase :: "string \<Rightarrow> string" where
  "to_ascii_lowercase s = map ascii_lower s"

definition eq_ignore_ascii_case :: "string \<Rightarrow> string \<Rightarrow> bool" where
  "eq_ignore_ascii_case s t \<longleftrightarrow> to_ascii_lowercase s = to_ascii_lowercase t"

definition as_bytes :: "string \<Rightarrow> bytes" where
  "as_bytes s = map of_char s"

definition bytes_to_string :: "bytes \<Rightarrow> string" where
  "bytes_to_string b = map (\<lambda>w. char_of (unat w)) b"

lemma eq_ignore_ascii_case_refl [simp]: "eq_ignore_ascii_case s s"
  by (simp add: eq_ignore_ascii_case_def)

lemma length_as_bytes [simp]: "length (as_bytes s) = length s"
  by (simp add: as_bytes_def)

lemma of_char_word: "(of_char c :: 8 word) = of_nat (of_char c)"
  by (simp add: of_char_def horner_sum_simps)

lemma unat_of_char: "unat (of_char c :: 8 word) = of_char c"
proof -
  have "(of_char c :: nat) < 256" by (rule nat_of_char_less_256)
  then show ?thesis by (simp add: of_char_word unat_of_nat)
qed

lemma bytes_to_string_as_bytes [simp]: "bytes_to_string (as_bytes s) = s"
  by (induction s) (simp_all add: bytes_to_string_def as_bytes_def unat_of_char)

lemma as_bytes_to_string [simp]: "as_bytes (bytes_to_string b) = b"
proof (induction b)
  case (Cons w b)
  have "unat w < 256" using unsigned_less [of w] by simp
  then have "(of_char (char_of (unat w)) :: 8 word) = w"
    by (simp add: of_char_word)
  then show ?case using Cons by (simp add: as_bytes_def bytes_to_string_def)
qed (simp add: as_bytes_def bytes_to_string_def)

lemma as_bytes_inj: "as_bytes s = as_bytes t \<longleftrightarrow> s = t"
  by (metis bytes_to_string_as_bytes)

section \<open>UTF-8\<close>

text \<open>
  \<open>core::str::from_utf8\<close>: the well-formed byte sequences of the Unicode standard
  (no overlong forms, no surrogates, nothing above U+10FFFF), and
  \<open>str::is_char_boundary\<close>, \<open>str::get(a..b)\<close> over the bytes of a string.
\<close>

definition utf8_cont :: "nat \<Rightarrow> bool" where
  "utf8_cont b \<longleftrightarrow> 128 \<le> b \<and> b < 192"

definition utf8_width :: "nat \<Rightarrow> nat" where
  "utf8_width b =
     (if b < 128 then 1 else if 194 \<le> b \<and> b \<le> 223 then 2
      else if 224 \<le> b \<and> b \<le> 239 then 3 else if 240 \<le> b \<and> b \<le> 244 then 4 else 0)"

definition utf8_second :: "nat \<Rightarrow> nat \<Rightarrow> bool" where
  "utf8_second b0 b1 \<longleftrightarrow> utf8_cont b1 \<and>
     (b0 = 224 \<longrightarrow> 160 \<le> b1) \<and> (b0 = 237 \<longrightarrow> b1 < 160) \<and>
     (b0 = 240 \<longrightarrow> 144 \<le> b1) \<and> (b0 = 244 \<longrightarrow> b1 < 144)"

fun utf8_valid :: "nat list \<Rightarrow> bool" where
  "utf8_valid [] = True"
| "utf8_valid (b # bs) =
     (let w = utf8_width b
      in w \<noteq> 0 \<and> w \<le> Suc (length bs) \<and> list_all utf8_cont (take (w - 1) bs) \<and>
         (1 < w \<longrightarrow> utf8_second b (hd bs)) \<and> utf8_valid (drop (w - 1) bs))"

definition utf8_str :: "string \<Rightarrow> bool" where
  "utf8_str s = utf8_valid (map of_char s)"

definition from_utf8 :: "bytes \<Rightarrow> unit + string" where
  "from_utf8 b = (if utf8_valid (map unat b) then Inr (bytes_to_string b) else Inl ())"

definition is_char_boundary :: "string \<Rightarrow> nat \<Rightarrow> bool" where
  "is_char_boundary s i \<longleftrightarrow>
     i = 0 \<or> i = length s \<or> (i < length s \<and> \<not> utf8_cont (byte_of (s ! i)))"

definition str_get :: "string \<Rightarrow> nat \<Rightarrow> nat \<Rightarrow> string option" where
  "str_get s a b =
     (if a \<le> b \<and> b \<le> length s \<and> is_char_boundary s a \<and> is_char_boundary s b
      then Some (take (b - a) (drop a s)) else None)"

lemma utf8_cont_not_ascii: "utf8_cont b \<Longrightarrow> \<not> b < 128"
  by (simp add: utf8_cont_def)

lemma utf8_width_ascii: "b < 128 \<Longrightarrow> utf8_width b = 1"
  by (simp add: utf8_width_def)

lemma utf8_valid_nth0: "utf8_valid bs \<Longrightarrow> 0 < length bs \<Longrightarrow> \<not> utf8_cont (bs ! 0)"
  by (cases bs) (auto simp: Let_def utf8_width_def utf8_cont_def)

lemma utf8_valid_after_ascii:
  "utf8_valid bs \<Longrightarrow> Suc i < length bs \<Longrightarrow> bs ! i < 128 \<Longrightarrow> \<not> utf8_cont (bs ! Suc i)"
proof (induction "length bs" arbitrary: bs i rule: less_induct)
  case less
  obtain b r where bs: "bs = b # r" using less.prems(2) by (cases bs) auto
  define w where "w = utf8_width b"
  have w: "w \<noteq> 0" "w \<le> Suc (length r)" "list_all utf8_cont (take (w - 1) r)"
    "utf8_valid (drop (w - 1) r)"
    using less.prems(1) by (simp_all add: bs w_def Let_def)
  show ?case
  proof (cases "w \<le> i")
    case True
    then have "\<not> utf8_cont (drop (w - 1) r ! Suc (i - w))"
      using w less.prems less.hyps [of "drop (w - 1) r" "i - w"] bs by (auto simp: nth_Cons')
    then show ?thesis using True w bs less.prems by (auto simp: nth_Cons')
  next
    case False
    have "i = 0"
    proof (rule ccontr)
      assume "i \<noteq> 0"
      then have "i - 1 < w - 1" "i - 1 < length r" using False less.prems bs by auto
      then have "utf8_cont (r ! (i - 1))" using w(3) by (auto simp: list_all_length)
      then show False using less.prems \<open>i \<noteq> 0\<close> utf8_cont_not_ascii by (auto simp: bs nth_Cons')
    qed
    then have "w = 1" using less.prems(3) utf8_width_ascii by (simp add: bs w_def)
    then show ?thesis using w less.prems(2) \<open>i = 0\<close> utf8_valid_nth0 [of r] by (simp add: bs)
  qed
qed

lemma from_utf8_ascii_text: "utf8_str s \<Longrightarrow> from_utf8 (as_bytes s) = Inr s"
proof -
  have "map unat (as_bytes s) = map of_char s"
    by (simp add: as_bytes_def unat_of_char)
  then show "utf8_str s \<Longrightarrow> ?thesis" by (simp add: from_utf8_def utf8_str_def)
qed

text \<open>
  \<open>str::trim\<close> removes the code points with the \<open>White_Space\<close> property, given here by
  their UTF-8 encodings; \<open>take_chars n\<close> is \<open>chars().take(n).collect()\<close>.
\<close>

definition white_space :: "string list" where
  "white_space =
     map (map char_of)
       ([[9], [10], [11], [12], [13], [32], [194, 133], [194, 160], [225, 154, 128],
         [226, 128, 168], [226, 128, 169], [226, 128, 175], [226, 129, 159],
         [227, 128, 128 :: nat]] @ map (\<lambda>b. [226, 128, b]) [128..<139])"

function strip_all :: "string list \<Rightarrow> string \<Rightarrow> string" where
  "strip_all ws s =
     (case find (\<lambda>w. w \<noteq> [] \<and> w \<noteq> s \<and> take (length w) s = w) ws of
        Some w \<Rightarrow> strip_all ws (drop (length w) s)
      | None \<Rightarrow> if s \<in> set ws then [] else s)"
  by pat_completeness auto

termination
proof (relation "measure (\<lambda>(ws, s). length s)", simp)
  fix ws :: "string list" and s w :: string
  assume "find (\<lambda>w. w \<noteq> [] \<and> w \<noteq> s \<and> take (length w) s = w) ws = Some w"
  then have "w \<noteq> []" "take (length w) s = w" by (auto simp: find_Some_iff)
  then have "s \<noteq> []" "0 < length w" by auto
  then show "((ws, drop (length w) s), (ws, s)) \<in> measure (\<lambda>(ws, s). length s)" by simp
qed

declare strip_all.simps [simp del]

definition trim :: "string \<Rightarrow> string" where
  "trim s = rev (strip_all (map rev white_space) (rev (strip_all white_space s)))"

fun take_chars :: "nat \<Rightarrow> string \<Rightarrow> string" where
  "take_chars 0 s = []"
| "take_chars (Suc n) [] = []"
| "take_chars (Suc n) (c # s) =
     c # take (utf8_width (byte_of c) - 1) s @
       take_chars n (drop (utf8_width (byte_of c) - 1) s)"

lemma take_chars_prefix: "\<exists>r. s = take_chars n s @ r"
proof (induction n s rule: take_chars.induct)
  case (3 n c s)
  then show ?case
    by (metis append.assoc append_Cons append_take_drop_id take_chars.simps(3))
qed simp_all

lemma length_take_chars: "length (take_chars n s) \<le> 4 * n"
proof (induction n s rule: take_chars.induct)
  case (3 n c s)
  moreover have "utf8_width (byte_of c) \<le> 4" by (simp add: utf8_width_def)
  moreover have "length (take (utf8_width (byte_of c) - 1) s) \<le> 3"
    using \<open>utf8_width (byte_of c) \<le> 4\<close> by simp
  ultimately show ?case by simp
qed simp_all

section \<open>Splitting at a separator\<close>

text \<open>\<open>str::split(sep)\<close> for an ASCII separator: the pieces between the separators.\<close>

fun split_on :: "char \<Rightarrow> string \<Rightarrow> string list" where
  "split_on c [] = [[]]"
| "split_on c (x # xs) =
     (if x = c then [] # split_on c xs
      else (case split_on c xs of [] \<Rightarrow> [[x]] | y # ys \<Rightarrow> (x # y) # ys))"

fun join_with :: "string \<Rightarrow> string list \<Rightarrow> string" where
  "join_with sep [] = []"
| "join_with sep [s] = s"
| "join_with sep (s # t # ts) = s @ sep @ join_with sep (t # ts)"

lemma split_on_not_Nil [simp]: "split_on c s \<noteq> []"
  by (induction s) (auto split: list.splits)

lemma length_split_on_pos [simp]: "0 < length (split_on c s)"
  by (cases "split_on c s") (use split_on_not_Nil in auto)

lemma split_on_Cons_conv:
  "x \<noteq> c \<Longrightarrow> split_on c (x # xs) = (x # hd (split_on c xs)) # tl (split_on c xs)"
  by (cases "split_on c xs") (use split_on_not_Nil in auto)

lemma join_with_Cons: "ts \<noteq> [] \<Longrightarrow> join_with sep (s # ts) = s @ sep @ join_with sep ts"
  by (cases ts) auto

lemma join_split [simp]: "join_with [c] (split_on c s) = s"
proof (induction s)
  case Nil
  then show ?case by simp
next
  case (Cons x xs)
  obtain y ys where e: "split_on c xs = y # ys"
    by (cases "split_on c xs") (use split_on_not_Nil in auto)
  show ?case
    using Cons e by (cases ys) (auto simp: join_with_Cons)
qed

lemma split_on_no_sep: "t \<in> set (split_on c s) \<Longrightarrow> c \<notin> set t"
proof (induction s arbitrary: t)
  case Nil
  then show ?case by simp
next
  case (Cons x xs)
  obtain y ys where e: "split_on c xs = y # ys"
    by (cases "split_on c xs") (use split_on_not_Nil in auto)
  show ?case using Cons e by (auto split: if_splits)
qed

lemma split_on_fresh: "c \<notin> set s \<Longrightarrow> split_on c s = [s]"
  by (induction s) auto

lemma split_on_append:
  "c \<notin> set s \<Longrightarrow> split_on c (s @ c # t) = s # split_on c t"
  by (induction s) auto

lemma split_join:
  "ts \<noteq> [] \<Longrightarrow> \<forall>t \<in> set ts. c \<notin> set t \<Longrightarrow> split_on c (join_with [c] ts) = ts"
proof (induction ts)
  case Nil
  then show ?case by simp
next
  case (Cons t ts)
  show ?case
  proof (cases ts)
    case Nil
    then show ?thesis using Cons.prems by (simp add: split_on_fresh)
  next
    case (Cons u us)
    then show ?thesis
      using Cons.IH Cons.prems by (simp add: join_with_Cons split_on_append)
  qed
qed

lemma split_on_inj: "split_on c s = split_on c t \<Longrightarrow> s = t"
  by (metis join_split)

text \<open>\<open>str::split_once(sep)\<close> for an ASCII separator.\<close>

fun split_once :: "(char \<Rightarrow> bool) \<Rightarrow> string \<Rightarrow> (string \<times> string) option" where
  "split_once p [] = None"
| "split_once p (x # xs) =
     (if p x then Some ([], xs)
      else map_option (\<lambda>(a, b). (x # a, b)) (split_once p xs))"

lemma split_once_conv:
  "split_once p s = (if \<exists>c \<in> set s. p c
     then Some (takeWhile (\<lambda>c. \<not> p c) s, tl (dropWhile (\<lambda>c. \<not> p c) s)) else None)"
  by (induction s) auto

section \<open>Decimal numbers\<close>

definition digit_char :: "nat \<Rightarrow> char" where
  "digit_char d = char_of (48 + d)"

definition digit_val :: "char \<Rightarrow> nat" where
  "digit_val c = byte_of c - 48"

fun show_nat :: "nat \<Rightarrow> string" where
  "show_nat n = (if n < 10 then [digit_char n] else show_nat (n div 10) @ [digit_char (n mod 10)])"

declare show_nat.simps [simp del]

datatype int_error = IntEmpty | InvalidDigit | PosOverflow | NegOverflow

text \<open>
  \<open>uN::from_str\<close> and \<open>iN::from_str\<close>: one optional sign, then digits accumulated left to
  right; a character that is no digit is reported before an overflow at the same place.
\<close>

fun parse_digits :: "int_error \<Rightarrow> nat \<Rightarrow> nat \<Rightarrow> string \<Rightarrow> int_error + nat" where
  "parse_digits ov mx acc [] = Inr acc"
| "parse_digits ov mx acc (c # cs) =
     (if \<not> is_ascii_digit c then Inl InvalidDigit
      else if mx < acc * 10 + digit_val c then Inl ov
      else parse_digits ov mx (acc * 10 + digit_val c) cs)"

definition parse_unsigned :: "nat \<Rightarrow> string \<Rightarrow> int_error + nat" where
  "parse_unsigned mx s =
     (case s of
        [] \<Rightarrow> Inl IntEmpty
      | c # cs \<Rightarrow>
          if cs = [] \<and> (c = CHR ''+'' \<or> c = CHR ''-'') then Inl InvalidDigit
          else if c = CHR ''+'' then parse_digits PosOverflow mx 0 cs
          else parse_digits PosOverflow mx 0 s)"

definition parse_signed :: "nat \<Rightarrow> string \<Rightarrow> int_error + int" where
  "parse_signed mx s =
     (case s of
        [] \<Rightarrow> Inl IntEmpty
      | c # cs \<Rightarrow>
          if cs = [] \<and> (c = CHR ''+'' \<or> c = CHR ''-'') then Inl InvalidDigit
          else if c = CHR ''+'' then map_ok int (parse_digits PosOverflow mx 0 cs)
          else if c = CHR ''-'' then map_ok (\<lambda>n. - int n) (parse_digits NegOverflow (mx + 1) 0 cs)
          else map_ok int (parse_digits PosOverflow mx 0 s))"

lemma byte_of_digit_char [simp]: "d < 10 \<Longrightarrow> byte_of (digit_char d) = 48 + d"
  by (simp add: byte_of_def digit_char_def)

lemma is_ascii_digit_digit_char [simp]: "d < 10 \<Longrightarrow> is_ascii_digit (digit_char d)"
  by (simp add: is_ascii_digit_def)

lemma digit_val_digit_char [simp]: "d < 10 \<Longrightarrow> digit_val (digit_char d) = d"
  by (simp add: digit_val_def)

lemma parse_digits_append:
  "parse_digits ov mx acc (s @ t) =
     try_then (parse_digits ov mx acc s) (\<lambda>n. parse_digits ov mx n t)"
  by (induction s arbitrary: acc) auto

lemma parse_digits_bound: "parse_digits ov mx acc s = Inr n \<Longrightarrow> acc \<le> mx \<Longrightarrow> n \<le> mx"
  by (induction s arbitrary: acc) (auto split: if_splits)

lemma parse_digits_show_nat: "n \<le> mx \<Longrightarrow> parse_digits ov mx 0 (show_nat n) = Inr n"
proof (induction n rule: show_nat.induct)
  case (1 n)
  show ?case
  proof (cases "n < 10")
    case True
    then show ?thesis using 1 by (simp add: show_nat.simps [of n])
  next
    case False
    have "n div 10 \<le> mx" using 1 by (meson div_le_dividend le_trans)
    then have "parse_digits ov mx 0 (show_nat (n div 10)) = Inr (n div 10)"
      using 1 False by simp
    moreover have "n div 10 * 10 + n mod 10 = n" by simp
    ultimately show ?thesis
      using False 1 by (simp add: show_nat.simps [of n] parse_digits_append)
  qed
qed

lemma show_nat_digits: "c \<in> set (show_nat n) \<Longrightarrow> is_ascii_digit c"
proof (induction n rule: show_nat.induct)
  case (1 n)
  then show ?case
    by (cases "n < 10") (auto simp: show_nat.simps [of n])
qed

lemma show_nat_not_Nil [simp]: "show_nat n \<noteq> []"
  by (simp add: show_nat.simps [of n])

lemma parse_unsigned_show_nat [simp]: "n \<le> mx \<Longrightarrow> parse_unsigned mx (show_nat n) = Inr n"
proof -
  assume n: "n \<le> mx"
  obtain c cs where s: "show_nat n = c # cs" by (cases "show_nat n") auto
  have "is_ascii_digit c" using show_nat_digits [of c n] s by simp
  then have "c \<noteq> CHR ''+''" "c \<noteq> CHR ''-''"
    by (auto simp: is_ascii_digit_def byte_of_def)
  then show ?thesis
    using s parse_digits_show_nat [OF n] by (simp add: parse_unsigned_def)
qed

lemma parse_unsigned_bound: "parse_unsigned mx s = Inr n \<Longrightarrow> n \<le> mx"
  by (auto simp: parse_unsigned_def split: list.splits if_splits dest: parse_digits_bound)

section \<open>Durations\<close>

definition duration_max :: duration where
  "duration_max = (2 ^ 64 - 1) * 1000000000 + 999999999"

definition dur_saturating_add :: "duration \<Rightarrow> duration \<Rightarrow> duration" where
  "dur_saturating_add a b = min (a + b) duration_max"

definition dur_saturating_mul :: "duration \<Rightarrow> nat \<Rightarrow> duration" where
  "dur_saturating_mul a k = min (a * k) duration_max"

definition from_secs :: "nat \<Rightarrow> duration" where
  "from_secs n = n * 1000000000"

definition from_millis :: "nat \<Rightarrow> duration" where
  "from_millis n = n * 1000000"

definition u64_max :: nat where
  "u64_max = 2 ^ 64 - 1"

definition u64_saturating_add :: "nat \<Rightarrow> nat \<Rightarrow> nat" where
  "u64_saturating_add a b = min (a + b) u64_max"

section \<open>Lists\<close>

text \<open>\<open>iter().position(p)\<close> and \<open>VecDeque::remove(index)\<close>.\<close>

fun position :: "('a \<Rightarrow> bool) \<Rightarrow> 'a list \<Rightarrow> nat option" where
  "position p [] = None"
| "position p (x # xs) = (if p x then Some 0 else map_option Suc (position p xs))"

definition remove_at :: "nat \<Rightarrow> 'a list \<Rightarrow> 'a list" where
  "remove_at i xs = take i xs @ drop (Suc i) xs"

lemma position_Some:
  "position p xs = Some i \<Longrightarrow> i < length xs \<and> p (xs ! i) \<and> (\<forall>j < i. \<not> p (xs ! j))"
proof (induction xs arbitrary: i)
  case Nil
  then show ?case by simp
next
  case (Cons x xs)
  then show ?case
    by (auto split: if_splits simp: nth_Cons' less_Suc_eq_0_disj)
qed

lemma position_None: "position p xs = None \<longleftrightarrow> (\<forall>x \<in> set xs. \<not> p x)"
  by (induction xs) auto

lemma remove_at_Cons [simp]:
  "remove_at 0 (x # xs) = xs" "remove_at (Suc i) (x # xs) = x # remove_at i xs"
  by (simp_all add: remove_at_def)

lemma length_remove_at [simp]: "i < length xs \<Longrightarrow> length (remove_at i xs) = length xs - 1"
  by (simp add: remove_at_def)

lemma set_remove_at: "set (remove_at i xs) \<subseteq> set xs"
  by (auto simp: remove_at_def dest: in_set_takeD in_set_dropD)

text \<open>The first match and the rest, in one step.\<close>

fun extract_first :: "('a \<Rightarrow> bool) \<Rightarrow> 'a list \<Rightarrow> ('a \<times> 'a list) option" where
  "extract_first p [] = None"
| "extract_first p (x # xs) =
     (if p x then Some (x, xs) else map_option (\<lambda>(y, ys). (y, x # ys)) (extract_first p xs))"

lemma extract_first_position:
  "extract_first p xs = map_option (\<lambda>i. (xs ! i, remove_at i xs)) (position p xs)"
  by (induction xs) (auto simp: option.map_comp comp_def map_option_case split: option.splits)

text \<open>The number that a digit string denotes, independently of the overflow checks.\<close>

definition decimal :: "string \<Rightarrow> nat" where
  "decimal ds = foldl (\<lambda>n c. 10 * n + digit_val c) 0 ds"

lemma foldl_decimal_mono:
  fixes n :: nat
  shows "n \<le> foldl (\<lambda>n c. 10 * n + digit_val c) n ds"
proof (induction ds arbitrary: n)
  case (Cons c ds)
  have "n \<le> 10 * n + digit_val c" by simp
  also have "\<dots> \<le> foldl (\<lambda>n c. 10 * n + digit_val c) (10 * n + digit_val c) ds" by (rule Cons)
  finally show ?case by simp
qed simp

lemma parse_digits_decimal:
  "list_all is_ascii_digit ds \<Longrightarrow> acc \<le> mx \<Longrightarrow>
   parse_digits ov mx acc ds =
     (let v = foldl (\<lambda>n c. 10 * n + digit_val c) acc ds in if v \<le> mx then Inr v else Inl ov)"
proof (induction ds arbitrary: acc)
  case (Cons c ds)
  show ?case
  proof (cases "10 * acc + digit_val c \<le> mx")
    case True
    then show ?thesis using Cons by (simp add: Let_def mult.commute)
  next
    case False
    then have "\<not> foldl (\<lambda>n c. 10 * n + digit_val c) (10 * acc + digit_val c) ds \<le> mx"
      using foldl_decimal_mono [of "10 * acc + digit_val c" ds] by linarith
    then show ?thesis using False Cons.prems by (simp add: Let_def mult.commute)
  qed
qed simp

lemma parse_unsigned_decimal:
  "list_all is_ascii_digit ds \<Longrightarrow> ds \<noteq> [] \<Longrightarrow>
   parse_unsigned mx ds = (if decimal ds \<le> mx then Inr (decimal ds) else Inl PosOverflow)"
proof -
  assume d: "list_all is_ascii_digit ds" "ds \<noteq> []"
  then obtain c cs where c: "ds = c # cs" by (cases ds) auto
  then have "c \<noteq> CHR ''+''" "c \<noteq> CHR ''-''"
    using d by (auto simp: is_ascii_digit_def byte_of_def)
  then have "parse_unsigned mx ds = parse_digits PosOverflow mx 0 ds"
    using c d by (simp add: parse_unsigned_def)
  then show ?thesis using d by (simp add: parse_digits_decimal decimal_def Let_def)
qed

end
