(* ===== verification/Framework_Errors.thy ===== *)
theory Framework_Errors
  imports Prelude
begin

text \<open>
  The shared error codes of \<open>nats-micro-shared/src/lib.rs\<close>: the two enums generated by
  \<open>define_error_code_enum!\<close>, with \<open>ALL\<close>, \<open>as_code\<close>, \<open>status_code\<close> and
  \<open>from_code\<close>.  The lemmas show that codes identify variants and that statuses are
  HTTP error statuses.
\<close>

datatype framework_error =
    BadJson | BadProtobuf | BadUtf8 | DeserializationError | ErrorCode | Forbidden
  | InitializationError | InternalError | InvalidHeader | InvalidResponse
  | ParamNameMissing | SerializationError | ShutdownSignalUnavailable | StateNotFound
  | SubjectParamInvalid | SubjectParamMissing | SubjectTemplateMissing | Unauthorized
  | DecryptError | DecryptFailed | EncryptFailed | EncryptRequired
  | MissingRecipientPubkey | NoEncryptionKey | SignatureInvalid | SignatureMissing
  | AuthModeConflict | AuthUsernameRequired | AuthPasswordRequired
  | ClientCertKeyMismatch | ClientConnectFailed

datatype transport_error =
    NatsRequestFailed | Timeout | NoResponders | Disconnected | StartupError | TransportFailure

definition framework_all :: "framework_error list" where
  "framework_all =
     [BadJson, BadProtobuf, BadUtf8, DeserializationError, ErrorCode, Forbidden,
      InitializationError, InternalError, InvalidHeader, InvalidResponse,
      ParamNameMissing, SerializationError, ShutdownSignalUnavailable, StateNotFound,
      SubjectParamInvalid, SubjectParamMissing, SubjectTemplateMissing, Unauthorized,
      DecryptError, DecryptFailed, EncryptFailed, EncryptRequired,
      MissingRecipientPubkey, NoEncryptionKey, SignatureInvalid, SignatureMissing,
      AuthModeConflict, AuthUsernameRequired, AuthPasswordRequired,
      ClientCertKeyMismatch, ClientConnectFailed]"

primrec framework_as_code :: "framework_error \<Rightarrow> string" where
  "framework_as_code BadJson = ''BAD_JSON''"
| "framework_as_code BadProtobuf = ''BAD_PROTOBUF''"
| "framework_as_code BadUtf8 = ''BAD_UTF8''"
| "framework_as_code DeserializationError = ''DESERIALIZATION_ERROR''"
| "framework_as_code ErrorCode = ''ERROR''"
| "framework_as_code Forbidden = ''FORBIDDEN''"
| "framework_as_code InitializationError = ''INITIALIZATION_ERROR''"
| "framework_as_code InternalError = ''INTERNAL_ERROR''"
| "framework_as_code InvalidHeader = ''INVALID_HEADER''"
| "framework_as_code InvalidResponse = ''INVALID_RESPONSE''"
| "framework_as_code ParamNameMissing = ''PARAM_NAME_MISSING''"
| "framework_as_code SerializationError = ''SERIALIZATION_ERROR''"
| "framework_as_code ShutdownSignalUnavailable = ''SHUTDOWN_SIGNAL_UNAVAILABLE''"
| "framework_as_code StateNotFound = ''STATE_NOT_FOUND''"
| "framework_as_code SubjectParamInvalid = ''SUBJECT_PARAM_INVALID''"
| "framework_as_code SubjectParamMissing = ''SUBJECT_PARAM_MISSING''"
| "framework_as_code SubjectTemplateMissing = ''SUBJECT_TEMPLATE_MISSING''"
| "framework_as_code Unauthorized = ''UNAUTHORIZED''"
| "framework_as_code DecryptError = ''DECRYPT_ERROR''"
| "framework_as_code DecryptFailed = ''DECRYPT_FAILED''"
| "framework_as_code EncryptFailed = ''ENCRYPT_FAILED''"
| "framework_as_code EncryptRequired = ''ENCRYPT_REQUIRED''"
| "framework_as_code MissingRecipientPubkey = ''MISSING_RECIPIENT_PUBKEY''"
| "framework_as_code NoEncryptionKey = ''NO_ENCRYPTION_KEY''"
| "framework_as_code SignatureInvalid = ''SIGNATURE_INVALID''"
| "framework_as_code SignatureMissing = ''SIGNATURE_MISSING''"
| "framework_as_code AuthModeConflict = ''AUTH_MODE_CONFLICT''"
| "framework_as_code AuthUsernameRequired = ''AUTH_USERNAME_REQUIRED''"
| "framework_as_code AuthPasswordRequired = ''AUTH_PASSWORD_REQUIRED''"
| "framework_as_code ClientCertKeyMismatch = ''CLIENT_CERT_KEY_MISMATCH''"
| "framework_as_code ClientConnectFailed = ''CLIENT_CONNECT_FAILED''"

primrec framework_status :: "framework_error \<Rightarrow> nat" where
  "framework_status BadJson = 400"
| "framework_status BadProtobuf = 400"
| "framework_status BadUtf8 = 400"
| "framework_status DeserializationError = 502"
| "framework_status ErrorCode = 500"
| "framework_status Forbidden = 403"
| "framework_status InitializationError = 503"
| "framework_status InternalError = 500"
| "framework_status InvalidHeader = 400"
| "framework_status InvalidResponse = 502"
| "framework_status ParamNameMissing = 500"
| "framework_status SerializationError = 500"
| "framework_status ShutdownSignalUnavailable = 500"
| "framework_status StateNotFound = 500"
| "framework_status SubjectParamInvalid = 400"
| "framework_status SubjectParamMissing = 400"
| "framework_status SubjectTemplateMissing = 500"
| "framework_status Unauthorized = 401"
| "framework_status DecryptError = 502"
| "framework_status DecryptFailed = 400"
| "framework_status EncryptFailed = 500"
| "framework_status EncryptRequired = 400"
| "framework_status MissingRecipientPubkey = 400"
| "framework_status NoEncryptionKey = 500"
| "framework_status SignatureInvalid = 401"
| "framework_status SignatureMissing = 401"
| "framework_status AuthModeConflict = 400"
| "framework_status AuthUsernameRequired = 400"
| "framework_status AuthPasswordRequired = 400"
| "framework_status ClientCertKeyMismatch = 400"
| "framework_status ClientConnectFailed = 503"

text \<open>\<open>from_code\<close> matches its argument against the literals in declaration order.\<close>

definition framework_from_code :: "string \<Rightarrow> framework_error option" where
  "framework_from_code code = find (\<lambda>e. framework_as_code e = code) framework_all"

definition transport_all :: "transport_error list" where
  "transport_all =
     [NatsRequestFailed, Timeout, NoResponders, Disconnected, StartupError, TransportFailure]"

primrec transport_as_code :: "transport_error \<Rightarrow> string" where
  "transport_as_code NatsRequestFailed = ''NATS_REQUEST_FAILED''"
| "transport_as_code Timeout = ''TIMEOUT''"
| "transport_as_code NoResponders = ''NO_RESPONDERS''"
| "transport_as_code Disconnected = ''DISCONNECTED''"
| "transport_as_code StartupError = ''STARTUP_ERROR''"
| "transport_as_code TransportFailure = ''TRANSPORT_ERROR''"

primrec transport_status :: "transport_error \<Rightarrow> nat" where
  "transport_status NatsRequestFailed = 503"
| "transport_status Timeout = 504"
| "transport_status NoResponders = 503"
| "transport_status Disconnected = 503"
| "transport_status StartupError = 503"
| "transport_status TransportFailure = 503"

definition transport_from_code :: "string \<Rightarrow> transport_error option" where
  "transport_from_code code = find (\<lambda>e. transport_as_code e = code) transport_all"

section \<open>Codes identify variants\<close>

lemma framework_all_complete: "set framework_all = UNIV"
proof -
  have "e \<in> set framework_all" for e by (cases e) (simp_all add: framework_all_def)
  then show ?thesis by blast
qed

lemma transport_all_complete: "set transport_all = UNIV"
proof -
  have "e \<in> set transport_all" for e by (cases e) (simp_all add: transport_all_def)
  then show ?thesis by blast
qed

lemma distinct_framework_codes: "distinct (map framework_as_code framework_all)"
  by code_simp

lemma distinct_transport_codes: "distinct (map transport_as_code transport_all)"
  by (simp add: transport_all_def)

lemma code_disjoint: "framework_as_code e \<noteq> transport_as_code t"
  by (cases e; cases t) simp_all

text \<open>A lookup by a key that is distinct over a complete list inverts the key.\<close>

lemma find_key:
  "distinct (map k xs) \<Longrightarrow> find (\<lambda>e. k e = c) xs = Some e \<longleftrightarrow> e \<in> set xs \<and> k e = c"
  by (induction xs) auto

lemma find_key_inverse:
  "set xs = UNIV \<Longrightarrow> distinct (map k xs) \<Longrightarrow> find (\<lambda>e. k e = c) xs = Some e \<longleftrightarrow> c = k e"
  by (auto simp: find_key)

text \<open>C37: \<open>FrameworkError::from_code\<close> and \<open>TransportError::from_code\<close> are exact inverses of \<open>as_code\<close>: they recognise precisely the published code of a variant and no other string, and no framework code is a transport code.\<close>

theorem error_codes_round_trip:
  "(framework_from_code s = Some e \<longleftrightarrow> s = framework_as_code e) \<and>
   (transport_from_code s = Some t \<longleftrightarrow> s = transport_as_code t) \<and>
   (framework_from_code (transport_as_code t) = None) \<and>
   (transport_from_code (framework_as_code e) = None)"
proof -
  have f: "framework_from_code s = Some e \<longleftrightarrow> s = framework_as_code e" for s e
    unfolding framework_from_code_def
    by (rule find_key_inverse [OF framework_all_complete distinct_framework_codes])
  have t: "transport_from_code s = Some t \<longleftrightarrow> s = transport_as_code t" for s t
    unfolding transport_from_code_def
    by (rule find_key_inverse [OF transport_all_complete distinct_transport_codes])
  have "framework_from_code (transport_as_code t) = None"
    by (metis code_disjoint f option.exhaust)
  moreover have "transport_from_code (framework_as_code e) = None"
    by (metis code_disjoint t option.exhaust)
  ultimately show ?thesis using f t by blast
qed

lemma framework_from_as_code [simp]: "framework_from_code (framework_as_code e) = Some e"
  unfolding framework_from_code_def
  using find_key_inverse [OF framework_all_complete distinct_framework_codes] by blast

lemma transport_from_as_code [simp]: "transport_from_code (transport_as_code e) = Some e"
  unfolding transport_from_code_def
  using find_key_inverse [OF transport_all_complete distinct_transport_codes] by blast

lemma framework_status_range: "400 \<le> framework_status e \<and> framework_status e < 600"
  by (cases e) simp_all

lemma transport_status_range: "500 \<le> transport_status e \<and> transport_status e < 600"
  by (cases e) simp_all

end
