(* ===== verification/Subjects.thy ===== *)
theory Subjects
  imports Prelude
begin

text \<open>
  Subjects at run time (\<open>nats-micro/src/subject.rs\<close>): segment extraction by one scan over
  the bytes, wildcard matching over two segment iterators, numeric parameters, and the
  length-counting writer with which clients preallocate a subject.  The scan and the
  iterator loop are shown equal to declarative readings over the list of segments.
\<close>

section \<open>\<open>segment\<close>\<close>

text \<open>
  The \<open>while\<close> loop: \<open>index\<close> runs one past the last byte, and the end of the text
  closes a segment just as a dot does.
\<close>

function segment_loop :: "string \<Rightarrow> nat \<Rightarrow> nat \<Rightarrow> nat \<Rightarrow> nat \<Rightarrow> string option" where
  "segment_loop s wanted segment_start current index =
     (if index \<le> length s then
        if index = length s \<or> s ! index = CHR ''.'' then
          if current = wanted then str_get s segment_start index
          else segment_loop s wanted (Suc index) (Suc current) (Suc index)
        else segment_loop s wanted segment_start current (Suc index)
      else None)"
  by pat_completeness auto
termination
  by (relation "measure (\<lambda>(s, w, a, c, i). Suc (length s) - i)") auto

declare segment_loop.simps [simp del]

definition segment :: "string \<Rightarrow> nat \<Rightarrow> string option" where
  "segment subject wanted = segment_loop subject wanted 0 0 0"

section \<open>\<open>subject_matches\<close>\<close>

text \<open>The loop over \<open>pattern.split('.')\<close> and \<open>subject.split('.')\<close>, arms in source order.\<close>

fun subject_matches_loop :: "string list \<Rightarrow> string list \<Rightarrow> bool" where
  "subject_matches_loop (p # ps) (t # ts) =
     (if p = ''>'' then ps = []
      else if p = ''*'' then subject_matches_loop ps ts
      else if p = t then subject_matches_loop ps ts
      else False)"
| "subject_matches_loop [] [] = True"
| "subject_matches_loop ps ts = False"

definition subject_matches :: "string \<Rightarrow> string \<Rightarrow> bool" where
  "subject_matches pat subject =
     subject_matches_loop (split_on CHR ''.'' pat) (split_on CHR ''.'' subject)"

section \<open>\<open>FromSubject\<close> and the subject writer\<close>

definition from_subject_str :: "string \<Rightarrow> string" where
  "from_subject_str value = value"

definition from_subject_unsigned :: "nat \<Rightarrow> string \<Rightarrow> int_error + nat" where
  "from_subject_unsigned bits value = parse_unsigned (2 ^ bits - 1) value"

definition from_subject_signed :: "nat \<Rightarrow> string \<Rightarrow> int_error + int" where
  "from_subject_signed bits value = parse_signed (2 ^ (bits - 1) - 1) value"

text \<open>
  \<open>Display\<close> hands its text to the writer in chunks (\<open>write_str\<close>): the length writer adds
  the chunk lengths, the subject writer appends the chunks.
\<close>

definition length_writer_write_str :: "nat \<Rightarrow> string \<Rightarrow> nat" where
  "length_writer_write_str n chunk = n + length chunk"

definition subject_param_len :: "string list \<Rightarrow> nat" where
  "subject_param_len chunks = foldl length_writer_write_str 0 chunks"

definition push_subject_param :: "string \<Rightarrow> string list \<Rightarrow> string" where
  "push_subject_param subject chunks = foldl (@) subject chunks"

section \<open>The scan finds the segments\<close>

lemma is_char_boundary_after_dot:
  assumes "utf8_str s" and "i < length s" and "s ! i = CHR ''.''"
  shows "is_char_boundary s (Suc i)"
proof (cases "Suc i < length s")
  case True
  have "\<not> utf8_cont (map of_char s ! Suc i)"
    using assms True
    by (intro utf8_valid_after_ascii) (simp_all add: utf8_str_def)
  then show ?thesis using True by (simp add: is_char_boundary_def byte_of_def)
next
  case False
  then show ?thesis using assms(2) by (auto simp: is_char_boundary_def)
qed

lemma is_char_boundary_dot: "i < length s \<Longrightarrow> s ! i = CHR ''.'' \<Longrightarrow> is_char_boundary s i"
  by (simp add: is_char_boundary_def byte_of_def utf8_cont_def)

text \<open>
  Scanning from \<open>index\<close> with an open segment that began at \<open>start\<close> sees the pieces of the
  unread text, the first of them extended to the left by what was read of it.
\<close>

lemma segment_loop_drop:
  "utf8_str s \<Longrightarrow> start \<le> index \<Longrightarrow> index \<le> length s \<Longrightarrow> current \<le> wanted \<Longrightarrow>
    is_char_boundary s start \<Longrightarrow> CHR ''.'' \<notin> set (take (index - start) (drop start s)) \<Longrightarrow>
    segment_loop s wanted start current index =
      (let segs = split_on CHR ''.'' (drop start s)
       in if wanted - current < length segs then Some (segs ! (wanted - current)) else None)"
proof (induction s wanted start current index rule: segment_loop.induct)
  case (1 s wanted start current index)
  let ?dot = "CHR ''.''"
  define seg where "seg = take (index - start) (drop start s)"
  have rest: "drop start s = seg @ drop index s"
    using append_take_drop_id [of "index - start" "drop start s"] "1.prems"(2)
    by (simp add: seg_def)
  have fresh: "?dot \<notin> set seg" using "1.prems" by (simp add: seg_def)
  consider (fin) "index = length s" | (dot) "index < length s" "s ! index = ?dot"
    | (other) "index < length s" "s ! index \<noteq> ?dot"
    using "1.prems" by fastforce
  then show ?case
  proof cases
    case fin
    then have split: "split_on ?dot (drop start s) = [seg]"
      using rest fresh by (simp add: split_on_fresh)
    have "str_get s start index = Some seg"
      using "1.prems" fin by (simp add: str_get_def seg_def is_char_boundary_def)
    moreover have "segment_loop s w a c (Suc (length s)) = None" for w a c
      by (simp add: segment_loop.simps)
    ultimately show ?thesis
      using fin split "1.prems"(4) by (auto simp: segment_loop.simps [of s wanted start current] Let_def)
  next
    case dot
    then have split: "split_on ?dot (drop start s) = seg # split_on ?dot (drop (Suc index) s)"
      using rest fresh by (simp add: Cons_nth_drop_Suc [symmetric] split_on_append)
    have get: "str_get s start index = Some seg"
      using "1.prems" dot by (simp add: str_get_def seg_def is_char_boundary_dot)
    show ?thesis
    proof (cases "current = wanted")
      case True
      then show ?thesis
        using dot split get by (subst segment_loop.simps) (simp add: Let_def)
    next
      case False
      have "is_char_boundary s (Suc index)"
        using is_char_boundary_after_dot [OF "1.prems"(1)] dot by simp
      then have "segment_loop s wanted (Suc index) (Suc current) (Suc index) =
        (let segs = split_on ?dot (drop (Suc index) s)
         in if wanted - Suc current < length segs then Some (segs ! (wanted - Suc current)) else None)"
        using "1.IH"(1) dot False "1.prems" by simp
      moreover have "wanted - current = Suc (wanted - Suc current)"
        using False "1.prems" by simp
      ultimately show ?thesis
        using dot False split by (simp add: segment_loop.simps [of s wanted start current] Let_def)
    qed
  next
    case other
    have "take (Suc index - start) (drop start s) = seg @ [s ! index]"
      using other "1.prems"(2) by (simp add: seg_def Suc_diff_le take_Suc_conv_app_nth)
    then show ?thesis
      using "1.IH"(2) other "1.prems" fresh
      by (simp add: segment_loop.simps [of s wanted start current])
  qed
qed

lemma segment_conv:
  assumes "utf8_str s"
  shows "segment s n = (let segs = split_on CHR ''.'' s
    in if n < length segs then Some (segs ! n) else None)"
  using segment_loop_drop [OF assms, of 0 0 0 n] by (simp add: segment_def is_char_boundary_def Let_def)

text \<open>C37: For every UTF-8 subject and every index, the allocation-free byte scan of \<open>segment\<close> returns exactly the piece that splitting the subject at the dots has at this index, and \<open>None\<close> exactly when there are too few pieces (empty pieces are kept).\<close>

theorem segment_is_split_piece:
  assumes "utf8_str s"
  shows "segment s n =
    (if n < length (split_on CHR ''.'' s) then Some (split_on CHR ''.'' s ! n) else None)"
  by (simp add: segment_conv [OF assms] Let_def)

theorem segment_is_split_piece_witness:
  "utf8_str ''a..b'' \<and> segment ''a..b'' 1 = Some [] \<and> segment ''a..b'' 3 = None"
proof -
  have u: "utf8_str ''a..b''"
    by (simp add: utf8_str_def Let_def utf8_width_def)
  show ?thesis
    using u segment_is_split_piece [OF u, of 1] segment_is_split_piece [OF u, of 3] by simp
qed

section \<open>Matching is the NATS wildcard relation\<close>

text \<open>
  The NATS reading of a pattern: \<open>*\<close> stands for one token, a final \<open>>\<close> for one or more
  tokens, any other token for itself; a \<open>>\<close> elsewhere matches nothing.
\<close>

definition token_ok :: "string \<Rightarrow> string \<Rightarrow> bool" where
  "token_ok p t \<longleftrightarrow> p = ''*'' \<or> p = t"

definition nats_match :: "string list \<Rightarrow> string list \<Rightarrow> bool" where
  "nats_match P T \<longleftrightarrow>
     (if ''>'' \<in> set P
      then \<exists>Q. P = Q @ [''>''] \<and> ''>'' \<notin> set Q \<and> length Q < length T \<and>
             list_all2 token_ok Q (take (length Q) T)
      else list_all2 token_ok P T)"

lemma nats_match_Nil [simp]: "nats_match [] T \<longleftrightarrow> T = []"
  by (simp add: nats_match_def)

lemma nats_match_gt: "nats_match (''>'' # ps) T \<longleftrightarrow> ps = [] \<and> T \<noteq> []"
proof
  assume "nats_match (''>'' # ps) T"
  then obtain Q where Q: "''>'' # ps = Q @ [''>'']" "''>'' \<notin> set Q" "length Q < length T"
    by (auto simp: nats_match_def)
  then have "Q = []" by (cases Q) auto
  with Q show "ps = [] \<and> T \<noteq> []" by auto
next
  assume "ps = [] \<and> T \<noteq> []"
  then show "nats_match (''>'' # ps) T"
    by (auto simp: nats_match_def intro!: exI [of _ "[]"])
qed

lemma nats_match_Cons:
  assumes "p \<noteq> ''>''"
  shows "nats_match (p # ps) T \<longleftrightarrow> (\<exists>t ts. T = t # ts \<and> token_ok p t \<and> nats_match ps ts)"
proof (cases "''>'' \<in> set ps")
  case True
  have "nats_match (p # ps) T \<longleftrightarrow> (\<exists>Q. ps = Q @ [''>''] \<and> ''>'' \<notin> set Q \<and>
      Suc (length Q) < length T \<and> list_all2 token_ok (p # Q) (take (Suc (length Q)) T))"
    using True assms unfolding nats_match_def
    by (auto simp: Cons_eq_append_conv)
  also have "\<dots> \<longleftrightarrow> (\<exists>t ts. T = t # ts \<and> token_ok p t \<and> nats_match ps ts)"
    using True unfolding nats_match_def by (cases T) auto
  finally show ?thesis .
next
  case False
  then show ?thesis using assms by (auto simp: nats_match_def list_all2_Cons1)
qed

lemma nats_match_Cons_Nil [simp]: "\<not> nats_match (p # ps) []"
  by (cases "p = ''>''") (simp_all add: nats_match_gt nats_match_Cons)

lemma subject_matches_loop_iff: "subject_matches_loop P T \<longleftrightarrow> nats_match P T"
proof (induction P T rule: subject_matches_loop.induct)
  case (1 p ps t ts)
  then show ?case by (auto simp: nats_match_gt nats_match_Cons token_ok_def)
qed auto

text \<open>C36: \<open>subject_matches\<close> decides the NATS wildcard relation over dot-separated tokens: a star is exactly one token, a greater-than sign matches one or more tokens and only as the last token of the pattern, and every other token matches itself.\<close>

theorem subject_matches_is_nats_match:
  "subject_matches pat subject \<longleftrightarrow>
     nats_match (split_on CHR ''.'' pat) (split_on CHR ''.'' subject)"
  by (simp add: subject_matches_def subject_matches_loop_iff)

text \<open>A matched subject has a piece at every index that the pattern has, up to a final \<open>>\<close>.\<close>

lemma nats_match_length: "nats_match P T \<Longrightarrow> length P \<le> length T"
  unfolding nats_match_def by (auto dest: list_all2_lengthD split: if_split_asm)

lemma nats_match_nth:
  "nats_match P T \<Longrightarrow> i < length P \<Longrightarrow> P ! i \<noteq> ''>'' \<Longrightarrow> token_ok (P ! i) (T ! i)"
proof (induction P arbitrary: T i)
  case Nil
  then show ?case by simp
next
  case (Cons p ps)
  then show ?case
    by (cases "p = ''>''") (auto simp: nats_match_gt nats_match_Cons nth_Cons')
qed

lemma nats_match_map:
  "''>'' \<notin> set P \<Longrightarrow> nats_match P T \<longleftrightarrow> list_all2 token_ok P T"
  by (simp add: nats_match_def)

section \<open>Parameters\<close>

lemma foldl_length_writer: "foldl length_writer_write_str n chunks = n + length (concat chunks)"
  by (induction chunks arbitrary: n) (simp_all add: length_writer_write_str_def)

lemma subject_param_len_conv: "subject_param_len chunks = length (concat chunks)"
  by (simp add: subject_param_len_def foldl_length_writer)

lemma push_subject_param_conv: "push_subject_param subject chunks = subject @ concat chunks"
  unfolding push_subject_param_def by (induction chunks arbitrary: subject) simp_all

lemma from_subject_unsigned_bound:
  "from_subject_unsigned bits value = Inr n \<Longrightarrow> n < 2 ^ bits"
proof -
  assume "from_subject_unsigned bits value = Inr n"
  then have "n \<le> 2 ^ bits - 1" by (auto simp: from_subject_unsigned_def dest: parse_unsigned_bound)
  moreover have "(0::nat) < 2 ^ bits" by simp
  ultimately show "n < 2 ^ bits" by linarith
qed

lemma from_subject_unsigned_show:
  "n < 2 ^ bits \<Longrightarrow> from_subject_unsigned bits (show_nat n) = Inr n"
  by (simp add: from_subject_unsigned_def)

end
