(* ===== verification/Contracts.thy ===== *)
theory Contracts
  imports Prelude
begin

text \<open>
  Compile-time metadata (\<open>nats-micro/src/spec.rs\<close>) and the owned contract document
  (\<open>nats-micro/src/contract.rs\<close>): the records, the conversion between them, and
  \<open>ContractDocument::validate\<close> with its hash set of seen subjects.  Validation is shown
  equivalent to a declarative well-formedness predicate.
\<close>

section \<open>Static metadata\<close>

datatype operation_kind = KRequest | KPublish | KSubscribe | KConsumer

datatype codec = CJson | CProtobuf | CRaw | CUtf8 | CEmpty

datatype auth_policy = AuthNone | AuthOptional | AuthRequired

definition auth_required :: "auth_policy \<Rightarrow> bool" where
  "auth_required p = (case p of AuthRequired \<Rightarrow> True | _ \<Rightarrow> False)"

record param_spec =
  ps_name :: string
  ps_segment :: nat
  ps_rust_type :: string

record operation_spec =
  os_service_name :: string
  os_service_version :: string
  os_rust_name :: string
  os_kind :: operation_kind
  os_subject :: string
  os_subject_template :: string
  os_queue_group :: "string option"
  os_request_codec :: codec
  os_response_codec :: codec
  os_request_encrypted :: bool
  os_response_encrypted :: bool
  os_request_type :: "string option"
  os_response_type :: "string option"
  os_error_type :: "string option"
  os_auth :: auth_policy
  os_concurrency :: nat
  os_params :: "param_spec list"

record consumer_spec =
  cs_service_name :: string
  cs_service_version :: string
  cs_rust_name :: string
  cs_stream :: string
  cs_durable :: string
  cs_filter_subject :: string
  cs_concurrency :: nat
  cs_ack_wait_ms :: nat
  cs_max_deliver :: int
  cs_backoff_ms :: "nat list"

record service_spec =
  ss_name :: string
  ss_version :: string
  ss_description :: string
  ss_prefix :: string
  ss_operations :: "operation_spec list"
  ss_consumers :: "consumer_spec list"

record service_contract =
  sc_service :: service_spec

definition contract_operations :: "service_contract \<Rightarrow> operation_spec list" where
  "contract_operations c = ss_operations (sc_service c)"

definition contract_consumers :: "service_contract \<Rightarrow> consumer_spec list" where
  "contract_consumers c = ss_consumers (sc_service c)"

section \<open>The owned document\<close>

record contract_param =
  cp_name :: string
  cp_segment :: nat
  cp_rust_type :: string

record contract_operation =
  co_rust_name :: string
  co_kind :: operation_kind
  co_subject :: string
  co_subject_template :: string
  co_queue_group :: "string option"
  co_request_codec :: codec
  co_response_codec :: codec
  co_request_encrypted :: bool
  co_response_encrypted :: bool
  co_request_type :: "string option"
  co_response_type :: "string option"
  co_error_type :: "string option"
  co_auth :: auth_policy
  co_concurrency :: nat
  co_params :: "contract_param list"

record contract_consumer =
  cc_rust_name :: string
  cc_stream :: string
  cc_durable :: string
  cc_filter_subject :: string
  cc_concurrency :: nat
  cc_ack_wait_ms :: nat
  cc_max_deliver :: int
  cc_backoff_ms :: "nat list"

record contract_service =
  ct_name :: string
  ct_version :: string
  ct_description :: string
  ct_prefix :: string
  ct_operations :: "contract_operation list"
  ct_consumers :: "contract_consumer list"

record contract_document =
  cd_service :: contract_service

definition param_to_contract :: "param_spec \<Rightarrow> contract_param" where
  "param_to_contract p =
     \<lparr>cp_name = ps_name p, cp_segment = ps_segment p, cp_rust_type = ps_rust_type p\<rparr>"

definition operation_to_contract :: "operation_spec \<Rightarrow> contract_operation" where
  "operation_to_contract o' =
     \<lparr>co_rust_name = os_rust_name o',
      co_kind = os_kind o',
      co_subject = os_subject o',
      co_subject_template = os_subject_template o',
      co_queue_group = os_queue_group o',
      co_request_codec = os_request_codec o',
      co_response_codec = os_response_codec o',
      co_request_encrypted = os_request_encrypted o',
      co_response_encrypted = os_response_encrypted o',
      co_request_type = os_request_type o',
      co_response_type = os_response_type o',
      co_error_type = os_error_type o',
      co_auth = os_auth o',
      co_concurrency = os_concurrency o',
      co_params = map param_to_contract (os_params o')\<rparr>"

definition consumer_to_contract :: "consumer_spec \<Rightarrow> contract_consumer" where
  "consumer_to_contract c =
     \<lparr>cc_rust_name = cs_rust_name c,
      cc_stream = cs_stream c,
      cc_durable = cs_durable c,
      cc_filter_subject = cs_filter_subject c,
      cc_concurrency = cs_concurrency c,
      cc_ack_wait_ms = cs_ack_wait_ms c,
      cc_max_deliver = cs_max_deliver c,
      cc_backoff_ms = cs_backoff_ms c\<rparr>"

definition document_from_contract :: "service_contract \<Rightarrow> contract_document" where
  "document_from_contract c =
     (let service = sc_service c
      in \<lparr>cd_service =
           \<lparr>ct_name = ss_name service,
            ct_version = ss_version service,
            ct_description = ss_description service,
            ct_prefix = ss_prefix service,
            ct_operations = map operation_to_contract (ss_operations service),
            ct_consumers = map consumer_to_contract (ss_consumers service)\<rparr>\<rparr>)"

section \<open>Validation\<close>

datatype contract_validation_error = ContractValidationError string

text \<open>\<open>valid_semver\<close>: the text before the first \<open>-\<close> or \<open>+\<close> must be three non-empty digit groups.\<close>

definition valid_semver :: "string \<Rightarrow> bool" where
  "valid_semver version =
     (let core = (case split_once (\<lambda>c. c = CHR ''-'' \<or> c = CHR ''+'') version of
                    None \<Rightarrow> version | Some (core, _) \<Rightarrow> core)
      in case split_on CHR ''.'' core of
           [major, minor, patch] \<Rightarrow>
             list_all (\<lambda>part. part \<noteq> [] \<and> list_all is_ascii_digit part) [major, minor, patch]
         | _ \<Rightarrow> False)"

fun validate_operations ::
  "string set \<Rightarrow> contract_operation list \<Rightarrow> contract_validation_error + unit" where
  "validate_operations subjects [] = Inr ()"
| "validate_operations subjects (operation # rest) =
     (if co_subject operation = [] then
        Inl (ContractValidationError
          (''operation `'' @ co_rust_name operation @ ''` has an empty subject''))
      else if co_concurrency operation = 0 then
        Inl (ContractValidationError
          (''operation `'' @ co_rust_name operation @ ''` has zero concurrency''))
      else if co_subject operation \<in> subjects then
        Inl (ContractValidationError
          (''duplicate operation subject `'' @ co_subject operation @ ''`''))
      else validate_operations (insert (co_subject operation) subjects) rest)"

fun validate_consumers :: "contract_consumer list \<Rightarrow> contract_validation_error + unit" where
  "validate_consumers [] = Inr ()"
| "validate_consumers (consumer # rest) =
     (if cc_stream consumer = [] \<or> cc_durable consumer = [] \<or> cc_filter_subject consumer = [] then
        Inl (ContractValidationError
          (''consumer `'' @ cc_rust_name consumer
             @ ''` requires stream, durable, and filter subject''))
      else if cc_concurrency consumer = 0 then
        Inl (ContractValidationError
          (''consumer `'' @ cc_rust_name consumer @ ''` has zero concurrency''))
      else validate_consumers rest)"

definition validate_document :: "contract_document \<Rightarrow> contract_validation_error + unit" where
  "validate_document d =
     (let service = cd_service d
      in if ct_name service = [] then
           Inl (ContractValidationError ''service name must not be empty'')
         else if \<not> valid_semver (ct_version service) then
           Inl (ContractValidationError
             ''service version must be semantic version MAJOR.MINOR.PATCH'')
         else try_then (validate_operations {} (ct_operations service))
                (\<lambda>_. validate_consumers (ct_consumers service)))"

definition document_subjects :: "contract_document \<Rightarrow> string list" where
  "document_subjects d =
     map co_subject (ct_operations (cd_service d))
     @ map cc_filter_subject (ct_consumers (cd_service d))"

section \<open>What validation accepts\<close>

definition operation_wf :: "contract_operation \<Rightarrow> bool" where
  "operation_wf o' \<longleftrightarrow> co_subject o' \<noteq> [] \<and> co_concurrency o' \<noteq> 0"

definition consumer_wf :: "contract_consumer \<Rightarrow> bool" where
  "consumer_wf c \<longleftrightarrow> cc_stream c \<noteq> [] \<and> cc_durable c \<noteq> [] \<and> cc_filter_subject c \<noteq> []
     \<and> cc_concurrency c \<noteq> 0"

lemma validate_operations_iff:
  "validate_operations seen ops = Inr () \<longleftrightarrow>
     list_all operation_wf ops \<and> distinct (map co_subject ops) \<and>
     seen \<inter> set (map co_subject ops) = {}"
  by (induction ops arbitrary: seen) (auto simp: operation_wf_def)

lemma validate_consumers_iff: "validate_consumers cs = Inr () \<longleftrightarrow> list_all consumer_wf cs"
  by (induction cs) (auto simp: consumer_wf_def)

lemma try_unit_iff: "try_then (r :: 'e + unit) f = Inr () \<longleftrightarrow> r = Inr () \<and> f () = Inr ()"
  by (cases r) auto

lemma validate_document_wf_iff:
  "validate_document d = Inr () \<longleftrightarrow>
     ct_name (cd_service d) \<noteq> [] \<and> valid_semver (ct_version (cd_service d)) \<and>
     list_all operation_wf (ct_operations (cd_service d)) \<and>
     distinct (map co_subject (ct_operations (cd_service d))) \<and>
     list_all consumer_wf (ct_consumers (cd_service d))"
  by (auto simp: validate_document_def Let_def try_unit_iff validate_operations_iff
      validate_consumers_iff)

text \<open>
  A semantic version, read directly: three non-empty groups of digits with dots between, and then
  nothing, or anything that begins with \<open>-\<close> or \<open>+\<close>.
\<close>

definition digit_group :: "string \<Rightarrow> bool" where
  "digit_group s \<longleftrightarrow> s \<noteq> [] \<and> list_all is_ascii_digit s"

lemma digit_group_char:
  assumes "digit_group s"
  shows "CHR ''.'' \<notin> set s" "\<forall>c \<in> set s. c \<noteq> CHR ''-'' \<and> c \<noteq> CHR ''+''"
proof -
  have "\<not> is_ascii_digit CHR ''.''" "\<not> is_ascii_digit CHR ''-''" "\<not> is_ascii_digit CHR ''+''"
    by (simp_all add: is_ascii_digit_def byte_of_def)
  then show "CHR ''.'' \<notin> set s" "\<forall>c \<in> set s. c \<noteq> CHR ''-'' \<and> c \<noteq> CHR ''+''"
    using assms by (auto simp: digit_group_def list_all_iff)
qed

lemma split_on_groups:
  "split_on CHR ''.'' core = [a, b, c] \<Longrightarrow> core = a @ ''.'' @ b @ ''.'' @ c"
  using join_split [of "CHR ''.''" core] by simp

lemma groups_split_on:
  assumes "digit_group a" and "digit_group b" and "digit_group c"
  shows "split_on CHR ''.'' (a @ ''.'' @ b @ ''.'' @ c) = [a, b, c]"
  using split_join [of "[a, b, c]" "CHR ''.''"] assms digit_group_char(1) by simp

lemma split_once_prefix:
  "\<forall>x \<in> set core. \<not> p x \<Longrightarrow> rest = [] \<or> p (hd rest) \<Longrightarrow>
   (case split_once p (core @ rest) of None \<Rightarrow> core @ rest | Some (a, _) \<Rightarrow> a) = core"
proof (induction core)
  case Nil
  then show ?case by (cases rest) auto
next
  case (Cons x core)
  then show ?case by (cases "split_once p (core @ rest)") auto
qed

lemma core_prefix:
  assumes "digit_group a" and "digit_group b" and "digit_group c"
    and "rest = [] \<or> hd rest \<in> {CHR ''-'', CHR ''+''}"
  shows "(case split_once (\<lambda>c. c = CHR ''-'' \<or> c = CHR ''+'') (a @ ''.'' @ b @ ''.'' @ c @ rest) of
      None \<Rightarrow> a @ ''.'' @ b @ ''.'' @ c @ rest | Some (core, _) \<Rightarrow> core) = a @ ''.'' @ b @ ''.'' @ c"
proof -
  let ?p = "\<lambda>c. c = CHR ''-'' \<or> c = CHR ''+''"
  have core: "\<forall>x \<in> set (a @ ''.'' @ b @ ''.'' @ c). \<not> ?p x"
    using digit_group_char(2) [OF assms(1)] digit_group_char(2) [OF assms(2)]
      digit_group_char(2) [OF assms(3)] by (simp add: ball_Un)
  have "rest = [] \<or> ?p (hd rest)" using assms(4) by simp
  from split_once_prefix [OF core this] show ?thesis by (simp only: append_assoc append_Cons append_Nil)
qed

lemma valid_semver_iff:
  "valid_semver v \<longleftrightarrow> (\<exists>major minor patch rest. v = major @ ''.'' @ minor @ ''.'' @ patch @ rest \<and>
     digit_group major \<and> digit_group minor \<and> digit_group patch \<and>
     (rest = [] \<or> hd rest \<in> {CHR ''-'', CHR ''+''}))"
proof
  let ?p = "\<lambda>c. c = CHR ''-'' \<or> c = CHR ''+''"
  let ?core = "case split_once ?p v of None \<Rightarrow> v | Some (core, _) \<Rightarrow> core"
  assume "valid_semver v"
  then obtain a b c where s: "split_on CHR ''.'' ?core = [a, b, c]"
    "digit_group a" "digit_group b" "digit_group c"
    by (auto simp: valid_semver_def digit_group_def Let_def split: list.splits)
  have core: "?core = takeWhile (\<lambda>c. \<not> ?p c) v"
    by (auto simp: split_once_conv takeWhile_eq_all_conv [THEN iffD2])
  define rest where "rest = dropWhile (\<lambda>c. \<not> ?p c) v"
  have "v = a @ ''.'' @ b @ ''.'' @ c @ rest"
    using split_on_groups [OF s(1)] core takeWhile_dropWhile_id [of "\<lambda>c. \<not> ?p c" v]
    by (simp add: rest_def)
  moreover have "rest = [] \<or> hd rest \<in> {CHR ''-'', CHR ''+''}"
    using hd_dropWhile [of "\<lambda>c. \<not> ?p c" v] by (auto simp: rest_def)
  ultimately show "\<exists>major minor patch rest. v = major @ ''.'' @ minor @ ''.'' @ patch @ rest \<and>
     digit_group major \<and> digit_group minor \<and> digit_group patch \<and>
     (rest = [] \<or> hd rest \<in> {CHR ''-'', CHR ''+''})"
    using s(2-4) by blast
next
  assume "\<exists>major minor patch rest. v = major @ ''.'' @ minor @ ''.'' @ patch @ rest \<and>
     digit_group major \<and> digit_group minor \<and> digit_group patch \<and>
     (rest = [] \<or> hd rest \<in> {CHR ''-'', CHR ''+''})"
  then obtain a b c rest where v: "v = a @ ''.'' @ b @ ''.'' @ c @ rest"
    "digit_group a" "digit_group b" "digit_group c" "rest = [] \<or> hd rest \<in> {CHR ''-'', CHR ''+''}"
    by blast
  then show "valid_semver v"
    unfolding valid_semver_def Let_def v(1) core_prefix [OF v(2-5)] groups_split_on [OF v(2-4)]
    by (simp add: digit_group_def)
qed

text \<open>Everything that is wrong with a document, in the order of the document.\<close>

definition operation_violations :: "string list \<Rightarrow> contract_operation \<Rightarrow> string list" where
  "operation_violations earlier o' =
     (if co_subject o' = [] then [''operation `'' @ co_rust_name o' @ ''` has an empty subject''] else []) @
     (if co_concurrency o' = 0 then [''operation `'' @ co_rust_name o' @ ''` has zero concurrency''] else []) @
     (if co_subject o' \<in> set earlier
      then [''duplicate operation subject `'' @ co_subject o' @ ''`''] else [])"

definition consumer_violations :: "contract_consumer \<Rightarrow> string list" where
  "consumer_violations c =
     (if [] \<in> {cc_stream c, cc_durable c, cc_filter_subject c}
      then [''consumer `'' @ cc_rust_name c @ ''` requires stream, durable, and filter subject''] else []) @
     (if cc_concurrency c = 0 then [''consumer `'' @ cc_rust_name c @ ''` has zero concurrency''] else [])"

definition operations_violations :: "string list \<Rightarrow> contract_operation list \<Rightarrow> string list" where
  "operations_violations earlier ops =
     concat (map (\<lambda>i. operation_violations (earlier @ map co_subject (take i ops)) (ops ! i))
       [0..<length ops])"

definition document_violations :: "contract_document \<Rightarrow> string list" where
  "document_violations d =
     (let s = cd_service d
      in (if ct_name s = [] then [''service name must not be empty''] else []) @
         (if valid_semver (ct_version s) then []
          else [''service version must be semantic version MAJOR.MINOR.PATCH'']) @
         operations_violations [] (ct_operations s) @
         concat (map consumer_violations (ct_consumers s)))"

definition first_violation :: "string list \<Rightarrow> contract_validation_error + unit" where
  "first_violation vs = (case vs of [] \<Rightarrow> Inr () | m # _ \<Rightarrow> Inl (ContractValidationError m))"

lemma first_violation_append:
  "first_violation (vs @ ws) = try_then (first_violation vs) (\<lambda>_. first_violation ws)"
  by (cases vs) (simp_all add: first_violation_def)

lemma first_violation_simps [simp]:
  "first_violation [] = Inr ()" "first_violation (m # vs) = Inl (ContractValidationError m)"
  by (simp_all add: first_violation_def)

lemma operations_violations_Cons:
  "operations_violations earlier (o' # ops) =
     operation_violations earlier o' @ operations_violations (earlier @ [co_subject o']) ops"
  by (simp add: operations_violations_def upt_conv_Cons map_Suc_upt [symmetric] o_def del: upt_Suc)

lemma validate_operations_first:
  "validate_operations (set earlier) ops = first_violation (operations_violations earlier ops)"
proof (induction ops arbitrary: earlier)
  case (Cons o' ops)
  then show ?case using Cons [of "earlier @ [co_subject o']"]
    by (simp add: operations_violations_Cons operation_violations_def)
qed (simp add: operations_violations_def)

lemma validate_consumers_first:
  "validate_consumers cs = first_violation (concat (map consumer_violations cs))"
  by (induction cs) (auto simp: consumer_violations_def)

text \<open>
  C38: which contract documents are valid, and what is reported of the others.  A document
  validates exactly when the service has a name, its version is three groups of digits separated
  by dots, with nothing or a part that begins with \<open>-\<close> or \<open>+\<close> behind them, every operation has a
  subject and a positive concurrency, no two operations have the same subject, and every consumer
  names its stream, durable and filter subject and has a positive concurrency; otherwise the
  error is that of the first violation in the order of the document.
\<close>

theorem validate_document_iff:
  "(validate_document d = Inr () \<longleftrightarrow>
     (let s = cd_service d
      in ct_name s \<noteq> [] \<and>
         (\<exists>major minor patch rest. ct_version s = major @ ''.'' @ minor @ ''.'' @ patch @ rest \<and>
            digit_group major \<and> digit_group minor \<and> digit_group patch \<and>
            (rest = [] \<or> hd rest \<in> {CHR ''-'', CHR ''+''})) \<and>
         list_all (\<lambda>o'. co_subject o' \<noteq> [] \<and> 0 < co_concurrency o') (ct_operations s) \<and>
         distinct (map co_subject (ct_operations s)) \<and>
         list_all (\<lambda>c. cc_stream c \<noteq> [] \<and> cc_durable c \<noteq> [] \<and> cc_filter_subject c \<noteq> [] \<and>
           0 < cc_concurrency c) (ct_consumers s))) \<and>
   validate_document d = first_violation (document_violations d)"
proof (rule conjI)
  have "operation_wf = (\<lambda>o'. co_subject o' \<noteq> [] \<and> 0 < co_concurrency o')"
    "consumer_wf = (\<lambda>c. cc_stream c \<noteq> [] \<and> cc_durable c \<noteq> [] \<and> cc_filter_subject c \<noteq> [] \<and>
       0 < cc_concurrency c)"
    by (auto simp: operation_wf_def consumer_wf_def)
  then show "validate_document d = Inr () \<longleftrightarrow>
     (let s = cd_service d
      in ct_name s \<noteq> [] \<and>
         (\<exists>major minor patch rest. ct_version s = major @ ''.'' @ minor @ ''.'' @ patch @ rest \<and>
            digit_group major \<and> digit_group minor \<and> digit_group patch \<and>
            (rest = [] \<or> hd rest \<in> {CHR ''-'', CHR ''+''})) \<and>
         list_all (\<lambda>o'. co_subject o' \<noteq> [] \<and> 0 < co_concurrency o') (ct_operations s) \<and>
         distinct (map co_subject (ct_operations s)) \<and>
         list_all (\<lambda>c. cc_stream c \<noteq> [] \<and> cc_durable c \<noteq> [] \<and> cc_filter_subject c \<noteq> [] \<and>
           0 < cc_concurrency c) (ct_consumers s))"
    unfolding Let_def valid_semver_iff [symmetric] by (simp add: validate_document_wf_iff)
  show "validate_document d = first_violation (document_violations d)"
    using validate_operations_first [of "[]" "ct_operations (cd_service d)"]
    by (simp add: validate_document_def document_violations_def Let_def first_violation_append
        validate_consumers_first)
qed

lemma valid_semver_digits3:
  assumes "split_on CHR ''.'' v = [a, b, c]"
    and "\<And>p. p \<in> {a, b, c} \<Longrightarrow> p \<noteq> [] \<and> list_all is_ascii_digit p"
  shows "valid_semver v"
proof -
  have v: "v = a @ ''.'' @ b @ ''.'' @ c"
    using join_split [of "CHR ''.''" v] assms(1) by simp
  have dig: "is_ascii_digit ch" if "ch \<in> set a \<union> set b \<union> set c" for ch
    using that assms(2) by (auto simp: list_all_iff)
  have "\<not> is_ascii_digit CHR ''-''" "\<not> is_ascii_digit CHR ''+''"
    by (simp_all add: is_ascii_digit_def byte_of_def)
  then have "split_once (\<lambda>c. c = CHR ''-'' \<or> c = CHR ''+'') v = None"
    using dig unfolding v split_once_conv by auto
  then show ?thesis using assms by (simp add: valid_semver_def)
qed

text \<open>The conversion keeps the names, subjects and limits that validation reads.\<close>

lemma document_from_contract_simps [simp]:
  "ct_name (cd_service (document_from_contract c)) = ss_name (sc_service c)"
  "ct_version (cd_service (document_from_contract c)) = ss_version (sc_service c)"
  "ct_operations (cd_service (document_from_contract c)) =
     map operation_to_contract (contract_operations c)"
  "ct_consumers (cd_service (document_from_contract c)) =
     map consumer_to_contract (contract_consumers c)"
  by (simp_all add: document_from_contract_def Let_def contract_operations_def
      contract_consumers_def)

lemma operation_to_contract_simps [simp]:
  "co_subject (operation_to_contract o') = os_subject o'"
  "co_concurrency (operation_to_contract o') = os_concurrency o'"
  "co_kind (operation_to_contract o') = os_kind o'"
  "co_rust_name (operation_to_contract o') = os_rust_name o'"
  "co_queue_group (operation_to_contract o') = os_queue_group o'"
  by (simp_all add: operation_to_contract_def)

lemma consumer_to_contract_simps [simp]:
  "cc_stream (consumer_to_contract c) = cs_stream c"
  "cc_durable (consumer_to_contract c) = cs_durable c"
  "cc_filter_subject (consumer_to_contract c) = cs_filter_subject c"
  "cc_concurrency (consumer_to_contract c) = cs_concurrency c"
  "cc_rust_name (consumer_to_contract c) = cs_rust_name c"
  by (simp_all add: consumer_to_contract_def)

lemma document_subjects_from_contract:
  "document_subjects (document_from_contract c) =
     map os_subject (contract_operations c) @ map cs_filter_subject (contract_consumers c)"
  by (simp add: document_subjects_def)

end
