(* ===== verification/App_Services.thy ===== *)
theory App_Services
  imports Contracts
begin

text \<open>
  The type-level service list and its validation (\<open>nats-micro/src/app/services.rs\<close>).  A
  service list \<open>Cons<Head, Tail>\<close> is the list of the specs, head first.  The run-time
  validator keeps two ordered maps from keys to their owner; the compile-time
  \<open>assert_services_compatible\<close> compares two specs by nested index loops.  Both checks
  are shown to decide the same thing.
\<close>

section \<open>The run-time validator\<close>

record service_set_validator =
  sv_operations :: "string \<rightharpoonup> string \<times> string"
  sv_consumers :: "string \<times> string \<rightharpoonup> string \<times> string"

definition validator_default :: service_set_validator where
  "validator_default = \<lparr>sv_operations = Map.empty, sv_consumers = Map.empty\<rparr>"

fun add_operations ::
  "string \<Rightarrow> operation_spec list \<Rightarrow> service_set_validator \<Rightarrow> string + service_set_validator" where
  "add_operations service [] v = Inr v"
| "add_operations service (operation # rest) v =
     (case sv_operations v (os_subject operation) of
        Some (other_service, other_operation) \<Rightarrow>
          Inl (''duplicate subject `'' @ os_subject operation @ ''`: `'' @ other_service @ ''::''
               @ other_operation @ ''` conflicts with `'' @ service @ ''::''
               @ os_rust_name operation @ ''`'')
      | None \<Rightarrow>
          add_operations service rest
            (v\<lparr>sv_operations := (sv_operations v)
                 (os_subject operation \<mapsto> (service, os_rust_name operation))\<rparr>))"

fun add_consumers ::
  "string \<Rightarrow> consumer_spec list \<Rightarrow> service_set_validator \<Rightarrow> string + service_set_validator" where
  "add_consumers service [] v = Inr v"
| "add_consumers service (consumer # rest) v =
     (let key = (cs_stream consumer, cs_durable consumer)
      in case sv_consumers v key of
        Some (other_service, other_consumer) \<Rightarrow>
          Inl (''duplicate consumer `'' @ cs_stream consumer @ ''/'' @ cs_durable consumer
               @ ''`: `'' @ other_service @ ''::'' @ other_consumer @ ''` conflicts with `''
               @ service @ ''::'' @ cs_rust_name consumer @ ''`'')
      | None \<Rightarrow>
          add_consumers service rest
            (v\<lparr>sv_consumers := (sv_consumers v)(key \<mapsto> (service, cs_rust_name consumer))\<rparr>))"

definition validator_add ::
  "service_spec \<Rightarrow> service_set_validator \<Rightarrow> string + service_set_validator" where
  "validator_add service v =
     try_then (add_operations (ss_name service) (ss_operations service) v)
       (add_consumers (ss_name service) (ss_consumers service))"

text \<open>\<open>ServiceSet::validate_all\<close>, by recursion on the list as in the two trait impls.\<close>

fun validate_all ::
  "service_spec list \<Rightarrow> service_set_validator \<Rightarrow> string + service_set_validator" where
  "validate_all [] v = Inr v"
| "validate_all (head # tail) v = try_then (validator_add head v) (validate_all tail)"

definition validate_service_set :: "service_spec list \<Rightarrow> string + unit" where
  "validate_service_set services = map_ok (\<lambda>_. ()) (validate_all services validator_default)"

section \<open>The compile-time comparison\<close>

text \<open>\<open>str_eq\<close>: equal lengths, then byte by byte; a \<open>const fn\<close> cannot use \<open>==\<close> on \<open>&str\<close>.\<close>

function str_eq_loop :: "string \<Rightarrow> string \<Rightarrow> nat \<Rightarrow> bool" where
  "str_eq_loop left right index =
     (if index < length left then
        if left ! index \<noteq> right ! index then False else str_eq_loop left right (Suc index)
      else True)"
  by pat_completeness auto
termination
  by (relation "measure (\<lambda>(l, r, i). length l - i)") auto

declare str_eq_loop.simps [simp del]

definition str_eq :: "string \<Rightarrow> string \<Rightarrow> bool" where
  "str_eq left right =
     (if length left \<noteq> length right then False else str_eq_loop left right 0)"

text \<open>The panics of \<open>assert_services_compatible\<close> are its \<open>Inl\<close> values.\<close>

fun compat_operation :: "operation_spec \<Rightarrow> operation_spec list \<Rightarrow> string + unit" where
  "compat_operation l [] = Inr ()"
| "compat_operation l (r # rs) =
     (if str_eq (os_subject l) (os_subject r)
      then Inl ''duplicate request/publish/subscribe subject in application''
      else compat_operation l rs)"

fun compat_operations :: "operation_spec list \<Rightarrow> operation_spec list \<Rightarrow> string + unit" where
  "compat_operations [] rs = Inr ()"
| "compat_operations (l # ls) rs =
     try_then (compat_operation l rs) (\<lambda>_. compat_operations ls rs)"

fun compat_consumer :: "consumer_spec \<Rightarrow> consumer_spec list \<Rightarrow> string + unit" where
  "compat_consumer l [] = Inr ()"
| "compat_consumer l (r # rs) =
     (let same_stream = str_eq (cs_stream l) (cs_stream r);
          same_durable = str_eq (cs_durable l) (cs_durable r)
      in if same_stream \<and> same_durable
         then Inl ''duplicate JetStream consumer in application''
         else compat_consumer l rs)"

fun compat_consumers :: "consumer_spec list \<Rightarrow> consumer_spec list \<Rightarrow> string + unit" where
  "compat_consumers [] rs = Inr ()"
| "compat_consumers (l # ls) rs =
     try_then (compat_consumer l rs) (\<lambda>_. compat_consumers ls rs)"

definition assert_services_compatible :: "service_spec \<Rightarrow> service_spec \<Rightarrow> string + unit" where
  "assert_services_compatible left right =
     try_then (compat_operations (ss_operations left) (ss_operations right))
       (\<lambda>_. compat_consumers (ss_consumers left) (ss_consumers right))"

section \<open>What the checks decide\<close>

definition service_subjects :: "service_spec \<Rightarrow> string list" where
  "service_subjects s = map os_subject (ss_operations s)"

definition service_consumer_keys :: "service_spec \<Rightarrow> (string \<times> string) list" where
  "service_consumer_keys s = map (\<lambda>c. (cs_stream c, cs_durable c)) (ss_consumers s)"

lemma str_eq_loop_iff:
  "index \<le> length left \<Longrightarrow> length left = length right \<Longrightarrow>
   str_eq_loop left right index \<longleftrightarrow> drop index left = drop index right"
proof (induction left right index rule: str_eq_loop.induct)
  case (1 left right index)
  show ?case
  proof (cases "index < length left")
    case True
    then show ?thesis
      using 1 by (subst str_eq_loop.simps)
        (auto simp: Cons_nth_drop_Suc [symmetric] simp flip: Cons_nth_drop_Suc)
  next
    case False
    then show ?thesis using 1 by (subst str_eq_loop.simps) simp
  qed
qed

lemma str_eq_iff [simp]: "str_eq l r \<longleftrightarrow> l = r"
  using str_eq_loop_iff [of 0 l r] by (auto simp: str_eq_def)

lemma add_operations_Inr:
  "add_operations s ops v = Inr v' \<Longrightarrow>
   dom (sv_operations v') = dom (sv_operations v) \<union> set (map os_subject ops) \<and>
   sv_consumers v' = sv_consumers v"
  by (induction ops arbitrary: v) (auto split: option.splits)

lemma add_operations_is_ok:
  "is_ok (add_operations s ops v) \<longleftrightarrow>
   distinct (map os_subject ops) \<and> dom (sv_operations v) \<inter> set (map os_subject ops) = {}"
  by (induction ops arbitrary: v) (auto simp: domIff split: option.splits)

abbreviation consumer_key :: "consumer_spec \<Rightarrow> string \<times> string" where
  "consumer_key c \<equiv> (cs_stream c, cs_durable c)"

lemma add_consumers_Inr:
  "add_consumers s cs v = Inr v' \<Longrightarrow>
   dom (sv_consumers v') = dom (sv_consumers v) \<union> set (map consumer_key cs) \<and>
   sv_operations v' = sv_operations v"
  by (induction cs arbitrary: v) (auto simp: Let_def split: option.splits)

lemma add_consumers_is_ok:
  "is_ok (add_consumers s cs v) \<longleftrightarrow>
   distinct (map consumer_key cs) \<and> dom (sv_consumers v) \<inter> set (map consumer_key cs) = {}"
  by (induction cs arbitrary: v) (auto simp: Let_def domIff split: option.splits)

lemma validator_add_Inr:
  assumes "validator_add s v = Inr v'"
  shows "dom (sv_operations v') = dom (sv_operations v) \<union> set (service_subjects s) \<and>
    dom (sv_consumers v') = dom (sv_consumers v) \<union> set (service_consumer_keys s)"
proof -
  obtain u where u: "add_operations (ss_name s) (ss_operations s) v = Inr u"
    "add_consumers (ss_name s) (ss_consumers s) u = Inr v'"
    using assms by (auto simp: validator_add_def)
  show ?thesis
    using add_operations_Inr [OF u(1)] add_consumers_Inr [OF u(2)]
    by (simp add: service_subjects_def service_consumer_keys_def)
qed

lemma validator_add_is_ok:
  "is_ok (validator_add s v) \<longleftrightarrow>
   distinct (service_subjects s) \<and> dom (sv_operations v) \<inter> set (service_subjects s) = {} \<and>
   distinct (service_consumer_keys s) \<and> dom (sv_consumers v) \<inter> set (service_consumer_keys s) = {}"
proof (cases "add_operations (ss_name s) (ss_operations s) v")
  case (Inl e)
  then have "\<not> is_ok (add_operations (ss_name s) (ss_operations s) v)" by simp
  then show ?thesis
    using Inl unfolding add_operations_is_ok by (auto simp: validator_add_def service_subjects_def)
next
  case (Inr u)
  then have "is_ok (add_operations (ss_name s) (ss_operations s) v)" by simp
  then show ?thesis
    using Inr add_operations_Inr [OF Inr] unfolding add_operations_is_ok
    by (simp add: validator_add_def add_consumers_is_ok service_subjects_def service_consumer_keys_def)
qed

lemma validate_all_is_ok:
  "is_ok (validate_all ss v) \<longleftrightarrow>
   distinct (concat (map service_subjects ss)) \<and>
   dom (sv_operations v) \<inter> set (concat (map service_subjects ss)) = {} \<and>
   distinct (concat (map service_consumer_keys ss)) \<and>
   dom (sv_consumers v) \<inter> set (concat (map service_consumer_keys ss)) = {}"
proof (induction ss arbitrary: v)
  case Nil
  then show ?case by simp
next
  case (Cons s ss)
  show ?case
  proof (cases "validator_add s v")
    case (Inl e)
    then have "\<not> is_ok (validator_add s v)" by simp
    then show ?thesis using Inl unfolding validator_add_is_ok by auto
  next
    case (Inr v')
    then have "is_ok (validator_add s v)" by simp
    then show ?thesis
      using Inr Cons.IH [of v'] validator_add_Inr [OF Inr] unfolding validator_add_is_ok by auto
  qed
qed

lemma validate_service_set_distinct:
  "validate_service_set ss = Inr () \<longleftrightarrow>
     distinct (concat (map service_subjects ss)) \<and>
     distinct (concat (map service_consumer_keys ss))"
proof -
  have "validate_service_set ss = Inr () \<longleftrightarrow> is_ok (validate_all ss validator_default)"
    by (auto simp: validate_service_set_def is_ok_iff)
  then show ?thesis by (simp add: validate_all_is_ok validator_default_def)
qed

lemma compat_operation_iff:
  "compat_operation l rs = Inr () \<longleftrightarrow> os_subject l \<notin> set (map os_subject rs)"
  by (induction rs) auto

lemma compat_operations_iff:
  "compat_operations ls rs = Inr () \<longleftrightarrow> set (map os_subject ls) \<inter> set (map os_subject rs) = {}"
  by (induction ls) (auto simp: try_unit_iff compat_operation_iff)

lemma compat_consumer_iff:
  "compat_consumer l rs = Inr () \<longleftrightarrow> consumer_key l \<notin> set (map consumer_key rs)"
  by (induction rs) (auto simp: Let_def)

lemma compat_consumers_iff:
  "compat_consumers ls rs = Inr () \<longleftrightarrow> set (map consumer_key ls) \<inter> set (map consumer_key rs) = {}"
  by (induction ls) (auto simp: try_unit_iff compat_consumer_iff)

lemma assert_services_compatible_iff:
  "assert_services_compatible l r = Inr () \<longleftrightarrow>
     set (service_subjects l) \<inter> set (service_subjects r) = {} \<and>
     set (service_consumer_keys l) \<inter> set (service_consumer_keys r) = {}"
  by (simp add: assert_services_compatible_def try_unit_iff compat_operations_iff
      compat_consumers_iff service_subjects_def service_consumer_keys_def)

lemma distinct_concat_map_iff:
  "distinct (concat (map f ss)) \<longleftrightarrow>
     list_all (\<lambda>s. distinct (f s)) ss \<and> sorted_wrt (\<lambda>a b. set (f a) \<inter> set (f b) = {}) ss"
  by (induction ss) auto

lemma sorted_wrt_conj:
  "sorted_wrt (\<lambda>a b. P a b \<and> Q a b) xs \<longleftrightarrow> sorted_wrt P xs \<and> sorted_wrt Q xs"
  by (induction xs) auto

text \<open>C21: The compile-time and the run-time check agree: a service list passes startup validation (no core subject twice, no stream and durable pair twice, anywhere in the list) exactly when each service alone has distinct subjects and distinct consumer keys and every earlier service passes the compile-time compatibility assertion against every later one.\<close>

theorem validate_service_set_pairwise:
  "validate_service_set ss = Inr () \<longleftrightarrow>
     list_all (\<lambda>s. distinct (service_subjects s) \<and> distinct (service_consumer_keys s)) ss \<and>
     sorted_wrt (\<lambda>l r. assert_services_compatible l r = Inr ()) ss"
  unfolding validate_service_set_distinct distinct_concat_map_iff assert_services_compatible_iff
    sorted_wrt_conj list_all_iff by blast

end
