(* ===== verification/App_Config.thy ===== *)
theory App_Config
  imports Prelude
begin

text \<open>
  Application configuration (\<open>nats-micro/src/app/config.rs\<close>,
  \<open>nats-micro/src/app/typed_config.rs\<close>), the shutdown signal
  (\<open>nats-micro/src/shutdown_signal.rs\<close>) and \<open>effective_concurrency\<close> of
  \<open>typed_runtime.rs\<close>.  Validation is characterised, every built-in profile passes it, and
  a validated configuration never yields a worker without capacity.
\<close>

datatype worker_failure_policy =
    WIgnore
  | WShutdownApp
  | WRestart (initial_backoff: duration) (max_backoff: duration) (max_restarts: nat)
      (window: duration)

datatype handler_panic_policy = FailWorker | LogAndContinue | Propagate

datatype profile = Development | TestProfile | Production | MaximumThroughput

record telemetry_config =
  tc_json_logs :: bool
  tc_opentelemetry :: bool
  tc_verbose_startup :: bool
  tc_counters :: bool
  tc_gauges :: bool
  tc_histograms :: bool
  tc_tracing :: bool

definition telemetry_default :: telemetry_config where
  "telemetry_default =
     \<lparr>tc_json_logs = False, tc_opentelemetry = False, tc_verbose_startup = False,
      tc_counters = False, tc_gauges = False, tc_histograms = False, tc_tracing = False\<rparr>"

record app_config =
  ac_default_concurrency :: nat
  ac_max_concurrency :: nat
  ac_shutdown_drain_timeout :: duration
  ac_startup_timeout :: duration
  ac_worker_failure :: worker_failure_policy
  ac_handler_panic :: handler_panic_policy
  ac_generate_missing_request_ids :: bool
  ac_telemetry :: telemetry_config

primrec for_profile :: "profile \<Rightarrow> app_config" where
  "for_profile Development =
     \<lparr>ac_default_concurrency = 64, ac_max_concurrency = 1024,
      ac_shutdown_drain_timeout = from_secs 10, ac_startup_timeout = from_secs 15,
      ac_worker_failure = WShutdownApp, ac_handler_panic = LogAndContinue,
      ac_generate_missing_request_ids = True,
      ac_telemetry = telemetry_default\<lparr>tc_verbose_startup := True\<rparr>\<rparr>"
| "for_profile TestProfile =
     \<lparr>ac_default_concurrency = 4, ac_max_concurrency = 32,
      ac_shutdown_drain_timeout = from_secs 2, ac_startup_timeout = from_secs 5,
      ac_worker_failure = WShutdownApp, ac_handler_panic = FailWorker,
      ac_generate_missing_request_ids = False, ac_telemetry = telemetry_default\<rparr>"
| "for_profile Production =
     \<lparr>ac_default_concurrency = 256, ac_max_concurrency = 4096,
      ac_shutdown_drain_timeout = from_secs 30, ac_startup_timeout = from_secs 30,
      ac_worker_failure = WRestart (from_millis 100) (from_secs 5) 8 (from_secs 60),
      ac_handler_panic = LogAndContinue, ac_generate_missing_request_ids = False,
      ac_telemetry =
        \<lparr>tc_json_logs = True, tc_opentelemetry = True, tc_verbose_startup = False,
         tc_counters = True, tc_gauges = True, tc_histograms = True, tc_tracing = True\<rparr>\<rparr>"
| "for_profile MaximumThroughput =
     \<lparr>ac_default_concurrency = 512, ac_max_concurrency = 8192,
      ac_shutdown_drain_timeout = from_secs 15, ac_startup_timeout = from_secs 30,
      ac_worker_failure = WShutdownApp, ac_handler_panic = Propagate,
      ac_generate_missing_request_ids = False, ac_telemetry = telemetry_default\<rparr>"

definition config_default :: app_config where
  "config_default = for_profile Development"

definition apply_profile :: "profile \<Rightarrow> app_config \<Rightarrow> app_config" where
  "apply_profile p config = for_profile p"

text \<open>\<open>AppConfig::validate\<close>: the \<open>ensure!\<close> checks in source order.\<close>

definition validate_config :: "app_config \<Rightarrow> string + unit" where
  "validate_config c =
     try_then (ensure (0 < ac_default_concurrency c)
       ''default concurrency must be greater than zero'') (\<lambda>_.
     try_then (ensure (ac_default_concurrency c \<le> ac_max_concurrency c)
       ''maximum concurrency cannot be lower than default concurrency'') (\<lambda>_.
     try_then (ensure (ac_startup_timeout c \<noteq> 0)
       ''startup timeout must be greater than zero'') (\<lambda>_.
     try_then (ensure (ac_shutdown_drain_timeout c \<noteq> 0)
       ''shutdown drain timeout must be greater than zero'') (\<lambda>_.
     (case ac_worker_failure c of
        WRestart ib mb mr w \<Rightarrow>
          try_then (ensure (ib \<noteq> 0)
            ''restart initial backoff must be greater than zero'') (\<lambda>_.
          try_then (ensure (ib \<le> mb)
            ''restart maximum backoff cannot be lower than the initial backoff'') (\<lambda>_.
          try_then (ensure (0 < mr)
            ''restart maximum attempts must be greater than zero'') (\<lambda>_.
          ensure (w \<noteq> 0) ''restart window must be greater than zero'')))
      | _ \<Rightarrow> Inr ())))))"

definition policy_valid :: "worker_failure_policy \<Rightarrow> bool" where
  "policy_valid p \<longleftrightarrow>
     (case p of WRestart ib mb mr w \<Rightarrow> 0 < ib \<and> ib \<le> mb \<and> 0 < mr \<and> 0 < w | _ \<Rightarrow> True)"

lemma validate_config_iff:
  "validate_config c = Inr () \<longleftrightarrow>
     0 < ac_default_concurrency c \<and> ac_default_concurrency c \<le> ac_max_concurrency c \<and>
     0 < ac_startup_timeout c \<and> 0 < ac_shutdown_drain_timeout c \<and>
     policy_valid (ac_worker_failure c)"
  by (cases "ac_worker_failure c") (auto simp: validate_config_def policy_valid_def)

section \<open>Connection configuration\<close>

record 'opts connection_config =
  conn_server :: string
  conn_options :: "'opts option"

definition connection_new :: "string \<Rightarrow> 'opts connection_config" where
  "connection_new server = \<lparr>conn_server = server, conn_options = None\<rparr>"

definition connection_with_options ::
  "'opts \<Rightarrow> 'opts connection_config \<Rightarrow> 'opts connection_config" where
  "connection_with_options options c = c\<lparr>conn_options := Some options\<rparr>"

text \<open>\<open>from_env\<close>, with the value of \<open>NATS_URL\<close> (if it is set and readable) as argument.\<close>

definition connection_from_env :: "string option \<Rightarrow> 'opts connection_config" where
  "connection_from_env nats_url =
     connection_new (case nats_url of Some url \<Rightarrow> url | None \<Rightarrow> ''nats://127.0.0.1:4222'')"

section \<open>The shutdown signal\<close>

record shutdown_state =
  sd_requested :: bool
  sd_drain_timeout :: "duration option"
  sd_deadline :: "instant option"

definition shutdown_running :: "duration option \<Rightarrow> shutdown_state" where
  "shutdown_running t = \<lparr>sd_requested = False, sd_drain_timeout = t, sd_deadline = None\<rparr>"

definition shutdown_requested :: "duration option \<Rightarrow> shutdown_state" where
  "shutdown_requested t = \<lparr>sd_requested = True, sd_drain_timeout = t, sd_deadline = None\<rparr>"

definition shutdown_draining :: "duration option \<Rightarrow> instant \<Rightarrow> shutdown_state" where
  "shutdown_draining t d = \<lparr>sd_requested = True, sd_drain_timeout = t, sd_deadline = Some d\<rparr>"

lemma shutdown_state_requested [simp]:
  "\<not> sd_requested (shutdown_running t)" "sd_requested (shutdown_requested t)"
  "sd_requested (shutdown_draining t d)"
  by (simp_all add: shutdown_running_def shutdown_requested_def shutdown_draining_def)

section \<open>Worker capacity\<close>

definition effective_concurrency :: "app_config \<Rightarrow> nat \<Rightarrow> nat" where
  "effective_concurrency config declared =
     (let requested = (if declared = 0 then ac_default_concurrency config else declared)
      in min requested (ac_max_concurrency config))"

lemma effective_concurrency_pos:
  "validate_config c = Inr () \<Longrightarrow> 0 < effective_concurrency c d"
  by (auto simp: validate_config_iff effective_concurrency_def Let_def)

text \<open>The configuration check accepts exactly the configurations with positive concurrency within the maximum, positive timeouts and a usable restart policy; every built-in profile passes it, and the capacity that a worker gets under any accepted configuration is positive and at most the configured maximum.\<close>

theorem config_validation:
  "(validate_config c = Inr () \<longleftrightarrow>
     0 < ac_default_concurrency c \<and> ac_default_concurrency c \<le> ac_max_concurrency c \<and>
     0 < ac_startup_timeout c \<and> 0 < ac_shutdown_drain_timeout c \<and>
     policy_valid (ac_worker_failure c)) \<and>
   validate_config (for_profile p) = Inr () \<and>
   effective_concurrency c d \<le> ac_max_concurrency c \<and>
   (validate_config c = Inr () \<longrightarrow> 0 < effective_concurrency c d)"
proof -
  have "validate_config (for_profile p) = Inr ()"
    by (cases p) (simp_all add: validate_config_iff policy_valid_def from_secs_def from_millis_def)
  moreover have "effective_concurrency c d \<le> ac_max_concurrency c"
    by (simp add: effective_concurrency_def Let_def)
  ultimately show ?thesis
    using validate_config_iff [of c] effective_concurrency_pos [of c d] by auto
qed

theorem config_validation_witness:
  "validate_config (for_profile TestProfile) = Inr () \<and>
   0 < effective_concurrency (for_profile TestProfile) 256"
  using config_validation [of "for_profile TestProfile" TestProfile 256] by simp

end
