(* ===== verification/Supervisor.thy ===== *)
theory Supervisor
  imports App_Config
begin

text \<open>
  Restart budgets and worker supervision (\<open>nats-micro/src/app/typed_runtime.rs\<close>): the
  \<open>RestartTracker\<close>, \<open>wait_backoff\<close>, and the four \<open>supervise_*\<close> loops.  A loop reads
  what its environment does from a list of attempts; the list may be longer than the loop
  runs, and the result is \<open>None\<close> while the loop still waits for the next attempt.
\<close>

section \<open>The restart tracker\<close>

record restart_tracker =
  rt_policy :: worker_failure_policy
  rt_window_started :: instant
  rt_restarts :: nat
  rt_next_backoff :: duration

definition tracker_new :: "worker_failure_policy \<Rightarrow> instant \<Rightarrow> restart_tracker" where
  "tracker_new policy now =
     \<lparr>rt_policy = policy, rt_window_started = now, rt_restarts = 0,
      rt_next_backoff = (case policy of WRestart ib _ _ _ \<Rightarrow> ib | WIgnore \<Rightarrow> 0 | WShutdownApp \<Rightarrow> 0)\<rparr>"

text \<open>
  \<open>next_delay\<close> reads the clock once for \<open>elapsed\<close> (\<open>now\<close>) and once more when it opens a
  new window (\<open>now'\<close>).
\<close>

definition tracker_next_delay ::
  "instant \<Rightarrow> instant \<Rightarrow> restart_tracker \<Rightarrow> duration option \<times> restart_tracker" where
  "tracker_next_delay now now' t =
     (case rt_policy t of
        WRestart ib mb mr w \<Rightarrow>
          (let t1 = (if w < now - rt_window_started t
                     then t\<lparr>rt_window_started := now', rt_restarts := 0, rt_next_backoff := ib\<rparr>
                     else t)
           in if mr \<le> rt_restarts t1 then (None, t1)
              else (Some (rt_next_backoff t1),
                    t1\<lparr>rt_restarts := rt_restarts t1 + 1,
                       rt_next_backoff := min (dur_saturating_mul (rt_next_backoff t1) 2) mb\<rparr>))
      | _ \<Rightarrow> (None, t))"

text \<open>A sequence of calls at given clock readings.\<close>

fun tracker_run ::
  "(instant \<times> instant) list \<Rightarrow> restart_tracker \<Rightarrow> duration option list \<times> restart_tracker" where
  "tracker_run [] t = ([], t)"
| "tracker_run ((now, now') # rest) t =
     (let (d, t1) = tracker_next_delay now now' t; (ds, t2) = tracker_run rest t1
      in (d # ds, t2))"

lemma tracker_next_delay_none:
  "rt_policy t = WIgnore \<or> rt_policy t = WShutdownApp \<Longrightarrow> tracker_next_delay n n' t = (None, t)"
  by (auto simp: tracker_next_delay_def)

lemma tracker_next_delay_policy [simp]:
  "rt_policy (snd (tracker_next_delay n n' t)) = rt_policy t"
  by (simp add: tracker_next_delay_def Let_def split: worker_failure_policy.splits)

definition tracker_wf :: "restart_tracker \<Rightarrow> bool" where
  "tracker_wf t \<longleftrightarrow>
     (case rt_policy t of
        WRestart ib mb mr w \<Rightarrow>
          ib \<le> rt_next_backoff t \<and> rt_next_backoff t \<le> mb \<and> rt_restarts t \<le> mr \<and>
          mb \<le> duration_max
      | _ \<Rightarrow> True)"

lemma tracker_new_wf:
  "policy_valid p \<Longrightarrow> (case p of WRestart _ mb _ _ \<Rightarrow> mb \<le> duration_max | _ \<Rightarrow> True) \<Longrightarrow>
   tracker_wf (tracker_new p now)"
  by (cases p) (auto simp: tracker_wf_def tracker_new_def policy_valid_def)

lemma tracker_next_delay_wf:
  assumes "tracker_wf t" and "tracker_next_delay n n' t = (d, t')" and "policy_valid (rt_policy t)"
  shows "tracker_wf t'"
  using assms
  by (cases "rt_policy t")
    (auto simp: tracker_wf_def tracker_next_delay_def Let_def policy_valid_def dur_saturating_mul_def
      split: if_splits)

lemma tracker_next_delay_bounds:
  assumes "tracker_wf t" and "tracker_next_delay n n' t = (Some d, t')"
    and "rt_policy t = WRestart ib mb mr w" and "policy_valid (rt_policy t)"
  shows "ib \<le> d \<and> d \<le> mb"
  using assms
  by (auto simp: tracker_wf_def tracker_next_delay_def Let_def policy_valid_def split: if_splits)

text \<open>
  While the window is open, the tracker with \<open>j\<close> restarts so far holds the \<open>j\<close>-th term of
  the capped doubling sequence.
\<close>

lemma capped_double:
  "ib \<le> mb \<Longrightarrow> mb \<le> duration_max \<Longrightarrow>
   min (dur_saturating_mul (min (ib * 2 ^ j) mb) 2) mb = min (ib * 2 ^ Suc j) mb"
  by (auto simp: dur_saturating_mul_def min_def)

lemma tracker_run_in_window:
  "rt_policy t = WRestart ib mb mr w \<Longrightarrow> ib \<le> mb \<Longrightarrow> mb \<le> duration_max \<Longrightarrow>
   list_all (\<lambda>(n, n'). n - rt_window_started t \<le> w) reads \<Longrightarrow>
   rt_restarts t \<le> mr \<Longrightarrow> rt_next_backoff t = min (ib * 2 ^ rt_restarts t) mb \<Longrightarrow>
   fst (tracker_run reads t) =
     map (\<lambda>j. if rt_restarts t + j < mr then Some (min (ib * 2 ^ (rt_restarts t + j)) mb) else None)
       [0..<length reads]"
proof (induction reads arbitrary: t)
  case Nil
  then show ?case by simp
next
  case (Cons r reads)
  obtain n n' where r: "r = (n, n')" by (cases r)
  have open_window: "\<not> w < n - rt_window_started t" using Cons.prems r by auto
  have upt: "[0..<Suc (length reads)] = 0 # map Suc [0..<length reads]"
    by (simp add: upt_conv_Cons map_Suc_upt del: upt_Suc)
  show ?case
  proof (cases "mr \<le> rt_restarts t")
    case True
    then have "tracker_next_delay n n' t = (None, t)"
      using open_window Cons.prems by (simp add: tracker_next_delay_def)
    moreover have "fst (tracker_run reads t) = map (\<lambda>j. None) [0..<length reads]"
      using Cons.IH [of t] Cons.prems True by simp
    ultimately show ?thesis
      using True by (simp add: r upt case_prod_unfold comp_def del: upt_Suc)
  next
    case False
    let ?t = "t\<lparr>rt_restarts := rt_restarts t + 1,
      rt_next_backoff := min (dur_saturating_mul (rt_next_backoff t) 2) mb\<rparr>"
    have step: "tracker_next_delay n n' t = (Some (rt_next_backoff t), ?t)"
      using open_window Cons.prems False by (simp add: tracker_next_delay_def)
    have "fst (tracker_run reads ?t) =
      map (\<lambda>j. if rt_restarts t + Suc j < mr
        then Some (min (ib * 2 ^ (rt_restarts t + Suc j)) mb) else None) [0..<length reads]"
      using Cons.IH [of ?t] Cons.prems False capped_double [of ib mb "rt_restarts t"] by simp
    then show ?thesis
      using step Cons.prems False by (simp add: r upt case_prod_unfold comp_def del: upt_Suc)
  qed
qed

text \<open>C23: Within one restart window, the tracker grants exactly the configured number of restarts, the k-th of them with a delay of the initial backoff doubled k times and capped at the maximum, and refuses every further one.\<close>

theorem restart_backoff_sequence:
  assumes "ib \<le> mb" and "mb \<le> duration_max"
    and "list_all (\<lambda>(now, now'). now - start \<le> w) reads"
  shows "fst (tracker_run reads (tracker_new (WRestart ib mb mr w) start)) =
    map (\<lambda>k. if k < mr then Some (min (ib * 2 ^ k) mb) else None) [0..<length reads]"
  using tracker_run_in_window [of "tracker_new (WRestart ib mb mr w) start" ib mb mr w reads] assms
  by (simp add: tracker_new_def)

theorem restart_backoff_sequence_witness:
  "fst (tracker_run [(10, 10), (20, 20), (30, 30), (40, 40), (50, 50)]
     (tracker_new (WRestart 100 250 4 1000) 5)) =
   [Some 100, Some 200, Some 250, Some 250, None]"
proof -
  have "[0..<5] = [0, 1, 2, 3, 4 :: nat]" by (simp add: upt_rec)
  then show ?thesis
    using restart_backoff_sequence [of 100 250 5 1000
        "[(10, 10), (20, 20), (30, 30), (40, 40), (50, 50)]" 4]
    by (simp add: duration_max_def)
qed

section \<open>Waiting for a restart\<close>

text \<open>
  \<open>wait_backoff\<close> races the sleep against the watch channel: \<open>Slept\<close> when the sleep ended,
  \<open>Changed None\<close> when the sender is gone, \<open>Changed (Some s)\<close> when the channel holds \<open>s\<close>.
\<close>

datatype backoff_event = Slept | Changed "shutdown_state option"

definition wait_backoff :: "backoff_event \<Rightarrow> bool" where
  "wait_backoff ev =
     (case ev of Slept \<Rightarrow> False | Changed None \<Rightarrow> True | Changed (Some s) \<Rightarrow> sd_requested s)"

section \<open>The supervision loops\<close>

text \<open>
  One turn of a \<open>supervise_*\<close> loop: how the worker ended, whether shutdown was requested
  by then, the clock readings of \<open>next_delay\<close>, how the backoff ended, and whether the
  endpoint, subscription or consumer could be bound again.
\<close>

record attempt =
  at_result :: "string + unit"
  at_requested :: bool
  at_now :: instant
  at_now' :: instant
  at_backoff :: backoff_event
  at_rebind :: "string + unit"

fun supervise ::
  "string \<Rightarrow> attempt list \<Rightarrow> restart_tracker \<Rightarrow> duration list \<times> (string + unit) option" where
  "supervise exit_message [] restarts = ([], None)"
| "supervise exit_message (a # rest) restarts =
     (if at_requested a then ([], Some (Inr ()))
      else
        let error = (case at_result a of Inl e \<Rightarrow> e | Inr _ \<Rightarrow> exit_message)
        in case tracker_next_delay (at_now a) (at_now' a) restarts of
             (None, _) \<Rightarrow> ([], Some (Inl error))
           | (Some delay, restarts') \<Rightarrow>
               if wait_backoff (at_backoff a) then ([delay], Some (Inr ()))
               else (case at_rebind a of
                   Inl e \<Rightarrow> ([delay], Some (Inl e))
                 | Inr _ \<Rightarrow>
                     (let (ds, r) = supervise exit_message rest restarts' in (delay # ds, r))))"

definition supervise_request ::
  "worker_failure_policy \<Rightarrow> instant \<Rightarrow> attempt list \<Rightarrow> duration list \<times> (string + unit) option" where
  "supervise_request policy now attempts =
     supervise ''request worker exited unexpectedly'' attempts (tracker_new policy now)"

definition supervise_encrypted_request ::
  "worker_failure_policy \<Rightarrow> instant \<Rightarrow> attempt list \<Rightarrow> duration list \<times> (string + unit) option" where
  "supervise_encrypted_request policy now attempts =
     supervise ''encrypted request worker exited unexpectedly'' attempts (tracker_new policy now)"

definition supervise_subscription ::
  "worker_failure_policy \<Rightarrow> instant \<Rightarrow> attempt list \<Rightarrow> duration list \<times> (string + unit) option" where
  "supervise_subscription policy now attempts =
     supervise ''subscription worker exited unexpectedly'' attempts (tracker_new policy now)"

definition supervise_consumer ::
  "worker_failure_policy \<Rightarrow> instant \<Rightarrow> attempt list \<Rightarrow> duration list \<times> (string + unit) option" where
  "supervise_consumer policy now attempts =
     supervise ''consumer worker exited unexpectedly'' attempts (tracker_new policy now)"

text \<open>
  What a loop does while the window is open, in closed form: the attempts it retries are those up
  to the first that ends otherwise, at most \<open>mr\<close> of them.
\<close>

definition failure_of :: "string \<Rightarrow> attempt \<Rightarrow> string" where
  "failure_of msg a = (case at_result a of Inl e \<Rightarrow> e | Inr _ \<Rightarrow> msg)"

definition can_retry :: "attempt \<Rightarrow> bool" where
  "can_retry a \<longleftrightarrow> \<not> at_requested a \<and> \<not> wait_backoff (at_backoff a) \<and> at_rebind a = Inr ()"

definition supervised ::
  "string \<Rightarrow> (nat \<Rightarrow> duration) \<Rightarrow> nat \<Rightarrow> attempt list \<Rightarrow> duration list \<times> (string + unit) option" where
  "supervised msg delay mr as =
     (let k = length (takeWhile can_retry as)
      in if mr < k \<or> (mr = k \<and> k < length as \<and> \<not> at_requested (as ! k))
         then (map delay [0..<mr], Some (Inl (failure_of msg (as ! mr))))
         else if k = length as then (map delay [0..<k], None)
         else if at_requested (as ! k) then (map delay [0..<k], Some (Inr ()))
         else (map delay [0..<Suc k],
           Some (if wait_backoff (at_backoff (as ! k)) then Inr () else at_rebind (as ! k))))"

lemma supervised_retry:
  assumes "can_retry a" and "0 < mr"
  shows "supervised msg delay mr (a # as) =
    (case supervised msg (\<lambda>k. delay (Suc k)) (mr - 1) as of (ds, r) \<Rightarrow> (delay 0 # ds, r))"
proof -
  obtain m where m: "mr = Suc m" using assms(2) by (cases mr) auto
  have upt: "map delay [0..<Suc n] = delay 0 # map (\<lambda>k. delay (Suc k)) [0..<n]" for n
    by (simp add: upt_conv_Cons map_Suc_upt [symmetric] comp_def del: upt_Suc)
  show ?thesis
    using assms(1) by (simp add: supervised_def Let_def m upt del: upt_Suc)
qed

lemma supervise_in_window:
  "rt_policy t = WRestart ib mb mr w \<Longrightarrow> ib \<le> mb \<Longrightarrow> mb \<le> duration_max \<Longrightarrow>
   list_all (\<lambda>a. at_now a - rt_window_started t \<le> w) as \<Longrightarrow> rt_restarts t \<le> mr \<Longrightarrow>
   rt_next_backoff t = min (ib * 2 ^ rt_restarts t) mb \<Longrightarrow>
   supervise msg as t =
     supervised msg (\<lambda>k. min (ib * 2 ^ (rt_restarts t + k)) mb) (mr - rt_restarts t) as"
proof (induction as arbitrary: t)
  case Nil
  then show ?case by (simp add: supervised_def)
next
  case (Cons a rest)
  have open_window: "\<not> w < at_now a - rt_window_started t" using Cons.prems by auto
  show ?case
  proof (cases "mr \<le> rt_restarts t")
    case True
    then have "tracker_next_delay (at_now a) (at_now' a) t = (None, t)"
      using open_window Cons.prems by (simp add: tracker_next_delay_def)
    then show ?thesis using True
      by (auto simp: supervised_def failure_of_def can_retry_def Let_def split: sum.splits)
  next
    case False
    let ?t = "t\<lparr>rt_restarts := rt_restarts t + 1,
      rt_next_backoff := min (dur_saturating_mul (rt_next_backoff t) 2) mb\<rparr>"
    have step: "tracker_next_delay (at_now a) (at_now' a) t = (Some (rt_next_backoff t), ?t)"
      using open_window Cons.prems False by (simp add: tracker_next_delay_def)
    have rest: "supervise msg rest ?t = supervised msg
        (\<lambda>k. min (ib * 2 ^ (rt_restarts t + Suc k)) mb) (mr - rt_restarts t - 1) rest"
      using Cons.IH [of ?t] Cons.prems False capped_double [of ib mb "rt_restarts t"] by simp
    show ?thesis
    proof (cases "can_retry a")
      case True
      then show ?thesis
        using step rest Cons.prems(6) False
        by (simp add: supervised_retry can_retry_def Let_def case_prod_unfold)
    next
      case stop: False
      then show ?thesis
        using step Cons.prems(6) False
        by (auto simp: supervised_def can_retry_def failure_of_def Let_def split: sum.splits)
    qed
  qed
qed

text \<open>
  C12: supervision within one restart window.  Without a restart policy each of the four loops
  returns the first failure of its worker (its own message when the worker returned \<open>Ok\<close>) and
  waits for nothing; if shutdown was requested by then it returns \<open>Ok\<close>.  With one, it retries
  with the capped doubling delays, and what it returns is exact: once \<open>mr\<close> restarts are used up,
  the failure of the attempt after the last of them; before that \<open>Ok\<close> if shutdown is
  requested or ends a backoff, and the error of a failing rebind.  So it restarts at most \<open>mr\<close>
  times, each after a wait between the initial and the maximum backoff.
\<close>

theorem supervise_request_budget:
  assumes "ib \<le> mb" and "mb \<le> duration_max"
    and "list_all (\<lambda>a. at_now a - start \<le> w) attempts"
  shows "\<forall>(msg, run) \<in> {(''request worker exited unexpectedly'', supervise_request),
      (''encrypted request worker exited unexpectedly'', supervise_encrypted_request),
      (''subscription worker exited unexpectedly'', supervise_subscription),
      (''consumer worker exited unexpectedly'', supervise_consumer)}.
    let k = length (takeWhile can_retry attempts);
        delays = (\<lambda>n. map (\<lambda>j. min (ib * 2 ^ j) mb) [0..<n])
    in run (WRestart ib mb mr w) start attempts =
        (if mr < k \<or> (mr = k \<and> k < length attempts \<and> \<not> at_requested (attempts ! k))
         then (delays mr, Some (Inl (failure_of msg (attempts ! mr))))
         else if k = length attempts then (delays k, None)
         else if at_requested (attempts ! k) then (delays k, Some (Inr ()))
         else (delays (Suc k), Some (if wait_backoff (at_backoff (attempts ! k)) then Inr ()
           else at_rebind (attempts ! k)))) \<and>
      length (fst (run (WRestart ib mb mr w) start attempts)) \<le> mr \<and>
      list_all (\<lambda>d. ib \<le> d \<and> d \<le> mb) (fst (run (WRestart ib mb mr w) start attempts)) \<and>
      (\<forall>policy \<in> {WShutdownApp, WIgnore}. run policy start attempts =
         ([], if attempts = [] then None
              else Some (if at_requested (hd attempts) then Inr ()
                         else Inl (failure_of msg (hd attempts)))))"
proof -
  let ?delays = "\<lambda>n. map (\<lambda>j. min (ib * 2 ^ j) mb) [0..<n]"
  have closed: "supervise msg attempts (tracker_new (WRestart ib mb mr w) start) =
      supervised msg (\<lambda>k. min (ib * 2 ^ k) mb) mr attempts" for msg
    using supervise_in_window [of "tracker_new (WRestart ib mb mr w) start" ib mb mr w attempts msg] assms
    by (simp add: tracker_new_def)
  have count: "length (fst (supervised msg f mr attempts)) \<le> mr" for msg and f :: "nat \<Rightarrow> duration"
    using length_takeWhile_le [of can_retry attempts] by (auto simp: supervised_def Let_def)
  have bounds: "list_all (\<lambda>d. ib \<le> d \<and> d \<le> mb) (?delays n)" for n
    using assms(1) by (auto simp: list_all_iff)
  have within: "list_all (\<lambda>d. ib \<le> d \<and> d \<le> mb)
      (fst (supervised msg (\<lambda>k. min (ib * 2 ^ k) mb) mr attempts))" for msg
    using bounds by (simp add: supervised_def Let_def del: upt_Suc)
  have none: "supervise msg attempts (tracker_new q start) =
      ([], if attempts = [] then None
           else Some (if at_requested (hd attempts) then Inr () else Inl (failure_of msg (hd attempts))))"
    if "q = WShutdownApp \<or> q = WIgnore" for msg q
    using that by (cases attempts)
      (auto simp: tracker_new_def tracker_next_delay_def failure_of_def Let_def split: sum.splits)
  show ?thesis
    using count within none
    by (simp add: supervise_request_def supervise_encrypted_request_def supervise_subscription_def
        supervise_consumer_def closed, simp add: supervised_def Let_def)
qed

definition lost_attempt :: "string \<Rightarrow> instant \<Rightarrow> attempt" where
  "lost_attempt e now =
     \<lparr>at_result = Inl e, at_requested = False, at_now = now, at_now' = now, at_backoff = Slept,
      at_rebind = Inr ()\<rparr>"

theorem supervise_request_budget_witness:
  "supervise_request (WRestart 100 150 2 1000) 0
     [lost_attempt ''a'' 10, lost_attempt ''b'' 20, lost_attempt ''c'' 30, lost_attempt ''d'' 40] =
   ([100, 150], Some (Inl ''c''))"
  using supervise_request_budget [where ib = 100 and mb = 150 and mr = 2 and w = 1000 and start = 0
      and attempts = "[lost_attempt ''a'' 10, lost_attempt ''b'' 20, lost_attempt ''c'' 30,
        lost_attempt ''d'' 40]"]
  by (simp add: lost_attempt_def can_retry_def wait_backoff_def failure_of_def duration_max_def
      upt_rec numeral_2_eq_2)

end
