(* ===== verification/Worker_Loops.thy ===== *)
theory Worker_Loops
  imports App_Config "HOL-Library.Multiset"
begin

text \<open>
  The three worker loops of \<open>nats-micro/src/runtime\<close>: \<open>run_request_endpoint_inner\<close>,
  \<open>run_subscription_with_panic_policy\<close> and \<open>run_consumer_inner\<close>.  One step is one
  iteration of \<open>loop\<close>: a poll says which of the branches of the biased \<open>select!\<close> are
  ready, and the first enabled ready branch in source order is taken.  The contract that
  the three loops share (bounded concurrency, no work accepted after shutdown, no message
  lost, a clean exit only when drained) is the locale \<open>bounded_worker\<close>, interpreted for
  each of them.
\<close>

section \<open>Polls and worker states\<close>

text \<open>
  \<open>po_shutdown\<close> is the result of \<open>shutdown.changed()\<close> when it is ready: \<open>None\<close> if the
  sender is gone, otherwise the state then borrowed.  \<open>po_completed\<close> names the in-flight
  future that \<open>FuturesUnordered::next\<close> yields, by its index, with what its handler did.
\<close>

datatype handler_outcome = HandlerOk | HandlerErr string | HandlerPanic

record 'i poll =
  po_shutdown :: "shutdown_state option option"
  po_completed :: "(nat \<times> handler_outcome) option"
  po_incoming :: "'i option"

record 'm worker_state =
  ws_in_flight :: "'m list"
  ws_accepting :: bool
  ws_accepted :: "'m list"
  ws_completed :: "'m list"

definition worker_start :: "'m worker_state" where
  "worker_start =
     \<lparr>ws_in_flight = [], ws_accepting = True, ws_accepted = [], ws_completed = []\<rparr>"

datatype 'm worker_result =
    Continue "'m worker_state"
  | Returned "string + unit" "'m worker_state"
  | Unwound "'m worker_state"

text \<open>\<open>changed.is_err() || shutdown.borrow().is_requested()\<close>\<close>

definition stop_signal :: "shutdown_state option \<Rightarrow> bool" where
  "stop_signal changed = (case changed of None \<Rightarrow> True | Some s \<Rightarrow> sd_requested s)"

text \<open>
  \<open>handle_completion\<close>, once per worker file with its own wording.  With \<open>Propagate\<close> the
  future is not wrapped in \<open>catch_unwind\<close>, so a panic unwinds the worker itself.
\<close>

definition handle_completion ::
  "string \<Rightarrow> handler_panic_policy \<Rightarrow> handler_outcome \<Rightarrow> (string + unit) option" where
  "handle_completion who policy outcome =
     (case outcome of
        HandlerOk \<Rightarrow> Some (Inr ())
      | HandlerErr e \<Rightarrow> Some (Inl e)
      | HandlerPanic \<Rightarrow>
          (if policy = Propagate then None
           else if policy = LogAndContinue then Some (Inr ())
           else Some (Inl (who @ '' handler panicked''))))"

definition finish_message :: "nat \<Rightarrow> 'm worker_state \<Rightarrow> 'm worker_state" where
  "finish_message i s =
     s\<lparr>ws_in_flight := remove_at i (ws_in_flight s),
       ws_completed := ws_completed s @ [ws_in_flight s ! i]\<rparr>"

definition complete_step ::
  "string \<Rightarrow> handler_panic_policy \<Rightarrow> nat \<Rightarrow> handler_outcome \<Rightarrow> 'm worker_state \<Rightarrow> 'm worker_result"
  where
  "complete_step who policy i outcome s =
     (let s' = finish_message i s
      in case handle_completion who policy outcome of
           None \<Rightarrow> Unwound s'
         | Some (Inl e) \<Rightarrow> Returned (Inl e) s'
         | Some (Inr _) \<Rightarrow> Continue s')"

text \<open>The completion branch is enabled only \<open>if !in_flight.is_empty()\<close>.\<close>

definition ready_completion ::
  "'i poll \<Rightarrow> 'm worker_state \<Rightarrow> (nat \<times> handler_outcome) option" where
  "ready_completion p s =
     (case po_completed p of
        Some (i, outcome) \<Rightarrow> if i < length (ws_in_flight s) then Some (i, outcome) else None
      | None \<Rightarrow> None)"

definition accept_message :: "'m \<Rightarrow> 'm worker_state \<Rightarrow> 'm worker_state" where
  "accept_message m s =
     s\<lparr>ws_in_flight := ws_in_flight s @ [m], ws_accepted := ws_accepted s @ [m]\<rparr>"

definition stop_accepting :: "'m worker_state \<Rightarrow> 'm worker_state" where
  "stop_accepting s = s\<lparr>ws_accepting := False\<rparr>"

section \<open>The three loops\<close>

text \<open>
  \<open>runtime/request_worker.rs\<close>.  \<open>endpoint.next()\<close> yields \<open>None\<close> when its stream ended; an
  error of \<open>endpoint.stop()\<close> is only logged.
\<close>

definition request_worker_step ::
  "nat \<Rightarrow> handler_panic_policy \<Rightarrow> 'm option poll \<Rightarrow> 'm worker_state \<Rightarrow> 'm worker_result" where
  "request_worker_step concurrency policy p s =
     (if \<not> ws_accepting s \<and> ws_in_flight s = [] then Returned (Inr ()) s
      else if ws_accepting s \<and> length (ws_in_flight s) < concurrency then
        (case po_shutdown p of
           Some changed \<Rightarrow> Continue (if stop_signal changed then stop_accepting s else s)
         | None \<Rightarrow>
             (case ready_completion p s of
                Some (i, outcome) \<Rightarrow> complete_step ''request'' policy i outcome s
              | None \<Rightarrow>
                  (case po_incoming p of
                     None \<Rightarrow> Continue s
                   | Some None \<Rightarrow> Returned (Inl ''endpoint stream ended unexpectedly'') s
                   | Some (Some raw) \<Rightarrow> Continue (accept_message raw s))))
      else
        (case (if ws_accepting s then po_shutdown p else None) of
           Some changed \<Rightarrow> Continue (if stop_signal changed then stop_accepting s else s)
         | None \<Rightarrow>
             (case ready_completion p s of
                Some (i, outcome) \<Rightarrow> complete_step ''request'' policy i outcome s
              | None \<Rightarrow> Continue s)))"

text \<open>
  \<open>runtime/subscription_worker.rs\<close>.  \<open>unsubscribe\<close> says whether
  \<open>subscriber.unsubscribe().await?\<close> succeeds when the loop stops accepting.
\<close>

definition subscription_worker_step ::
  "string + unit \<Rightarrow> nat \<Rightarrow> handler_panic_policy \<Rightarrow> 'm option poll \<Rightarrow> 'm worker_state \<Rightarrow>
   'm worker_result" where
  "subscription_worker_step unsubscribe concurrency policy p s =
     (let on_change = (\<lambda>changed.
        if stop_signal changed then
          (case unsubscribe of
             Inl e \<Rightarrow> Returned (Inl e) (stop_accepting s)
           | Inr _ \<Rightarrow> Continue (stop_accepting s))
        else Continue s)
      in if \<not> ws_accepting s \<and> ws_in_flight s = [] then Returned (Inr ()) s
         else if ws_accepting s \<and> length (ws_in_flight s) < concurrency then
           (case po_shutdown p of
              Some changed \<Rightarrow> on_change changed
            | None \<Rightarrow>
                (case ready_completion p s of
                   Some (i, outcome) \<Rightarrow> complete_step ''subscription'' policy i outcome s
                 | None \<Rightarrow>
                     (case po_incoming p of
                        None \<Rightarrow> Continue s
                      | Some None \<Rightarrow> Returned (Inl ''subscription stream ended unexpectedly'') s
                      | Some (Some message) \<Rightarrow> Continue (accept_message message s))))
         else
           (case (if ws_accepting s then po_shutdown p else None) of
              Some changed \<Rightarrow> on_change changed
            | None \<Rightarrow>
                (case ready_completion p s of
                   Some (i, outcome) \<Rightarrow> complete_step ''subscription'' policy i outcome s
                 | None \<Rightarrow> Continue s)))"

text \<open>
  \<open>runtime/consumer_worker.rs\<close>.  \<open>messages.next()\<close> may also yield a receive error, which is
  logged and skipped.
\<close>

definition consumer_worker_step ::
  "nat \<Rightarrow> handler_panic_policy \<Rightarrow> (string + 'm) option poll \<Rightarrow> 'm worker_state \<Rightarrow>
   'm worker_result" where
  "consumer_worker_step concurrency policy p s =
     (if \<not> ws_accepting s \<and> ws_in_flight s = [] then Returned (Inr ()) s
      else if ws_accepting s \<and> length (ws_in_flight s) < concurrency then
        (case po_shutdown p of
           Some changed \<Rightarrow> Continue (if stop_signal changed then stop_accepting s else s)
         | None \<Rightarrow>
             (case ready_completion p s of
                Some (i, outcome) \<Rightarrow> complete_step ''consumer'' policy i outcome s
              | None \<Rightarrow>
                  (case po_incoming p of
                     None \<Rightarrow> Continue s
                   | Some None \<Rightarrow> Returned (Inl ''consumer message stream ended unexpectedly'') s
                   | Some (Some (Inl _)) \<Rightarrow> Continue s
                   | Some (Some (Inr message)) \<Rightarrow> Continue (accept_message message s))))
      else
        (case (if ws_accepting s then po_shutdown p else None) of
           Some changed \<Rightarrow> Continue (if stop_signal changed then stop_accepting s else s)
         | None \<Rightarrow>
             (case ready_completion p s of
                Some (i, outcome) \<Rightarrow> complete_step ''consumer'' policy i outcome s
              | None \<Rightarrow> Continue s)))"

text \<open>
  A run over a sequence of polls; \<open>Continue\<close> means the loop is still waiting.  The public
  entry points check \<open>concurrency > 0\<close> first.
\<close>

fun worker_run ::
  "('i poll \<Rightarrow> 'm worker_state \<Rightarrow> 'm worker_result) \<Rightarrow> 'i poll list \<Rightarrow> 'm worker_state \<Rightarrow>
   'm worker_result" where
  "worker_run step [] s = Continue s"
| "worker_run step (p # ps) s =
     (case step p s of Continue s' \<Rightarrow> worker_run step ps s' | r \<Rightarrow> r)"

definition run_request_endpoint ::
  "nat \<Rightarrow> handler_panic_policy \<Rightarrow> 'm option poll list \<Rightarrow> 'm worker_result" where
  "run_request_endpoint concurrency policy polls =
     (if concurrency = 0 then Returned (Inl ''endpoint concurrency must be non-zero'') worker_start
      else worker_run (request_worker_step concurrency policy) polls worker_start)"

definition run_subscription ::
  "string + unit \<Rightarrow> nat \<Rightarrow> handler_panic_policy \<Rightarrow> 'm option poll list \<Rightarrow> 'm worker_result" where
  "run_subscription unsubscribe concurrency policy polls =
     (if concurrency = 0
      then Returned (Inl ''subscription concurrency must be non-zero'') worker_start
      else worker_run (subscription_worker_step unsubscribe concurrency policy) polls worker_start)"

definition run_consumer ::
  "nat \<Rightarrow> handler_panic_policy \<Rightarrow> (string + 'm) option poll list \<Rightarrow> 'm worker_result" where
  "run_consumer concurrency policy polls =
     (if concurrency = 0 then Returned (Inl ''consumer concurrency must be non-zero'') worker_start
      else worker_run (consumer_worker_step concurrency policy) polls worker_start)"

section \<open>The shared contract\<close>

definition worker_inv :: "nat \<Rightarrow> 'm worker_state \<Rightarrow> bool" where
  "worker_inv c s \<longleftrightarrow>
     length (ws_in_flight s) \<le> c \<and>
     mset (ws_accepted s) = mset (ws_in_flight s) + mset (ws_completed s)"

definition result_state :: "'m worker_result \<Rightarrow> 'm worker_state" where
  "result_state r = (case r of Continue s \<Rightarrow> s | Returned _ s \<Rightarrow> s | Unwound s \<Rightarrow> s)"

lemma result_state_simps [simp]:
  "result_state (Continue s) = s" "result_state (Returned e s) = s" "result_state (Unwound s) = s"
  by (simp_all add: result_state_def)

lemma ready_completion_Some:
  "ready_completion p s = Some (i, outcome) \<Longrightarrow> i < length (ws_in_flight s)"
  by (auto simp: ready_completion_def split: option.splits if_splits)

lemma mset_remove_at: "i < length xs \<Longrightarrow> mset xs = mset (remove_at i xs) + {#xs ! i#}"
  by (simp add: remove_at_def id_take_nth_drop [symmetric] flip: mset_append)
    (metis append_Cons append_Nil id_take_nth_drop mset.simps(2) mset_append union_mset_add_mset_right)

lemma finish_message_inv:
  "worker_inv c s \<Longrightarrow> i < length (ws_in_flight s) \<Longrightarrow> worker_inv c (finish_message i s)"
  using mset_remove_at [of i "ws_in_flight s"] by (auto simp: worker_inv_def finish_message_def)

lemma finish_message_simps [simp]:
  "ws_accepting (finish_message i s) = ws_accepting s"
  "ws_accepted (finish_message i s) = ws_accepted s"
  by (simp_all add: finish_message_def)

text \<open>
  Draining.  \<open>completing n qs\<close> are the outcomes that the polls \<open>qs\<close> yield for \<open>n\<close> futures in
  flight, whichever of them is ready at a poll; a poll may also yield none.  \<open>drain_ends\<close> says
  how a drain with these outcomes ends: at the first one that the panic policy does not let
  pass, with it; otherwise, when all \<open>n\<close> are there, with \<open>Ok\<close> and no message lost.
\<close>

fun completing :: "nat \<Rightarrow> 'i poll list \<Rightarrow> handler_outcome list" where
  "completing 0 qs = []"
| "completing (Suc n) [] = []"
| "completing (Suc n) (q # qs) =
     (case po_completed q of
        None \<Rightarrow> completing (Suc n) qs
      | Some (i, outcome) \<Rightarrow>
          if i < Suc n then outcome # completing n qs else completing (Suc n) qs)"

definition drain_ends ::
  "string \<Rightarrow> handler_panic_policy \<Rightarrow> nat \<Rightarrow> handler_outcome list \<Rightarrow> 'm worker_result \<Rightarrow> bool" where
  "drain_ends who policy n outcomes r \<longleftrightarrow>
     (case dropWhile (\<lambda>out. handle_completion who policy out = Some (Inr ())) outcomes of
        [] \<Rightarrow> length outcomes = n \<longrightarrow>
          r = Returned (Inr ()) (result_state r) \<and>
          mset (ws_completed (result_state r)) = mset (ws_accepted (result_state r))
      | out # _ \<Rightarrow>
          r = (case handle_completion who policy out of
                 Some e \<Rightarrow> Returned e (result_state r)
               | None \<Rightarrow> Unwound (result_state r)))"

lemma drain_ends_Cons:
  "handle_completion who policy out = Some (Inr ()) \<Longrightarrow>
   drain_ends who policy (Suc n) (out # outcomes) r = drain_ends who policy n outcomes r"
  by (cases "dropWhile (\<lambda>out. handle_completion who policy out = Some (Inr ())) outcomes")
    (simp_all add: drain_ends_def del: dropWhile_eq_Nil_conv)

lemma completing_Nil [simp]: "completing n [] = []"
  by (cases n) simp_all

lemma completing_idle:
  "ready_completion p s = None \<Longrightarrow>
   completing (length (ws_in_flight s)) (p # qs) = completing (length (ws_in_flight s)) qs"
  by (cases "length (ws_in_flight s)") (auto simp: ready_completion_def split: option.splits if_splits)

lemma completing_ready:
  "ready_completion p s = Some (i, out) \<Longrightarrow> length (ws_in_flight s) = Suc n \<Longrightarrow>
   completing (length (ws_in_flight s)) (p # qs) = out # completing n qs"
  by (auto simp: ready_completion_def split: option.splits if_splits)

lemma finish_message_length:
  "i < length (ws_in_flight s) \<Longrightarrow>
   length (ws_in_flight s) = Suc (length (ws_in_flight (finish_message i s)))"
  by (auto simp: finish_message_def remove_at_def)

locale bounded_worker =
  fixes step :: "'i poll \<Rightarrow> 'm worker_state \<Rightarrow> 'm worker_result" and capacity :: nat
    and who :: string and policy :: handler_panic_policy
  assumes step_inv: "worker_inv capacity s \<Longrightarrow> worker_inv capacity (result_state (step p s))"
    and step_closed: "\<not> ws_accepting s \<Longrightarrow>
      \<not> ws_accepting (result_state (step p s)) \<and>
      ws_accepted (result_state (step p s)) = ws_accepted s"
    and step_exit: "step p s = Returned (Inr u) s' \<Longrightarrow> \<not> ws_accepting s' \<and> ws_in_flight s' = []"
    and step_drain: "\<not> ws_accepting s \<Longrightarrow> ws_in_flight s \<noteq> [] \<Longrightarrow>
      step p s = (case ready_completion p s of
          None \<Rightarrow> Continue s
        | Some (i, outcome) \<Rightarrow> complete_step who policy i outcome s)"
    and step_done: "\<not> ws_accepting s \<Longrightarrow> ws_in_flight s = [] \<Longrightarrow> step p s = Returned (Inr ()) s"
begin

lemma run_inv: "worker_inv capacity s \<Longrightarrow> worker_inv capacity (result_state (worker_run step ps s))"
proof (induction ps arbitrary: s)
  case Nil
  then show ?case by simp
next
  case (Cons p ps)
  then show ?case using step_inv [of s p] by (cases "step p s") auto
qed

lemma run_closed:
  "\<not> ws_accepting s \<Longrightarrow>
   \<not> ws_accepting (result_state (worker_run step ps s)) \<and>
   ws_accepted (result_state (worker_run step ps s)) = ws_accepted s"
proof (induction ps arbitrary: s)
  case Nil
  then show ?case by simp
next
  case (Cons p ps)
  then show ?case using step_closed [of s p] by (cases "step p s") auto
qed

lemma run_exit:
  "worker_inv capacity s \<Longrightarrow> worker_run step ps s = Returned (Inr u) s' \<Longrightarrow>
   mset (ws_completed s') = mset (ws_accepted s') \<and> \<not> ws_accepting s'"
proof (induction ps arbitrary: s)
  case Nil
  then show ?case by simp
next
  case (Cons p ps)
  show ?case
  proof (cases "step p s")
    case (Continue s1)
    then show ?thesis using Cons step_inv [of s p] by simp
  next
    case (Returned r s1)
    then have e: "step p s = Returned (Inr u) s'" using Cons.prems by simp
    then show ?thesis
      using step_exit [OF e] step_inv [OF Cons.prems(1), of p] by (simp add: worker_inv_def)
  next
    case (Unwound s1)
    then show ?thesis using Cons.prems by simp
  qed
qed

lemma drain_run:
  assumes "\<not> ws_accepting s" and "worker_inv capacity s"
  shows "drain_ends who policy (length (ws_in_flight s))
    (completing (length (ws_in_flight s)) qs) (worker_run step (qs @ [q]) s)"
  using assms
proof (induction qs arbitrary: s)
  case Nil
  then show ?case
    using step_done [of s q] run_exit [of s "[q]"]
    by (cases "ws_in_flight s") (auto simp: drain_ends_def)
next
  case (Cons p qs)
  let ?n = "length (ws_in_flight s)"
  show ?case
  proof (cases "ws_in_flight s = []")
    case True
    then show ?thesis
      using step_done [OF Cons.prems(1) True] run_exit [OF Cons.prems(2), of "p # qs @ [q]"]
      by (simp add: drain_ends_def)
  next
    case busy: False
    note st = step_drain [OF Cons.prems(1) busy, of p]
    show ?thesis
    proof (cases "ready_completion p s")
      case None
      then show ?thesis using Cons.IH [OF Cons.prems] st completing_idle [OF None] by simp
    next
      case (Some io)
      then obtain i out where ready: "ready_completion p s = Some (i, out)" by (cases io) auto
      have len: "?n = Suc (length (ws_in_flight (finish_message i s)))"
        using finish_message_length [OF ready_completion_Some [OF ready]] .
      have inv: "worker_inv capacity (finish_message i s)"
        by (rule finish_message_inv [OF Cons.prems(2) ready_completion_Some [OF ready]])
      have os: "completing ?n (p # qs) =
          out # completing (length (ws_in_flight (finish_message i s))) qs"
        by (rule completing_ready [OF ready len])
      show ?thesis
      proof (cases "handle_completion who policy out = Some (Inr ())")
        case True
        then have "step p s = Continue (finish_message i s)"
          using st ready by (simp add: complete_step_def Let_def)
        then show ?thesis
          using Cons.IH [of "finish_message i s"] Cons.prems(1) inv os len True
          by (simp add: drain_ends_Cons)
      next
        case False
        then show ?thesis
          using st ready os by (cases "handle_completion who policy out")
            (auto simp: drain_ends_def complete_step_def Let_def split: sum.splits)
      qed
    qed
  qed
qed

end

lemma worker_run_append:
  "worker_run step (ps @ qs) s =
     (case worker_run step ps s of Continue s' \<Rightarrow> worker_run step qs s' | r \<Rightarrow> r)"
  by (induction ps arbitrary: s) (auto split: worker_result.splits)

definition shutdown_poll :: "'i poll \<Rightarrow> bool" where
  "shutdown_poll p \<longleftrightarrow> (case po_shutdown p of Some changed \<Rightarrow> stop_signal changed | None \<Rightarrow> False)"

locale stopping_worker = bounded_worker +
  assumes step_stop: "ws_accepting s \<Longrightarrow> po_shutdown p = Some changed \<Longrightarrow> stop_signal changed \<Longrightarrow>
      step p s = Continue (stop_accepting s)"
begin

lemma shutdown_drains:
  assumes "worker_run step ps s0 = Continue s" "ws_accepting s"
    and "shutdown_poll p" and "worker_inv capacity s0"
  shows "drain_ends who policy (length (ws_in_flight s)) (completing (length (ws_in_flight s)) qs)
    (worker_run step (ps @ p # qs @ [q]) s0)"
proof -
  obtain changed where "po_shutdown p = Some changed" "stop_signal changed"
    using assms(3) by (auto simp: shutdown_poll_def split: option.splits)
  then have run: "worker_run step (ps @ p # qs @ [q]) s0 =
      worker_run step (qs @ [q]) (stop_accepting s)"
    using assms(1,2) by (simp add: worker_run_append step_stop)
  have "worker_inv capacity s" using run_inv [OF assms(4), of ps] assms(1) by simp
  then show ?thesis
    using drain_run [of "stop_accepting s" qs q] run by (simp add: stop_accepting_def worker_inv_def)
qed

end

section \<open>The loops meet the contract\<close>

lemma worker_start_inv [simp]: "worker_inv c worker_start"
  by (simp add: worker_inv_def worker_start_def)

lemma accept_message_inv:
  "worker_inv c s \<Longrightarrow> length (ws_in_flight s) < c \<Longrightarrow> worker_inv c (accept_message m s)"
  by (simp add: worker_inv_def accept_message_def)

lemma stop_accepting_inv [simp]: "worker_inv c (stop_accepting s) = worker_inv c s"
  by (simp add: worker_inv_def stop_accepting_def)

lemma complete_step_cases:
  obtains "complete_step who policy i outcome s = Unwound (finish_message i s)"
  | e where "complete_step who policy i outcome s = Returned (Inl e) (finish_message i s)"
  | "complete_step who policy i outcome s = Continue (finish_message i s)"
proof (cases "handle_completion who policy outcome")
  case None
  then show ?thesis using that(1) by (simp add: complete_step_def Let_def)
next
  case (Some r)
  then show ?thesis using that(2,3) by (cases r) (simp_all add: complete_step_def Let_def)
qed

lemma complete_step_state [simp]:
  "result_state (complete_step who policy i outcome s) = finish_message i s"
  by (rule complete_step_cases [of who policy i outcome s]) simp_all

lemma complete_step_not_ok [simp]:
  "complete_step who policy i outcome s \<noteq> Returned (Inr u) s'"
  by (rule complete_step_cases [of who policy i outcome s]) simp_all

lemma complete_step_ok [simp]:
  "complete_step who policy i HandlerOk s = Continue (finish_message i s)"
  by (simp add: complete_step_def handle_completion_def)

lemmas worker_step_rules = finish_message_inv accept_message_inv

interpretation req: bounded_worker "request_worker_step concurrency policy" concurrency
  "''request''" policy
proof unfold_locales
  fix p :: "'m option poll" and s :: "'m worker_state"
  assume "worker_inv concurrency s"
  then show "worker_inv concurrency (result_state (request_worker_step concurrency policy p s))"
    by (auto simp: request_worker_step_def intro: worker_step_rules dest: ready_completion_Some
        split: option.splits)
qed (auto simp: request_worker_step_def ready_completion_def stop_accepting_def split: option.splits if_splits)

interpretation sub: bounded_worker "subscription_worker_step unsubscribe concurrency policy" concurrency
  "''subscription''" policy
proof unfold_locales
  fix p :: "'m option poll" and s :: "'m worker_state"
  assume "worker_inv concurrency s"
  then show "worker_inv concurrency
      (result_state (subscription_worker_step unsubscribe concurrency policy p s))"
    by (auto simp: subscription_worker_step_def Let_def intro: worker_step_rules
        dest: ready_completion_Some split: option.splits sum.splits)
qed (auto simp: subscription_worker_step_def Let_def ready_completion_def stop_accepting_def
    split: option.splits if_splits sum.splits)

interpretation con: bounded_worker "consumer_worker_step concurrency policy" concurrency
  "''consumer''" policy
proof unfold_locales
  fix p :: "(string + 'm) option poll" and s :: "'m worker_state"
  assume "worker_inv concurrency s"
  then show "worker_inv concurrency (result_state (consumer_worker_step concurrency policy p s))"
    by (auto simp: consumer_worker_step_def intro: worker_step_rules dest: ready_completion_Some
        split: option.splits sum.splits)
qed (auto simp: consumer_worker_step_def ready_completion_def stop_accepting_def
    split: option.splits if_splits sum.splits)

interpretation req_stop: stopping_worker "request_worker_step concurrency policy" concurrency
  "''request''" policy
  by unfold_locales (auto simp: request_worker_step_def)

interpretation sub_stop:
  stopping_worker "subscription_worker_step (Inr ()) concurrency policy" concurrency
  "''subscription''" policy
  by unfold_locales (auto simp: subscription_worker_step_def Let_def)

interpretation con_stop: stopping_worker "consumer_worker_step concurrency policy" concurrency
  "''consumer''" policy
  by unfold_locales (auto simp: consumer_worker_step_def)

section \<open>Properties of the three entry points\<close>

lemmas run_endpoint_defs = run_request_endpoint_def run_subscription_def run_consumer_def

lemma run_endpoint_inv:
  "worker_inv concurrency (result_state (run_request_endpoint concurrency policy requests))"
  "worker_inv concurrency (result_state (run_subscription unsub concurrency policy messages))"
  "worker_inv concurrency (result_state (run_consumer concurrency policy deliveries))"
  by (simp_all add: run_endpoint_defs req.run_inv sub.run_inv con.run_inv)

text \<open>
  C5: however the shutdown signal, the completions and the arrivals interleave, each of the
  three workers has at most \<open>concurrency\<close> messages in flight, and every message it accepted
  is either in flight or completed, exactly once.
\<close>

theorem workers_bounded_and_lossless:
  "worker_inv concurrency (result_state (run_request_endpoint concurrency policy requests)) \<and>
   worker_inv concurrency (result_state (run_subscription unsub concurrency policy messages)) \<and>
   worker_inv concurrency (result_state (run_consumer concurrency policy deliveries))"
  by (simp add: run_endpoint_inv)

definition demo_polls :: "string option poll list" where
  "demo_polls =
     [\<lparr>po_shutdown = None, po_completed = None, po_incoming = Some (Some ''a'')\<rparr>,
      \<lparr>po_shutdown = None, po_completed = None, po_incoming = Some (Some ''b'')\<rparr>,
      \<lparr>po_shutdown = Some None, po_completed = Some (1, HandlerOk), po_incoming = None\<rparr>,
      \<lparr>po_shutdown = None, po_completed = Some (0, HandlerOk), po_incoming = Some (Some ''c'')\<rparr>,
      \<lparr>po_shutdown = None, po_completed = Some (0, HandlerOk), po_incoming = None\<rparr>,
      \<lparr>po_shutdown = None, po_completed = None, po_incoming = None\<rparr>]"

lemmas worker_eval =
  demo_polls_def worker_start_def stop_signal_def stop_accepting_def
  accept_message_def ready_completion_def finish_message_def remove_at_def

lemma demo_polls_run:
  "run_request_endpoint 2 FailWorker demo_polls =
     Returned (Inr ()) \<lparr>ws_in_flight = [], ws_accepting = False,
       ws_accepted = [''a'', ''b''], ws_completed = [''a'', ''b'']\<rparr>"
  by (simp add: run_request_endpoint_def request_worker_step_def worker_eval)

text \<open>
  C10: a worker that returns without an error has been told to stop and has completed every
  message it ever accepted; its messages are lost only on an error or a propagated panic.
\<close>

theorem workers_exit_only_when_drained:
  assumes "run_request_endpoint concurrency policy requests = Returned (Inr ()) s \<or>
    run_subscription unsub concurrency policy messages = Returned (Inr ()) s \<or>
    run_consumer concurrency policy deliveries = Returned (Inr ()) s"
  shows "mset (ws_completed s) = mset (ws_accepted s) \<and> \<not> ws_accepting s"
  using assms
proof (elim disjE)
  assume "run_request_endpoint concurrency policy requests = Returned (Inr ()) s"
  then show ?thesis
    using req.run_exit [OF worker_start_inv, of concurrency policy requests]
    by (simp add: run_request_endpoint_def split: if_splits)
next
  assume "run_subscription unsub concurrency policy messages = Returned (Inr ()) s"
  then show ?thesis
    using sub.run_exit [OF worker_start_inv, of unsub concurrency policy messages]
    by (simp add: run_subscription_def split: if_splits)
next
  assume "run_consumer concurrency policy deliveries = Returned (Inr ()) s"
  then show ?thesis
    using con.run_exit [OF worker_start_inv, of concurrency policy deliveries]
    by (simp add: run_consumer_def split: if_splits)
qed

theorem workers_exit_only_when_drained_witness:
  "\<exists>s. run_request_endpoint 2 FailWorker demo_polls = Returned (Inr ()) s \<and>
     mset (ws_completed s) = mset (ws_accepted s) \<and> \<not> ws_accepting s"
  using workers_exit_only_when_drained [OF disjI1, OF demo_polls_run] demo_polls_run by blast

lemma request_shutdown_drains:
  assumes "run_request_endpoint concurrency policy ps = Continue s" "ws_accepting s" "shutdown_poll p"
  shows "drain_ends ''request'' policy (length (ws_in_flight s))
    (completing (length (ws_in_flight s)) qs)
    (run_request_endpoint concurrency policy (ps @ p # qs @ [q]))"
  using assms req_stop.shutdown_drains [OF _ _ _ worker_start_inv, of concurrency policy ps s p qs q]
  by (auto simp: run_request_endpoint_def split: if_splits)

lemma subscription_shutdown_drains:
  assumes "run_subscription (Inr ()) concurrency policy ps = Continue s" "ws_accepting s" "shutdown_poll p"
  shows "drain_ends ''subscription'' policy (length (ws_in_flight s))
    (completing (length (ws_in_flight s)) qs)
    (run_subscription (Inr ()) concurrency policy (ps @ p # qs @ [q]))"
  using assms sub_stop.shutdown_drains [OF _ _ _ worker_start_inv, of concurrency policy ps s p qs q]
  by (auto simp: run_subscription_def split: if_splits)

lemma consumer_shutdown_drains:
  assumes "run_consumer concurrency policy ps = Continue s" "ws_accepting s" "shutdown_poll p"
  shows "drain_ends ''consumer'' policy (length (ws_in_flight s))
    (completing (length (ws_in_flight s)) qs)
    (run_consumer concurrency policy (ps @ p # qs @ [q]))"
  using assms con_stop.shutdown_drains [OF _ _ _ worker_start_inv, of concurrency policy ps s p qs q]
  by (auto simp: run_consumer_def split: if_splits)

text \<open>
  C11: shutdown is live.  Let the signal reach a worker that is still accepting (and, for a
  subscription, let its unsubscribe succeed), and let its in-flight handlers then finish in any
  order and at any polls, whatever else arrives meanwhile.  When all of them have finished and the
  panic policy lets each outcome pass, the worker returns \<open>Ok\<close> and every message it accepted was
  completed; at the first outcome that does not pass it ends with that failure.
\<close>

theorem workers_shutdown_drains:
  fixes ps :: "'m option poll list" and ds :: "(string + 'm) option poll list"
  shows "(\<forall>(who, run) \<in> {(''request'', run_request_endpoint concurrency policy),
              (''subscription'', run_subscription (Inr ()) concurrency policy)}.
           run ps = Continue s \<longrightarrow> ws_accepting s \<longrightarrow> shutdown_poll p \<longrightarrow>
           drain_ends who policy (length (ws_in_flight s))
             (completing (length (ws_in_flight s)) qs) (run (ps @ p # qs @ [q]))) \<and>
    (run_consumer concurrency policy ds = Continue d \<longrightarrow> ws_accepting d \<longrightarrow> shutdown_poll p' \<longrightarrow>
       drain_ends ''consumer'' policy (length (ws_in_flight d))
         (completing (length (ws_in_flight d)) qs') (run_consumer concurrency policy (ds @ p' # qs' @ [q'])))"
  using request_shutdown_drains [of concurrency policy ps s p qs q]
    subscription_shutdown_drains [of concurrency policy ps s p qs q]
    consumer_shutdown_drains [of concurrency policy ds d p' qs' q'] by simp

definition late_polls :: "string option poll list" where
  "late_polls =
     [\<lparr>po_shutdown = None, po_completed = None, po_incoming = Some (Some ''c'')\<rparr>,
      \<lparr>po_shutdown = None, po_completed = Some (1, HandlerOk), po_incoming = None\<rparr>,
      \<lparr>po_shutdown = None, po_completed = None, po_incoming = None\<rparr>,
      \<lparr>po_shutdown = None, po_completed = Some (0, HandlerOk), po_incoming = None\<rparr>]"

theorem workers_shutdown_drains_witness:
  "\<exists>s'. run_request_endpoint 2 FailWorker (take 3 demo_polls @ late_polls @ [demo_polls ! 5]) =
       Returned (Inr ()) s' \<and> mset (ws_completed s') = mset (ws_accepted s')"
proof -
  define s where "s = \<lparr>ws_in_flight = [''a'', ''b''], ws_accepting = True,
    ws_accepted = [''a'', ''b''], ws_completed = []\<rparr>"
  have run: "run_request_endpoint 2 FailWorker (take 2 demo_polls) = Continue s"
    by (simp add: run_request_endpoint_def request_worker_step_def worker_eval s_def)
  have qs: "completing (length (ws_in_flight s)) late_polls = [HandlerOk, HandlerOk]"
    by (simp add: late_polls_def s_def numeral_2_eq_2)
  have "drain_ends ''request'' FailWorker 2 [HandlerOk, HandlerOk]
      (run_request_endpoint 2 FailWorker (take 2 demo_polls @ demo_polls ! 2 # late_polls @ [demo_polls ! 5]))"
    using workers_shutdown_drains [of 2 FailWorker "take 2 demo_polls" s "demo_polls ! 2"
        late_polls "demo_polls ! 5" "[]" worker_start
        "\<lparr>po_shutdown = None, po_completed = None, po_incoming = None\<rparr>" "[]"] run qs
    by (simp add: s_def shutdown_poll_def stop_signal_def demo_polls_def numeral_2_eq_2)
  then show ?thesis
    by (auto simp: drain_ends_def handle_completion_def demo_polls_def numeral_2_eq_2 numeral_3_eq_3)
qed

end
