(* ===== verification/Error_Responses.thy ===== *)
theory Error_Responses
  imports Prelude Framework_Errors
begin

text \<open>
  \<open>nats-micro/src/error.rs\<close> and the error conversions of \<open>auth.rs\<close>: the wire error
  \<open>NatsErrorResponse\<close> (with a parameter \<open>'j\<close> for \<open>serde_json::Value\<close>), the client error
  type with its constructors and accessors, the two conversion traits and their instances.
  The traits are the locales \<open>into_nats_error_trait\<close> (the request id is the one given) and
  \<open>from_nats_error_trait\<close> (an untyped match keeps the response), interpreted for every
  instance of the source.
\<close>

section \<open>NatsErrorResponse\<close>

record 'j nats_error_response =
  er_code :: nat
  er_kind :: string
  er_message :: string
  er_request_id :: string
  er_details :: "'j option"

definition error_new :: "nat \<Rightarrow> string \<Rightarrow> string \<Rightarrow> string \<Rightarrow> 'j nats_error_response" where
  "error_new code kind message request_id =
     \<lparr>er_code = code, er_kind = kind, er_message = message, er_request_id = request_id,
      er_details = None\<rparr>"

definition with_details :: "'j \<Rightarrow> 'j nats_error_response \<Rightarrow> 'j nats_error_response" where
  "with_details details r = r\<lparr>er_details := Some details\<rparr>"

definition with_request_id :: "string \<Rightarrow> 'j nats_error_response \<Rightarrow> 'j nats_error_response" where
  "with_request_id request_id r = r\<lparr>er_request_id := request_id\<rparr>"

definition bad_request :: "string \<Rightarrow> string \<Rightarrow> 'j nats_error_response" where
  "bad_request error message = error_new 400 error message ''''"

definition unauthorized :: "string \<Rightarrow> string \<Rightarrow> 'j nats_error_response" where
  "unauthorized error message = error_new 401 error message ''''"

definition forbidden :: "string \<Rightarrow> string \<Rightarrow> 'j nats_error_response" where
  "forbidden error message = error_new 403 error message ''''"

definition not_found :: "string \<Rightarrow> string \<Rightarrow> 'j nats_error_response" where
  "not_found error message = error_new 404 error message ''''"

definition internal :: "string \<Rightarrow> string \<Rightarrow> 'j nats_error_response" where
  "internal error message = error_new 500 error message ''''"

definition framework :: "framework_error \<Rightarrow> string \<Rightarrow> 'j nats_error_response" where
  "framework error message =
     error_new (framework_status error) (framework_as_code error) message ''''"

definition transport :: "transport_error \<Rightarrow> string \<Rightarrow> 'j nats_error_response" where
  "transport error message =
     error_new (transport_status error) (transport_as_code error) message ''''"

definition error_display :: "'j nats_error_response \<Rightarrow> string" where
  "error_display r = ''['' @ show_nat (er_code r) @ ''] '' @ er_kind r @ '': '' @ er_message r"

lemma error_new_sel [simp]:
  "er_code (error_new c k m r) = c" "er_kind (error_new c k m r) = k"
  "er_message (error_new c k m r) = m" "er_request_id (error_new c k m r) = r"
  "er_details (error_new c k m r) = None"
  by (simp_all add: error_new_def)

lemma framework_sel [simp]:
  "er_code (framework e m) = framework_status e" "er_kind (framework e m) = framework_as_code e"
  "er_message (framework e m) = m" "er_request_id (framework e m) = ''''"
  "er_details (framework e m) = None"
  by (simp_all add: framework_def)

lemma with_request_id_sel [simp]:
  "er_code (with_request_id i r) = er_code r" "er_kind (with_request_id i r) = er_kind r"
  "er_message (with_request_id i r) = er_message r" "er_request_id (with_request_id i r) = i"
  "er_details (with_request_id i r) = er_details r"
  by (simp_all add: with_request_id_def)

lemma with_details_sel [simp]:
  "er_code (with_details d r) = er_code r" "er_kind (with_details d r) = er_kind r"
  "er_message (with_details d r) = er_message r"
  "er_request_id (with_details d r) = er_request_id r"
  "er_details (with_details d r) = Some d"
  by (simp_all add: with_details_def)

section \<open>Rebuilding a typed error\<close>

datatype ('j, 'e) service_error_match = Typed 'e | Untyped "'j nats_error_response"

definition from_response_self ::
  "'j nats_error_response \<Rightarrow> ('j, 'j nats_error_response) service_error_match" where
  "from_response_self response = Typed response"

text \<open>\<open>anyhow::Error\<close> is its message.\<close>

definition from_response_anyhow ::
  "'j nats_error_response \<Rightarrow> ('j, string) service_error_match" where
  "from_response_anyhow response = Typed (error_display response)"

definition from_response_unit :: "'j nats_error_response \<Rightarrow> ('j, unit) service_error_match" where
  "from_response_unit response = Untyped response"

datatype 'j client_transport_error =
    CtRequest "'j nats_error_response"
  | CtSerialize "'j nats_error_response"
  | CtDeserialize "'j nats_error_response"
  | CtDecrypt "'j nats_error_response"
  | CtInvalidResponse "'j nats_error_response"

primrec transport_response :: "'j client_transport_error \<Rightarrow> 'j nats_error_response" where
  "transport_response (CtRequest response) = response"
| "transport_response (CtSerialize response) = response"
| "transport_response (CtDeserialize response) = response"
| "transport_response (CtDecrypt response) = response"
| "transport_response (CtInvalidResponse response) = response"

datatype ('j, 'e) client_error =
    Service 'e "'j nats_error_response"
  | ServiceResponse "'j nats_error_response"
  | Transport "'j client_transport_error"

definition from_service_response ::
  "('j nats_error_response \<Rightarrow> ('j, 'e) service_error_match) \<Rightarrow> 'j nats_error_response \<Rightarrow>
   ('j, 'e) client_error" where
  "from_service_response from_nats_error_response response =
     (case from_nats_error_response response of
        Typed error \<Rightarrow> Service error response
      | Untyped response' \<Rightarrow> ServiceResponse response')"

definition client_error_request :: "'j nats_error_response \<Rightarrow> ('j, 'e) client_error" where
  "client_error_request response = Transport (CtRequest response)"

definition client_serialize :: "'j nats_error_response \<Rightarrow> ('j, 'e) client_error" where
  "client_serialize response = Transport (CtSerialize response)"

definition client_deserialize :: "'j nats_error_response \<Rightarrow> ('j, 'e) client_error" where
  "client_deserialize response = Transport (CtDeserialize response)"

definition client_decrypt :: "'j nats_error_response \<Rightarrow> ('j, 'e) client_error" where
  "client_decrypt response = Transport (CtDecrypt response)"

definition client_invalid_response :: "'j nats_error_response \<Rightarrow> ('j, 'e) client_error" where
  "client_invalid_response response = Transport (CtInvalidResponse response)"

primrec as_nats_error_response :: "('j, 'e) client_error \<Rightarrow> 'j nats_error_response option" where
  "as_nats_error_response (Service error response) = Some response"
| "as_nats_error_response (ServiceResponse response) = Some response"
| "as_nats_error_response (Transport error) = Some (transport_response error)"

primrec into_nats_error_response :: "('j, 'e) client_error \<Rightarrow> 'j nats_error_response" where
  "into_nats_error_response (Service error response) = response"
| "into_nats_error_response (ServiceResponse response) = response"
| "into_nats_error_response (Transport error) = transport_response error"

lemmas client_error_defs =
  client_error_request_def client_serialize_def client_deserialize_def client_decrypt_def
  client_invalid_response_def

locale from_nats_error_trait =
  fixes from_response :: "'j nats_error_response \<Rightarrow> ('j, 'e) service_error_match"
  assumes untyped_keeps: "from_response r = Untyped r' \<Longrightarrow> r' = r"
begin

lemma service_response_kept:
  "into_nats_error_response (from_service_response from_response r) = r \<and>
   as_nats_error_response (from_service_response from_response r) = Some r"
  by (auto simp: from_service_response_def split: service_error_match.splits dest: untyped_keeps)

lemma service_response_not_transport:
  "from_service_response from_response r \<noteq> Transport e"
  by (simp add: from_service_response_def split: service_error_match.splits)

end

interpretation resp_self: from_nats_error_trait from_response_self
  by unfold_locales (simp add: from_response_self_def)

interpretation resp_anyhow: from_nats_error_trait from_response_anyhow
  by unfold_locales (simp add: from_response_anyhow_def)

interpretation resp_unit: from_nats_error_trait from_response_unit
  by unfold_locales (simp add: from_response_unit_def)

section \<open>Errors on their way to the wire\<close>

text \<open>
  \<open>env\<close> is the value of \<open>NATS_MICRO_EXPOSE_INTERNAL_ERROR_DETAILS\<close>, \<open>None\<close> when unset or
  not UTF-8; \<open>value_string\<close> is \<open>serde_json::Value::String\<close>.
\<close>

definition expose_internal_error_details :: "string option \<Rightarrow> bool" where
  "expose_internal_error_details env =
     (case env of
        None \<Rightarrow> False
      | Some value \<Rightarrow>
          to_ascii_lowercase (trim value) \<in> {''1'', ''true'', ''yes'', ''on''})"

definition into_nats_error_self ::
  "'j nats_error_response \<Rightarrow> string \<Rightarrow> 'j nats_error_response" where
  "into_nats_error_self r request_id = with_request_id request_id r"

definition into_nats_error_string :: "string \<Rightarrow> string \<Rightarrow> 'j nats_error_response" where
  "into_nats_error_string s request_id = with_request_id request_id (framework ErrorCode s)"

definition into_nats_error_anyhow ::
  "(string \<Rightarrow> 'j) \<Rightarrow> string option \<Rightarrow> string \<Rightarrow> string \<Rightarrow> 'j nats_error_response" where
  "into_nats_error_anyhow value_string env msg request_id =
     (let response = with_request_id request_id
        (framework InternalError ''an internal error occurred'')
      in if expose_internal_error_details env
         then with_details (value_string (take_chars 200 msg)) response
         else response)"

datatype auth_error = MissingCredentials | InvalidCredentials | AuthForbidden | AuthOther string

primrec into_nats_error_auth :: "auth_error \<Rightarrow> string \<Rightarrow> 'j nats_error_response" where
  "into_nats_error_auth MissingCredentials request_id =
     with_request_id request_id
       (framework Unauthorized ''Authentication credentials were not provided.'')"
| "into_nats_error_auth InvalidCredentials request_id =
     with_request_id request_id
       (framework Unauthorized ''Authentication credentials are invalid.'')"
| "into_nats_error_auth AuthForbidden request_id =
     with_request_id request_id
       (framework Forbidden
          ''The authenticated caller does not have permission to access this resource.'')"
| "into_nats_error_auth (AuthOther msg) request_id =
     with_request_id request_id (framework Unauthorized (''Authentication failed: '' @ msg))"

locale into_nats_error_trait =
  fixes into_nats_error :: "'a \<Rightarrow> string \<Rightarrow> 'j nats_error_response"
  assumes request_id_set: "er_request_id (into_nats_error e request_id) = request_id"

interpretation into_self: into_nats_error_trait into_nats_error_self
  by unfold_locales (simp add: into_nats_error_self_def)

interpretation into_string: into_nats_error_trait into_nats_error_string
  by unfold_locales (simp add: into_nats_error_string_def)

interpretation into_anyhow: into_nats_error_trait "into_nats_error_anyhow value_string env"
  by unfold_locales (simp add: into_nats_error_anyhow_def Let_def)

interpretation into_auth: into_nats_error_trait into_nats_error_auth
proof
  show "er_request_id (into_nats_error_auth e request_id) = request_id" for e request_id
    by (cases e) simp_all
qed

text \<open>
  An internal error never leaks more than the operator allowed.  Whatever the error says,
  code, kind and message are the fixed internal ones; details appear only when the
  environment variable reads 1, true, yes or on, and then are a prefix of the message of at
  most 200 characters (800 bytes).
\<close>

theorem anyhow_error_is_opaque:
  "er_code (into_nats_error_anyhow value_string env msg rid) = 500 \<and>
   er_kind (into_nats_error_anyhow value_string env msg rid) = ''INTERNAL_ERROR'' \<and>
   er_message (into_nats_error_anyhow value_string env msg rid) = ''an internal error occurred'' \<and>
   er_request_id (into_nats_error_anyhow value_string env msg rid) = rid \<and>
   er_details (into_nats_error_anyhow value_string env msg rid) =
     (if expose_internal_error_details env then Some (value_string (take_chars 200 msg)) else None) \<and>
   (\<exists>r. msg = take_chars 200 msg @ r) \<and> length (take_chars 200 msg) \<le> 800"
  using take_chars_prefix [of msg 200] length_take_chars [of 200 msg]
  by (simp add: into_nats_error_anyhow_def Let_def)

end
