(* ===== verification/Headers.thy ===== *)
theory Headers
  imports Prelude
begin

text \<open>
  The header map of \<open>async_nats\<close> is a third-party type, so it is a parameter: a record of
  the operations the source calls.  What the code relies on is the documented behaviour
  \<open>header_map_laws\<close>: \<open>insert\<close> replaces all values of a name, \<open>append\<close> adds one after the
  existing values, \<open>get\<close> returns the first value, \<open>iter\<close> lists each name once with its
  values, and parsing a name or a value either fails with a message or yields the text it was
  given.  \<open>alist_headers\<close> is an instance on which witnesses run.
\<close>

record 'h header_ops =
  ho_empty :: 'h
  ho_get :: "'h \<Rightarrow> string \<Rightarrow> string option"
  ho_insert :: "string \<Rightarrow> string \<Rightarrow> 'h \<Rightarrow> 'h"
  ho_append :: "string \<Rightarrow> string \<Rightarrow> 'h \<Rightarrow> 'h"
  ho_iter :: "'h \<Rightarrow> (string \<times> string list) list"
  ho_parse_name :: "string \<Rightarrow> string + string"
  ho_parse_value :: "string \<Rightarrow> string + string"

definition first_value :: "(string \<times> string list) list \<Rightarrow> string \<Rightarrow> string option" where
  "first_value xs k = (case map_of xs k of Some (v # vs) \<Rightarrow> Some v | _ \<Rightarrow> None)"

definition header_map_laws :: "'h header_ops \<Rightarrow> bool" where
  "header_map_laws H \<longleftrightarrow>
     (\<forall>k. ho_get H (ho_empty H) k = None) \<and>
     (\<forall>k v h k'. ho_get H (ho_insert H k v h) k' = (if k' = k then Some v else ho_get H h k')) \<and>
     (\<forall>k v h k'. ho_get H (ho_append H k v h) k' =
        (if k' = k \<and> ho_get H h k = None then Some v else ho_get H h k')) \<and>
     (\<forall>h k. ho_get H h k = first_value (ho_iter H h) k) \<and>
     (\<forall>h. distinct (map fst (ho_iter H h))) \<and>
     (\<forall>s n. ho_parse_name H s = Inr n \<longrightarrow> n = s) \<and>
     (\<forall>s v. ho_parse_value H s = Inr v \<longrightarrow> v = s)"

lemma header_get_laws:
  assumes "header_map_laws H"
  shows "ho_get H (ho_empty H) k = None"
    and "ho_get H (ho_insert H k v h) k' = (if k' = k then Some v else ho_get H h k')"
    and "ho_get H (ho_append H k v h) k' =
      (if k' = k \<and> ho_get H h k = None then Some v else ho_get H h k')"
    and "ho_get H h k = first_value (ho_iter H h) k"
    and "distinct (map fst (ho_iter H h))"
    and "ho_parse_name H s = Inr n \<Longrightarrow> n = s"
    and "ho_parse_value H s = Inr n \<Longrightarrow> n = s"
  using assms unfolding header_map_laws_def by blast+

section \<open>An instance for the witnesses\<close>

definition alist_put ::
  "(string list \<Rightarrow> string list) \<Rightarrow> string \<Rightarrow> (string \<times> string list) list \<Rightarrow>
   (string \<times> string list) list" where
  "alist_put f k xs =
     (if k \<in> fst ` set xs
      then map (\<lambda>(k', vs). if k' = k then (k', f vs) else (k', vs)) xs
      else xs @ [(k, f [])])"

typedef alist_map = "{xs :: (string \<times> string list) list. distinct (map fst xs)}"
  by (rule exI [of _ "[]"]) simp

setup_lifting type_definition_alist_map

lift_definition alist_empty :: alist_map is "[]" by simp

lemma map_fst_update:
  "map fst (map (\<lambda>(k', vs). if k' = k then (k', f vs) else (k', vs)) xs) = map fst xs"
  by (induction xs) auto

lemma alist_put_distinct: "distinct (map fst xs) \<Longrightarrow> distinct (map fst (alist_put f k xs))"
  unfolding alist_put_def by (auto simp: map_fst_update simp del: map_map)

lift_definition alist_insert :: "string \<Rightarrow> string \<Rightarrow> alist_map \<Rightarrow> alist_map" is
  "\<lambda>k v. alist_put (\<lambda>_. [v]) k" by (rule alist_put_distinct)

lift_definition alist_append :: "string \<Rightarrow> string \<Rightarrow> alist_map \<Rightarrow> alist_map" is
  "\<lambda>k v. alist_put (\<lambda>vs. vs @ [v]) k" by (rule alist_put_distinct)

lift_definition alist_get :: "alist_map \<Rightarrow> string \<Rightarrow> string option" is first_value .

lift_definition alist_iter :: "alist_map \<Rightarrow> (string \<times> string list) list" is "\<lambda>xs. xs" .

definition alist_headers :: "alist_map header_ops" where
  "alist_headers =
     \<lparr>ho_empty = alist_empty, ho_get = alist_get, ho_insert = alist_insert,
      ho_append = alist_append, ho_iter = alist_iter,
      ho_parse_name = (\<lambda>s. if s = [] \<or> CHR '':'' \<in> set s then Inl ''invalid name'' else Inr s),
      ho_parse_value =
        (\<lambda>s. if CHR 0x0A \<in> set s \<or> CHR 0x0D \<in> set s then Inl ''invalid value'' else Inr s)\<rparr>"

lemma map_of_update:
  "map_of (map (\<lambda>(k', vs). if k' = k then (k', f vs) else (k', vs)) xs) k' =
     (if k' = k then map_option f (map_of xs k') else map_of xs k')"
  by (induction xs) auto

lemma first_value_put:
  "first_value (alist_put f k xs) k' =
     (if k' = k then
        (case f (case map_of xs k of None \<Rightarrow> [] | Some vs \<Rightarrow> vs) of v # vs \<Rightarrow> Some v | [] \<Rightarrow> None)
      else first_value xs k')"
proof (cases "k \<in> fst ` set xs")
  case True
  then obtain vs where "map_of xs k = Some vs"
    by (metis map_of_eq_None_iff not_None_eq)
  then show ?thesis using True
    by (simp add: alist_put_def first_value_def map_of_update split: list.splits)
next
  case False
  then have "map_of xs k = None" by (simp add: map_of_eq_None_iff)
  then show ?thesis using False
    by (simp add: alist_put_def first_value_def map_add_def split: option.splits list.splits)
qed

lemma first_value_append:
  "first_value (alist_put (\<lambda>vs. vs @ [v]) k xs) k' =
     (if k' = k \<and> first_value xs k = None then Some v else first_value xs k')"
proof (cases "k' = k")
  case True
  show ?thesis
  proof (cases "map_of xs k")
    case None
    then show ?thesis using True by (simp add: first_value_put) (simp add: first_value_def)
  next
    case (Some vs)
    then show ?thesis using True
      by (cases vs) (simp_all add: first_value_put, simp_all add: first_value_def)
  qed
next
  case False
  then show ?thesis by (simp add: first_value_put)
qed

lemma alist_headers_laws: "header_map_laws alist_headers"
proof -
  have "alist_get alist_empty k = None" for k
    by transfer (simp add: first_value_def)
  moreover have "alist_get (alist_insert k v h) k' = (if k' = k then Some v else alist_get h k')"
    for k v h k' by transfer (simp add: first_value_put)
  moreover have "alist_get (alist_append k v h) k' =
      (if k' = k \<and> alist_get h k = None then Some v else alist_get h k')" for k v h k'
    by transfer (rule first_value_append)
  moreover have "alist_get h k = first_value (alist_iter h) k" for h k
    by transfer simp
  moreover have "distinct (map fst (alist_iter h))" for h
    by transfer simp
  ultimately show ?thesis
    by (simp add: header_map_laws_def alist_headers_def)
qed

end
