(* ===== verification/Requests.thy ===== *)
theory Requests
  imports Headers
begin

text \<open>
  \<open>nats-micro/src/request.rs\<close>: the borrowed request view with its headers, the decrypted
  header overlay of \<open>encryption/headers.rs\<close> that takes precedence over them, and the request
  id, taken from the headers when it is valid and generated once otherwise.
  A \<open>OnceLock\<close> is an option that is filled at most once; the UUID it is filled with is an
  argument.
\<close>

definition REQUEST_ID_HEADER :: string where
  "REQUEST_ID_HEADER = ''x-request-id''"

definition MAX_REQUEST_ID_LEN :: nat where
  "MAX_REQUEST_ID_LEN = 128"

definition request_id_byte :: "char \<Rightarrow> bool" where
  "request_id_byte c \<longleftrightarrow> is_ascii_alphanumeric c \<or> c \<in> set ''-_.:/@''"

definition is_valid_request_id :: "string \<Rightarrow> bool" where
  "is_valid_request_id v \<longleftrightarrow>
     v \<noteq> [] \<and> length v \<le> MAX_REQUEST_ID_LEN \<and> list_all request_id_byte v"

type_synonym overlay = "(string \<times> string) list"

text \<open>\<open>entries.iter().rfind(..)\<close>: the last entry whose name matches.\<close>

definition overlay_get :: "overlay \<Rightarrow> string \<Rightarrow> string option" where
  "overlay_get entries key =
     map_option snd (find (\<lambda>(name, _). eq_ignore_ascii_case name key) (rev entries))"

record 'h headers_view =
  hv_inner :: "'h option"
  hv_overlay :: "overlay option"

definition headers_new :: "'h option \<Rightarrow> 'h headers_view" where
  "headers_new inner = \<lparr>hv_inner = inner, hv_overlay = None\<rparr>"

definition headers_with_overlay :: "'h option \<Rightarrow> overlay \<Rightarrow> 'h headers_view" where
  "headers_with_overlay inner ov = \<lparr>hv_inner = inner, hv_overlay = Some ov\<rparr>"

definition headers_get :: "'h header_ops \<Rightarrow> 'h headers_view \<Rightarrow> string \<Rightarrow> string option" where
  "headers_get H h name =
     (case Option.bind (hv_overlay h) (\<lambda>ov. overlay_get ov name) of
        Some value \<Rightarrow> Some value
      | None \<Rightarrow> Option.bind (hv_inner h) (\<lambda>m. ho_get H m name))"

definition headers_raw :: "'h headers_view \<Rightarrow> 'h option" where
  "headers_raw h = hv_inner h"

record request_id =
  ri_existing :: "string option"
  ri_generated :: "string option"

definition option_filter :: "('a \<Rightarrow> bool) \<Rightarrow> 'a option \<Rightarrow> 'a option" where
  "option_filter p x = (case x of Some v \<Rightarrow> if p v then Some v else None | None \<Rightarrow> None)"

definition request_id_new :: "'h header_ops \<Rightarrow> 'h headers_view \<Rightarrow> request_id" where
  "request_id_new H h =
     \<lparr>ri_existing = option_filter is_valid_request_id (headers_get H h REQUEST_ID_HEADER),
      ri_generated = None\<rparr>"

definition get_or_generate :: "string \<Rightarrow> request_id \<Rightarrow> string \<times> request_id" where
  "get_or_generate uuid r =
     (case ri_existing r of
        Some v \<Rightarrow> (v, r)
      | None \<Rightarrow>
          (case ri_generated r of
             Some g \<Rightarrow> (g, r)
           | None \<Rightarrow> (uuid, r\<lparr>ri_generated := Some uuid\<rparr>)))"

record 'h request =
  rq_subject :: string
  rq_reply :: "string option"
  rq_payload :: bytes
  rq_headers :: "'h headers_view"
  rq_request_id :: request_id

definition request_new ::
  "'h header_ops \<Rightarrow> string \<Rightarrow> string option \<Rightarrow> bytes \<Rightarrow> 'h option \<Rightarrow> 'h request" where
  "request_new H subject reply payload headers =
     \<lparr>rq_subject = subject, rq_reply = reply, rq_payload = payload,
      rq_headers = headers_new headers,
      rq_request_id = request_id_new H (headers_new headers)\<rparr>"

definition with_body_and_overlay ::
  "'h header_ops \<Rightarrow> 'h request \<Rightarrow> bytes \<Rightarrow> overlay \<Rightarrow> 'h request" where
  "with_body_and_overlay H r payload ov =
     (let headers = headers_with_overlay (headers_raw (rq_headers r)) ov
      in \<lparr>rq_subject = rq_subject r, rq_reply = rq_reply r, rq_payload = payload,
          rq_headers = headers, rq_request_id = request_id_new H headers\<rparr>)"

record 'h request_meta =
  rm_subject :: string
  rm_reply :: "string option"
  rm_headers :: "'h headers_view"
  rm_request_id :: request_id

definition request_meta :: "'h request \<Rightarrow> 'h request_meta" where
  "request_meta r =
     \<lparr>rm_subject = rq_subject r, rm_reply = rq_reply r, rm_headers = rq_headers r,
      rm_request_id = rq_request_id r\<rparr>"

lemma request_new_sel [simp]:
  "rq_subject (request_new H s r p h) = s" "rq_reply (request_new H s r p h) = r"
  "rq_payload (request_new H s r p h) = p" "rq_headers (request_new H s r p h) = headers_new h"
  by (simp_all add: request_new_def)

lemma headers_new_sel [simp]:
  "hv_inner (headers_new h) = h" "hv_overlay (headers_new h) = None"
  "headers_raw (headers_new h) = h"
  by (simp_all add: headers_new_def headers_raw_def)

lemma with_overlay_sel [simp]:
  "rq_subject (with_body_and_overlay H r p ov) = rq_subject r"
  "rq_reply (with_body_and_overlay H r p ov) = rq_reply r"
  "rq_payload (with_body_and_overlay H r p ov) = p"
  "rq_headers (with_body_and_overlay H r p ov) =
     headers_with_overlay (headers_raw (rq_headers r)) ov"
  by (simp_all add: with_body_and_overlay_def Let_def)

lemma overlay_get_None:
  "overlay_get ov k = None \<longleftrightarrow> list_all (\<lambda>(n, v). \<not> eq_ignore_ascii_case n k) ov"
  by (auto simp: overlay_get_def find_None_iff list_all_iff)

lemma overlay_get_last:
  "overlay_get (ov @ [(name, v)]) k =
     (if eq_ignore_ascii_case name k then Some v else overlay_get ov k)"
  by (simp add: overlay_get_def)

lemma overlay_get_exact: "overlay_get (ov @ [(k, v)]) k = Some v"
  by (simp add: overlay_get_last)

lemma existing_valid:
  "ri_existing (request_id_new H h) = Some v \<longleftrightarrow>
     headers_get H h REQUEST_ID_HEADER = Some v \<and> is_valid_request_id v"
  by (auto simp: request_id_new_def option_filter_def split: option.splits if_splits)

text \<open>
  The request id a handler sees is stable and safe to copy.  An incoming id is used only
  if it has 1 to 128 bytes, all alphanumeric or one of the six punctuation bytes; otherwise
  the id is generated at the first use, and every later use, with whatever fresh UUID,
  returns the same one and changes nothing.
\<close>

theorem request_id_stable:
  "fst (get_or_generate uuid (request_id_new H h)) =
     (case headers_get H h REQUEST_ID_HEADER of
        Some e \<Rightarrow>
          if 1 \<le> length e \<and> length e \<le> 128 \<and> list_all request_id_byte e then e else uuid
      | None \<Rightarrow> uuid) \<and>
   get_or_generate uuid' (snd (get_or_generate uuid (request_id_new H h))) =
     get_or_generate uuid (request_id_new H h)"
  by (auto simp: get_or_generate_def request_id_new_def option_filter_def Suc_le_eq
      is_valid_request_id_def MAX_REQUEST_ID_LEN_def split: option.splits)

text \<open>
  In the view of a decrypted request, a name of the decrypted headers answers with the
  decrypted value whatever its case and whatever the plain headers say; every other name
  answers from the plain headers, and the subject and reply are those of the frame.
\<close>

theorem overlay_takes_precedence:
  "headers_get H (rq_headers (with_body_and_overlay H r body ov)) name =
     (case overlay_get ov name of
        Some value \<Rightarrow> Some value
      | None \<Rightarrow> Option.bind (headers_raw (rq_headers r)) (\<lambda>m. ho_get H m name)) \<and>
   (overlay_get ov name = None) = list_all (\<lambda>(n, v). \<not> eq_ignore_ascii_case n name) ov \<and>
   rq_payload (with_body_and_overlay H r body ov) = body \<and>
   rq_subject (with_body_and_overlay H r body ov) = rq_subject r \<and>
   rq_reply (with_body_and_overlay H r body ov) = rq_reply r"
  by (cases "overlay_get ov name")
    (simp_all add: headers_get_def headers_with_overlay_def flip: overlay_get_None)

end
