(* ===== verification/Responses.thy ===== *)
theory Responses
  imports Requests Error_Responses
begin

text \<open>
  \<open>nats-micro/src/response.rs\<close>: the endpoint response, the protocol error reply with its JSON
  payload, and the headers that announce it.  \<open>serde_json\<close> is a parameter: \<open>json_ops\<close> holds
  the three conversions the source uses, and \<open>json_laws\<close> is the documented round trip of
  derived \<open>Serialize\<close>/\<open>Deserialize\<close> implementations on the values that exist in Rust
  (16-bit codes, UTF-8 strings; a \<open>null\<close> in an optional field reads back as absent).
\<close>

section \<open>JSON\<close>

record 'j json_ops =
  jo_error_to_vec :: "'j nats_error_response \<Rightarrow> bytes option"
  jo_wire_to_vec :: "nat \<Rightarrow> string \<Rightarrow> string \<Rightarrow> string \<Rightarrow> bytes option"
  jo_error_from_slice :: "bytes \<Rightarrow> string + 'j nats_error_response"
  jo_null :: "'j \<Rightarrow> bool"

definition error_wf :: "'j json_ops \<Rightarrow> 'j nats_error_response \<Rightarrow> bool" where
  "error_wf J r \<longleftrightarrow>
     er_code r < 65536 \<and> utf8_str (er_kind r) \<and> utf8_str (er_message r) \<and>
     utf8_str (er_request_id r) \<and> (case er_details r of Some d \<Rightarrow> \<not> jo_null J d | None \<Rightarrow> True)"

definition json_laws :: "'j json_ops \<Rightarrow> bool" where
  "json_laws J \<longleftrightarrow>
     (\<forall>r. error_wf J r \<longrightarrow>
        (\<exists>b. jo_error_to_vec J r = Some b \<and> jo_error_from_slice J b = Inr r)) \<and>
     (\<forall>code kind message rid. error_wf J (error_new code kind message rid) \<longrightarrow>
        (\<exists>b. jo_wire_to_vec J code kind message rid = Some b \<and>
           jo_error_from_slice J b = Inr (error_new code kind message rid)))"

section \<open>Responses\<close>

definition PRESENT_HEADER :: string where
  "PRESENT_HEADER = ''Nats-Micro-Present''"

datatype 'h response = REmpty | RPayload bytes | RWithHeaders bytes 'h

definition response_empty :: "'h response" where
  "response_empty = REmpty"

definition response_bytes :: "bytes \<Rightarrow> 'h response" where
  "response_bytes b = RPayload b"

definition response_with_headers :: "bytes \<Rightarrow> 'h \<Rightarrow> 'h response" where
  "response_with_headers payload headers = RWithHeaders payload headers"

definition optional_none :: "'h header_ops \<Rightarrow> 'h response" where
  "optional_none H = RWithHeaders [] (ho_insert H PRESENT_HEADER ''0'' (ho_empty H))"

section \<open>Error replies\<close>

record error_reply =
  rp_code :: nat
  rp_kind :: string
  rp_message :: string
  rp_payload :: bytes
  rp_request_id :: "string option"

definition vec_or_empty :: "bytes option \<Rightarrow> bytes" where
  "vec_or_empty b = (case b of Some v \<Rightarrow> v | None \<Rightarrow> [])"

definition unwrap_or_default :: "string option \<Rightarrow> string" where
  "unwrap_or_default s = (case s of Some v \<Rightarrow> v | None \<Rightarrow> [])"

definition error_reply_new ::
  "'j json_ops \<Rightarrow> nat \<Rightarrow> string \<Rightarrow> string \<Rightarrow> string option \<Rightarrow> error_reply" where
  "error_reply_new J code kind message request_id =
     \<lparr>rp_code = code, rp_kind = kind, rp_message = message,
      rp_payload =
        vec_or_empty (jo_wire_to_vec J code kind message (unwrap_or_default request_id)),
      rp_request_id = request_id\<rparr>"

definition reply_framework ::
  "'j json_ops \<Rightarrow> framework_error \<Rightarrow> string \<Rightarrow> string option \<Rightarrow> error_reply" where
  "reply_framework J error message request_id =
     error_reply_new J (framework_status error) (framework_as_code error) message request_id"

definition with_payload :: "bytes \<Rightarrow> error_reply \<Rightarrow> error_reply" where
  "with_payload payload e = e\<lparr>rp_payload := payload\<rparr>"

definition from_nats_error :: "'j json_ops \<Rightarrow> 'j nats_error_response \<Rightarrow> error_reply" where
  "from_nats_error J error =
     \<lparr>rp_code = er_code error, rp_kind = er_kind error, rp_message = er_message error,
      rp_payload = vec_or_empty (jo_error_to_vec J error),
      rp_request_id =
        (if er_request_id error \<noteq> [] then Some (er_request_id error) else None)\<rparr>"

definition missing_subject_parameter ::
  "'j json_ops \<Rightarrow> string \<Rightarrow> string option \<Rightarrow> error_reply" where
  "missing_subject_parameter J name request_id =
     reply_framework J SubjectParamMissing
       (''subject parameter `'' @ name @ ''` is missing'') request_id"

definition invalid_subject_parameter ::
  "'j json_ops \<Rightarrow> string \<Rightarrow> string \<Rightarrow> string option \<Rightarrow> error_reply" where
  "invalid_subject_parameter J name error request_id =
     reply_framework J SubjectParamInvalid
       (''subject parameter `'' @ name @ ''` is invalid: '' @ error) request_id"

definition missing_header :: "'j json_ops \<Rightarrow> string \<Rightarrow> string option \<Rightarrow> error_reply" where
  "missing_header J name request_id =
     reply_framework J InvalidHeader (''required header `'' @ name @ ''` is missing'') request_id"

definition service_error_headers :: "'h header_ops \<Rightarrow> error_reply \<Rightarrow> 'h" where
  "service_error_headers H error =
     (let headers = ho_insert H ''Nats-Service-Error'' (rp_message error) (ho_empty H);
          headers = ho_insert H ''Nats-Service-Error-Code'' (show_nat (rp_code error)) headers;
          headers = ho_insert H ''Nats-Micro-Error-Kind'' (rp_kind error) headers;
          headers = ho_insert H ''Nats-Micro-Error-Format'' ''json-v1'' headers
      in case rp_request_id error of
           Some request_id \<Rightarrow> ho_insert H ''x-request-id'' request_id headers
         | None \<Rightarrow> headers)"

text \<open>
  The two implementations of \<open>IntoServiceError\<close>: an \<open>ErrorReply\<close> is returned as it is; any
  other error goes through its \<open>IntoNatsError\<close> instance with the request's id.
\<close>

definition into_service_error_self :: "error_reply \<Rightarrow> request_id \<Rightarrow> error_reply" where
  "into_service_error_self e request_id = e"

definition into_service_error ::
  "'j json_ops \<Rightarrow> ('e \<Rightarrow> string \<Rightarrow> 'j nats_error_response) \<Rightarrow> string \<Rightarrow> 'e \<Rightarrow> request_id \<Rightarrow>
   error_reply" where
  "into_service_error J into_nats_error uuid e request_id =
     from_nats_error J (into_nats_error e (fst (get_or_generate uuid request_id)))"

lemma error_reply_new_sel [simp]:
  "rp_code (error_reply_new J c k m i) = c" "rp_kind (error_reply_new J c k m i) = k"
  "rp_message (error_reply_new J c k m i) = m" "rp_request_id (error_reply_new J c k m i) = i"
  by (simp_all add: error_reply_new_def)

lemma reply_framework_sel [simp]:
  "rp_code (reply_framework J e m i) = framework_status e"
  "rp_kind (reply_framework J e m i) = framework_as_code e"
  "rp_message (reply_framework J e m i) = m" "rp_request_id (reply_framework J e m i) = i"
  by (simp_all add: reply_framework_def)

lemma from_nats_error_sel [simp]:
  "rp_code (from_nats_error J r) = er_code r" "rp_kind (from_nats_error J r) = er_kind r"
  "rp_message (from_nats_error J r) = er_message r"
  by (simp_all add: from_nats_error_def)

lemma from_nats_error_payload:
  "json_laws J \<Longrightarrow> error_wf J r \<Longrightarrow> jo_error_from_slice J (rp_payload (from_nats_error J r)) = Inr r"
  unfolding json_laws_def by (fastforce simp: from_nats_error_def vec_or_empty_def)

lemma error_reply_new_payload:
  "json_laws J \<Longrightarrow> error_wf J (error_new c k m (unwrap_or_default i)) \<Longrightarrow>
   jo_error_from_slice J (rp_payload (error_reply_new J c k m i)) =
     Inr (error_new c k m (unwrap_or_default i))"
  unfolding json_laws_def by (fastforce simp: error_reply_new_def vec_or_empty_def)

lemma service_error_headers_get:
  assumes "header_map_laws H"
  shows "ho_get H (service_error_headers H e) ''Nats-Service-Error'' = Some (rp_message e)"
    and "ho_get H (service_error_headers H e) ''Nats-Service-Error-Code'' =
      Some (show_nat (rp_code e))"
    and "ho_get H (service_error_headers H e) ''Nats-Micro-Error-Kind'' = Some (rp_kind e)"
    and "ho_get H (service_error_headers H e) ''Nats-Micro-Error-Format'' = Some ''json-v1''"
    and "ho_get H (service_error_headers H e) ''x-request-id'' = rp_request_id e"
  by (simp_all add: service_error_headers_def Let_def header_get_laws(1-3) [OF assms]
      split: option.split)

text \<open>With every instance of \<open>IntoNatsError\<close>, the reply names the id of the request it answers.\<close>

context into_nats_error_trait begin

lemma reply_request_id:
  "rp_request_id (into_service_error J into_nats_error uuid e request_id) =
     (let i = fst (get_or_generate uuid request_id) in if i \<noteq> [] then Some i else None)"
  by (simp add: into_service_error_def from_nats_error_def Let_def request_id_set)

end

section \<open>An instance of the JSON laws for the witnesses\<close>

definition demo_string :: "string \<Rightarrow> bytes" where
  "demo_string s = concat (map (\<lambda>c. [1, of_char c]) s) @ [0]"

fun demo_unstring :: "bytes \<Rightarrow> string \<times> bytes" where
  "demo_unstring (a # c # bs) =
     (if a = 1 then (let (s, r) = demo_unstring bs in (char_of (unat c) # s, r)) else ([], c # bs))"
| "demo_unstring [a] = ([], [])"
| "demo_unstring [] = ([], [])"

lemma demo_unstring_string: "demo_unstring (demo_string s @ bs) = (s, bs)"
proof (induction s)
  case Nil
  then show ?case by (cases bs) (simp_all add: demo_string_def)
next
  case (Cons c s)
  then show ?case by (simp add: demo_string_def unat_of_char)
qed

definition demo_error_to_vec :: "string nats_error_response \<Rightarrow> bytes" where
  "demo_error_to_vec r =
     demo_string (replicate (er_code r) CHR ''1'') @ demo_string (er_kind r) @
     demo_string (er_message r) @ demo_string (er_request_id r) @
     (case er_details r of None \<Rightarrow> [] | Some d \<Rightarrow> 1 # demo_string d)"

definition demo_from_slice :: "bytes \<Rightarrow> string + string nats_error_response" where
  "demo_from_slice b =
     (let (n, b1) = demo_unstring b; (k, b2) = demo_unstring b1; (m, b3) = demo_unstring b2;
          (i, b4) = demo_unstring b3
      in Inr \<lparr>er_code = length n, er_kind = k, er_message = m, er_request_id = i,
           er_details = (case b4 of [] \<Rightarrow> None | _ # d \<Rightarrow> Some (fst (demo_unstring d)))\<rparr>)"

definition demo_json :: "string json_ops" where
  "demo_json =
     \<lparr>jo_error_to_vec = (\<lambda>r. Some (demo_error_to_vec r)),
      jo_wire_to_vec = (\<lambda>c k m i. Some (demo_error_to_vec (error_new c k m i))),
      jo_error_from_slice = demo_from_slice, jo_null = (\<lambda>d. d = ''null'')\<rparr>"

lemma demo_round_trip: "demo_from_slice (demo_error_to_vec r) = Inr r"
  using demo_unstring_string [of _ "[]"]
  by (cases "er_details r")
    (simp_all add: demo_from_slice_def demo_error_to_vec_def demo_unstring_string)

lemma demo_json_laws: "json_laws demo_json"
  by (simp add: json_laws_def demo_json_def demo_round_trip)

end
