(* ===== verification/Codecs.thy ===== *)
theory Codecs
  imports Responses
begin

text \<open>
  \<open>nats-micro/src/codec.rs\<close>: request decoding and response encoding.  The parsers and
  serializers of \<open>serde_json\<close> and \<open>prost\<close> are arguments (an \<open>Inl\<close> carries the text of their
  error); the UTF-8 decoder with its error is the standard library's.  A \<open>serde_json\<close>
  serializer is the list of chunks it writes and the error that ends it, if any.
\<close>

section \<open>UTF-8 errors\<close>

record utf8_error =
  ue_valid_up_to :: nat
  ue_error_len :: "nat option"

definition utf8_error_display :: "utf8_error \<Rightarrow> string" where
  "utf8_error_display e =
     (case ue_error_len e of
        Some n \<Rightarrow> ''invalid utf-8 sequence of '' @ show_nat n @ '' bytes from index '' @
          show_nat (ue_valid_up_to e)
      | None \<Rightarrow> ''incomplete utf-8 byte sequence from index '' @ show_nat (ue_valid_up_to e))"

text \<open>What is wrong at one position: \<open>error_len\<close> of the first bad byte of a sequence.\<close>

definition utf8_bad :: "nat \<Rightarrow> nat list \<Rightarrow> nat option option" where
  "utf8_bad b bs =
     (let w = utf8_width b
      in if w = 0 then Some (Some 1)
         else if w = 1 then None
         else if bs = [] then Some None
         else if \<not> utf8_second b (hd bs) then Some (Some 1)
         else if w = 2 then None
         else if length bs < 2 then Some None
         else if \<not> utf8_cont (bs ! 1) then Some (Some 2)
         else if w = 3 then None
         else if length bs < 3 then Some None
         else if \<not> utf8_cont (bs ! 2) then Some (Some 3)
         else None)"

function utf8_scan :: "nat \<Rightarrow> nat list \<Rightarrow> utf8_error option" where
  "utf8_scan i [] = None"
| "utf8_scan i (b # bs) =
     (case utf8_bad b bs of
        Some len \<Rightarrow> Some \<lparr>ue_valid_up_to = i, ue_error_len = len\<rparr>
      | None \<Rightarrow> utf8_scan (i + utf8_width b) (drop (utf8_width b - 1) bs))"
  by pat_completeness auto

termination by (relation "measure (\<lambda>(i, bs). length bs)") auto

definition str_from_utf8 :: "bytes \<Rightarrow> utf8_error + string" where
  "str_from_utf8 b =
     (case utf8_scan 0 (map unat b) of Some e \<Rightarrow> Inl e | None \<Rightarrow> Inr (bytes_to_string b))"

lemma utf8_bad_None:
  "utf8_bad b bs = None \<longleftrightarrow>
     utf8_width b \<noteq> 0 \<and> utf8_width b \<le> Suc (length bs) \<and>
     list_all utf8_cont (take (utf8_width b - 1) bs) \<and>
     (1 < utf8_width b \<longrightarrow> utf8_second b (hd bs))"
proof -
  have w: "utf8_width b \<in> {0, 1, 2, 3, 4}" by (simp add: utf8_width_def)
  have c: "utf8_second b (hd bs) \<Longrightarrow> utf8_cont (hd bs)" by (simp add: utf8_second_def)
  show ?thesis
  proof (cases bs)
    case Nil
    then show ?thesis using w by (auto simp: utf8_bad_def Let_def)
  next
    case c1: (Cons b1 r1)
    show ?thesis
    proof (cases r1)
      case Nil
      then show ?thesis using w c c1 by (auto simp: utf8_bad_def Let_def)
    next
      case c2: (Cons b2 r2)
      show ?thesis
        using w c c1 c2 by (cases r2) (auto simp: utf8_bad_def Let_def numeral_eq_Suc)
    qed
  qed
qed

lemma utf8_scan_None: "utf8_scan i bs = None \<longleftrightarrow> utf8_valid bs"
proof (induction i bs rule: utf8_scan.induct)
  case (2 i b bs)
  then show ?case using utf8_bad_None [of b bs]
    by (cases "utf8_bad b bs") (auto simp: Let_def)
qed simp

lemma str_from_utf8_ok: "is_ok (str_from_utf8 b) = is_ok (from_utf8 b)"
  by (auto simp: str_from_utf8_def from_utf8_def utf8_scan_None [of 0, symmetric] is_ok_def
      split: option.split)

section \<open>Writers\<close>

definition usize_max :: nat where
  "usize_max = 2 ^ 64 - 1"

type_synonym serialized = "bytes list \<times> string option"

text \<open>\<open>JsonSize::write\<close> and \<open>JsonBytes::write\<close>; both accept every chunk whole.\<close>

definition json_size_write :: "nat \<Rightarrow> bytes \<Rightarrow> nat" where
  "json_size_write counted chunk = min usize_max (counted + length chunk)"

definition json_bytes_write :: "bytes \<Rightarrow> bytes \<Rightarrow> bytes" where
  "json_bytes_write out chunk = out @ chunk"

definition to_writer :: "('w \<Rightarrow> bytes \<Rightarrow> 'w) \<Rightarrow> 'w \<Rightarrow> serialized \<Rightarrow> string + 'w" where
  "to_writer write w s =
     (case snd s of Some e \<Rightarrow> Inl e | None \<Rightarrow> Inr (foldl write w (fst s)))"

section \<open>The codec functions\<close>

definition decode_json ::
  "'j json_ops \<Rightarrow> (bytes \<Rightarrow> string + 'a) \<Rightarrow> 'h request \<Rightarrow> error_reply + 'a" where
  "decode_json J from_slice request =
     map_err (\<lambda>error. reply_framework J BadJson (''failed to decode JSON request: '' @ error)
         (ri_existing (rq_request_id request)))
       (from_slice (rq_payload request))"

definition decode_text :: "'j json_ops \<Rightarrow> 'h request \<Rightarrow> error_reply + string" where
  "decode_text J request =
     map_err (\<lambda>error. reply_framework J BadUtf8
         (''failed to decode UTF-8 request: '' @ utf8_error_display error)
         (ri_existing (rq_request_id request)))
       (str_from_utf8 (rq_payload request))"

text \<open>\<open>encode_json\<close> also yields the capacity it reserved.\<close>

definition encode_json :: "'j json_ops \<Rightarrow> serialized \<Rightarrow> error_reply + nat \<times> bytes" where
  "encode_json J value =
     try_then
       (map_err (\<lambda>error. reply_framework J SerializationError
           (''failed to size JSON response: '' @ error) None)
         (to_writer json_size_write 0 value))
       (\<lambda>capacity. try_then
         (map_err (\<lambda>error. reply_framework J SerializationError
             (''failed to encode JSON response: '' @ error) None)
           (to_writer json_bytes_write [] value))
         (\<lambda>output. Inr (capacity, output)))"

definition decode_proto ::
  "'j json_ops \<Rightarrow> (bytes \<Rightarrow> string + 'a) \<Rightarrow> 'h request \<Rightarrow> error_reply + 'a" where
  "decode_proto J decode request =
     map_err (\<lambda>error. reply_framework J BadProtobuf
         (''failed to decode protobuf request: '' @ error)
         (ri_existing (rq_request_id request)))
       (decode (rq_payload request))"

definition encode_proto :: "'j json_ops \<Rightarrow> string + bytes \<Rightarrow> error_reply + bytes" where
  "encode_proto J encoded =
     map_err (\<lambda>error. reply_framework J SerializationError
         (''failed to encode protobuf response: '' @ error) None)
       encoded"

lemma foldl_json_bytes: "foldl json_bytes_write out chunks = out @ concat chunks"
  by (induction chunks arbitrary: out) (simp_all add: json_bytes_write_def)

lemma foldl_json_size:
  "n \<le> usize_max \<Longrightarrow>
   foldl json_size_write n chunks = min usize_max (n + length (concat chunks))"
  by (induction chunks arbitrary: n) (auto simp: json_size_write_def min_def)

text \<open>
  Codecs are total and lose nothing.  Text decoding accepts exactly the well-formed UTF-8
  bodies and returns their text, and otherwise replies 400 BAD_UTF8 with the request's id;
  JSON encoding returns all the chunks the serializer wrote in order, in a buffer whose
  reserved capacity is their total length, or a 500 SERIALIZATION_ERROR.
\<close>

theorem codecs_faithful:
  "(case decode_text J request of
      Inr s \<Rightarrow> from_utf8 (rq_payload request) = Inr s
    | Inl e \<Rightarrow> from_utf8 (rq_payload request) = Inl () \<and> rp_code e = 400 \<and>
        rp_kind e = ''BAD_UTF8'' \<and> rp_request_id e = ri_existing (rq_request_id request)) \<and>
   (case encode_json J value of
      Inr (capacity, output) \<Rightarrow> snd value = None \<and> output = concat (fst value) \<and>
        capacity = min usize_max (length output)
    | Inl e \<Rightarrow> snd value \<noteq> None \<and> rp_code e = 500 \<and> rp_kind e = ''SERIALIZATION_ERROR'')"
proof -
  have "utf8_valid (map unat (rq_payload request)) =
      (utf8_scan 0 (map unat (rq_payload request)) = None)"
    by (simp add: utf8_scan_None)
  then show ?thesis
    by (cases "snd value"; cases "utf8_scan 0 (map unat (rq_payload request))")
      (simp_all add: decode_text_def str_from_utf8_def from_utf8_def encode_json_def
        to_writer_def foldl_json_bytes foldl_json_size)
qed

end
