(* ===== verification/Telemetry.thy ===== *)
theory Telemetry
  imports Contracts App_Config
begin

text \<open>
  \<open>nats-micro/src/telemetry.rs\<close>: the metric names, which configuration switch enables
  each, the observations a worker records and the spans around them.  A telemetry handle is its
  configuration; recording yields the events that reach the installed layer.
\<close>

datatype metric_name =
    RequestsReceived | RequestsCompleted | ServiceErrors | FrameworkErrors | RequestsInFlight
  | EndpointLatency | RejectedOverCapacity | ConsumerDeliveries | ConsumerRedeliveries
  | ConsumerAckLatency | ConsumerNacks | ConsumerTerms | WorkerRestarts | Reconnects
  | ShutdownDrainDuration

primrec metric_as_str :: "metric_name \<Rightarrow> string" where
  "metric_as_str RequestsReceived = ''nats_micro.requests.received''"
| "metric_as_str RequestsCompleted = ''nats_micro.requests.completed''"
| "metric_as_str ServiceErrors = ''nats_micro.errors.service''"
| "metric_as_str FrameworkErrors = ''nats_micro.errors.framework''"
| "metric_as_str RequestsInFlight = ''nats_micro.requests.in_flight''"
| "metric_as_str EndpointLatency = ''nats_micro.endpoint.latency''"
| "metric_as_str RejectedOverCapacity = ''nats_micro.requests.rejected_over_capacity''"
| "metric_as_str ConsumerDeliveries = ''nats_micro.consumer.deliveries''"
| "metric_as_str ConsumerRedeliveries = ''nats_micro.consumer.redeliveries''"
| "metric_as_str ConsumerAckLatency = ''nats_micro.consumer.ack_latency''"
| "metric_as_str ConsumerNacks = ''nats_micro.consumer.nacks''"
| "metric_as_str ConsumerTerms = ''nats_micro.consumer.terms''"
| "metric_as_str WorkerRestarts = ''nats_micro.worker.restarts''"
| "metric_as_str Reconnects = ''nats_micro.connection.reconnects''"
| "metric_as_str ShutdownDrainDuration = ''nats_micro.shutdown.drain_duration''"

primrec enabled_by :: "metric_name \<Rightarrow> telemetry_config \<Rightarrow> bool" where
  "enabled_by EndpointLatency config = tc_histograms config"
| "enabled_by ConsumerAckLatency config = tc_histograms config"
| "enabled_by ShutdownDrainDuration config = tc_histograms config"
| "enabled_by RequestsInFlight config = tc_gauges config"
| "enabled_by RequestsReceived config = tc_counters config"
| "enabled_by RequestsCompleted config = tc_counters config"
| "enabled_by ServiceErrors config = tc_counters config"
| "enabled_by FrameworkErrors config = tc_counters config"
| "enabled_by RejectedOverCapacity config = tc_counters config"
| "enabled_by ConsumerDeliveries config = tc_counters config"
| "enabled_by ConsumerRedeliveries config = tc_counters config"
| "enabled_by ConsumerNacks config = tc_counters config"
| "enabled_by ConsumerTerms config = tc_counters config"
| "enabled_by WorkerRestarts config = tc_counters config"
| "enabled_by Reconnects config = tc_counters config"

record metric_event =
  me_metric :: metric_name
  me_value :: int
  me_duration :: "duration option"
  me_service_name :: "string option"
  me_service_version :: "string option"
  me_operation :: "string option"
  me_subject_pattern :: "string option"
  me_queue_group :: "string option"
  me_stream :: "string option"
  me_consumer :: "string option"
  me_subject :: "string option"
  me_request_id :: "string option"
  me_error_kind :: "string option"

definition event_operation ::
  "metric_name \<Rightarrow> int \<Rightarrow> duration option \<Rightarrow> operation_spec \<Rightarrow> string option \<Rightarrow> string option \<Rightarrow>
   string option \<Rightarrow> metric_event" where
  "event_operation metric v dur spec subject request_id error_kind =
     \<lparr>me_metric = metric, me_value = v, me_duration = dur,
      me_service_name = Some (os_service_name spec),
      me_service_version = Some (os_service_version spec),
      me_operation = Some (os_rust_name spec), me_subject_pattern = Some (os_subject spec),
      me_queue_group = os_queue_group spec, me_stream = None, me_consumer = None,
      me_subject = subject, me_request_id = request_id, me_error_kind = error_kind\<rparr>"

definition event_consumer ::
  "metric_name \<Rightarrow> int \<Rightarrow> duration option \<Rightarrow> consumer_spec \<Rightarrow> string option \<Rightarrow> string option \<Rightarrow>
   string option \<Rightarrow> metric_event" where
  "event_consumer metric v dur spec subject request_id error_kind =
     \<lparr>me_metric = metric, me_value = v, me_duration = dur,
      me_service_name = Some (cs_service_name spec),
      me_service_version = Some (cs_service_version spec),
      me_operation = Some (cs_rust_name spec), me_subject_pattern = Some (cs_filter_subject spec),
      me_queue_group = None, me_stream = Some (cs_stream spec),
      me_consumer = Some (cs_durable spec), me_subject = subject, me_request_id = request_id,
      me_error_kind = error_kind\<rparr>"

definition telemetry_operation ::
  "telemetry_config \<Rightarrow> metric_name \<Rightarrow> int \<Rightarrow> duration option \<Rightarrow> operation_spec \<Rightarrow>
   string option \<Rightarrow> string option \<Rightarrow> string option \<Rightarrow> metric_event list" where
  "telemetry_operation config metric v dur spec subject request_id error_kind =
     (if enabled_by metric config
      then [event_operation metric v dur spec subject request_id error_kind] else [])"

definition telemetry_consumer ::
  "telemetry_config \<Rightarrow> metric_name \<Rightarrow> int \<Rightarrow> duration option \<Rightarrow> consumer_spec \<Rightarrow>
   string option \<Rightarrow> string option \<Rightarrow> string option \<Rightarrow> metric_event list" where
  "telemetry_consumer config metric v dur spec subject request_id error_kind =
     (if enabled_by metric config
      then [event_consumer metric v dur spec subject request_id error_kind] else [])"

definition telemetry_application ::
  "telemetry_config \<Rightarrow> metric_name \<Rightarrow> duration option \<Rightarrow> metric_event list" where
  "telemetry_application config metric dur =
     (if enabled_by metric config
      then [\<lparr>me_metric = metric, me_value = 1, me_duration = dur, me_service_name = None,
             me_service_version = None, me_operation = None, me_subject_pattern = None,
             me_queue_group = None, me_stream = None, me_consumer = None, me_subject = None,
             me_request_id = None, me_error_kind = None\<rparr>]
      else [])"

lemma telemetry_metric [simp]:
  "map me_metric (telemetry_operation config metric v dur spec s r e) =
     (if enabled_by metric config then [metric] else [])"
  "map me_metric (telemetry_consumer config metric v dur cspec s r e) =
     (if enabled_by metric config then [metric] else [])"
  by (simp_all add: telemetry_operation_def telemetry_consumer_def event_operation_def
      event_consumer_def)

section \<open>Spans\<close>

text \<open>
  The fields of a span, \<open>None\<close> for an empty one.  \<open>enabled\<close> is \<open>tracing::enabled!\<close>; without it
  or with tracing switched off the span is \<open>Span::none\<close>.
\<close>

record span =
  sn_name :: string
  sn_service_name :: string
  sn_service_version :: string
  sn_operation :: string
  sn_subject_pattern :: string
  sn_queue_group :: "string option"
  sn_stream :: "string option"
  sn_consumer :: "string option"
  sn_subject :: string
  sn_request_id :: "string option"

definition request_span ::
  "telemetry_config \<Rightarrow> bool \<Rightarrow> operation_spec \<Rightarrow> string \<Rightarrow> string option \<Rightarrow> span option" where
  "request_span config enabled spec subject request_id =
     (if tc_tracing config \<and> enabled
      then Some \<lparr>sn_name = ''nats.request'', sn_service_name = os_service_name spec,
        sn_service_version = os_service_version spec, sn_operation = os_rust_name spec,
        sn_subject_pattern = os_subject spec, sn_queue_group = os_queue_group spec,
        sn_stream = None, sn_consumer = None, sn_subject = subject, sn_request_id = request_id\<rparr>
      else None)"

definition consumer_span ::
  "telemetry_config \<Rightarrow> bool \<Rightarrow> consumer_spec \<Rightarrow> string \<Rightarrow> string option \<Rightarrow> span option" where
  "consumer_span config enabled spec subject request_id =
     (if tc_tracing config \<and> enabled
      then Some \<lparr>sn_name = ''nats.consumer'', sn_service_name = cs_service_name spec,
        sn_service_version = cs_service_version spec, sn_operation = cs_rust_name spec,
        sn_subject_pattern = cs_filter_subject spec, sn_queue_group = None,
        sn_stream = Some (cs_stream spec), sn_consumer = Some (cs_durable spec),
        sn_subject = subject, sn_request_id = request_id\<rparr>
      else None)"

text \<open>A span and the metrics of one request agree on what they describe.\<close>

lemma request_span_describes_event:
  assumes "request_span config enabled spec subject request_id = Some s"
  shows "let e = event_operation metric v dur spec (Some subject) request_id error_kind
    in me_service_name e = Some (sn_service_name s) \<and>
       me_service_version e = Some (sn_service_version s) \<and>
       me_operation e = Some (sn_operation s) \<and> me_subject_pattern e = Some (sn_subject_pattern s) \<and>
       me_queue_group e = sn_queue_group s \<and> me_stream e = sn_stream s \<and>
       me_consumer e = sn_consumer s \<and> me_subject e = Some (sn_subject s) \<and>
       me_request_id e = sn_request_id s"
  using assms by (auto simp: request_span_def event_operation_def split: if_splits)

section \<open>What the request worker records around one request\<close>

text \<open>
  On acceptance (\<open>in_flight\<close> is the number of requests already running) and on completion,
  from \<open>run_request_endpoint_inner\<close>.
\<close>

definition accept_metrics ::
  "telemetry_config \<Rightarrow> operation_spec \<Rightarrow> nat \<Rightarrow> nat \<Rightarrow> string \<Rightarrow> string option \<Rightarrow>
   metric_event list" where
  "accept_metrics config spec in_flight concurrency subject request_id =
     telemetry_operation config RequestsReceived 1 None spec (Some subject) request_id None @
     telemetry_operation config RequestsInFlight 1 None spec (Some subject) request_id None @
     (if concurrency \<le> in_flight + 1
      then telemetry_operation config RejectedOverCapacity 1 None spec (Some subject) request_id
        None
      else [])"

definition completion_metrics ::
  "telemetry_config \<Rightarrow> operation_spec \<Rightarrow> duration \<Rightarrow> string + unit \<Rightarrow> metric_event list" where
  "completion_metrics config spec elapsed result =
     telemetry_operation config RequestsInFlight (-1) None spec None None None @
     telemetry_operation config EndpointLatency 1 (Some elapsed) spec None None None @
     telemetry_operation config (if is_ok result then RequestsCompleted else FrameworkErrors) 1
       None spec None None (if is_ok result then None else Some ''WORKER_PROCESS_FAILED'')"

definition metric_total :: "metric_name \<Rightarrow> metric_event list \<Rightarrow> int" where
  "metric_total m es = sum_list (map me_value (filter (\<lambda>e. me_metric e = m) es))"

lemma metric_total_append [simp]: "metric_total m (xs @ ys) = metric_total m xs + metric_total m ys"
  by (simp add: metric_total_def)

lemma metric_total_operation [simp]:
  "metric_total m (telemetry_operation config metric v dur spec s r e) =
     (if m = metric \<and> enabled_by metric config then v else 0)"
  by (simp add: metric_total_def telemetry_operation_def event_operation_def)

lemma metric_total_Nil [simp]: "metric_total m [] = 0"
  by (simp add: metric_total_def)

text \<open>
  The request metrics add up.  Every request contributes nothing to the in-flight gauge
  once it has completed, counts once as received and once as completed or failed, and only
  metrics whose switch is on are emitted.
\<close>

theorem request_metrics_balance:
  "metric_total RequestsInFlight
     (accept_metrics config spec n c subject rid @ completion_metrics config spec t result) = 0 \<and>
   metric_total RequestsReceived
     (accept_metrics config spec n c subject rid @ completion_metrics config spec t result) =
     (if tc_counters config then 1 else 0) \<and>
   metric_total RequestsCompleted (completion_metrics config spec t result) +
   metric_total FrameworkErrors (completion_metrics config spec t result) =
     (if tc_counters config then 1 else 0) \<and>
   list_all (\<lambda>e. enabled_by (me_metric e) config)
     (accept_metrics config spec n c subject rid @ completion_metrics config spec t result)"
  by (cases "is_ok result")
    (simp_all add: accept_metrics_def completion_metrics_def telemetry_operation_def
      event_operation_def metric_total_def)

end
