(* ===== verification/Processing.thy ===== *)
theory Processing
  imports Telemetry Responses
begin

text \<open>
  What the workers do with one message: \<open>process_plain_request\<close>,
  \<open>process_encrypted_request\<close>, \<open>respond_error\<close> (\<open>runtime/request_worker.rs\<close>),
  \<open>process_message\<close> (\<open>runtime/subscription_worker.rs\<close>) and \<open>process_consumer\<close>
  (\<open>runtime/consumer_worker.rs\<close>).  The handler is an argument; whether sending a reply or an
  acknowledgement succeeds is an argument too.  The result is the list of effects in order and
  the \<open>Result\<close> of the function.
\<close>

section \<open>Requests\<close>

datatype 'h request_effect =
    Metric metric_event
  | Respond bytes "'h option"

record 'h raw_request =
  rr_subject :: string
  rr_reply :: "string option"
  rr_payload :: bytes
  rr_headers :: "'h option"

definition raw_view :: "'h header_ops \<Rightarrow> 'h raw_request \<Rightarrow> 'h request" where
  "raw_view H raw =
     request_new H (rr_subject raw) (rr_reply raw) (rr_payload raw) (rr_headers raw)"

definition raw_request_id :: "'h header_ops \<Rightarrow> 'h raw_request \<Rightarrow> string option" where
  "raw_request_id H raw = Option.bind (rr_headers raw) (\<lambda>h. ho_get H h ''x-request-id'')"

definition error_metric :: "error_reply \<Rightarrow> metric_name" where
  "error_metric error =
     (if framework_from_code (rp_kind error) \<noteq> None then FrameworkErrors else ServiceErrors)"

definition record_endpoint_error ::
  "telemetry_config option \<Rightarrow> operation_spec \<Rightarrow> string \<Rightarrow> string option \<Rightarrow> error_reply \<Rightarrow>
   metric_event list" where
  "record_endpoint_error telemetry spec subject request_id error =
     (case telemetry of
        None \<Rightarrow> []
      | Some config \<Rightarrow> telemetry_operation config (error_metric error) 1 None spec (Some subject)
          request_id (Some (rp_kind error)))"

definition respond_error :: "'h header_ops \<Rightarrow> error_reply \<Rightarrow> 'h request_effect" where
  "respond_error H error = Respond (rp_payload error) (Some (service_error_headers H error))"

definition respond_with ::
  "'h header_ops \<Rightarrow> telemetry_config option \<Rightarrow> operation_spec \<Rightarrow> 'h raw_request \<Rightarrow>
   error_reply + 'h response \<Rightarrow> 'h request_effect list" where
  "respond_with H telemetry spec raw result =
     (case result of
        Inr REmpty \<Rightarrow> [Respond [] None]
      | Inr (RPayload payload) \<Rightarrow> [Respond payload None]
      | Inr (RWithHeaders payload headers) \<Rightarrow> [Respond payload (Some headers)]
      | Inl error \<Rightarrow>
          map Metric (record_endpoint_error telemetry spec (rr_subject raw)
            (raw_request_id H raw) error) @ [respond_error H error])"

definition process_plain_request ::
  "'h header_ops \<Rightarrow> telemetry_config option \<Rightarrow> operation_spec \<Rightarrow>
   ('h request \<Rightarrow> error_reply + 'h response) \<Rightarrow> string + unit \<Rightarrow> 'h raw_request \<Rightarrow>
   'h request_effect list \<times> (string + unit)" where
  "process_plain_request H telemetry spec call sent raw =
     (respond_with H telemetry spec raw (call (raw_view H raw)), sent)"

definition process_encrypted_request ::
  "'h header_ops \<Rightarrow> telemetry_config option \<Rightarrow> operation_spec \<Rightarrow>
   ('k \<Rightarrow> 'h request \<Rightarrow> error_reply + 'h response) \<Rightarrow> 'k \<Rightarrow> string + unit \<Rightarrow> 'h raw_request \<Rightarrow>
   'h request_effect list \<times> (string + unit)" where
  "process_encrypted_request H telemetry spec call keypair sent raw =
     (respond_with H telemetry spec raw (call keypair (raw_view H raw)), sent)"

fun responses :: "'h request_effect list \<Rightarrow> (bytes \<times> 'h option) list" where
  "responses [] = []"
| "responses (Metric _ # es) = responses es"
| "responses (Respond payload headers # es) = (payload, headers) # responses es"

lemma responses_append [simp]: "responses (xs @ ys) = responses xs @ responses ys"
  by (induction xs rule: responses.induct) simp_all

lemma responses_metrics [simp]: "responses (map Metric es) = []"
  by (induction es) simp_all

lemma respond_with_responses:
  "responses (respond_with H telemetry spec raw result) =
     [case result of
        Inr REmpty \<Rightarrow> ([], None)
      | Inr (RPayload payload) \<Rightarrow> (payload, None)
      | Inr (RWithHeaders payload headers) \<Rightarrow> (payload, Some headers)
      | Inl error \<Rightarrow> (rp_payload error, Some (service_error_headers H error))]"
  by (simp add: respond_with_def respond_error_def split: sum.split response.split)

text \<open>
  Every request is answered exactly once, whatever its handler returns: with the empty
  payload, the payload, or the payload and headers of the response, and on an error with the
  error's payload and the service error headers; sending the answer decides the result.
\<close>

theorem every_request_answered_once:
  "responses (fst (process_plain_request H telemetry spec call sent raw)) =
     [case call (raw_view H raw) of
        Inr REmpty \<Rightarrow> ([], None)
      | Inr (RPayload payload) \<Rightarrow> (payload, None)
      | Inr (RWithHeaders payload headers) \<Rightarrow> (payload, Some headers)
      | Inl error \<Rightarrow> (rp_payload error, Some (service_error_headers H error))] \<and>
   length (responses (fst (process_encrypted_request H telemetry spec ecall keypair sent raw))) = 1 \<and>
   snd (process_plain_request H telemetry spec call sent raw) = sent \<and>
   snd (process_encrypted_request H telemetry spec ecall keypair sent raw) = sent"
  by (simp add: process_plain_request_def process_encrypted_request_def respond_with_responses)

section \<open>Core subscriptions\<close>

definition process_message ::
  "'h header_ops \<Rightarrow> ('h request \<Rightarrow> error_reply + unit) \<Rightarrow> 'h raw_request \<Rightarrow> string + unit" where
  "process_message H call message =
     map_err (\<lambda>error. rp_kind error @ '': '' @ rp_message error) (call (raw_view H message))"

section \<open>Consumers\<close>

datatype consumer_action = Ack | Nack | NackAfter duration | Term

datatype ack_kind = AckAck | AckNak "duration option" | AckProgress | AckTerm

datatype consumer_effect = CMetric metric_event | CAck ack_kind

primrec final_ack :: "consumer_action \<Rightarrow> ack_kind" where
  "final_ack Ack = AckAck"
| "final_ack Nack = AckNak None"
| "final_ack (NackAfter delay) = AckNak (Some delay)"
| "final_ack Term = AckTerm"

text \<open>
  The handler is still running for \<open>ticks\<close> ticks of the progress interval; the acknowledgement
  number \<open>n\<close> succeeds or fails as \<open>ack n\<close> says.  A failed progress acknowledgement abandons
  the handler.
\<close>

fun progress_loop :: "(nat \<Rightarrow> string + unit) \<Rightarrow> nat \<Rightarrow> nat \<Rightarrow> ack_kind list \<times> (string + nat)" where
  "progress_loop ack n 0 = ([], Inr n)"
| "progress_loop ack n (Suc ticks) =
     (case ack n of
        Inl e \<Rightarrow> ([AckProgress], Inl e)
      | Inr _ \<Rightarrow> (let (sent, r) = progress_loop ack (Suc n) ticks in (AckProgress # sent, r)))"

definition progress_period :: "nat \<Rightarrow> duration option" where
  "progress_period ack_wait_ms =
     (let period = from_millis ack_wait_ms div 3 in if period = 0 then None else Some period)"

definition consumer_error_metrics ::
  "telemetry_config option \<Rightarrow> consumer_spec \<Rightarrow> string \<Rightarrow> string option \<Rightarrow> error_reply \<Rightarrow>
   metric_event list" where
  "consumer_error_metrics telemetry spec subject request_id error =
     (case telemetry of
        None \<Rightarrow> []
      | Some config \<Rightarrow> telemetry_consumer config (error_metric error) 1 None spec (Some subject)
          request_id (Some (rp_kind error)))"

definition action_metrics ::
  "telemetry_config option \<Rightarrow> consumer_spec \<Rightarrow> string \<Rightarrow> string option \<Rightarrow> consumer_action \<Rightarrow>
   metric_event list" where
  "action_metrics telemetry spec subject request_id action =
     (case telemetry of
        None \<Rightarrow> []
      | Some config \<Rightarrow>
          (case action of
             Ack \<Rightarrow> []
           | Term \<Rightarrow> telemetry_consumer config ConsumerTerms 1 None spec (Some subject) request_id None
           | _ \<Rightarrow> telemetry_consumer config ConsumerNacks 1 None spec (Some subject) request_id None))"

definition latency_metrics ::
  "telemetry_config option \<Rightarrow> consumer_spec \<Rightarrow> string \<Rightarrow> string option \<Rightarrow> duration \<Rightarrow>
   metric_event list" where
  "latency_metrics telemetry spec subject request_id elapsed =
     (case telemetry of
        None \<Rightarrow> []
      | Some config \<Rightarrow> telemetry_consumer config ConsumerAckLatency 1 (Some elapsed) spec
          (Some subject) request_id None)"

definition process_consumer ::
  "'h header_ops \<Rightarrow> telemetry_config option \<Rightarrow> consumer_spec \<Rightarrow>
   ('h request \<Rightarrow> error_reply + consumer_action) \<Rightarrow> nat \<Rightarrow> (nat \<Rightarrow> string + unit) \<Rightarrow> duration \<Rightarrow>
   'h raw_request \<Rightarrow> consumer_effect list \<times> (string + unit)" where
  "process_consumer H telemetry spec call ticks ack elapsed message =
     (let subject = rr_subject message;
          request_id = raw_request_id H message;
          ticks' = (if progress_period (cs_ack_wait_ms spec) = None then 0 else ticks);
          (progress, state) = progress_loop ack 0 ticks'
      in case state of
           Inl e \<Rightarrow> (map CAck progress, Inl e)
         | Inr n \<Rightarrow>
             (let result = call (raw_view H message);
                  errors = (case result of
                    Inl error \<Rightarrow> consumer_error_metrics telemetry spec subject request_id error
                  | Inr _ \<Rightarrow> []);
                  action = (case result of Inl _ \<Rightarrow> Nack | Inr a \<Rightarrow> a);
                  before = map CAck progress @ map CMetric errors @
                    map CMetric (action_metrics telemetry spec subject request_id action) @
                    [CAck (final_ack action)]
              in case ack n of
                   Inl e \<Rightarrow> (before, Inl e)
                 | Inr _ \<Rightarrow>
                     (before @ map CMetric
                       (latency_metrics telemetry spec subject request_id elapsed), Inr ())))"

fun acks :: "consumer_effect list \<Rightarrow> ack_kind list" where
  "acks [] = []"
| "acks (CMetric _ # es) = acks es"
| "acks (CAck k # es) = k # acks es"

lemma acks_append [simp]: "acks (xs @ ys) = acks xs @ acks ys"
  by (induction xs rule: acks.induct) simp_all

lemma acks_map [simp]: "acks (map CMetric es) = []" "acks (map CAck ks) = ks"
  by (induction es, simp_all, induction ks, simp_all)

lemma progress_loop_ok:
  "(\<And>k. ack k = Inr ()) \<Longrightarrow> progress_loop ack n ticks = (replicate ticks AckProgress, Inr (n + ticks))"
  by (induction ticks arbitrary: n) simp_all

lemma progress_loop_kinds: "set (fst (progress_loop ack n ticks)) \<subseteq> {AckProgress}"
proof (induction ticks arbitrary: n)
  case (Suc ticks)
  show ?case using Suc.IH [of "Suc n"]
    by (cases "ack n"; cases "progress_loop ack (Suc n) ticks") auto
qed simp

lemma acks_replicate [simp]: "acks (replicate n (CAck k)) = replicate n k"
  by (induction n) simp_all

lemma progress_period_None: "progress_period ack_wait_ms = None \<longleftrightarrow> ack_wait_ms = 0"
  by (simp add: progress_period_def Let_def from_millis_def div_eq_0_iff)

text \<open>
  A consumer message is settled exactly once.  When the acknowledgements get through, the
  message receives one progress acknowledgement per tick while the handler runs and then
  exactly one final one, chosen by the handler's action, or a plain negative one when the
  handler failed; and the worker goes on.
\<close>

theorem consumer_settles_once:
  "acks (fst (process_consumer H telemetry spec call ticks (\<lambda>_. Inr ()) elapsed message)) =
     replicate (if cs_ack_wait_ms spec = 0 then 0 else ticks) AckProgress @
     [case call (raw_view H message) of Inl _ \<Rightarrow> AckNak None | Inr action \<Rightarrow> final_ack action] \<and>
   snd (process_consumer H telemetry spec call ticks (\<lambda>_. Inr ()) elapsed message) = Inr ()"
  by (cases "call (raw_view H message)")
    (simp_all add: process_consumer_def Let_def progress_loop_ok progress_period_None)

text \<open>
  C27: no message is settled before its handler has decided: with failing acknowledgements the
  worker fails with that error, everything sent before the final acknowledgement is a progress
  mark, and at most one final acknowledgement is ever sent.
\<close>

theorem consumer_never_settles_early:
  "\<exists>k. (acks (fst (process_consumer H telemetry spec call ticks ack elapsed message)) =
        replicate k AckProgress \<and>
      (\<exists>e. snd (process_consumer H telemetry spec call ticks ack elapsed message) = Inl e)) \<or>
     acks (fst (process_consumer H telemetry spec call ticks ack elapsed message)) =
       replicate k AckProgress @
       [case call (raw_view H message) of Inl _ \<Rightarrow> AckNak None | Inr action \<Rightarrow> final_ack action]"
proof -
  let ?t = "if progress_period (cs_ack_wait_ms spec) = None then 0 else ticks"
  obtain sent state where l: "progress_loop ack 0 ?t = (sent, state)" by (cases "progress_loop ack 0 ?t")
  have "set sent \<subseteq> {AckProgress}" using progress_loop_kinds [of ack 0 ?t] l by simp
  then have s: "sent = replicate (length sent) AckProgress"
    by (metis replicate_eqI singletonD subsetD)
  show ?thesis
  proof (cases state)
    case (Inl e)
    then have "process_consumer H telemetry spec call ticks ack elapsed message =
        (map CAck sent, Inl e)"
      using l by (simp add: process_consumer_def Let_def)
    then show ?thesis using s by (intro exI [of _ "length sent"]) simp
  next
    case (Inr n)
    then have "acks (fst (process_consumer H telemetry spec call ticks ack elapsed message)) =
       sent @ [case call (raw_view H message) of Inl _ \<Rightarrow> AckNak None | Inr action \<Rightarrow> final_ack action]"
      using l by (cases "ack n"; cases "call (raw_view H message)")
        (simp_all add: process_consumer_def Let_def)
    then show ?thesis using s by (intro exI [of _ "length sent"]) simp
  qed
qed

end
