(* ===== verification/Encryption.thy ===== *)
theory Encryption
  imports Headers
begin

text \<open>
  \<open>nats-micro/src/encryption/mod.rs\<close>: key derivation, the signature transcript, the request
  and response envelopes, and the request builder.  HMAC-SHA256, X25519, XChaCha20-Poly1305
  and base64 are third-party code: the record \<open>crypto_ops\<close> holds the functions the source
  calls, and \<open>crypto_laws\<close> their documented behaviour.  An \<open>Hmac\<close> fed by several
  \<open>update\<close> calls authenticates the concatenation of the pieces.  Random values (ephemeral
  secrets and nonces) are arguments.
\<close>

section \<open>Primitives\<close>

record crypto_ops =
  cr_hmac :: "bytes \<Rightarrow> bytes \<Rightarrow> bytes"
  cr_dh :: "bytes \<Rightarrow> bytes \<Rightarrow> bytes"
  cr_public :: "bytes \<Rightarrow> bytes"
  cr_seal :: "bytes \<Rightarrow> bytes \<Rightarrow> bytes \<Rightarrow> bytes option"
  cr_open :: "bytes \<Rightarrow> bytes \<Rightarrow> bytes \<Rightarrow> bytes option"
  cr_b64_encode :: "bytes \<Rightarrow> string"
  cr_b64_decode :: "string \<Rightarrow> string + bytes"

definition EPH_PUB_LEN :: nat where "EPH_PUB_LEN = 32"
definition NONCE_LEN :: nat where "NONCE_LEN = 24"
definition TAG_LEN :: nat where "TAG_LEN = 16"
definition MIN_REQUEST_ENVELOPE :: nat where
  "MIN_REQUEST_ENVELOPE = EPH_PUB_LEN + NONCE_LEN + TAG_LEN"
definition MIN_RESPONSE_ENVELOPE :: nat where
  "MIN_RESPONSE_ENVELOPE = NONCE_LEN + TAG_LEN"
definition KEY_DERIVATION_SALT :: bytes where
  "KEY_DERIVATION_SALT = as_bytes ''nats-micro encryption v1''"
definition ENCRYPTION_KEY_INFO :: bytes where
  "ENCRYPTION_KEY_INFO = as_bytes ''nats-micro aead key v1''"
definition SIGNATURE_KEY_INFO :: bytes where
  "SIGNATURE_KEY_INFO = as_bytes ''nats-micro signature key v1''"
definition TRANSCRIPT_VERSION :: bytes where
  "TRANSCRIPT_VERSION = as_bytes ''nats-micro request signature v1''"

lemmas length_consts =
  EPH_PUB_LEN_def NONCE_LEN_def TAG_LEN_def MIN_REQUEST_ENVELOPE_def MIN_RESPONSE_ENVELOPE_def

text \<open>
  Both parties of X25519 compute the same secret; a sealed message opens to its plaintext and
  is 16 bytes longer; base64 decoding inverts encoding; keys and tags have 32 bytes.
\<close>

definition crypto_laws :: "crypto_ops \<Rightarrow> bool" where
  "crypto_laws C \<longleftrightarrow>
     (\<forall>k m. length (cr_hmac C k m) = 32) \<and>
     (\<forall>s. length (cr_public C s) = 32) \<and>
     (\<forall>a b. length a = 32 \<longrightarrow> length b = 32 \<longrightarrow>
        cr_dh C a (cr_public C b) = cr_dh C b (cr_public C a)) \<and>
     (\<forall>k n p c. cr_seal C k n p = Some c \<longrightarrow>
        cr_open C k n c = Some p \<and> length c = length p + 16) \<and>
     (\<forall>b. cr_b64_decode C (cr_b64_encode C b) = Inr b)"

lemma crypto_lawsD:
  assumes "crypto_laws C"
  shows "length (cr_hmac C k m) = 32" "length (cr_public C s) = 32"
    and "length a = 32 \<Longrightarrow> length b = 32 \<Longrightarrow>
      cr_dh C a (cr_public C b) = cr_dh C b (cr_public C a)"
    and "cr_seal C k n p = Some c \<Longrightarrow> cr_open C k n c = Some p"
    and "cr_seal C k n p = Some c \<Longrightarrow> length c = length p + 16"
    and "cr_b64_decode C (cr_b64_encode C bs) = Inr bs"
  using assms unfolding crypto_laws_def by blast+

section \<open>Errors\<close>

datatype encryption_error =
    DecryptFailedIn string
  | TooShort string nat nat
  | EncryptFailedIn string
  | BadSignature
  | NoClient
  | PublishFailed string
  | RequestFailed string
  | InvalidHeaderError string
  | ReservedHeader string

primrec encryption_error_display :: "encryption_error \<Rightarrow> string" where
  "encryption_error_display (DecryptFailedIn context) = ''failed to decrypt data while '' @ context"
| "encryption_error_display (TooShort context expected actual) =
     ''data was too short while '' @ context @ '' (expected at least '' @ show_nat expected @
     '' bytes, got '' @ show_nat actual @ '')''"
| "encryption_error_display (EncryptFailedIn context) = ''failed to encrypt data while '' @ context"
| "encryption_error_display BadSignature = ''the signature is invalid''"
| "encryption_error_display NoClient = ''no NATS client is configured on ServiceRecipient''"
| "encryption_error_display (PublishFailed e) = ''failed to publish the NATS message: '' @ e"
| "encryption_error_display (RequestFailed e) = ''failed to send the NATS request: '' @ e"
| "encryption_error_display (InvalidHeaderError e) = ''invalid header: '' @ e"
| "encryption_error_display (ReservedHeader h) =
     ''encrypted header `'' @ h @ ''` is reserved for nats-micro encryption transport metadata''"

section \<open>Key derivation\<close>

record derived_keys =
  dk_encryption :: bytes
  dk_signature :: bytes

definition hkdf_expand_one :: "crypto_ops \<Rightarrow> bytes \<Rightarrow> bytes \<Rightarrow> bytes" where
  "hkdf_expand_one C prk info = cr_hmac C prk (info @ [1])"

definition derive_keys :: "crypto_ops \<Rightarrow> bytes \<Rightarrow> bytes \<Rightarrow> derived_keys" where
  "derive_keys C shared_secret ephemeral_pub =
     (let prk = cr_hmac C KEY_DERIVATION_SALT (shared_secret @ ephemeral_pub)
      in \<lparr>dk_encryption = hkdf_expand_one C prk ENCRYPTION_KEY_INFO,
          dk_signature = hkdf_expand_one C prk SIGNATURE_KEY_INFO\<rparr>)"

section \<open>The signature transcript\<close>

record signature_transcript =
  st_subject :: string
  st_ephemeral_pub :: bytes
  st_request_id :: "string option"
  st_client_version :: "string option"
  st_encrypted_headers :: "string option"
  st_payload :: bytes

definition transcript_new :: "string \<Rightarrow> bytes \<Rightarrow> bytes \<Rightarrow> signature_transcript" where
  "transcript_new subject ephemeral_pub payload =
     \<lparr>st_subject = subject, st_ephemeral_pub = ephemeral_pub, st_request_id = None,
      st_client_version = None, st_encrypted_headers = None, st_payload = payload\<rparr>"

text \<open>\<open>u64::to_be_bytes\<close>, most significant byte first.\<close>

definition u64_be :: "nat \<Rightarrow> bytes" where
  "u64_be n = map (\<lambda>i. of_nat (n div 256 ^ i)) [7, 6, 5, 4, 3, 2, 1, 0]"

definition len_prefixed :: "bytes \<Rightarrow> bytes \<Rightarrow> bytes" where
  "len_prefixed label v = label @ u64_be (length v) @ v"

definition optional_prefixed :: "bytes \<Rightarrow> string option \<Rightarrow> bytes" where
  "optional_prefixed label v =
     (case v of Some s \<Rightarrow> len_prefixed label (as_bytes s) | None \<Rightarrow> len_prefixed label [])"

definition signature_input :: "signature_transcript \<Rightarrow> bytes" where
  "signature_input t =
     len_prefixed (as_bytes ''version'') TRANSCRIPT_VERSION @
     len_prefixed (as_bytes ''subject'') (as_bytes (st_subject t)) @
     len_prefixed (as_bytes ''ephemeral-pub-key'') (st_ephemeral_pub t) @
     optional_prefixed (as_bytes ''request-id'') (st_request_id t) @
     optional_prefixed (as_bytes ''client-version'') (st_client_version t) @
     optional_prefixed (as_bytes ''encrypted-headers'') (st_encrypted_headers t) @
     len_prefixed (as_bytes ''payload'') (st_payload t)"

definition compute_signature_for_transcript ::
  "crypto_ops \<Rightarrow> bytes \<Rightarrow> signature_transcript \<Rightarrow> bytes" where
  "compute_signature_for_transcript C signature_key t =
     cr_hmac C signature_key (signature_input t)"

definition verify_signature_for_transcript ::
  "crypto_ops \<Rightarrow> bytes \<Rightarrow> signature_transcript \<Rightarrow> bytes \<Rightarrow> encryption_error + unit" where
  "verify_signature_for_transcript C signature_key t sig =
     (if sig = cr_hmac C signature_key (signature_input t) then Inr () else Inl BadSignature)"

definition legacy_transcript :: "bytes \<Rightarrow> string option \<Rightarrow> signature_transcript" where
  "legacy_transcript payload encrypted_headers_value =
     (transcript_new '''' (replicate 32 0) payload)
       \<lparr>st_encrypted_headers := encrypted_headers_value\<rparr>"

definition compute_signature :: "crypto_ops \<Rightarrow> bytes \<Rightarrow> bytes \<Rightarrow> string option \<Rightarrow> bytes" where
  "compute_signature C shared_key payload encrypted_headers_value =
     compute_signature_for_transcript C shared_key
       (legacy_transcript payload encrypted_headers_value)"

definition verify_signature ::
  "crypto_ops \<Rightarrow> bytes \<Rightarrow> bytes \<Rightarrow> string option \<Rightarrow> bytes \<Rightarrow> encryption_error + unit" where
  "verify_signature C shared_key payload encrypted_headers_value sig =
     verify_signature_for_transcript C shared_key
       (legacy_transcript payload encrypted_headers_value) sig"

section \<open>The transcript is unambiguous\<close>

definition be_nat :: "bytes \<Rightarrow> nat" where
  "be_nat bs = foldl (\<lambda>a b. a * 256 + unat b) 0 bs"

lemma be_nat_digits: "be_nat (map (\<lambda>i. of_nat (n div 256 ^ i)) (rev [0..<k])) = n mod 256 ^ k"
proof (induction k arbitrary: n)
  case 0
  then show ?case by (simp add: be_nat_def)
next
  case (Suc k)
  have snoc: "be_nat (xs @ [x]) = be_nat xs * 256 + unat x" for xs x
    by (simp add: be_nat_def)
  have "rev [0..<Suc k] = map Suc (rev [0..<k]) @ [0]"
    by (simp add: rev_map upt_conv_Cons map_Suc_upt [symmetric] del: upt_Suc map_Suc_upt)
  then have "be_nat (map (\<lambda>i. of_nat (n div 256 ^ i)) (rev [0..<Suc k])) =
      be_nat (map (\<lambda>i. of_nat (n div 256 div 256 ^ i)) (rev [0..<k])) * 256 + n mod 256"
    by (simp add: snoc comp_def div_mult2_eq unat_of_nat)
  also have "\<dots> = n mod 256 ^ Suc k"
    using Suc.IH [of "n div 256"] by (simp add: mod_mult2_eq)
  finally show ?case .
qed

lemma be_nat_u64: "be_nat (u64_be n) = n mod 2 ^ 64"
proof -
  have "rev [0..<8] = [7, 6, 5, 4, 3, 2, 1, 0 :: nat]" by (simp add: upt_rec)
  then show ?thesis using be_nat_digits [of n 8] by (simp add: u64_be_def)
qed

lemma length_u64_be [simp]: "length (u64_be n) = 8"
  by (simp add: u64_be_def)

lemma u64_be_inj: "m < 2 ^ 64 \<Longrightarrow> n < 2 ^ 64 \<Longrightarrow> u64_be m = u64_be n \<longleftrightarrow> m = n"
  by (metis be_nat_u64 mod_less)

lemma len_prefixed_inj:
  assumes "length v < 2 ^ 64" "length w < 2 ^ 64"
  shows "len_prefixed label v @ r = len_prefixed label w @ s \<longleftrightarrow> v = w \<and> r = s"
proof
  assume "len_prefixed label v @ r = len_prefixed label w @ s"
  then have "u64_be (length v) @ v @ r = u64_be (length w) @ w @ s"
    by (simp add: len_prefixed_def)
  then have "u64_be (length v) = u64_be (length w)" "v @ r = w @ s"
    by (auto simp: append_eq_append_conv)
  then show "v = w \<and> r = s"
    using assms u64_be_inj by (auto simp: append_eq_append_conv)
qed simp

definition text_of :: "string option \<Rightarrow> string" where
  "text_of v = (case v of Some s \<Rightarrow> s | None \<Rightarrow> [])"

lemma optional_prefixed_conv: "optional_prefixed label v = len_prefixed label (as_bytes (text_of v))"
  by (cases v) (simp_all add: optional_prefixed_def text_of_def as_bytes_def)

definition transcript_fits :: "signature_transcript \<Rightarrow> bool" where
  "transcript_fits t \<longleftrightarrow>
     length (st_subject t) < 2 ^ 64 \<and> length (st_ephemeral_pub t) = 32 \<and>
     length (text_of (st_request_id t)) < 2 ^ 64 \<and>
     length (text_of (st_client_version t)) < 2 ^ 64 \<and>
     length (text_of (st_encrypted_headers t)) < 2 ^ 64 \<and> length (st_payload t) < 2 ^ 64"

lemma signature_input_inj:
  assumes "transcript_fits t" "transcript_fits u"
  shows "signature_input t = signature_input u \<longleftrightarrow>
    st_subject t = st_subject u \<and> st_ephemeral_pub t = st_ephemeral_pub u \<and>
    text_of (st_request_id t) = text_of (st_request_id u) \<and>
    text_of (st_client_version t) = text_of (st_client_version u) \<and>
    text_of (st_encrypted_headers t) = text_of (st_encrypted_headers u) \<and>
    st_payload t = st_payload u"
proof -
  have last: "len_prefixed label v = len_prefixed label w \<longleftrightarrow> v = w"
    if "length v < 2 ^ 64" "length w < 2 ^ 64" for label v w
    using len_prefixed_inj [OF that, of label "[]" "[]"] by simp
  show ?thesis
    using assms unfolding signature_input_def optional_prefixed_conv transcript_fits_def
    by (simp add: len_prefixed_inj last as_bytes_inj TRANSCRIPT_VERSION_def)
qed

text \<open>
  C22: the signed bytes determine the request.  For requests whose fields fit a 64-bit length,
  two transcripts feed the MAC the same bytes exactly when subject, ephemeral key and payload
  agree and the three optional headers have the same text; an absent header and an empty one
  are the only values identified.
\<close>

theorem signature_transcript_unambiguous:
  "transcript_fits t \<Longrightarrow> transcript_fits u \<Longrightarrow>
   signature_input t = signature_input u \<longleftrightarrow>
     st_subject t = st_subject u \<and> st_ephemeral_pub t = st_ephemeral_pub u \<and>
     text_of (st_request_id t) = text_of (st_request_id u) \<and>
     text_of (st_client_version t) = text_of (st_client_version u) \<and>
     text_of (st_encrypted_headers t) = text_of (st_encrypted_headers u) \<and>
     st_payload t = st_payload u"
  by (rule signature_input_inj)

theorem signature_transcript_unambiguous_witness:
  "signature_input (transcript_new ''a'' (replicate 32 0) [1]) \<noteq>
   signature_input (transcript_new ''a1'' (replicate 32 0) [])"
  using signature_transcript_unambiguous
    [of "transcript_new ''a'' (replicate 32 0) [1]" "transcript_new ''a1'' (replicate 32 0) []"]
  by (simp add: transcript_new_def transcript_fits_def text_of_def)

end
