(* ===== verification/Envelopes.thy ===== *)
theory Envelopes
  imports Encryption Requests
begin

text \<open>
  The rest of \<open>nats-micro/src/encryption/mod.rs\<close>: the service key pair, the recipient, the
  ephemeral context of one request, the two envelope formats and the request builder.  A
  32-byte array is a byte list; \<open>array_of n\<close> is \<open>try_into\<close> from a slice.  Nonces and
  ephemeral secrets are arguments, in the order in which the code draws them.
\<close>

definition array_of :: "nat \<Rightarrow> bytes \<Rightarrow> bytes option" where
  "array_of n xs = (if length xs = n then Some xs else None)"

section \<open>Sealing\<close>

definition encrypt_aead ::
  "crypto_ops \<Rightarrow> bytes \<Rightarrow> bytes \<Rightarrow> bytes \<Rightarrow> encryption_error + bytes \<times> bytes" where
  "encrypt_aead C nonce key plaintext =
     (case cr_seal C key nonce plaintext of
        None \<Rightarrow> Inl (EncryptFailedIn ''encrypting payload with XChaCha20Poly1305'')
      | Some ciphertext \<Rightarrow> Inr (ciphertext, nonce))"

definition decrypt_aead ::
  "crypto_ops \<Rightarrow> string \<Rightarrow> bytes \<Rightarrow> bytes \<Rightarrow> bytes \<Rightarrow> encryption_error + bytes" where
  "decrypt_aead C context_name key nonce ciphertext =
     ok_or (DecryptFailedIn context_name) (cr_open C key nonce ciphertext)"

definition build_response_envelope :: "bytes \<Rightarrow> bytes \<Rightarrow> bytes" where
  "build_response_envelope nonce ciphertext = nonce @ ciphertext"

section \<open>The service key pair\<close>

record service_key_pair =
  kp_secret :: bytes
  kp_public :: bytes

definition from_private_bytes :: "crypto_ops \<Rightarrow> bytes \<Rightarrow> service_key_pair" where
  "from_private_bytes C secret = \<lparr>kp_secret = secret, kp_public = cr_public C secret\<rparr>"

definition key_pair_generate :: "crypto_ops \<Rightarrow> bytes \<Rightarrow> service_key_pair" where
  "key_pair_generate C random_secret =
     \<lparr>kp_secret = random_secret, kp_public = cr_public C random_secret\<rparr>"

datatype base64_error = DecodeError string | InvalidLength nat

definition key_pair_from_base64 :: "crypto_ops \<Rightarrow> string \<Rightarrow> base64_error + service_key_pair" where
  "key_pair_from_base64 C encoded =
     try_then (map_err DecodeError (cr_b64_decode C encoded))
       (\<lambda>bs. try_then (ok_or (InvalidLength (length bs)) (array_of 32 bs))
         (\<lambda>arr. Inr (from_private_bytes C arr)))"

definition expose_secret_b64 :: "crypto_ops \<Rightarrow> service_key_pair \<Rightarrow> string" where
  "expose_secret_b64 C kp = cr_b64_encode C (kp_secret kp)"

definition public_key_base64 :: "crypto_ops \<Rightarrow> service_key_pair \<Rightarrow> string" where
  "public_key_base64 C kp = cr_b64_encode C (kp_public kp)"

definition key_pair_derive_keys :: "crypto_ops \<Rightarrow> service_key_pair \<Rightarrow> bytes \<Rightarrow> derived_keys" where
  "key_pair_derive_keys C kp eph = derive_keys C (cr_dh C (kp_secret kp) eph) eph"

definition derive_encryption_key :: "crypto_ops \<Rightarrow> service_key_pair \<Rightarrow> bytes \<Rightarrow> bytes" where
  "derive_encryption_key C kp eph = dk_encryption (key_pair_derive_keys C kp eph)"

definition derive_signature_key :: "crypto_ops \<Rightarrow> service_key_pair \<Rightarrow> bytes \<Rightarrow> bytes" where
  "derive_signature_key C kp eph = dk_signature (key_pair_derive_keys C kp eph)"

definition request_nonce :: "bytes \<Rightarrow> bytes option" where
  "request_nonce data = array_of NONCE_LEN (take NONCE_LEN (drop EPH_PUB_LEN data))"

definition request_ciphertext :: "bytes \<Rightarrow> bytes" where
  "request_ciphertext data = drop (EPH_PUB_LEN + NONCE_LEN) data"

definition key_pair_decrypt ::
  "crypto_ops \<Rightarrow> service_key_pair \<Rightarrow> bytes \<Rightarrow> encryption_error + bytes" where
  "key_pair_decrypt C kp data =
     (if length data < MIN_REQUEST_ENVELOPE
      then Inl (TooShort ''reading encrypted request envelope'' MIN_REQUEST_ENVELOPE (length data))
      else try_then
        (ok_or (DecryptFailedIn ''reading ephemeral public key from request payload'')
          (array_of EPH_PUB_LEN (take EPH_PUB_LEN data)))
        (\<lambda>eph. try_then
          (ok_or (DecryptFailedIn ''reading request nonce'') (request_nonce data))
          (\<lambda>nonce. decrypt_aead C ''decrypting request payload body''
            (derive_encryption_key C kp eph) nonce (request_ciphertext data))))"

definition encrypt_response ::
  "crypto_ops \<Rightarrow> service_key_pair \<Rightarrow> bytes \<Rightarrow> bytes \<Rightarrow> bytes \<Rightarrow> encryption_error + bytes" where
  "encrypt_response C kp nonce plaintext eph =
     try_then (encrypt_aead C nonce (derive_encryption_key C kp eph) plaintext)
       (\<lambda>(ciphertext, n). Inr (build_response_envelope n ciphertext))"

definition decrypt_with_encryption_key ::
  "crypto_ops \<Rightarrow> bytes \<Rightarrow> bytes \<Rightarrow> encryption_error + bytes" where
  "decrypt_with_encryption_key C key data =
     (if length data < MIN_REQUEST_ENVELOPE
      then Inl (TooShort ''reading encryption-key request envelope'' MIN_REQUEST_ENVELOPE
        (length data))
      else try_then
        (ok_or (DecryptFailedIn ''reading encryption-key request nonce'') (request_nonce data))
        (\<lambda>nonce. decrypt_aead C ''decrypting encryption-key request payload body'' key nonce
          (request_ciphertext data)))"

definition encrypt_response_with_encryption_key ::
  "crypto_ops \<Rightarrow> bytes \<Rightarrow> bytes \<Rightarrow> bytes \<Rightarrow> encryption_error + bytes" where
  "encrypt_response_with_encryption_key C nonce key plaintext =
     try_then (encrypt_aead C nonce key plaintext)
       (\<lambda>(ciphertext, n). Inr (build_response_envelope n ciphertext))"

section \<open>The client's context for one request\<close>

record ephemeral_context =
  ec_ephemeral_pub :: bytes
  ec_keys :: derived_keys

definition recipient_begin :: "crypto_ops \<Rightarrow> bytes \<Rightarrow> bytes \<Rightarrow> ephemeral_context" where
  "recipient_begin C eph_secret recipient_public =
     (let eph_public = cr_public C eph_secret;
          shared_secret = cr_dh C eph_secret recipient_public
      in \<lparr>ec_ephemeral_pub = eph_public, ec_keys = derive_keys C shared_secret eph_public\<rparr>)"

definition context_encrypt ::
  "crypto_ops \<Rightarrow> ephemeral_context \<Rightarrow> bytes \<Rightarrow> bytes \<Rightarrow> encryption_error + bytes" where
  "context_encrypt C ctx nonce plaintext =
     try_then (encrypt_aead C nonce (dk_encryption (ec_keys ctx)) plaintext)
       (\<lambda>(ciphertext, n). Inr (ec_ephemeral_pub ctx @ n @ ciphertext))"

definition recipient_encrypt ::
  "crypto_ops \<Rightarrow> bytes \<Rightarrow> bytes \<Rightarrow> bytes \<Rightarrow> bytes \<Rightarrow> encryption_error + bytes \<times> ephemeral_context"
  where
  "recipient_encrypt C eph_secret nonce recipient_public plaintext =
     (let ctx = recipient_begin C eph_secret recipient_public
      in try_then (context_encrypt C ctx nonce plaintext) (\<lambda>encrypted. Inr (encrypted, ctx)))"

definition decrypt_response ::
  "crypto_ops \<Rightarrow> ephemeral_context \<Rightarrow> bytes \<Rightarrow> encryption_error + bytes" where
  "decrypt_response C ctx data =
     (if length data < MIN_RESPONSE_ENVELOPE
      then Inl (TooShort ''reading encrypted response envelope'' MIN_RESPONSE_ENVELOPE
        (length data))
      else try_then
        (ok_or (DecryptFailedIn ''reading response nonce'')
          (array_of NONCE_LEN (take NONCE_LEN data)))
        (\<lambda>nonce. decrypt_aead C ''decrypting response payload body''
          (dk_encryption (ec_keys ctx)) nonce (drop NONCE_LEN data)))"

section \<open>Envelope lemmas\<close>

lemma begin_keys:
  assumes "crypto_laws C" "length eph_secret = 32" "length service_secret = 32"
  shows "ec_keys (recipient_begin C eph_secret (cr_public C service_secret)) =
    key_pair_derive_keys C (from_private_bytes C service_secret) (cr_public C eph_secret)"
  using crypto_lawsD(3) [OF assms]
  by (simp add: recipient_begin_def Let_def key_pair_derive_keys_def from_private_bytes_def)

lemma begin_pub [simp]:
  "ec_ephemeral_pub (recipient_begin C eph_secret pk) = cr_public C eph_secret"
  by (simp add: recipient_begin_def Let_def)

lemma derive_keys_as_begin:
  assumes "crypto_laws C" "length eph_secret = 32" "length service_secret = 32"
  shows "derive_encryption_key C (from_private_bytes C service_secret) (cr_public C eph_secret) =
      dk_encryption (ec_keys (recipient_begin C eph_secret (cr_public C service_secret)))"
    and "derive_signature_key C (from_private_bytes C service_secret) (cr_public C eph_secret) =
      dk_signature (ec_keys (recipient_begin C eph_secret (cr_public C service_secret)))"
  by (simp_all add: derive_encryption_key_def derive_signature_key_def begin_keys [OF assms])

lemma context_encrypt_envelope:
  assumes "crypto_laws C" "length nonce = 24" "length (ec_ephemeral_pub ctx) = 32"
    and "context_encrypt C ctx nonce plaintext = Inr env"
  obtains c where "cr_seal C (dk_encryption (ec_keys ctx)) nonce plaintext = Some c"
    and "env = ec_ephemeral_pub ctx @ nonce @ c" "length c = length plaintext + 16"
    and "take EPH_PUB_LEN env = ec_ephemeral_pub ctx" "request_nonce env = Some nonce"
    and "request_ciphertext env = c" "MIN_REQUEST_ENVELOPE \<le> length env"
proof -
  obtain c where c: "cr_seal C (dk_encryption (ec_keys ctx)) nonce plaintext = Some c"
    and env: "env = ec_ephemeral_pub ctx @ nonce @ c"
    using assms(4) by (auto simp: context_encrypt_def encrypt_aead_def split: option.splits)
  show ?thesis
    by (rule that [OF c env])
      (use assms c crypto_lawsD(5) [OF assms(1) c] in
        \<open>simp_all add: env request_nonce_def request_ciphertext_def array_of_def length_consts\<close>)
qed

lemma decrypt_context_encrypt:
  assumes "crypto_laws C" "length nonce = 24" "length (ec_ephemeral_pub ctx) = 32"
    and "context_encrypt C ctx nonce plaintext = Inr env"
  shows "decrypt_with_encryption_key C (dk_encryption (ec_keys ctx)) env = Inr plaintext"
  by (rule context_encrypt_envelope [OF assms])
    (simp add: decrypt_with_encryption_key_def decrypt_aead_def crypto_lawsD(4) [OF assms(1)])

lemma key_pair_decrypt_encrypt:
  assumes C: "crypto_laws C" and l: "length eph_secret = 32" "length secret = 32"
    and n: "length nonce = 24"
    and e: "recipient_encrypt C eph_secret nonce (cr_public C secret) plaintext = Inr (env, ctx)"
  shows "key_pair_decrypt C (from_private_bytes C secret) env = Inr plaintext"
proof -
  have ctx: "ctx = recipient_begin C eph_secret (cr_public C secret)"
    and env: "context_encrypt C ctx nonce plaintext = Inr env"
    using e by (auto simp: recipient_encrypt_def Let_def)
  have p: "length (ec_ephemeral_pub ctx) = 32" by (simp add: ctx crypto_lawsD(2) [OF C])
  show ?thesis
    by (rule context_encrypt_envelope [OF C n p env])
      (use p in \<open>simp add: key_pair_decrypt_def array_of_def length_consts decrypt_aead_def
        ctx derive_keys_as_begin [OF C l] crypto_lawsD(4) [OF C]\<close>)
qed

lemma decrypt_response_encrypt:
  assumes C: "crypto_laws C" and l: "length eph_secret = 32" "length secret = 32"
    and n: "length nonce = 24"
    and e: "encrypt_response C (from_private_bytes C secret) nonce plaintext
      (cr_public C eph_secret) = Inr env"
  shows "decrypt_response C (recipient_begin C eph_secret (cr_public C secret)) env = Inr plaintext"
proof -
  obtain c where c: "cr_seal C (dk_encryption
      (ec_keys (recipient_begin C eph_secret (cr_public C secret)))) nonce plaintext = Some c"
    and env: "env = nonce @ c"
    using e by (auto simp: encrypt_response_def encrypt_aead_def build_response_envelope_def
        derive_keys_as_begin [OF C l] split: option.splits)
  show ?thesis
    using crypto_lawsD(4,5) [OF C c] n
    by (simp add: env decrypt_response_def array_of_def length_consts decrypt_aead_def)
qed

end
