(* ===== verification/Encrypted_Requests.thy ===== *)
theory Encrypted_Requests
  imports Envelopes Responses "HOL-Library.Multiset"
begin

text \<open>
  The request builder of \<open>encryption/mod.rs\<close>, the encrypted headers of
  \<open>encryption/headers.rs\<close> and the server side of \<open>encryption/request.rs\<close>.  A \<open>HashMap\<close> is
  the list of its entries in iteration order, which \<open>mj_shuffle\<close> picks; its JSON conversion
  is \<open>serde_json\<close>'s (\<open>map_json_laws\<close> is the documented round trip).
\<close>

section \<open>Hash maps of strings\<close>

record map_json =
  mj_shuffle :: "(string \<times> string) list \<Rightarrow> (string \<times> string) list"
  mj_to_vec :: "(string \<times> string) list \<Rightarrow> bytes option"
  mj_from_slice :: "bytes \<Rightarrow> (string \<times> string) list option"

text \<open>\<open>collect()\<close> into a map: the last value of a repeated key wins.\<close>

fun last_wins :: "(string \<times> string) list \<Rightarrow> (string \<times> string) list" where
  "last_wins [] = []"
| "last_wins ((k, v) # xs) = (if k \<in> set (map fst xs) then last_wins xs else (k, v) # last_wins xs)"

definition hash_map_collect :: "map_json \<Rightarrow> (string \<times> string) list \<Rightarrow> (string \<times> string) list" where
  "hash_map_collect M xs = mj_shuffle M (last_wins xs)"

definition map_json_laws :: "map_json \<Rightarrow> bool" where
  "map_json_laws M \<longleftrightarrow>
     (\<forall>xs. mset (mj_shuffle M xs) = mset xs) \<and>
     (\<forall>xs. distinct (map fst xs) \<longrightarrow> list_all (\<lambda>(k, v). utf8_str k \<and> utf8_str v) xs \<longrightarrow>
        (\<exists>b ys. mj_to_vec M xs = Some b \<and> mj_from_slice M b = Some ys \<and> mset ys = mset xs))"

lemma last_wins_set: "set (last_wins xs) \<subseteq> set xs"
  by (induction xs rule: last_wins.induct) auto

lemma last_wins_keys: "fst ` set (last_wins xs) = fst ` set xs"
  by (induction xs rule: last_wins.induct) force+

lemma last_wins_distinct: "distinct (map fst (last_wins xs))"
  by (induction xs rule: last_wins.induct) (use last_wins_keys in auto)

lemma last_wins_map_of: "map_of (last_wins xs) = map_of (rev xs)"
proof (induction xs rule: last_wins.induct)
  case (2 k v xs)
  show ?case
  proof (cases "k \<in> fst ` set xs")
    case True
    then have "map_of (rev xs) k \<noteq> None" by (simp add: map_of_eq_None_iff)
    then show ?thesis using 2 True
      by (auto simp: map_add_def fun_eq_iff split: option.split)
  next
    case False
    then have "map_of (rev xs) k = None" by (simp add: map_of_eq_None_iff)
    then show ?thesis using 2 False
      by (auto simp: map_add_def fun_eq_iff split: option.split)
  qed
qed simp

section \<open>Header names\<close>

definition ENCRYPTED_HEADERS_NAME :: string where
  "ENCRYPTED_HEADERS_NAME = ''x-encrypted-headers''"
definition RESPONSE_PUB_KEY_NAME :: string where
  "RESPONSE_PUB_KEY_NAME = ''x-ephemeral-pub-key''"
definition SIGNATURE_HEADER_NAME :: string where
  "SIGNATURE_HEADER_NAME = ''x-signature''"

lemmas header_names =
  ENCRYPTED_HEADERS_NAME_def RESPONSE_PUB_KEY_NAME_def SIGNATURE_HEADER_NAME_def
  REQUEST_ID_HEADER_def

definition is_reserved_encryption_header_name :: "string \<Rightarrow> bool" where
  "is_reserved_encryption_header_name key \<longleftrightarrow>
     eq_ignore_ascii_case key ENCRYPTED_HEADERS_NAME \<or>
     eq_ignore_ascii_case key RESPONSE_PUB_KEY_NAME \<or>
     eq_ignore_ascii_case key SIGNATURE_HEADER_NAME"

section \<open>The request builder\<close>

record 'c request_builder =
  rb_ctx :: ephemeral_context
  rb_client :: "'c option"
  rb_plaintext_headers :: "(string \<times> string) list"
  rb_encrypted_headers :: "(string \<times> string) list"
  rb_payload :: "bytes option"
  rb_encrypt_payload :: bool

definition request_builder_new ::
  "crypto_ops \<Rightarrow> bytes \<Rightarrow> bytes \<Rightarrow> 'c option \<Rightarrow> 'c request_builder" where
  "request_builder_new C eph_secret recipient_public client =
     \<lparr>rb_ctx = recipient_begin C eph_secret recipient_public, rb_client = client,
      rb_plaintext_headers = [], rb_encrypted_headers = [], rb_payload = None,
      rb_encrypt_payload = False\<rparr>"

definition try_header ::
  "'h header_ops \<Rightarrow> 'c request_builder \<Rightarrow> string \<Rightarrow> string \<Rightarrow> encryption_error + 'c request_builder"
  where
  "try_header H b key v =
     try_then (map_err (\<lambda>error. InvalidHeaderError
         (''invalid plaintext header name `'' @ key @ ''`: '' @ error)) (ho_parse_name H key))
       (\<lambda>name. try_then (map_err (\<lambda>error. InvalidHeaderError
           (''invalid plaintext header value for `'' @ key @ ''`: '' @ error)) (ho_parse_value H v))
         (\<lambda>val. Inr (b\<lparr>rb_plaintext_headers := rb_plaintext_headers b @ [(name, val)]\<rparr>)))"

definition try_encrypted_header ::
  "'h header_ops \<Rightarrow> 'c request_builder \<Rightarrow> string \<Rightarrow> string \<Rightarrow> encryption_error + 'c request_builder"
  where
  "try_encrypted_header H b key v =
     try_then (map_err (\<lambda>error. InvalidHeaderError
         (''invalid encrypted header name `'' @ key @ ''`: '' @ error)) (ho_parse_name H key))
       (\<lambda>_. try_then (map_err (\<lambda>error. InvalidHeaderError
           (''invalid encrypted header value for `'' @ key @ ''`: '' @ error)) (ho_parse_value H v))
         (\<lambda>_. if is_reserved_encryption_header_name key then Inl (ReservedHeader key)
              else Inr (b\<lparr>rb_encrypted_headers := rb_encrypted_headers b @ [(key, v)]\<rparr>)))"

text \<open>The panicking variants: \<open>None\<close> is the panic of \<open>expect\<close>.\<close>

definition header_or_panic ::
  "'h header_ops \<Rightarrow> 'c request_builder \<Rightarrow> string \<Rightarrow> string \<Rightarrow> 'c request_builder option" where
  "header_or_panic H b key v = (case try_header H b key v of Inr b' \<Rightarrow> Some b' | Inl _ \<Rightarrow> None)"

definition encrypted_header_or_panic ::
  "'h header_ops \<Rightarrow> 'c request_builder \<Rightarrow> string \<Rightarrow> string \<Rightarrow> 'c request_builder option" where
  "encrypted_header_or_panic H b key v =
     (case try_encrypted_header H b key v of Inr b' \<Rightarrow> Some b' | Inl _ \<Rightarrow> None)"

definition try_bearer_token ::
  "'h header_ops \<Rightarrow> 'c request_builder \<Rightarrow> string \<Rightarrow> encryption_error + 'c request_builder" where
  "try_bearer_token H b token = try_encrypted_header H b ''authorization'' (''Bearer '' @ token)"

definition builder_payload :: "'c request_builder \<Rightarrow> bytes \<Rightarrow> 'c request_builder" where
  "builder_payload b data = b\<lparr>rb_payload := Some data, rb_encrypt_payload := False\<rparr>"

definition builder_encrypted_payload :: "'c request_builder \<Rightarrow> bytes \<Rightarrow> 'c request_builder" where
  "builder_encrypted_payload b data = b\<lparr>rb_payload := Some data, rb_encrypt_payload := True\<rparr>"

record 'h built_request =
  br_headers :: 'h
  br_payload :: bytes
  br_context :: ephemeral_context

fun insert_all :: "'h header_ops \<Rightarrow> (string \<times> string) list \<Rightarrow> 'h \<Rightarrow> 'h" where
  "insert_all H [] h = h"
| "insert_all H ((k, v) # xs) h = insert_all H xs (ho_insert H k v h)"

text \<open>
  \<open>build_for_subject\<close> in its order: ephemeral key header, plaintext headers, encrypted
  headers, payload, signature.  \<open>nonce1\<close> seals the headers and \<open>nonce2\<close> the payload.
\<close>

definition build_encrypted_headers ::
  "crypto_ops \<Rightarrow> map_json \<Rightarrow> 'c request_builder \<Rightarrow> bytes \<Rightarrow> encryption_error + string option" where
  "build_encrypted_headers C M b nonce1 =
     (if rb_encrypted_headers b = [] then Inr None
      else try_then
        (ok_or (EncryptFailedIn ''serializing encrypted headers as JSON'')
          (mj_to_vec M (hash_map_collect M (rb_encrypted_headers b))))
        (\<lambda>json. try_then (context_encrypt C (rb_ctx b) nonce1 json)
          (\<lambda>encrypted. Inr (Some (cr_b64_encode C encrypted)))))"

definition build_payload ::
  "crypto_ops \<Rightarrow> 'c request_builder \<Rightarrow> bytes \<Rightarrow> encryption_error + bytes" where
  "build_payload C b nonce2 =
     (case rb_payload b of
        Some data \<Rightarrow>
          if rb_encrypt_payload b then context_encrypt C (rb_ctx b) nonce2 data else Inr data
      | None \<Rightarrow> Inr [])"

definition build_for_subject ::
  "crypto_ops \<Rightarrow> 'h header_ops \<Rightarrow> map_json \<Rightarrow> 'c request_builder \<Rightarrow> string \<Rightarrow> bytes \<Rightarrow> bytes \<Rightarrow>
   encryption_error + 'h built_request" where
  "build_for_subject C H M b subject nonce1 nonce2 =
     (let eph = ec_ephemeral_pub (rb_ctx b);
          headers = ho_insert H RESPONSE_PUB_KEY_NAME (cr_b64_encode C eph) (ho_empty H);
          headers = insert_all H (rb_plaintext_headers b) headers
      in try_then (build_encrypted_headers C M b nonce1) (\<lambda>encoded.
           let headers = (case encoded of
                 Some e \<Rightarrow> ho_insert H ENCRYPTED_HEADERS_NAME e headers | None \<Rightarrow> headers)
           in try_then (build_payload C b nonce2) (\<lambda>payload.
                let t = \<lparr>st_subject = subject, st_ephemeral_pub = eph,
                      st_request_id = ho_get H headers ''x-request-id'',
                      st_client_version = ho_get H headers ''x-client-version'',
                      st_encrypted_headers = encoded, st_payload = payload\<rparr>;
                    sig = compute_signature_for_transcript C (dk_signature (ec_keys (rb_ctx b))) t
                in Inr \<lparr>br_headers = ho_insert H SIGNATURE_HEADER_NAME (cr_b64_encode C sig) headers,
                       br_payload = payload, br_context = rb_ctx b\<rparr>)))"

definition builder_publish ::
  "crypto_ops \<Rightarrow> 'h header_ops \<Rightarrow> map_json \<Rightarrow> ('c \<Rightarrow> string \<Rightarrow> 'h \<Rightarrow> bytes \<Rightarrow> string + unit) \<Rightarrow>
   'c request_builder \<Rightarrow> string \<Rightarrow> bytes \<Rightarrow> bytes \<Rightarrow> encryption_error + unit" where
  "builder_publish C H M publish b subject nonce1 nonce2 =
     try_then (ok_or NoClient (rb_client b)) (\<lambda>client.
       try_then (build_for_subject C H M b subject nonce1 nonce2) (\<lambda>built.
         map_err PublishFailed (publish client subject (br_headers built) (br_payload built))))"

definition builder_nats_request ::
  "crypto_ops \<Rightarrow> 'h header_ops \<Rightarrow> map_json \<Rightarrow> ('c \<Rightarrow> string \<Rightarrow> 'h \<Rightarrow> bytes \<Rightarrow> string + 'msg) \<Rightarrow>
   'c request_builder \<Rightarrow> string \<Rightarrow> bytes \<Rightarrow> bytes \<Rightarrow> encryption_error + 'msg \<times> ephemeral_context" where
  "builder_nats_request C H M request b subject nonce1 nonce2 =
     try_then (ok_or NoClient (rb_client b)) (\<lambda>client.
       try_then (build_for_subject C H M b subject nonce1 nonce2) (\<lambda>built.
         try_then (map_err RequestFailed
             (request client subject (br_headers built) (br_payload built)))
           (\<lambda>msg. Inr (msg, br_context built))))"

section \<open>Encrypted headers on the server\<close>

definition decode_response_pub_key ::
  "crypto_ops \<Rightarrow> 'h header_ops \<Rightarrow> 'h \<Rightarrow> encryption_error + bytes option" where
  "decode_response_pub_key C H headers =
     (case ho_get H headers RESPONSE_PUB_KEY_NAME of
        None \<Rightarrow> Inr None
      | Some v \<Rightarrow> try_then
          (map_err (\<lambda>_. DecryptFailedIn ''decoding x-ephemeral-pub-key header from base64'')
            (cr_b64_decode C v))
          (\<lambda>decoded. map_ok Some
            (ok_or (DecryptFailedIn ''parsing x-ephemeral-pub-key header bytes'')
              (array_of 32 decoded))))"

definition decode_header_blob ::
  "crypto_ops \<Rightarrow> 'h header_ops \<Rightarrow> 'h \<Rightarrow> encryption_error + bytes option" where
  "decode_header_blob C H headers =
     (case ho_get H headers ENCRYPTED_HEADERS_NAME of
        None \<Rightarrow> Inr None
      | Some v \<Rightarrow>
          map_err (\<lambda>_. DecryptFailedIn ''decoding x-encrypted-headers header from base64'')
            (map_ok Some (cr_b64_decode C v)))"

definition decrypt_headers ::
  "crypto_ops \<Rightarrow> 'h header_ops \<Rightarrow> map_json \<Rightarrow> 'h \<Rightarrow> bytes \<Rightarrow>
   encryption_error + (string \<times> string) list" where
  "decrypt_headers C H M headers encryption_key =
     try_then (decode_header_blob C H headers) (\<lambda>blob.
       case blob of
         None \<Rightarrow> Inr []
       | Some decoded \<Rightarrow>
           try_then (map_err (\<lambda>_. DecryptFailedIn ''decrypting encrypted headers payload'')
               (decrypt_with_encryption_key C encryption_key decoded))
             (\<lambda>plaintext. try_then
               (ok_or (DecryptFailedIn ''deserializing decrypted headers JSON'')
                 (mj_from_slice M plaintext))
               (\<lambda>entries. case find (\<lambda>(k, v). is_reserved_encryption_header_name k) entries of
                  Some (k, v) \<Rightarrow> Inl (ReservedHeader k)
                | None \<Rightarrow> Inr entries)))"

text \<open>The overlay takes the entries in the map's iteration order.\<close>

definition decrypt_header_overlay ::
  "crypto_ops \<Rightarrow> 'h header_ops \<Rightarrow> map_json \<Rightarrow> 'h \<Rightarrow> bytes \<Rightarrow> encryption_error + overlay" where
  "decrypt_header_overlay C H M headers encryption_key =
     try_then (decode_header_blob C H headers) (\<lambda>blob.
       case blob of
         None \<Rightarrow> Inr []
       | Some decoded \<Rightarrow>
           try_then (map_err (\<lambda>_. DecryptFailedIn ''decrypting encrypted headers payload'')
               (decrypt_with_encryption_key C encryption_key decoded))
             (\<lambda>plaintext. try_then
               (ok_or (DecryptFailedIn ''deserializing decrypted headers JSON'')
                 (mj_from_slice M plaintext))
               (\<lambda>entries. case find (\<lambda>(k, v). is_reserved_encryption_header_name k) entries of
                  Some (k, v) \<Rightarrow> Inl (ReservedHeader k)
                | None \<Rightarrow> Inr entries)))"

section \<open>Preparing an encrypted request on the server\<close>

record 'h encrypted_request =
  eq_original :: "'h request"
  eq_keypair :: service_key_pair
  eq_ephemeral_public_key :: bytes
  eq_plaintext :: "bytes option"
  eq_overlay :: overlay

definition encryption_reply ::
  "'j json_ops \<Rightarrow> framework_error \<Rightarrow> string \<Rightarrow> string option \<Rightarrow> error_reply" where
  "encryption_reply J kind message request_id = reply_framework J kind message request_id"

definition decrypt_payload_once ::
  "'j json_ops \<Rightarrow> crypto_ops \<Rightarrow> bytes \<Rightarrow> bytes \<Rightarrow> string option \<Rightarrow> error_reply + bytes" where
  "decrypt_payload_once J C encryption_key payload request_id =
     (if length payload < MIN_REQUEST_ENVELOPE
      then Inl (encryption_reply J DecryptFailed
        (''encrypted payload is too short: expected at least '' @ show_nat MIN_REQUEST_ENVELOPE @
         '' bytes, received '' @ show_nat (length payload)) request_id)
      else try_then
        (ok_or (encryption_reply J DecryptFailed
            ''failed to read the encrypted request nonce'' request_id) (request_nonce payload))
        (\<lambda>nonce. map_err (\<lambda>error. encryption_reply J DecryptFailed
            (''failed to decrypt request payload: '' @ encryption_error_display error) request_id)
          (decrypt_aead C ''decrypting static request payload'' encryption_key nonce
            (request_ciphertext payload))))"

text \<open>\<open>body().get(..EPH_PUB_LEN)\<close>\<close>

definition body_prefix :: "bytes \<Rightarrow> bytes option" where
  "body_prefix body = (if EPH_PUB_LEN \<le> length body then Some (take EPH_PUB_LEN body) else None)"

definition prepare_signature ::
  "'j json_ops \<Rightarrow> crypto_ops \<Rightarrow> 'h header_ops \<Rightarrow> 'h \<Rightarrow> string option \<Rightarrow> error_reply + bytes" where
  "prepare_signature J C H headers request_id =
     try_then
       (ok_or (encryption_reply J SignatureMissing
           (''encrypted requests require header `'' @ SIGNATURE_HEADER_NAME @ ''`'') request_id)
         (ho_get H headers SIGNATURE_HEADER_NAME))
       (\<lambda>sig. map_err (\<lambda>error. encryption_reply J SignatureInvalid
           (''failed to decode `'' @ SIGNATURE_HEADER_NAME @ ''`: '' @ error) request_id)
         (cr_b64_decode C sig))"

definition prepare_ephemeral_key ::
  "'j json_ops \<Rightarrow> crypto_ops \<Rightarrow> 'h header_ops \<Rightarrow> 'h \<Rightarrow> string option \<Rightarrow> error_reply + bytes" where
  "prepare_ephemeral_key J C H headers request_id =
     try_then
       (map_err (\<lambda>error. encryption_reply J DecryptFailed
           (''failed to decode `'' @ RESPONSE_PUB_KEY_NAME @ ''`: '' @
            encryption_error_display error) request_id)
         (decode_response_pub_key C H headers))
       (ok_or (encryption_reply J EncryptRequired
           (''encrypted requests require header `'' @ RESPONSE_PUB_KEY_NAME @ ''`'') request_id))"

definition prepare_transcript ::
  "'h header_ops \<Rightarrow> 'h request \<Rightarrow> 'h \<Rightarrow> bytes \<Rightarrow> signature_transcript" where
  "prepare_transcript H request headers eph =
     \<lparr>st_subject = rq_subject request, st_ephemeral_pub = eph,
      st_request_id = ri_existing (rq_request_id request),
      st_client_version = ho_get H headers ''x-client-version'',
      st_encrypted_headers = ho_get H headers ENCRYPTED_HEADERS_NAME,
      st_payload = rq_payload request\<rparr>"

definition prepare ::
  "'j json_ops \<Rightarrow> crypto_ops \<Rightarrow> 'h header_ops \<Rightarrow> map_json \<Rightarrow> service_key_pair \<Rightarrow> 'h request \<Rightarrow>
   bool \<Rightarrow> error_reply + 'h encrypted_request" where
  "prepare J C H M keypair request decrypt_payload =
     (let request_id = ri_existing (rq_request_id request)
      in try_then (ok_or (encryption_reply J EncryptRequired
           (''encrypted requests require `'' @ RESPONSE_PUB_KEY_NAME @ ''` and `'' @
            SIGNATURE_HEADER_NAME @ ''` headers'') request_id)
           (headers_raw (rq_headers request))) (\<lambda>headers.
         try_then (prepare_ephemeral_key J C H headers request_id) (\<lambda>eph.
         try_then (prepare_signature J C H headers request_id) (\<lambda>sig.
         let encryption_key = derive_encryption_key C keypair eph;
             signature_key = derive_signature_key C keypair eph;
             t = prepare_transcript H request headers eph
         in try_then (map_err (\<lambda>_. encryption_reply J SignatureInvalid
              ''request signature verification failed; verify the service public key'' request_id)
              (verify_signature_for_transcript C signature_key t sig)) (\<lambda>_.
            try_then (map_err (\<lambda>error. encryption_reply J DecryptFailed
                (''failed to decrypt request headers: '' @ encryption_error_display error)
                request_id)
              (decrypt_header_overlay C H M headers encryption_key)) (\<lambda>ov.
            if decrypt_payload \<and> body_prefix (rq_payload request) \<noteq> Some eph
            then Inl (encryption_reply J DecryptFailed
              ''encrypted headers and payload must use the same ephemeral public key'' request_id)
            else try_then
              (if decrypt_payload
               then map_ok Some (decrypt_payload_once J C encryption_key (rq_payload request)
                 request_id)
               else Inr None) (\<lambda>plaintext.
              Inr \<lparr>eq_original = request, eq_keypair = keypair, eq_ephemeral_public_key = eph,
                   eq_plaintext = plaintext, eq_overlay = ov\<rparr>)))))))"

definition encrypted_request_view :: "'h header_ops \<Rightarrow> 'h encrypted_request \<Rightarrow> 'h request" where
  "encrypted_request_view H r =
     with_body_and_overlay H (eq_original r)
       (case eq_plaintext r of Some body \<Rightarrow> body | None \<Rightarrow> rq_payload (eq_original r))
       (eq_overlay r)"

definition encrypt_response_payload ::
  "'j json_ops \<Rightarrow> crypto_ops \<Rightarrow> 'h encrypted_request \<Rightarrow> bytes \<Rightarrow> bytes \<Rightarrow> error_reply + bytes" where
  "encrypt_response_payload J C r nonce payload =
     map_err (\<lambda>error. encryption_reply J EncryptFailed
         (''failed to encrypt response payload: '' @ encryption_error_display error)
         (ri_existing (rq_request_id (eq_original r))))
       (encrypt_response C (eq_keypair r) nonce payload (eq_ephemeral_public_key r))"

definition request_encrypt_response ::
  "'j json_ops \<Rightarrow> crypto_ops \<Rightarrow> 'h encrypted_request \<Rightarrow> bytes \<Rightarrow> 'h response \<Rightarrow>
   error_reply + 'h response" where
  "request_encrypt_response J C r nonce response =
     (case response of
        REmpty \<Rightarrow> map_ok RPayload (encrypt_response_payload J C r nonce [])
      | RPayload payload \<Rightarrow> map_ok RPayload (encrypt_response_payload J C r nonce payload)
      | RWithHeaders payload headers \<Rightarrow>
          map_ok (\<lambda>p. RWithHeaders p headers) (encrypt_response_payload J C r nonce payload))"

section \<open>What an accepted request guarantees\<close>

lemma verify_signature_Inr:
  "verify_signature_for_transcript C k t sig = Inr u \<longleftrightarrow> sig = cr_hmac C k (signature_input t)"
  by (simp add: verify_signature_for_transcript_def)

lemma decrypt_payload_once_wf:
  "decrypt_payload_once J C k payload rid = Inr p \<Longrightarrow>
   MIN_REQUEST_ENVELOPE \<le> length payload \<and>
   cr_open C k (take 24 (drop 32 payload)) (drop 56 payload) = Some p"
  by (auto simp: decrypt_payload_once_def request_nonce_def request_ciphertext_def array_of_def
      length_consts decrypt_aead_def ok_or_def split: if_splits option.splits)

text \<open>
  The signed bytes, written out: each field as its label, the length of its value in eight bytes,
  most significant first, and the value.
\<close>

definition signed_bytes :: "(string \<times> bytes) list \<Rightarrow> bytes" where
  "signed_bytes parts = concat (map (\<lambda>(label, v). as_bytes label @ u64_be (length v) @ v) parts)"

lemma signature_input_signed_bytes:
  "signature_input t = signed_bytes
     [(''version'', TRANSCRIPT_VERSION), (''subject'', as_bytes (st_subject t)),
      (''ephemeral-pub-key'', st_ephemeral_pub t),
      (''request-id'', as_bytes (text_of (st_request_id t))),
      (''client-version'', as_bytes (text_of (st_client_version t))),
      (''encrypted-headers'', as_bytes (text_of (st_encrypted_headers t))),
      (''payload'', st_payload t)]"
  by (simp add: signature_input_def signed_bytes_def optional_prefixed_conv len_prefixed_def)

lemma decrypt_with_encryption_key_opens:
  "decrypt_with_encryption_key C k blob = Inr p \<Longrightarrow>
   cr_open C k (take 24 (drop 32 blob)) (drop 56 blob) = Some p"
  by (auto simp: decrypt_with_encryption_key_def request_nonce_def request_ciphertext_def array_of_def
      length_consts decrypt_aead_def ok_or_def split: if_splits option.splits)

lemma decrypt_header_overlay_Inr:
  assumes "decrypt_header_overlay C H M headers k = Inr ov"
  shows "case ho_get H headers ENCRYPTED_HEADERS_NAME of
       None \<Rightarrow> ov = []
     | Some v \<Rightarrow> \<exists>blob p. cr_b64_decode C v = Inr blob \<and>
         cr_open C k (take 24 (drop 32 blob)) (drop 56 blob) = Some p \<and>
         mj_from_slice M p = Some ov \<and>
         list_all (\<lambda>(k, v). \<not> is_reserved_encryption_header_name k) ov"
proof (cases "ho_get H headers ENCRYPTED_HEADERS_NAME")
  case None
  then show ?thesis
    using assms by (simp add: decrypt_header_overlay_def decode_header_blob_def)
next
  case (Some v)
  then obtain blob p where "cr_b64_decode C v = Inr blob"
    "decrypt_with_encryption_key C k blob = Inr p" "mj_from_slice M p = Some ov"
    "find (\<lambda>(k, v). is_reserved_encryption_header_name k) ov = None"
    using assms by (auto simp: decrypt_header_overlay_def decode_header_blob_def map_err_def map_ok_def
        try_then_def ok_or_def split: sum.splits option.splits)
  then show ?thesis
    using Some by (auto simp: find_None_iff list_all_iff dest: decrypt_with_encryption_key_opens)
qed

lemma prepare_accepted:
  assumes "prepare J C H M keypair request decrypt_payload = Inr r"
  shows "\<exists>headers eph sig key64 sig64.
    headers_raw (rq_headers request) = Some headers \<and>
    ho_get H headers RESPONSE_PUB_KEY_NAME = Some key64 \<and> cr_b64_decode C key64 = Inr eph \<and>
    length eph = 32 \<and> eq_ephemeral_public_key r = eph \<and> eq_original r = request \<and>
    ho_get H headers SIGNATURE_HEADER_NAME = Some sig64 \<and> cr_b64_decode C sig64 = Inr sig \<and>
    sig = cr_hmac C (derive_signature_key C keypair eph) (signed_bytes
      [(''version'', TRANSCRIPT_VERSION), (''subject'', as_bytes (rq_subject request)),
       (''ephemeral-pub-key'', eph),
       (''request-id'', as_bytes (text_of (ri_existing (rq_request_id request)))),
       (''client-version'', as_bytes (text_of (ho_get H headers ''x-client-version''))),
       (''encrypted-headers'', as_bytes (text_of (ho_get H headers ENCRYPTED_HEADERS_NAME))),
       (''payload'', rq_payload request)]) \<and>
    (case ho_get H headers ENCRYPTED_HEADERS_NAME of
       None \<Rightarrow> eq_overlay r = []
     | Some v \<Rightarrow> \<exists>blob p. cr_b64_decode C v = Inr blob \<and>
         cr_open C (derive_encryption_key C keypair eph) (take 24 (drop 32 blob)) (drop 56 blob) = Some p \<and>
         mj_from_slice M p = Some (eq_overlay r) \<and>
         list_all (\<lambda>(k, v). \<not> is_reserved_encryption_header_name k) (eq_overlay r)) \<and>
    (if decrypt_payload
     then take 32 (rq_payload request) = eph \<and>
       (\<exists>p. eq_plaintext r = Some p \<and> cr_open C (derive_encryption_key C keypair eph)
          (take 24 (drop 32 (rq_payload request))) (drop 56 (rq_payload request)) = Some p)
     else eq_plaintext r = None)"
proof -
  let ?rid = "ri_existing (rq_request_id request)"
  obtain headers where h: "headers_raw (rq_headers request) = Some headers"
    using assms by (cases "headers_raw (rq_headers request)") (simp_all add: prepare_def Let_def)
  obtain eph where e: "prepare_ephemeral_key J C H headers ?rid = Inr eph"
    using assms h by (cases "prepare_ephemeral_key J C H headers ?rid") (simp_all add: prepare_def Let_def)
  obtain sig where s: "prepare_signature J C H headers ?rid = Inr sig"
    using assms h e by (cases "prepare_signature J C H headers ?rid") (simp_all add: prepare_def Let_def)
  have v: "sig = cr_hmac C (derive_signature_key C keypair eph)
      (signature_input (prepare_transcript H request headers eph))"
    using assms h e s by (auto simp: prepare_def Let_def verify_signature_Inr)
  obtain key64 where k: "ho_get H headers RESPONSE_PUB_KEY_NAME = Some key64"
      "cr_b64_decode C key64 = Inr eph" "length eph = 32"
    using e by (auto simp: prepare_ephemeral_key_def decode_response_pub_key_def array_of_def
        ok_or_def map_ok_def map_err_def try_then_def split: option.splits sum.splits if_splits)
  obtain sig64 where g: "ho_get H headers SIGNATURE_HEADER_NAME = Some sig64"
      "cr_b64_decode C sig64 = Inr sig"
    using s by (auto simp: prepare_signature_def ok_or_def map_err_def try_then_def
        split: option.splits sum.splits)
  have ov: "decrypt_header_overlay C H M headers (derive_encryption_key C keypair eph) =
      Inr (eq_overlay r)"
    using assms h e s by (auto simp: prepare_def Let_def map_err_def split: if_splits sum.splits)
  have rest: "eq_ephemeral_public_key r = eph \<and> eq_original r = request \<and>
    (if decrypt_payload
     then body_prefix (rq_payload request) = Some eph \<and>
       (\<exists>p. eq_plaintext r = Some p \<and> decrypt_payload_once J C
          (derive_encryption_key C keypair eph) (rq_payload request) ?rid = Inr p)
     else eq_plaintext r = None)"
    using assms h e s by (auto simp: prepare_def Let_def split: if_splits)
  then have "if decrypt_payload
     then take 32 (rq_payload request) = eph \<and>
       (\<exists>p. eq_plaintext r = Some p \<and> cr_open C (derive_encryption_key C keypair eph)
          (take 24 (drop 32 (rq_payload request))) (drop 56 (rq_payload request)) = Some p)
     else eq_plaintext r = None"
    by (auto simp: body_prefix_def EPH_PUB_LEN_def dest: decrypt_payload_once_wf split: if_splits)
  moreover have "sig = cr_hmac C (derive_signature_key C keypair eph) (signed_bytes
      [(''version'', TRANSCRIPT_VERSION), (''subject'', as_bytes (rq_subject request)),
       (''ephemeral-pub-key'', eph), (''request-id'', as_bytes (text_of ?rid)),
       (''client-version'', as_bytes (text_of (ho_get H headers ''x-client-version''))),
       (''encrypted-headers'', as_bytes (text_of (ho_get H headers ENCRYPTED_HEADERS_NAME))),
       (''payload'', rq_payload request)])"
    using v by (simp add: signature_input_signed_bytes prepare_transcript_def)
  ultimately show ?thesis
    using h k g rest decrypt_header_overlay_Inr [OF ov] by blast
qed

end
