(* ===== verification/Encrypted_Round_Trip.thy ===== *)
theory Encrypted_Round_Trip
  imports Encrypted_Requests
begin

text \<open>
  The client's builder against the server's \<open>prepare\<close>: a request built for a subject is
  accepted by the service whose public key it was built for, with the body and the encrypted
  headers the client gave, and the response comes back the same way.
\<close>

definition plain_headers_ok :: "(string \<times> string) list \<Rightarrow> bool" where
  "plain_headers_ok xs \<longleftrightarrow>
     RESPONSE_PUB_KEY_NAME \<notin> fst ` set xs \<and> ENCRYPTED_HEADERS_NAME \<notin> fst ` set xs \<and>
     SIGNATURE_HEADER_NAME \<notin> fst ` set xs \<and>
     (case map_of (rev xs) REQUEST_ID_HEADER of Some v \<Rightarrow> is_valid_request_id v | None \<Rightarrow> True)"

definition encrypted_headers_ok :: "(string \<times> string) list \<Rightarrow> bool" where
  "encrypted_headers_ok xs \<longleftrightarrow>
     list_all (\<lambda>(k, v). utf8_str k \<and> utf8_str v \<and> \<not> is_reserved_encryption_header_name k) xs"

lemma insert_all_get:
  assumes "header_map_laws H"
  shows "ho_get H (insert_all H xs h) k =
    (case map_of (rev xs) k of Some v \<Rightarrow> Some v | None \<Rightarrow> ho_get H h k)"
proof (induction xs arbitrary: h)
  case (Cons x xs)
  obtain k' v where x: "x = (k', v)" by (cases x)
  show ?case
    by (simp add: x Cons.IH header_get_laws(2) [OF assms] map_add_def split: option.split)
qed simp

definition built_headers ::
  "crypto_ops \<Rightarrow> 'h header_ops \<Rightarrow> 'c request_builder \<Rightarrow> string option \<Rightarrow> 'h" where
  "built_headers C H b encoded =
     (let headers = insert_all H (rb_plaintext_headers b)
        (ho_insert H RESPONSE_PUB_KEY_NAME (cr_b64_encode C (ec_ephemeral_pub (rb_ctx b)))
          (ho_empty H))
      in case encoded of
           Some e \<Rightarrow> ho_insert H ENCRYPTED_HEADERS_NAME e headers | None \<Rightarrow> headers)"

lemma built_headers_get:
  assumes H: "header_map_laws H" and p: "plain_headers_ok (rb_plaintext_headers b)"
  shows "ho_get H (built_headers C H b encoded) RESPONSE_PUB_KEY_NAME =
      Some (cr_b64_encode C (ec_ephemeral_pub (rb_ctx b)))"
    and "ho_get H (built_headers C H b encoded) ENCRYPTED_HEADERS_NAME = encoded"
    and "ho_get H (built_headers C H b encoded) REQUEST_ID_HEADER =
      map_of (rev (rb_plaintext_headers b)) REQUEST_ID_HEADER"
proof -
  note get = header_get_laws(1,2) [OF H] insert_all_get [OF H]
  have n: "map_of (rev (rb_plaintext_headers b)) RESPONSE_PUB_KEY_NAME = None"
    "map_of (rev (rb_plaintext_headers b)) ENCRYPTED_HEADERS_NAME = None"
    using p by (simp_all add: plain_headers_ok_def map_of_eq_None_iff)
  show "ho_get H (built_headers C H b encoded) RESPONSE_PUB_KEY_NAME =
      Some (cr_b64_encode C (ec_ephemeral_pub (rb_ctx b)))"
    using n by (cases encoded) (simp_all add: built_headers_def get, simp_all add: header_names)
  show "ho_get H (built_headers C H b encoded) ENCRYPTED_HEADERS_NAME = encoded"
    using n by (cases encoded) (simp_all add: built_headers_def get, simp_all add: header_names)
  show "ho_get H (built_headers C H b encoded) REQUEST_ID_HEADER =
      map_of (rev (rb_plaintext_headers b)) REQUEST_ID_HEADER"
    by (cases encoded; cases "map_of (rev (rb_plaintext_headers b)) REQUEST_ID_HEADER")
      (simp_all add: built_headers_def get, simp_all add: header_names)
qed

lemma build_for_subject_parts:
  assumes "build_for_subject C H M b subject nonce1 nonce2 = Inr built"
  obtains encoded where "build_encrypted_headers C M b nonce1 = Inr encoded"
    and "build_payload C b nonce2 = Inr (br_payload built)"
    and "br_context built = rb_ctx b"
    and "br_headers built = ho_insert H SIGNATURE_HEADER_NAME
      (cr_b64_encode C (compute_signature_for_transcript C (dk_signature (ec_keys (rb_ctx b)))
        \<lparr>st_subject = subject, st_ephemeral_pub = ec_ephemeral_pub (rb_ctx b),
         st_request_id = ho_get H (built_headers C H b encoded) ''x-request-id'',
         st_client_version = ho_get H (built_headers C H b encoded) ''x-client-version'',
         st_encrypted_headers = encoded, st_payload = br_payload built\<rparr>))
      (built_headers C H b encoded)"
proof -
  obtain encoded where e: "build_encrypted_headers C M b nonce1 = Inr encoded"
    using assms by (cases "build_encrypted_headers C M b nonce1")
      (simp_all add: build_for_subject_def Let_def)
  obtain payload where p: "build_payload C b nonce2 = Inr payload"
    using assms e by (cases "build_payload C b nonce2") (simp_all add: build_for_subject_def Let_def)
  have built: "built = \<lparr>br_headers = ho_insert H SIGNATURE_HEADER_NAME
      (cr_b64_encode C (compute_signature_for_transcript C (dk_signature (ec_keys (rb_ctx b)))
        \<lparr>st_subject = subject, st_ephemeral_pub = ec_ephemeral_pub (rb_ctx b),
         st_request_id = ho_get H (built_headers C H b encoded) ''x-request-id'',
         st_client_version = ho_get H (built_headers C H b encoded) ''x-client-version'',
         st_encrypted_headers = encoded, st_payload = payload\<rparr>))
      (built_headers C H b encoded), br_payload = payload, br_context = rb_ctx b\<rparr>"
    using assms e p by (simp add: build_for_subject_def Let_def built_headers_def)
  show ?thesis by (rule that [OF e]) (simp_all add: built p)
qed

text \<open>Decrypting the encrypted headers the builder produced.\<close>

lemma find_none_reserved:
  "list_all (\<lambda>(k, v). \<not> is_reserved_encryption_header_name k) xs \<Longrightarrow>
   find (\<lambda>(k, v). is_reserved_encryption_header_name k) xs = None"
  by (auto simp: find_None_iff list_all_iff)

lemma overlay_of_built:
  assumes C: "crypto_laws C" and M: "map_json_laws M" and n: "length nonce1 = 24"
    and len: "length (ec_ephemeral_pub (rb_ctx b)) = 32"
    and x: "encrypted_headers_ok (rb_encrypted_headers b)"
    and e: "build_encrypted_headers C M b nonce1 = Inr encoded"
    and g: "ho_get H headers ENCRYPTED_HEADERS_NAME = encoded"
  shows "\<exists>ov. decrypt_header_overlay C H M headers (dk_encryption (ec_keys (rb_ctx b))) = Inr ov \<and>
    mset ov = mset (last_wins (rb_encrypted_headers b))"
proof (cases "rb_encrypted_headers b = []")
  case True
  then show ?thesis using e g
    by (auto simp: build_encrypted_headers_def decrypt_header_overlay_def decode_header_blob_def)
next
  case False
  let ?xs = "hash_map_collect M (rb_encrypted_headers b)"
  have xs: "mset ?xs = mset (last_wins (rb_encrypted_headers b))"
    using M unfolding map_json_laws_def hash_map_collect_def by blast
  have dist: "distinct (map fst ?xs)"
    by (metis xs last_wins_distinct mset_map mset_eq_imp_distinct_iff)
  have all: "list_all (\<lambda>(k, v). utf8_str k \<and> utf8_str v \<and> \<not> is_reserved_encryption_header_name k) ?xs"
    using x last_wins_set mset_eq_setD [OF xs]
    unfolding encrypted_headers_ok_def list_all_iff by blast
  then have "list_all (\<lambda>(k, v). utf8_str k \<and> utf8_str v) ?xs"
    by (auto simp: list_all_iff)
  then obtain json ys where json: "mj_to_vec M ?xs = Some json" "mj_from_slice M json = Some ys"
    and ys: "mset ys = mset ?xs"
    using M dist unfolding map_json_laws_def by blast
  obtain env where env: "context_encrypt C (rb_ctx b) nonce1 json = Inr env"
    and enc: "encoded = Some (cr_b64_encode C env)"
    using e False json by (cases "context_encrypt C (rb_ctx b) nonce1 json")
      (auto simp: build_encrypted_headers_def)
  have "list_all (\<lambda>(k, v). \<not> is_reserved_encryption_header_name k) ys"
    using all mset_eq_setD [OF ys] by (auto simp: list_all_iff)
  then have "find (\<lambda>(k, v). is_reserved_encryption_header_name k) ys = None"
    by (rule find_none_reserved)
  then have "decrypt_header_overlay C H M headers (dk_encryption (ec_keys (rb_ctx b))) = Inr ys"
    using g enc json decrypt_context_encrypt [OF C n len env]
    by (simp add: decrypt_header_overlay_def decode_header_blob_def crypto_lawsD(6) [OF C])
  then show ?thesis using ys xs by auto
qed

lemma payload_of_built:
  assumes C: "crypto_laws C" and n: "length nonce2 = 24"
    and len: "length (ec_ephemeral_pub (rb_ctx b)) = 32"
    and d: "rb_payload b = Some data" "rb_encrypt_payload b"
    and p: "build_payload C b nonce2 = Inr payload"
  shows "body_prefix payload = Some (ec_ephemeral_pub (rb_ctx b)) \<and>
    decrypt_payload_once J C (dk_encryption (ec_keys (rb_ctx b))) payload rid = Inr data"
proof -
  have env: "context_encrypt C (rb_ctx b) nonce2 data = Inr payload"
    using d p by (simp add: build_payload_def)
  show ?thesis
    by (rule context_encrypt_envelope [OF C n len env])
      (auto simp: body_prefix_def decrypt_payload_once_def decrypt_aead_def
        crypto_lawsD(4) [OF C] length_consts)
qed

text \<open>What the headers of a built request say: the key, the encrypted headers and the signature.\<close>

lemma built_request_signed:
  assumes C: "crypto_laws C" and H: "header_map_laws H"
    and ctx: "rb_ctx b = recipient_begin C eph_secret (cr_public C secret)"
    and ph: "plain_headers_ok (rb_plaintext_headers b)"
    and build: "build_for_subject C H M b subject nonce1 nonce2 = Inr built"
  obtains encoded where "build_encrypted_headers C M b nonce1 = Inr encoded"
    and "build_payload C b nonce2 = Inr (br_payload built)"
    and "ho_get H (br_headers built) RESPONSE_PUB_KEY_NAME =
      Some (cr_b64_encode C (cr_public C eph_secret))"
    and "ho_get H (br_headers built) ENCRYPTED_HEADERS_NAME = encoded"
    and "\<And>i. prepare_signature J C H (br_headers built) i =
      Inr (compute_signature_for_transcript C (dk_signature (ec_keys (rb_ctx b)))
        (prepare_transcript H
          (request_new H subject reply (br_payload built) (Some (br_headers built)))
          (br_headers built) (cr_public C eph_secret)))"
proof -
  let ?req = "request_new H subject reply (br_payload built) (Some (br_headers built))"
  obtain encoded where e: "build_encrypted_headers C M b nonce1 = Inr encoded"
    and p: "build_payload C b nonce2 = Inr (br_payload built)"
    and hs: "br_headers built = ho_insert H SIGNATURE_HEADER_NAME
      (cr_b64_encode C (compute_signature_for_transcript C (dk_signature (ec_keys (rb_ctx b)))
        \<lparr>st_subject = subject, st_ephemeral_pub = ec_ephemeral_pub (rb_ctx b),
         st_request_id = ho_get H (built_headers C H b encoded) ''x-request-id'',
         st_client_version = ho_get H (built_headers C H b encoded) ''x-client-version'',
         st_encrypted_headers = encoded, st_payload = br_payload built\<rparr>))
      (built_headers C H b encoded)"
    using build by (rule build_for_subject_parts) blast
  note get = built_headers_get [OF H ph, of C encoded]
  have same: "ho_get H (br_headers built) k = ho_get H (built_headers C H b encoded) k"
    if "k \<noteq> SIGNATURE_HEADER_NAME" for k
    using that by (simp add: hs header_get_laws(2) [OF H])
  have pub: "ho_get H (br_headers built) RESPONSE_PUB_KEY_NAME =
      Some (cr_b64_encode C (cr_public C eph_secret))"
    using same get(1) by (simp add: ctx header_names)
  have enc: "ho_get H (br_headers built) ENCRYPTED_HEADERS_NAME = encoded"
    using same get(2) by (simp add: header_names)
  have "ho_get H (br_headers built) REQUEST_ID_HEADER =
      map_of (rev (rb_plaintext_headers b)) REQUEST_ID_HEADER"
    using same get(3) by (simp add: header_names)
  then have "ri_existing (rq_request_id ?req) =
      ho_get H (built_headers C H b encoded) ''x-request-id''"
    using ph get(3) by (auto simp: request_new_def request_id_new_def option_filter_def
        headers_get_def plain_headers_ok_def header_names split: option.splits)
  then have "prepare_transcript H ?req (br_headers built) (cr_public C eph_secret) =
      \<lparr>st_subject = subject, st_ephemeral_pub = ec_ephemeral_pub (rb_ctx b),
       st_request_id = ho_get H (built_headers C H b encoded) ''x-request-id'',
       st_client_version = ho_get H (built_headers C H b encoded) ''x-client-version'',
       st_encrypted_headers = encoded, st_payload = br_payload built\<rparr>"
    using same [of "''x-client-version''"] enc
    by (simp add: prepare_transcript_def ctx header_names)
  then have "prepare_signature J C H (br_headers built) i =
      Inr (compute_signature_for_transcript C (dk_signature (ec_keys (rb_ctx b)))
        (prepare_transcript H ?req (br_headers built) (cr_public C eph_secret)))" for i
    by (simp add: prepare_signature_def hs header_get_laws(2) [OF H] crypto_lawsD(6) [OF C])
  then show thesis using that [OF e p pub enc] by blast
qed

text \<open>The main lemma: a built request is accepted.\<close>

lemma prepare_built:
  assumes C: "crypto_laws C" and H: "header_map_laws H" and M: "map_json_laws M"
    and l: "length eph_secret = 32" "length secret = 32" "length nonce1 = 24" "length nonce2 = 24"
    and ctx: "rb_ctx b = recipient_begin C eph_secret (cr_public C secret)"
    and ph: "plain_headers_ok (rb_plaintext_headers b)"
    and eh: "encrypted_headers_ok (rb_encrypted_headers b)"
    and d: "rb_payload b = Some data"
    and build: "build_for_subject C H M b subject nonce1 nonce2 = Inr built"
  shows "\<exists>r. prepare J C H M (from_private_bytes C secret)
      (request_new H subject reply (br_payload built) (Some (br_headers built)))
      (rb_encrypt_payload b) = Inr r \<and>
    rq_payload (encrypted_request_view H r) = data \<and>
    eq_keypair r = from_private_bytes C secret \<and>
    eq_ephemeral_public_key r = cr_public C eph_secret \<and>
    mset (eq_overlay r) = mset (last_wins (rb_encrypted_headers b))"
proof -
  let ?eph = "cr_public C eph_secret"
  let ?hs = "br_headers built"
  let ?req = "request_new H subject reply (br_payload built) (Some ?hs)"
  obtain encoded where e: "build_encrypted_headers C M b nonce1 = Inr encoded"
    and p: "build_payload C b nonce2 = Inr (br_payload built)"
    and pub: "ho_get H ?hs RESPONSE_PUB_KEY_NAME = Some (cr_b64_encode C ?eph)"
    and enc: "ho_get H ?hs ENCRYPTED_HEADERS_NAME = encoded"
    and sig: "\<And>i. prepare_signature J C H ?hs i =
      Inr (compute_signature_for_transcript C (dk_signature (ec_keys (rb_ctx b)))
        (prepare_transcript H ?req ?hs ?eph))"
    using built_request_signed [OF C H ctx ph build, of J reply] by blast
  have len: "length (ec_ephemeral_pub (rb_ctx b)) = 32"
    by (simp add: ctx crypto_lawsD(2) [OF C])
  have key: "prepare_ephemeral_key J C H ?hs i = Inr ?eph" for i
    by (simp add: prepare_ephemeral_key_def decode_response_pub_key_def pub crypto_lawsD(2,6) [OF C]
        array_of_def)
  have keys: "derive_encryption_key C (from_private_bytes C secret) ?eph =
      dk_encryption (ec_keys (rb_ctx b))"
    "derive_signature_key C (from_private_bytes C secret) ?eph = dk_signature (ec_keys (rb_ctx b))"
    using derive_keys_as_begin [OF C l(1,2)] by (simp_all add: ctx)
  obtain ov where ov: "decrypt_header_overlay C H M ?hs (dk_encryption (ec_keys (rb_ctx b))) = Inr ov"
    "mset ov = mset (last_wins (rb_encrypted_headers b))"
    using overlay_of_built [OF C M l(3) len eh e enc] by blast
  have pre: "prepare J C H M (from_private_bytes C secret) ?req decrypt = 
      (if decrypt \<and> body_prefix (br_payload built) \<noteq> Some ?eph
       then Inl (encryption_reply J DecryptFailed
         ''encrypted headers and payload must use the same ephemeral public key''
         (ri_existing (rq_request_id ?req)))
       else try_then
         (if decrypt
          then map_ok Some (decrypt_payload_once J C (dk_encryption (ec_keys (rb_ctx b)))
            (br_payload built) (ri_existing (rq_request_id ?req)))
          else Inr None) (\<lambda>plaintext.
         Inr \<lparr>eq_original = ?req, eq_keypair = from_private_bytes C secret,
              eq_ephemeral_public_key = ?eph, eq_plaintext = plaintext, eq_overlay = ov\<rparr>))" for decrypt
    using key sig keys ov by (simp add: prepare_def Let_def verify_signature_for_transcript_def
        compute_signature_for_transcript_def)
  show ?thesis
  proof (cases "rb_encrypt_payload b")
    case True
    then show ?thesis
      using pre [of True] ov(2) payload_of_built [OF C l(4) len d True p, of J]
      by (simp add: ctx encrypted_request_view_def)
  next
    case False
    then have "br_payload built = data" using p d by (simp add: build_payload_def)
    then show ?thesis using pre [of False] ov(2) False by (simp add: encrypted_request_view_def)
  qed
qed

text \<open>
  C6: end-to-end encryption works.  For a service key pair and a builder made for its public
  key, with plaintext headers outside the reserved names and a valid request id if any, and
  encrypted headers accepted by the builder: whenever the client's build succeeds, the
  service's \<open>prepare\<close> accepts the request as received for that subject, sees exactly the
  body the client gave and, as overlay, the encrypted headers (the last value of a repeated
  name); and any response it encrypts decrypts on the client to the plain response.
\<close>

theorem encrypted_request_round_trip:
  assumes "crypto_laws C" "header_map_laws H" "map_json_laws M"
    and "length eph_secret = 32" "length secret = 32" "length nonce1 = 24" "length nonce2 = 24"
    and "rb_ctx b = rb_ctx (request_builder_new C eph_secret (cr_public C secret) (rb_client b))"
    and "plain_headers_ok (rb_plaintext_headers b)"
    and "encrypted_headers_ok (rb_encrypted_headers b)"
    and "rb_payload b = Some data"
    and "build_for_subject C H M b subject nonce1 nonce2 = Inr built"
  shows "\<exists>r. prepare J C H M (from_private_bytes C secret)
      (request_new H subject reply (br_payload built) (Some (br_headers built)))
      (rb_encrypt_payload b) = Inr r \<and>
    rq_payload (encrypted_request_view H r) = data \<and>
    mset (eq_overlay r) = mset (last_wins (rb_encrypted_headers b)) \<and>
    (\<forall>nonce body sealed. length nonce = 24 \<longrightarrow> encrypt_response_payload J C r nonce body = Inr sealed \<longrightarrow>
       decrypt_response C (br_context built) sealed = Inr body)"
proof -
  have ctx: "rb_ctx b = recipient_begin C eph_secret (cr_public C secret)"
    using assms(8) by (simp add: request_builder_new_def)
  obtain r where r: "prepare J C H M (from_private_bytes C secret)
      (request_new H subject reply (br_payload built) (Some (br_headers built)))
      (rb_encrypt_payload b) = Inr r"
    "rq_payload (encrypted_request_view H r) = data"
    "eq_keypair r = from_private_bytes C secret"
    "eq_ephemeral_public_key r = cr_public C eph_secret"
    "mset (eq_overlay r) = mset (last_wins (rb_encrypted_headers b))"
    using prepare_built [OF assms(1-7) ctx assms(9-12)] by blast
  have built: "br_context built = recipient_begin C eph_secret (cr_public C secret)"
    using build_for_subject_parts [OF assms(12)] ctx by metis
  have "decrypt_response C (br_context built) sealed = Inr body"
    if "length nonce = 24" "encrypt_response_payload J C r nonce body = Inr sealed" for nonce body sealed
    using decrypt_response_encrypt [OF assms(1,4,5) that(1)] that(2) r(3,4) built
    by (auto simp: encrypt_response_payload_def map_err_def split: sum.splits)
  then show ?thesis using r by blast
qed

section \<open>A concrete instance\<close>

definition demo_crypto :: crypto_ops where
  "demo_crypto =
     \<lparr>cr_hmac = (\<lambda>k m. take 32 (k @ rev m @ replicate 32 0)),
      cr_dh = (\<lambda>a b. map2 (+) a b), cr_public = (\<lambda>s. take 32 (s @ replicate 32 0)),
      cr_seal = (\<lambda>k n p. Some (replicate 16 7 @ p)), cr_open = (\<lambda>k n c. Some (drop 16 c)),
      cr_b64_encode = bytes_to_string, cr_b64_decode = (\<lambda>s. Inr (as_bytes s))\<rparr>"

lemma demo_crypto_laws: "crypto_laws demo_crypto"
proof -
  have "map2 (+) a b = map2 (+) b a" for a b :: bytes
    by (induction a b rule: list_induct2') (simp_all add: add.commute)
  then show ?thesis by (auto simp: crypto_laws_def demo_crypto_def min_def)
qed

fun demo_entries :: "nat \<Rightarrow> bytes \<Rightarrow> (string \<times> string) list" where
  "demo_entries (Suc n) (_ # b) =
     (let (k, b1) = demo_unstring b; (v, b2) = demo_unstring b1 in (k, v) # demo_entries n b2)"
| "demo_entries _ _ = []"

definition demo_map_to_vec :: "(string \<times> string) list \<Rightarrow> bytes" where
  "demo_map_to_vec xs = concat (map (\<lambda>(k, v). 1 # demo_string k @ demo_string v) xs)"

definition demo_map_json :: map_json where
  "demo_map_json =
     \<lparr>mj_shuffle = rev, mj_to_vec = (\<lambda>xs. Some (demo_map_to_vec xs)),
      mj_from_slice = (\<lambda>b. Some (demo_entries (length b) b))\<rparr>"

lemma demo_entries_to_vec:
  "length xs \<le> n \<Longrightarrow> demo_entries n (demo_map_to_vec xs) = xs"
proof (induction xs arbitrary: n)
  case Nil
  then show ?case by (cases n) (simp_all add: demo_map_to_vec_def)
next
  case (Cons x xs)
  obtain m where "n = Suc m" "length xs \<le> m" using Cons.prems by (cases n) auto
  then show ?case using Cons.IH [of m]
    by (cases x) (simp add: demo_map_to_vec_def demo_unstring_string)
qed

lemma demo_map_to_vec_length: "length xs \<le> length (demo_map_to_vec xs)"
  by (induction xs) (auto simp: demo_map_to_vec_def)

lemma demo_map_json_laws: "map_json_laws demo_map_json"
  by (simp add: map_json_laws_def demo_map_json_def demo_entries_to_vec demo_map_to_vec_length)

definition demo_builder :: "unit request_builder" where
  "demo_builder =
     builder_encrypted_payload
       ((request_builder_new demo_crypto (replicate 32 1) (cr_public demo_crypto (replicate 32 2)) None)
          \<lparr>rb_plaintext_headers := [(''x-request-id'', ''r-1'')],
           rb_encrypted_headers := [(''authorization'', ''Bearer t'')]\<rparr>) [1, 2, 3]"

lemma demo_builder_sel:
  "rb_payload demo_builder = Some [1, 2, 3]" "rb_encrypt_payload demo_builder"
  "rb_client demo_builder = None"
  "rb_ctx demo_builder =
     rb_ctx (request_builder_new demo_crypto (replicate 32 1) (cr_public demo_crypto (replicate 32 2))
       (None :: unit option))"
  "rb_plaintext_headers demo_builder = [(''x-request-id'', ''r-1'')]"
  "rb_encrypted_headers demo_builder = [(''authorization'', ''Bearer t'')]"
  by (simp_all add: demo_builder_def builder_encrypted_payload_def request_builder_new_def)

lemma demo_builder_ok:
  "plain_headers_ok (rb_plaintext_headers demo_builder)"
  "encrypted_headers_ok (rb_encrypted_headers demo_builder)"
proof -
  show "plain_headers_ok (rb_plaintext_headers demo_builder)"
    unfolding demo_builder_sel by code_simp
  show "encrypted_headers_ok (rb_encrypted_headers demo_builder)"
    unfolding demo_builder_sel by code_simp
qed

lemma demo_build_succeeds:
  "\<exists>built. build_for_subject demo_crypto alist_headers demo_map_json demo_builder ''a.b''
     (replicate 24 5) (replicate 24 6) = Inr built"
  by (simp add: build_for_subject_def Let_def build_encrypted_headers_def build_payload_def
      demo_builder_sel demo_map_json_def context_encrypt_def encrypt_aead_def demo_crypto_def)

theorem encrypted_request_round_trip_witness:
  "\<exists>built r. build_for_subject demo_crypto alist_headers demo_map_json demo_builder ''a.b''
     (replicate 24 5) (replicate 24 6) = Inr built \<and>
   prepare demo_json demo_crypto alist_headers demo_map_json
     (from_private_bytes demo_crypto (replicate 32 2))
     (request_new alist_headers ''a.b'' None (br_payload built) (Some (br_headers built))) True =
     Inr r \<and>
   rq_payload (encrypted_request_view alist_headers r) = [1, 2, 3] \<and>
   mset (eq_overlay r) = {#(''authorization'', ''Bearer t'')#}"
proof -
  obtain built where b: "build_for_subject demo_crypto alist_headers demo_map_json demo_builder
      ''a.b'' (replicate 24 5) (replicate 24 6) = Inr built"
    using demo_build_succeeds by blast
  show ?thesis
    using encrypted_request_round_trip [OF demo_crypto_laws alist_headers_laws demo_map_json_laws,
        of "replicate 32 1" "replicate 32 2" "replicate 24 5" "replicate 24 6" demo_builder
        "[1, 2, 3]" "''a.b''" built demo_json None] b demo_builder_ok
    by (auto simp: demo_builder_sel)
qed

text \<open>
  C7: nothing unauthenticated reaches an encrypted handler.  If \<open>prepare\<close> accepts a request, it
  carries an ephemeral key of 32 bytes and a signature header that is the MAC, under the signature
  key derived from that key, of the labelled and length-prefixed received subject, key, request
  id (empty when the request's id is absent or not a valid one), client version, encrypted-headers
  value and body.  What the handler then sees beyond the request itself was sealed under the
  encryption key derived from the same key: the header overlay is the content of the
  encrypted-headers value, without reserved names, and a decrypted body is the content of an
  envelope that starts with that key.
\<close>

theorem prepare_authenticates:
  assumes "prepare J C H M keypair request decrypt_payload = Inr r"
  shows "\<exists>headers eph sig key64 sig64.
    headers_raw (rq_headers request) = Some headers \<and>
    ho_get H headers RESPONSE_PUB_KEY_NAME = Some key64 \<and> cr_b64_decode C key64 = Inr eph \<and>
    length eph = 32 \<and> eq_ephemeral_public_key r = eph \<and> eq_original r = request \<and>
    ho_get H headers SIGNATURE_HEADER_NAME = Some sig64 \<and> cr_b64_decode C sig64 = Inr sig \<and>
    sig = cr_hmac C (derive_signature_key C keypair eph) (signed_bytes
      [(''version'', TRANSCRIPT_VERSION), (''subject'', as_bytes (rq_subject request)),
       (''ephemeral-pub-key'', eph),
       (''request-id'', as_bytes (text_of (ri_existing (rq_request_id request)))),
       (''client-version'', as_bytes (text_of (ho_get H headers ''x-client-version''))),
       (''encrypted-headers'', as_bytes (text_of (ho_get H headers ENCRYPTED_HEADERS_NAME))),
       (''payload'', rq_payload request)]) \<and>
    (case ho_get H headers ENCRYPTED_HEADERS_NAME of
       None \<Rightarrow> eq_overlay r = []
     | Some v \<Rightarrow> \<exists>blob p. cr_b64_decode C v = Inr blob \<and>
         cr_open C (derive_encryption_key C keypair eph) (take 24 (drop 32 blob)) (drop 56 blob) = Some p \<and>
         mj_from_slice M p = Some (eq_overlay r) \<and>
         list_all (\<lambda>(k, v). \<not> is_reserved_encryption_header_name k) (eq_overlay r)) \<and>
    (if decrypt_payload
     then take 32 (rq_payload request) = eph \<and>
       (\<exists>p. eq_plaintext r = Some p \<and> cr_open C (derive_encryption_key C keypair eph)
          (take 24 (drop 32 (rq_payload request))) (drop 56 (rq_payload request)) = Some p)
     else eq_plaintext r = None)"
  by (rule prepare_accepted [OF assms])

theorem prepare_authenticates_witness:
  "\<exists>built r headers sig64.
     build_for_subject demo_crypto alist_headers demo_map_json demo_builder ''a.b''
       (replicate 24 5) (replicate 24 6) = Inr built \<and>
     prepare demo_json demo_crypto alist_headers demo_map_json
       (from_private_bytes demo_crypto (replicate 32 2))
       (request_new alist_headers ''a.b'' None (br_payload built) (Some (br_headers built))) True =
       Inr r \<and>
     ho_get alist_headers headers SIGNATURE_HEADER_NAME = Some sig64 \<and>
     length (eq_ephemeral_public_key r) = 32 \<and>
     take 32 (br_payload built) = eq_ephemeral_public_key r"
proof -
  obtain built where b: "build_for_subject demo_crypto alist_headers demo_map_json demo_builder
      ''a.b'' (replicate 24 5) (replicate 24 6) = Inr built"
    using demo_build_succeeds by blast
  obtain r where r: "prepare demo_json demo_crypto alist_headers demo_map_json
      (from_private_bytes demo_crypto (replicate 32 2))
      (request_new alist_headers ''a.b'' None (br_payload built) (Some (br_headers built))) True =
      Inr r"
    using prepare_built [OF demo_crypto_laws alist_headers_laws demo_map_json_laws,
        of "replicate 32 1" "replicate 32 2" "replicate 24 5" "replicate 24 6" demo_builder
        "[1, 2, 3]" "''a.b''" built demo_json None] b demo_builder_ok
    by (auto simp: demo_builder_sel request_builder_new_def)
  show ?thesis using prepare_authenticates [OF r] b r by (force simp: request_new_def)
qed

end
