(* ===== verification/Client_Calls.thy ===== *)
theory Client_Calls
  imports Encrypted_Requests Codecs
begin

text \<open>
  \<open>nats-micro/src/client/v2.rs\<close> and the transport interface of \<open>client/transport.rs\<close>:
  header merging, the response decoders (locale \<open>response_decoder\<close>: a reported service error
  always wins), and the four kinds of calls with their mapping of failures to client errors.
  The transport is an argument; so are the decoders of \<open>serde_json\<close> and \<open>prost\<close>.
\<close>

section \<open>Requests and responses\<close>

datatype client_subject = SStatic string | SBorrowed string | SOwned string

primrec subject_as_str :: "client_subject \<Rightarrow> string" where
  "subject_as_str (SStatic v) = v"
| "subject_as_str (SBorrowed v) = v"
| "subject_as_str (SOwned v) = v"

record 'h client_request =
  cq_subject :: client_subject
  cq_payload :: bytes
  cq_headers :: "'h option"
  cq_timeout :: "duration option"

record 'h client_response =
  cx_payload :: bytes
  cx_headers :: "'h option"

record 'h client_transport =
  tr_request :: "'h client_request \<Rightarrow> transport_error + 'h client_response"
  tr_publish :: "client_subject \<Rightarrow> bytes \<Rightarrow> 'h option \<Rightarrow> transport_error + unit"

section \<open>Merging headers\<close>

fun merge_values :: "'h header_ops \<Rightarrow> string \<Rightarrow> string list \<Rightarrow> 'h \<Rightarrow> 'h" where
  "merge_values H name [] m = m"
| "merge_values H name (v # vs) m =
     foldl (\<lambda>m v. ho_append H name v m) (ho_insert H name v m) vs"

fun merge_entries :: "'h header_ops \<Rightarrow> (string \<times> string list) list \<Rightarrow> 'h \<Rightarrow> 'h" where
  "merge_entries H [] m = m"
| "merge_entries H ((name, values) # es) m = merge_entries H es (merge_values H name values m)"

definition merge_headers :: "'h header_ops \<Rightarrow> 'h option \<Rightarrow> 'h option \<Rightarrow> 'h option" where
  "merge_headers H defaults per_call =
     (case (defaults, per_call) of
        (None, None) \<Rightarrow> None
      | (None, Some headers) \<Rightarrow> Some headers
      | (Some d, None) \<Rightarrow> Some d
      | (Some d, Some headers) \<Rightarrow> Some (merge_entries H (ho_iter H headers) d))"

lemma foldl_append_get:
  assumes "header_map_laws H" "ho_get H m name \<noteq> None"
  shows "ho_get H (foldl (\<lambda>m v. ho_append H name v m) m vs) k = ho_get H m k"
  using assms(2)
proof (induction vs arbitrary: m)
  case (Cons v vs)
  then have "ho_get H (ho_append H name v m) k' = ho_get H m k'" for k'
    by (simp add: header_get_laws(3) [OF assms(1)])
  then show ?case using Cons by simp
qed simp

lemma merge_values_get:
  assumes "header_map_laws H"
  shows "ho_get H (merge_values H name vs m) k =
    (if k = name \<and> vs \<noteq> [] then Some (hd vs) else ho_get H m k)"
  using assms by (cases vs) (simp_all add: foldl_append_get header_get_laws(2))

lemma merge_entries_get:
  assumes "header_map_laws H" "distinct (map fst es)"
  shows "ho_get H (merge_entries H es m) k =
    (case first_value es k of Some v \<Rightarrow> Some v | None \<Rightarrow> ho_get H m k)"
  using assms(2)
proof (induction es arbitrary: m)
  case (Cons e es)
  obtain name vs where e: "e = (name, vs)" by (cases e)
  have "map_of es name = None" using Cons.prems by (simp add: e map_of_eq_None_iff)
  then have "first_value es name = None" by (simp add: first_value_def)
  moreover have "first_value (e # es) k =
      (if k = name then (if vs = [] then None else Some (hd vs)) else first_value es k)"
    by (simp add: e first_value_def split: list.split)
  ultimately show ?case using Cons
    by (simp add: e merge_values_get [OF assms(1)] del: merge_values.simps split: option.split)
qed (simp add: first_value_def)

text \<open>
  A header set for one call overrides the client's default of that name, and defaults of
  other names stay: the merged map answers each name with the call's first value if there is
  one and with the default otherwise; it is absent only if both maps are.
\<close>

theorem merge_headers_override:
  "header_map_laws H \<Longrightarrow>
   Option.bind (merge_headers H defaults per_call) (\<lambda>m. ho_get H m name) =
     (case Option.bind per_call (\<lambda>m. ho_get H m name) of
        Some v \<Rightarrow> Some v
      | None \<Rightarrow> Option.bind defaults (\<lambda>m. ho_get H m name)) \<and>
   (merge_headers H defaults per_call = None) = (defaults = None \<and> per_call = None)"
proof -
  assume H: "header_map_laws H"
  show ?thesis
    by (cases defaults; cases per_call)
      (simp_all add: merge_headers_def merge_entries_get [OF H header_get_laws(5) [OF H]]
        header_get_laws(4) [OF H, symmetric] split: option.split)
qed

theorem merge_headers_override_witness:
  "Option.bind (merge_headers alist_headers
       (Some (ho_insert alist_headers ''a'' ''1'' (ho_insert alist_headers ''b'' ''2'' (ho_empty alist_headers))))
       (Some (ho_insert alist_headers ''a'' ''3'' (ho_empty alist_headers))))
     (\<lambda>m. ho_get alist_headers m ''a'') = Some ''3''"
  using merge_headers_override [OF alist_headers_laws,
      of "Some (ho_insert alist_headers ''a'' ''1'' (ho_insert alist_headers ''b'' ''2''
        (ho_empty alist_headers)))"
      "Some (ho_insert alist_headers ''a'' ''3'' (ho_empty alist_headers))" "''a''"]
  by (simp add: header_get_laws(2) [OF alist_headers_laws])

section \<open>Decoding responses\<close>

definition reports_service_error :: "'h header_ops \<Rightarrow> 'h client_response \<Rightarrow> bool" where
  "reports_service_error H response =
     (case cx_headers response of
        None \<Rightarrow> False
      | Some headers \<Rightarrow>
          ho_get H headers ''Nats-Service-Error-Code'' \<noteq> None \<or>
          ho_get H headers ''Nats-Micro-Error-Kind'' \<noteq> None)"

definition error_response ::
  "'j json_ops \<Rightarrow> 'h header_ops \<Rightarrow> ('j nats_error_response \<Rightarrow> ('j, 'e) service_error_match) \<Rightarrow>
   'h client_response \<Rightarrow> ('j, 'e) client_error + ('j, 'e) client_error option" where
  "error_response J H from_response response =
     (if cx_headers response = None then Inr None
      else if \<not> reports_service_error H response then Inr None
      else try_then
        (map_err (\<lambda>error. client_invalid_response (framework InvalidResponse
            (''service error headers accompanied malformed JSON: '' @ error)))
          (jo_error_from_slice J (cx_payload response)))
        (\<lambda>error. Inr (Some (from_service_response from_response error))))"

definition ensure_success ::
  "'j json_ops \<Rightarrow> 'h header_ops \<Rightarrow> ('j nats_error_response \<Rightarrow> ('j, 'e) service_error_match) \<Rightarrow>
   'h client_response \<Rightarrow> ('j, 'e) client_error + unit" where
  "ensure_success J H from_response response =
     try_then (error_response J H from_response response)
       (\<lambda>r. case r of Some error \<Rightarrow> Inl error | None \<Rightarrow> Inr ())"

definition is_optional_none :: "'h header_ops \<Rightarrow> 'h client_response \<Rightarrow> bool" where
  "is_optional_none H response =
     (Option.bind (cx_headers response) (\<lambda>headers. ho_get H headers PRESENT_HEADER) = Some ''0'')"

definition deserialize_error :: "string \<Rightarrow> ('j, 'e) client_error" where
  "deserialize_error error = client_deserialize (framework DeserializationError error)"

text \<open>
  The twelve decoders.  \<open>JsonDecoder\<close> and \<open>ProtoDecoder\<close> have the same body over their
  deserializer, which is the argument \<open>parse\<close>.
\<close>

definition json_decoder ::
  "'j json_ops \<Rightarrow> 'h header_ops \<Rightarrow> ('j nats_error_response \<Rightarrow> ('j, 'e) service_error_match) \<Rightarrow>
   (bytes \<Rightarrow> string + 'r) \<Rightarrow> 'h client_response \<Rightarrow> ('j, 'e) client_error + 'r" where
  "json_decoder J H from_response parse response =
     try_then (ensure_success J H from_response response)
       (\<lambda>_. map_err deserialize_error (parse (cx_payload response)))"

definition optional_json_decoder ::
  "'j json_ops \<Rightarrow> 'h header_ops \<Rightarrow> ('j nats_error_response \<Rightarrow> ('j, 'e) service_error_match) \<Rightarrow>
   (bytes \<Rightarrow> string + 'r) \<Rightarrow> 'h client_response \<Rightarrow> ('j, 'e) client_error + 'r option" where
  "optional_json_decoder J H from_response parse response =
     try_then (ensure_success J H from_response response)
       (\<lambda>_. if is_optional_none H response then Inr None
            else map_err deserialize_error (map_ok Some (parse (cx_payload response))))"

definition proto_decoder ::
  "'j json_ops \<Rightarrow> 'h header_ops \<Rightarrow> ('j nats_error_response \<Rightarrow> ('j, 'e) service_error_match) \<Rightarrow>
   (bytes \<Rightarrow> string + 'r) \<Rightarrow> 'h client_response \<Rightarrow> ('j, 'e) client_error + 'r" where
  "proto_decoder J H from_response parse response =
     try_then (ensure_success J H from_response response)
       (\<lambda>_. map_err deserialize_error (parse (cx_payload response)))"

definition optional_proto_decoder ::
  "'j json_ops \<Rightarrow> 'h header_ops \<Rightarrow> ('j nats_error_response \<Rightarrow> ('j, 'e) service_error_match) \<Rightarrow>
   (bytes \<Rightarrow> string + 'r) \<Rightarrow> 'h client_response \<Rightarrow> ('j, 'e) client_error + 'r option" where
  "optional_proto_decoder J H from_response parse response =
     try_then (ensure_success J H from_response response)
       (\<lambda>_. if is_optional_none H response then Inr None
            else map_err deserialize_error (map_ok Some (parse (cx_payload response))))"

definition text_decoder ::
  "'j json_ops \<Rightarrow> 'h header_ops \<Rightarrow> ('j nats_error_response \<Rightarrow> ('j, 'e) service_error_match) \<Rightarrow>
   'h client_response \<Rightarrow> ('j, 'e) client_error + string" where
  "text_decoder J H from_response response =
     try_then (ensure_success J H from_response response)
       (\<lambda>_. map_err (\<lambda>error. deserialize_error (utf8_error_display error))
         (str_from_utf8 (cx_payload response)))"

definition optional_text_decoder ::
  "'j json_ops \<Rightarrow> 'h header_ops \<Rightarrow> ('j nats_error_response \<Rightarrow> ('j, 'e) service_error_match) \<Rightarrow>
   'h client_response \<Rightarrow> ('j, 'e) client_error + string option" where
  "optional_text_decoder J H from_response response =
     try_then (ensure_success J H from_response response)
       (\<lambda>_. if is_optional_none H response then Inr None
            else map_err (\<lambda>error. deserialize_error (utf8_error_display error))
              (map_ok Some (str_from_utf8 (cx_payload response))))"

definition bytes_decoder ::
  "'j json_ops \<Rightarrow> 'h header_ops \<Rightarrow> ('j nats_error_response \<Rightarrow> ('j, 'e) service_error_match) \<Rightarrow>
   'h client_response \<Rightarrow> ('j, 'e) client_error + bytes" where
  "bytes_decoder J H from_response response =
     try_then (ensure_success J H from_response response) (\<lambda>_. Inr (cx_payload response))"

definition optional_bytes_decoder ::
  "'j json_ops \<Rightarrow> 'h header_ops \<Rightarrow> ('j nats_error_response \<Rightarrow> ('j, 'e) service_error_match) \<Rightarrow>
   'h client_response \<Rightarrow> ('j, 'e) client_error + bytes option" where
  "optional_bytes_decoder J H from_response response =
     try_then (ensure_success J H from_response response)
       (\<lambda>_. Inr (if is_optional_none H response then None else Some (cx_payload response)))"

definition vec_decoder ::
  "'j json_ops \<Rightarrow> 'h header_ops \<Rightarrow> ('j nats_error_response \<Rightarrow> ('j, 'e) service_error_match) \<Rightarrow>
   'h client_response \<Rightarrow> ('j, 'e) client_error + bytes" where
  "vec_decoder J H from_response response =
     try_then (ensure_success J H from_response response) (\<lambda>_. Inr (cx_payload response))"

definition optional_vec_decoder ::
  "'j json_ops \<Rightarrow> 'h header_ops \<Rightarrow> ('j nats_error_response \<Rightarrow> ('j, 'e) service_error_match) \<Rightarrow>
   'h client_response \<Rightarrow> ('j, 'e) client_error + bytes option" where
  "optional_vec_decoder J H from_response response =
     try_then (ensure_success J H from_response response)
       (\<lambda>_. Inr (if \<not> is_optional_none H response then Some (cx_payload response) else None))"

definition empty_decoder ::
  "'j json_ops \<Rightarrow> 'h header_ops \<Rightarrow> ('j nats_error_response \<Rightarrow> ('j, 'e) service_error_match) \<Rightarrow>
   'h client_response \<Rightarrow> ('j, 'e) client_error + unit" where
  "empty_decoder J H from_response response = ensure_success J H from_response response"

definition client_response_decoder ::
  "'j json_ops \<Rightarrow> 'h header_ops \<Rightarrow> ('j nats_error_response \<Rightarrow> ('j, 'e) service_error_match) \<Rightarrow>
   'h client_response \<Rightarrow> ('j, 'e) client_error + 'h client_response" where
  "client_response_decoder J H from_response response =
     try_then (ensure_success J H from_response response) (\<lambda>_. Inr response)"

lemmas decoder_defs =
  json_decoder_def optional_json_decoder_def proto_decoder_def optional_proto_decoder_def
  text_decoder_def optional_text_decoder_def bytes_decoder_def optional_bytes_decoder_def
  vec_decoder_def optional_vec_decoder_def empty_decoder_def client_response_decoder_def

lemma ensure_success_ok:
  "\<not> reports_service_error H response \<Longrightarrow> ensure_success J H from_response response = Inr ()"
  by (simp add: ensure_success_def error_response_def)

lemma ensure_success_error:
  assumes "reports_service_error H response"
  shows "ensure_success J H from_response response =
    Inl (case jo_error_from_slice J (cx_payload response) of
        Inr error \<Rightarrow> from_service_response from_response error
      | Inl e \<Rightarrow> client_invalid_response (framework InvalidResponse
          (''service error headers accompanied malformed JSON: '' @ e)))"
proof -
  have "cx_headers response \<noteq> None"
    using assms by (auto simp: reports_service_error_def split: option.splits)
  then show ?thesis using assms
    by (cases "jo_error_from_slice J (cx_payload response)")
      (auto simp: ensure_success_def error_response_def)
qed

text \<open>The interface of a decoder towards the calls that use it.\<close>

locale response_decoder =
  fixes J :: "'j json_ops" and H :: "'h header_ops"
    and from_response :: "'j nats_error_response \<Rightarrow> ('j, 'e) service_error_match"
    and decode :: "'h client_response \<Rightarrow> ('j, 'e) client_error + 'r"
  assumes checks_errors:
    "ensure_success J H from_response response = Inl e \<Longrightarrow> decode response = Inl e"
begin

lemma service_error_first:
  "reports_service_error H response \<Longrightarrow>
   jo_error_from_slice J (cx_payload response) = Inr error \<Longrightarrow>
   decode response = Inl (from_service_response from_response error)"
  by (rule checks_errors) (simp add: ensure_success_error)

lemma never_ok_on_error: "reports_service_error H response \<Longrightarrow> \<not> is_ok (decode response)"
  using checks_errors [OF ensure_success_error] by simp

end

interpretation json_dec: response_decoder J H from_response "json_decoder J H from_response parse"
  by unfold_locales (simp add: decoder_defs)

interpretation opt_json_dec:
  response_decoder J H from_response "optional_json_decoder J H from_response parse"
  by unfold_locales (simp add: decoder_defs)

interpretation proto_dec: response_decoder J H from_response "proto_decoder J H from_response parse"
  by unfold_locales (simp add: decoder_defs)

interpretation opt_proto_dec:
  response_decoder J H from_response "optional_proto_decoder J H from_response parse"
  by unfold_locales (simp add: decoder_defs)

interpretation text_dec: response_decoder J H from_response "text_decoder J H from_response"
  by unfold_locales (simp add: decoder_defs)

interpretation opt_text_dec:
  response_decoder J H from_response "optional_text_decoder J H from_response"
  by unfold_locales (simp add: decoder_defs)

interpretation bytes_dec: response_decoder J H from_response "bytes_decoder J H from_response"
  by unfold_locales (simp add: decoder_defs)

interpretation opt_bytes_dec:
  response_decoder J H from_response "optional_bytes_decoder J H from_response"
  by unfold_locales (simp add: decoder_defs)

interpretation vec_dec: response_decoder J H from_response "vec_decoder J H from_response"
  by unfold_locales (simp add: decoder_defs)

interpretation opt_vec_dec: response_decoder J H from_response "optional_vec_decoder J H from_response"
  by unfold_locales (simp add: decoder_defs)

interpretation empty_dec: response_decoder J H from_response "empty_decoder J H from_response"
  by unfold_locales (simp add: decoder_defs)

interpretation resp_dec:
  response_decoder J H from_response "client_response_decoder J H from_response"
  by unfold_locales (simp add: decoder_defs)

section \<open>Calls\<close>

definition client_build_error :: "string \<Rightarrow> string \<Rightarrow> string" where
  "client_build_error name error = ''invalid header `'' @ name @ ''`: '' @ error"

definition validate_header :: "'h header_ops \<Rightarrow> string \<Rightarrow> string \<Rightarrow> string + string \<times> string" where
  "validate_header H name v =
     try_then (map_err (client_build_error name) (ho_parse_name H name))
       (\<lambda>n. try_then (map_err (client_build_error name) (ho_parse_value H v))
         (\<lambda>w. Inr (n, w)))"

definition insert_header ::
  "'h header_ops \<Rightarrow> 'h option \<Rightarrow> string \<Rightarrow> string \<Rightarrow> string + 'h option" where
  "insert_header H headers name v =
     try_then (validate_header H name v)
       (\<lambda>(n, w). Inr (Some (ho_insert H n w
         (case headers of Some h \<Rightarrow> h | None \<Rightarrow> ho_empty H))))"

definition push_encrypted_header ::
  "'h header_ops \<Rightarrow> (string \<times> string) list \<Rightarrow> string \<Rightarrow> string \<Rightarrow> string + (string \<times> string) list" where
  "push_encrypted_header H encrypted name v =
     try_then (validate_header H name v)
       (\<lambda>_. if is_reserved_encryption_header_name name
            then Inl (client_build_error name ''header is reserved for encryption transport metadata'')
            else Inr (encrypted @ [(name, v)]))"

record 'h request_call =
  ca_subject :: client_subject
  ca_payload :: "error_reply + bytes"
  ca_default_headers :: "'h option"
  ca_headers :: "'h option"
  ca_timeout :: "duration option"

definition request_call_new ::
  "client_subject \<Rightarrow> error_reply + bytes \<Rightarrow> 'h option \<Rightarrow> duration option \<Rightarrow> 'h request_call" where
  "request_call_new subject payload default_headers timeout =
     \<lparr>ca_subject = subject, ca_payload = payload, ca_default_headers = default_headers,
      ca_headers = None, ca_timeout = timeout\<rparr>"

definition call_header ::
  "'h header_ops \<Rightarrow> 'h request_call \<Rightarrow> string \<Rightarrow> string \<Rightarrow> string + 'h request_call" where
  "call_header H c name v =
     try_then (insert_header H (ca_headers c) name v) (\<lambda>h. Inr (c\<lparr>ca_headers := h\<rparr>))"

definition call_timeout :: "duration \<Rightarrow> 'h request_call \<Rightarrow> 'h request_call" where
  "call_timeout timeout c = c\<lparr>ca_timeout := Some timeout\<rparr>"

definition serialization_reply :: "error_reply \<Rightarrow> ('j, 'e) client_error" where
  "serialization_reply error =
     client_serialize (error_new (rp_code error) (rp_kind error) (rp_message error)
       (unwrap_or_default (rp_request_id error)))"

definition transport_client_error :: "transport_error \<Rightarrow> ('j, 'e) client_error" where
  "transport_client_error error =
     client_error_request (transport error ''NATS client transport operation failed'')"

definition request_call_send ::
  "'h header_ops \<Rightarrow> 'h client_transport \<Rightarrow> ('h client_response \<Rightarrow> ('j, 'e) client_error + 'r) \<Rightarrow>
   'h request_call \<Rightarrow> ('j, 'e) client_error + 'r" where
  "request_call_send H T decode c =
     try_then (map_err serialization_reply (ca_payload c)) (\<lambda>payload.
       try_then (map_err transport_client_error
           (tr_request T \<lparr>cq_subject = ca_subject c, cq_payload = payload,
              cq_headers = merge_headers H (ca_default_headers c) (ca_headers c),
              cq_timeout = ca_timeout c\<rparr>))
         decode)"

definition publish_call_send ::
  "'h header_ops \<Rightarrow> 'h client_transport \<Rightarrow> 'h request_call \<Rightarrow> ('j, 'e) client_error + unit" where
  "publish_call_send H T c =
     try_then (map_err serialization_reply (ca_payload c)) (\<lambda>payload.
       map_err transport_client_error
         (tr_publish T (ca_subject c) payload
           (merge_headers H (ca_default_headers c) (ca_headers c))))"

section \<open>Encrypted calls\<close>

text \<open>
  \<open>ce_recipient\<close> is the public key of the \<open>ServiceRecipient\<close>, which has no client of its own
  here; the ephemeral secret and the two nonces are drawn by the builder.
\<close>

record 'h encrypted_call =
  ce_recipient :: "bytes option"
  ce_call :: "'h request_call"
  ce_encrypted_headers :: "(string \<times> string) list"
  ce_encrypt_payload :: bool
  ce_decrypt_response :: bool

definition encrypted_call_header ::
  "'h header_ops \<Rightarrow> 'h encrypted_call \<Rightarrow> string \<Rightarrow> string \<Rightarrow> string + 'h encrypted_call" where
  "encrypted_call_header H c name v =
     try_then (call_header H (ce_call c) name v) (\<lambda>k. Inr (c\<lparr>ce_call := k\<rparr>))"

definition encrypted_header ::
  "'h header_ops \<Rightarrow> 'h encrypted_call \<Rightarrow> string \<Rightarrow> string \<Rightarrow> string + 'h encrypted_call" where
  "encrypted_header H c name v =
     try_then (push_encrypted_header H (ce_encrypted_headers c) name v)
       (\<lambda>hs. Inr (c\<lparr>ce_encrypted_headers := hs\<rparr>))"

definition bearer_token ::
  "'h header_ops \<Rightarrow> 'h encrypted_call \<Rightarrow> string \<Rightarrow> string + 'h encrypted_call" where
  "bearer_token H c token = encrypted_header H c ''authorization'' (''Bearer '' @ token)"

definition encryption_serialize_error :: "encryption_error \<Rightarrow> ('j, 'e) client_error" where
  "encryption_serialize_error error =
     client_serialize (framework SerializationError (encryption_error_display error))"

definition encryption_decrypt_error :: "encryption_error \<Rightarrow> ('j, 'e) client_error" where
  "encryption_decrypt_error error =
     client_decrypt (framework DecryptFailed (encryption_error_display error))"

fun add_headers ::
  "('c request_builder \<Rightarrow> string \<Rightarrow> string \<Rightarrow> encryption_error + 'c request_builder) \<Rightarrow>
   (string \<times> string) list \<Rightarrow> 'c request_builder \<Rightarrow> encryption_error + 'c request_builder" where
  "add_headers add [] b = Inr b"
| "add_headers add ((name, v) # xs) b = try_then (add b name v) (add_headers add xs)"

definition add_plain_headers ::
  "'h header_ops \<Rightarrow> 'c request_builder \<Rightarrow> 'h \<Rightarrow> encryption_error + 'c request_builder" where
  "add_plain_headers H b headers =
     add_headers (try_header H)
       (concat (map (\<lambda>(name, values). map (\<lambda>v. (name, v)) values) (ho_iter H headers))) b"

text \<open>The part that the encrypted request and the encrypted publish call share.\<close>

definition build_encrypted_call ::
  "crypto_ops \<Rightarrow> 'h header_ops \<Rightarrow> map_json \<Rightarrow> bytes \<Rightarrow> bytes \<Rightarrow> bytes \<Rightarrow> 'h encrypted_call \<Rightarrow>
   ('j, 'e) client_error + 'h built_request" where
  "build_encrypted_call C H M eph_secret nonce1 nonce2 c =
     try_then (ok_or (client_serialize (framework MissingRecipientPubkey
         ''encrypted operation requires a service recipient public key'')) (ce_recipient c))
       (\<lambda>recipient.
     try_then (map_err serialization_reply (ca_payload (ce_call c))) (\<lambda>payload.
     let builder = request_builder_new C eph_secret recipient (None :: unit option);
         builder = (if ce_encrypt_payload c then builder_encrypted_payload builder payload
           else builder_payload builder payload);
         headers = merge_headers H (ca_default_headers (ce_call c)) (ca_headers (ce_call c))
     in try_then (case headers of
            None \<Rightarrow> Inr builder
          | Some h \<Rightarrow> map_err encryption_serialize_error (add_plain_headers H builder h))
          (\<lambda>builder.
        try_then (map_err encryption_serialize_error
            (add_headers (try_encrypted_header H) (ce_encrypted_headers c) builder))
          (\<lambda>builder. map_err encryption_serialize_error
            (build_for_subject C H M builder (subject_as_str (ca_subject (ce_call c)))
              nonce1 nonce2)))))"

definition encrypted_request_send ::
  "crypto_ops \<Rightarrow> 'h header_ops \<Rightarrow> map_json \<Rightarrow> bytes \<Rightarrow> bytes \<Rightarrow> bytes \<Rightarrow> 'h client_transport \<Rightarrow>
   ('h client_response \<Rightarrow> ('j, 'e) client_error + 'r) \<Rightarrow> 'h encrypted_call \<Rightarrow>
   ('j, 'e) client_error + 'r" where
  "encrypted_request_send C H M eph_secret nonce1 nonce2 T decode c =
     try_then (build_encrypted_call C H M eph_secret nonce1 nonce2 c) (\<lambda>built.
     try_then (map_err transport_client_error
         (tr_request T \<lparr>cq_subject = ca_subject (ce_call c), cq_payload = br_payload built,
            cq_headers = Some (br_headers built), cq_timeout = ca_timeout (ce_call c)\<rparr>))
       (\<lambda>response.
     try_then
       (if ce_decrypt_response c \<and> \<not> reports_service_error H response
        then map_ok (\<lambda>p. response\<lparr>cx_payload := p\<rparr>)
          (map_err encryption_decrypt_error
            (decrypt_response C (br_context built) (cx_payload response)))
        else Inr response)
       decode))"

definition encrypted_publish_send ::
  "crypto_ops \<Rightarrow> 'h header_ops \<Rightarrow> map_json \<Rightarrow> bytes \<Rightarrow> bytes \<Rightarrow> bytes \<Rightarrow> 'h client_transport \<Rightarrow>
   'h encrypted_call \<Rightarrow> ('j, 'e) client_error + unit" where
  "encrypted_publish_send C H M eph_secret nonce1 nonce2 T c =
     try_then (build_encrypted_call C H M eph_secret nonce1 nonce2 c) (\<lambda>built.
       map_err transport_client_error
         (tr_publish T (ca_subject (ce_call c)) (br_payload built) (Some (br_headers built))))"

section \<open>Optional values\<close>

definition received :: "'h response \<Rightarrow> 'h client_response" where
  "received r =
     (case r of
        REmpty \<Rightarrow> \<lparr>cx_payload = [], cx_headers = None\<rparr>
      | RPayload payload \<Rightarrow> \<lparr>cx_payload = payload, cx_headers = None\<rparr>
      | RWithHeaders payload headers \<Rightarrow> \<lparr>cx_payload = payload, cx_headers = Some headers\<rparr>)"

lemma optional_none_flags:
  assumes "header_map_laws H"
  shows "is_optional_none H (received (optional_none H))"
    and "\<not> reports_service_error H (received (optional_none H))"
  by (simp_all add: is_optional_none_def reports_service_error_def received_def optional_none_def
      header_get_laws(1,2) [OF assms] PRESENT_HEADER_def)

lemma plain_payload_flags:
  "\<not> is_optional_none H (received (RPayload p))"
  "\<not> reports_service_error H (received (RPayload p))"
  by (simp_all add: is_optional_none_def reports_service_error_def received_def)

text \<open>
  Optional responses are unambiguous on the wire.  The absent value that a server encodes
  is read as \<open>None\<close> by every optional decoder, although its payload is empty; a present value
  is read as present whatever its payload, the empty one included.
\<close>

theorem optional_values_unambiguous:
  "header_map_laws H \<Longrightarrow>
   optional_json_decoder J H from_response parse (received (optional_none H)) = Inr None \<and>
   optional_proto_decoder J H from_response parse (received (optional_none H)) = Inr None \<and>
   optional_text_decoder J H from_response (received (optional_none H)) = Inr None \<and>
   optional_bytes_decoder J H from_response (received (optional_none H)) = Inr None \<and>
   optional_vec_decoder J H from_response (received (optional_none H)) = Inr None \<and>
   optional_json_decoder J H from_response parse (received (RPayload p)) =
     map_err deserialize_error (map_ok Some (parse p)) \<and>
   optional_bytes_decoder J H from_response (received (RPayload p)) = Inr (Some p) \<and>
   optional_vec_decoder J H from_response (received (RPayload p)) = Inr (Some p)"
  using optional_none_flags [of H] plain_payload_flags [of H p]
    ensure_success_ok [of H "received (optional_none H)" J from_response]
    ensure_success_ok [of H "received (RPayload p)" J from_response]
  by (simp add: decoder_defs) (simp add: received_def)

theorem optional_values_unambiguous_witness:
  "optional_bytes_decoder demo_json alist_headers from_response_self
     (received (optional_none alist_headers)) = Inr None \<and>
   optional_bytes_decoder demo_json alist_headers from_response_self
     (received (RPayload [])) = Inr (Some [])"
  using optional_values_unambiguous [OF alist_headers_laws, of demo_json from_response_self
      "\<lambda>_. Inr ()" "[]"] by simp

section \<open>Repeated header values\<close>

text \<open>
  A plain call keeps all values of a repeated header, and readers see the first; an encrypted
  call inserts the values one by one, so that only the last one is sent.
\<close>

theorem repeated_values_diverge:
  assumes "header_map_laws H"
  shows "ho_get H (merge_values H name [v1, v2] h) name = Some v1 \<and>
    ho_get H (insert_all H [(name, v1), (name, v2)] h) name = Some v2"
  using assms by (simp add: header_get_laws(2,3))

end
