(* ===== verification/Connecting.thy ===== *)
theory Connecting
  imports Error_Responses
begin

text \<open>
  \<open>nats-micro/src/client/mod.rs\<close> (the options of \<open>connect\<close>) and the error mapping of
  \<open>NatsTransport\<close> in \<open>client/transport.rs\<close>.  The options of \<open>async_nats\<close> are a third-party
  builder: the model lists the setter calls made on it, in order.  Connecting with them is an
  argument.
\<close>

record auth_options =
  ao_token :: "string option"
  ao_username :: "string option"
  ao_password :: "string option"

record connect_options =
  cn_name :: "string option"
  cn_no_echo :: "bool option"
  cn_max_reconnects :: "nat option"
  cn_connection_timeout_ms :: "nat option"
  cn_auth :: "auth_options option"
  cn_tls_required :: "bool option"
  cn_tls_first :: "bool option"
  cn_certificates :: "string list option"
  cn_client_cert :: "string option"
  cn_client_key :: "string option"
  cn_ping_interval_ms :: "nat option"
  cn_subscription_capacity :: "nat option"
  cn_sender_capacity :: "nat option"
  cn_inbox_prefix :: "string option"
  cn_request_timeout_ms :: "nat option"
  cn_retry_on_initial_connect :: "bool option"
  cn_ignore_discovered_servers :: "bool option"
  cn_retain_servers_order :: "bool option"
  cn_read_buffer_capacity :: "nat option"
  cn_subject_prefix :: "string option"
  cn_recipient_public_key :: "bytes option"

datatype setting =
    OName string | ONoEcho | OMaxReconnects "nat option" | OConnectionTimeout duration
  | OToken string | OUserAndPassword string string | ORequireTls | OTlsFirst
  | ORootCertificate string | OClientCertificate string string | OPingInterval duration
  | OSubscriptionCapacity nat | OClientCapacity nat | OInboxPrefix string
  | ORequestTimeout duration | ORetryOnInitialConnect | OIgnoreDiscoveredServers
  | ORetainServersOrder | OReadBufferCapacity nat

definition opt_setting :: "'a option \<Rightarrow> ('a \<Rightarrow> setting) \<Rightarrow> setting list" where
  "opt_setting x f = (case x of Some v \<Rightarrow> [f v] | None \<Rightarrow> [])"

definition flag_setting :: "bool option \<Rightarrow> setting \<Rightarrow> setting list" where
  "flag_setting x s = (if x = Some True then [s] else [])"

text \<open>\<open>usize::try_from(value).unwrap_or(usize::MAX)\<close> for a 32-bit value on 64 bits.\<close>

definition capacity_of :: "nat \<Rightarrow> nat" where
  "capacity_of v = (if v \<le> 2 ^ 64 - 1 then v else 2 ^ 64 - 1)"

definition apply_auth :: "auth_options \<Rightarrow> 'j nats_error_response + setting list" where
  "apply_auth auth =
     (let has_token = ao_token auth \<noteq> None;
          has_userpass = ao_username auth \<noteq> None \<or> ao_password auth \<noteq> None
      in if has_token \<and> has_userpass
         then Inl (framework AuthModeConflict
           ''choose either token or username/password authentication'')
         else let token = opt_setting (ao_token auth) OToken
              in if has_userpass
                 then try_then (ok_or (framework AuthUsernameRequired
                        ''username is required when password is provided'') (ao_username auth))
                      (\<lambda>username. try_then (ok_or (framework AuthPasswordRequired
                        ''password is required when username is provided'') (ao_password auth))
                      (\<lambda>password. Inr (token @ [OUserAndPassword username password])))
                 else Inr token)"

definition parse_recipient_public_key ::
  "bytes option \<Rightarrow> 'j nats_error_response + bytes option" where
  "parse_recipient_public_key key =
     (case key of
        None \<Rightarrow> Inr None
      | Some k \<Rightarrow>
          if length k = 32 then Inr (Some k)
          else Inl (framework MissingRecipientPubkey
            (''recipient_public_key must contain 32 bytes, received '' @ show_nat (length k))))"

definition client_certificate ::
  "connect_options \<Rightarrow> 'j nats_error_response + setting list" where
  "client_certificate c =
     (case (cn_client_cert c, cn_client_key c) of
        (Some cert, Some key) \<Rightarrow> Inr [OClientCertificate cert key]
      | (None, None) \<Rightarrow> Inr []
      | _ \<Rightarrow> Inl (framework ClientCertKeyMismatch
          ''TLS client authentication requires both client_cert and client_key''))"

definition build_settings :: "connect_options \<Rightarrow> 'j nats_error_response + setting list" where
  "build_settings c =
     try_then (case cn_auth c of None \<Rightarrow> Inr [] | Some auth \<Rightarrow> apply_auth auth) (\<lambda>auth.
     try_then (client_certificate c) (\<lambda>cert.
     Inr (opt_setting (cn_name c) OName @
          flag_setting (cn_no_echo c) ONoEcho @
          opt_setting (cn_max_reconnects c)
            (\<lambda>n. OMaxReconnects (if n \<noteq> 0 then Some (capacity_of n) else None)) @
          opt_setting (cn_connection_timeout_ms c) (\<lambda>t. OConnectionTimeout (from_millis t)) @
          auth @
          flag_setting (cn_tls_required c) ORequireTls @
          flag_setting (cn_tls_first c) OTlsFirst @
          map ORootCertificate (case cn_certificates c of Some cs \<Rightarrow> cs | None \<Rightarrow> []) @
          cert @
          opt_setting (cn_ping_interval_ms c) (\<lambda>t. OPingInterval (from_millis t)) @
          opt_setting (cn_subscription_capacity c) (\<lambda>n. OSubscriptionCapacity (capacity_of n)) @
          opt_setting (cn_sender_capacity c) (\<lambda>n. OClientCapacity (capacity_of n)) @
          opt_setting (cn_inbox_prefix c) OInboxPrefix @
          opt_setting (cn_request_timeout_ms c) (\<lambda>t. ORequestTimeout (from_millis t)) @
          flag_setting (cn_retry_on_initial_connect c) ORetryOnInitialConnect @
          flag_setting (cn_ignore_discovered_servers c) OIgnoreDiscoveredServers @
          flag_setting (cn_retain_servers_order c) ORetainServersOrder @
          opt_setting (cn_read_buffer_capacity c) OReadBufferCapacity)))"

record 'c connected_client =
  cl_client :: 'c
  cl_subject_prefix :: "string option"
  cl_recipient :: "bytes option"

definition connect_defaults :: connect_options where
  "connect_defaults =
     \<lparr>cn_name = None, cn_no_echo = None, cn_max_reconnects = None,
      cn_connection_timeout_ms = None, cn_auth = None, cn_tls_required = None,
      cn_tls_first = None, cn_certificates = None, cn_client_cert = None, cn_client_key = None,
      cn_ping_interval_ms = None, cn_subscription_capacity = None, cn_sender_capacity = None,
      cn_inbox_prefix = None, cn_request_timeout_ms = None, cn_retry_on_initial_connect = None,
      cn_ignore_discovered_servers = None, cn_retain_servers_order = None,
      cn_read_buffer_capacity = None, cn_subject_prefix = None, cn_recipient_public_key = None\<rparr>"

definition connect_inner ::
  "(setting list \<Rightarrow> string \<Rightarrow> string + 'c) \<Rightarrow> string \<Rightarrow> connect_options option \<Rightarrow>
   'j nats_error_response + 'c connected_client" where
  "connect_inner connect server input =
     (let c = (case input of Some o' \<Rightarrow> o' | None \<Rightarrow> connect_defaults)
      in try_then (parse_recipient_public_key (cn_recipient_public_key c)) (\<lambda>recipient.
         try_then (build_settings c) (\<lambda>settings.
         try_then (map_err (\<lambda>error. framework ClientConnectFailed
             (''failed to connect to NATS server `'' @ server @ ''`: '' @ error))
           (connect settings server)) (\<lambda>client.
         Inr \<lparr>cl_client = client, cl_subject_prefix = cn_subject_prefix c,
              cl_recipient = recipient\<rparr>))))"

text \<open>
  The reconnect counter installed with telemetry: the first \<open>Connected\<close> event only sets the
  flag, every later one is a reconnect.
\<close>

fun reconnects :: "bool \<Rightarrow> bool list \<Rightarrow> nat" where
  "reconnects connected_once [] = 0"
| "reconnects connected_once (is_connected # es) =
     (if is_connected then (if connected_once then 1 else 0) + reconnects True es
      else reconnects connected_once es)"

lemma reconnects_True: "reconnects True es = length (filter (\<lambda>e. e) es)"
  by (induction es) auto

lemma reconnects_count: "reconnects False es = length (filter (\<lambda>e. e) es) - 1"
  by (induction es) (auto simp: reconnects_True)

section \<open>Errors of the NATS transport\<close>

datatype request_error_kind =
  TimedOut | KNoResponders | KInvalidSubject | KMaxPayloadExceeded | KOther

primrec request_error :: "request_error_kind \<Rightarrow> transport_error" where
  "request_error TimedOut = Timeout"
| "request_error KNoResponders = NoResponders"
| "request_error KInvalidSubject = NatsRequestFailed"
| "request_error KMaxPayloadExceeded = NatsRequestFailed"
| "request_error KOther = NatsRequestFailed"

datatype publish_error_kind = PSend | PInvalidSubject | PMaxPayloadExceeded

primrec publish_error :: "publish_error_kind \<Rightarrow> transport_error" where
  "publish_error PSend = Disconnected"
| "publish_error PInvalidSubject = TransportFailure"
| "publish_error PMaxPayloadExceeded = TransportFailure"

section \<open>What connect accepts\<close>

definition auth_consistent :: "auth_options \<Rightarrow> bool" where
  "auth_consistent a \<longleftrightarrow>
     (ao_username a = None) = (ao_password a = None) \<and> (ao_token a = None \<or> ao_username a = None)"

lemma apply_auth_ok: "is_ok (apply_auth a) \<longleftrightarrow> auth_consistent a"
  by (cases "ao_token a"; cases "ao_username a"; cases "ao_password a")
    (simp_all add: apply_auth_def auth_consistent_def Let_def)

lemma client_certificate_ok:
  "is_ok (client_certificate c) \<longleftrightarrow> (cn_client_cert c = None) = (cn_client_key c = None)"
  by (cases "cn_client_cert c"; cases "cn_client_key c") (simp_all add: client_certificate_def)

lemma build_settings_ok:
  "is_ok (build_settings c) \<longleftrightarrow>
     (case cn_auth c of Some a \<Rightarrow> auth_consistent a | None \<Rightarrow> True) \<and>
     (cn_client_cert c = None) = (cn_client_key c = None)"
  using apply_auth_ok client_certificate_ok [of c]
  by (cases "cn_auth c") (auto simp: build_settings_def is_ok_iff)

text \<open>
  Inconsistent options never reach the network.  With a server that accepts every
  connection, \<open>connect\<close> succeeds exactly if the recipient key is absent or 32 bytes long,
  authentication is by token or by a complete user name and password but not both, and the
  client certificate comes with its key.
\<close>

theorem connect_accepts_consistent_options:
  "is_ok (connect_inner (\<lambda>settings server. Inr settings) server (Some c)
       :: 'j nats_error_response + setting list connected_client) \<longleftrightarrow>
     (case cn_recipient_public_key c of Some k \<Rightarrow> length k = 32 | None \<Rightarrow> True) \<and>
     (case cn_auth c of Some a \<Rightarrow> auth_consistent a | None \<Rightarrow> True) \<and>
     (cn_client_cert c = None) = (cn_client_key c = None)"
proof -
  have "is_ok (connect_inner (\<lambda>settings server. Inr settings) server (Some c)
       :: 'j nats_error_response + setting list connected_client) \<longleftrightarrow>
      (case cn_recipient_public_key c of Some k \<Rightarrow> length k = 32 | None \<Rightarrow> True) \<and>
      is_ok (build_settings c :: 'j nats_error_response + setting list)"
    by (cases "cn_recipient_public_key c")
      (simp_all add: connect_inner_def parse_recipient_public_key_def is_ok_iff)
  then show ?thesis by (simp only: build_settings_ok)
qed

end
