(* ===== verification/Test_Support.thy ===== *)
theory Test_Support
  imports Prelude Framework_Errors
begin

text \<open>
  \<open>nats-micro-testing/src/lib.rs\<close>: the event log with its selections, and the fault plan.
  The shared \<open>Arc<Mutex<..>>\<close> is the state passed from call to call.  The fault plan keeps
  one queue for all operations and subjects; the locale \<open>keyed_fifo\<close> states what its users
  rely on, a first-in first-out queue per key, and it is interpreted on the plan.
\<close>

section \<open>Events\<close>

record 'h captured_event =
  ev_subject :: string
  ev_payload :: bytes
  ev_headers :: "'h option"

type_synonym 'h event_log = "'h captured_event list"

definition event_record :: "string \<Rightarrow> bytes \<Rightarrow> 'h option \<Rightarrow> 'h event_log \<Rightarrow> 'h event_log" where
  "event_record subject payload headers log =
     log @ [\<lparr>ev_subject = subject, ev_payload = payload, ev_headers = headers\<rparr>]"

definition selection_events :: "string \<Rightarrow> 'h event_log \<Rightarrow> 'h captured_event list" where
  "selection_events subject log = filter (\<lambda>e. ev_subject e = subject) log"

definition selection_count :: "string \<Rightarrow> 'h event_log \<Rightarrow> nat" where
  "selection_count subject log = length (filter (\<lambda>e. ev_subject e = subject) log)"

text \<open>\<open>assert_count\<close> is whether the assertion holds; otherwise it panics.\<close>

definition assert_count :: "string \<Rightarrow> nat \<Rightarrow> 'h event_log \<Rightarrow> bool" where
  "assert_count subject expected log \<longleftrightarrow> selection_count subject log = expected"

definition selection_single :: "string \<Rightarrow> 'h event_log \<Rightarrow> string + 'h captured_event" where
  "selection_single subject log =
     (let matching = selection_events subject log
      in if length matching = 1 then Inr (hd matching)
         else Inl (''expected one event for subject `'' @ subject @ ''`, found '' @
           show_nat (length matching)))"

definition selection_single_json ::
  "(bytes \<Rightarrow> string + 'a) \<Rightarrow> string \<Rightarrow> 'h event_log \<Rightarrow> string + 'a" where
  "selection_single_json from_slice subject log =
     try_then (selection_single subject log) (\<lambda>event.
       map_err (\<lambda>_. ''failed to decode event on subject `'' @ subject @ ''` as JSON'')
         (from_slice (ev_payload event)))"

definition selection_single_proto ::
  "(bytes \<Rightarrow> string + 'a) \<Rightarrow> string \<Rightarrow> 'h event_log \<Rightarrow> string + 'a" where
  "selection_single_proto decode subject log =
     try_then (selection_single subject log) (\<lambda>event.
       map_err (\<lambda>_. ''failed to decode event on subject `'' @ subject @ ''` as protobuf'')
         (decode (ev_payload event)))"

definition selection_headers :: "string \<Rightarrow> 'h event_log \<Rightarrow> string + 'h option" where
  "selection_headers subject log = map_ok ev_headers (selection_single subject log)"

definition selection_clear :: "string \<Rightarrow> 'h event_log \<Rightarrow> 'h event_log" where
  "selection_clear subject log = filter (\<lambda>e. ev_subject e \<noteq> subject) log"

lemma selection_record:
  "selection_events s (event_record t p h log) =
     selection_events s log @
       (if s = t then [\<lparr>ev_subject = t, ev_payload = p, ev_headers = h\<rparr>] else [])"
  by (simp add: selection_events_def event_record_def)

lemma selection_clear_events:
  "selection_events s (selection_clear t log) = (if s = t then [] else selection_events s log)"
  by (induction log) (auto simp: selection_events_def selection_clear_def)

lemma selection_single_iff: "selection_single s log = Inr e \<longleftrightarrow> selection_events s log = [e]"
  by (cases "selection_events s log") (auto simp: selection_single_def Let_def)

text \<open>
  Event selections are independent.  Recording an event shows up, last, in the selection
  of its own subject and in no other; clearing a selection empties it and no other; \<open>single\<close>
  succeeds exactly when one event matches, and returns it.
\<close>

theorem event_selections_independent:
  "selection_events s (event_record t p h log) =
     selection_events s log @
       (if s = t then [\<lparr>ev_subject = t, ev_payload = p, ev_headers = h\<rparr>] else []) \<and>
   selection_events s (selection_clear t log) = (if s = t then [] else selection_events s log) \<and>
   selection_count s log = length (selection_events s log) \<and>
   (selection_single s log = Inr e) = (selection_events s log = [e])"
  by (simp add: selection_record selection_clear_events selection_single_iff)
    (simp add: selection_count_def selection_events_def)

section \<open>Per-key queues\<close>

locale keyed_fifo =
  fixes push :: "'k \<Rightarrow> 'v \<Rightarrow> 's \<Rightarrow> 's" and pull :: "'k \<Rightarrow> 's \<Rightarrow> 'v option \<times> 's"
    and queue :: "'s \<Rightarrow> 'k \<Rightarrow> 'v list"
  assumes queue_push: "queue (push k v s) = (queue s)(k := queue s k @ [v])"
    and pull_empty: "queue s k = [] \<Longrightarrow> pull k s = (None, s)"
    and pull_first: "queue s k = v # vs \<Longrightarrow>
      \<exists>s'. pull k s = (Some v, s') \<and> queue s' = (queue s)(k := vs)"
begin

fun push_all :: "('k \<times> 'v) list \<Rightarrow> 's \<Rightarrow> 's" where
  "push_all [] s = s"
| "push_all ((k, v) # xs) s = push_all xs (push k v s)"

fun pull_all :: "'k list \<Rightarrow> 's \<Rightarrow> 'v option list \<times> 's" where
  "pull_all [] s = ([], s)"
| "pull_all (k # ks) s = (let (v, s') = pull k s; (vs, t) = pull_all ks s' in (v # vs, t))"

lemma queue_push_all:
  "queue (push_all xs s) k = queue s k @ map snd (filter (\<lambda>x. fst x = k) xs)"
  by (induction xs s rule: push_all.induct) (simp_all add: queue_push)

lemma queue_pull: "queue (snd (pull k s)) k' = (if k' = k then tl (queue s k) else queue s k')"
proof (cases "queue s k")
  case Nil
  then show ?thesis using pull_empty by simp
next
  case (Cons v vs)
  then show ?thesis using pull_first [OF Cons] by auto
qed

lemma fst_pull: "fst (pull k s) = (case queue s k of [] \<Rightarrow> None | v # vs \<Rightarrow> Some v)"
  using pull_empty pull_first by (cases "queue s k") fastforce+

lemma pull_all_nth:
  "i < length ks \<Longrightarrow>
   fst (pull_all ks s) ! i =
     (let j = length (filter (\<lambda>k. k = ks ! i) (take i ks))
      in if j < length (queue s (ks ! i)) then Some (queue s (ks ! i) ! j) else None)"
proof (induction ks arbitrary: s i)
  case (Cons k ks)
  show ?case
  proof (cases i)
    case 0
    then show ?thesis
      by (simp add: case_prod_beta Let_def fst_pull split: list.split)
  next
    case (Suc n)
    have "fst (pull_all ks (snd (pull k s))) ! n =
     (let j = length (filter (\<lambda>k. k = ks ! n) (take n ks))
      in if j < length (queue (snd (pull k s)) (ks ! n))
         then Some (queue (snd (pull k s)) (ks ! n) ! j) else None)"
      using Cons.prems Suc by (intro Cons.IH) simp
    then show ?thesis using Suc
      by (auto simp: case_prod_beta Let_def queue_pull nth_tl less_diff_conv)
  qed
qed simp

end

section \<open>Faults\<close>

datatype fault_operation = FRequest | FPublish

record planned_fault =
  pf_operation :: fault_operation
  pf_subject :: string
  pf_error :: transport_error

type_synonym fault_plan = "planned_fault list"

definition fault_push :: "fault_operation \<Rightarrow> string \<Rightarrow> transport_error \<Rightarrow> fault_plan \<Rightarrow> fault_plan" where
  "fault_push operation subject error plan =
     plan @ [\<lparr>pf_operation = operation, pf_subject = subject, pf_error = error\<rparr>]"

definition timeout_next :: "string \<Rightarrow> fault_plan \<Rightarrow> fault_plan" where
  "timeout_next subject = fault_push FRequest subject Timeout"

definition no_responders_for :: "string \<Rightarrow> fault_plan \<Rightarrow> fault_plan" where
  "no_responders_for subject = fault_push FRequest subject NoResponders"

definition fail_next_publish :: "string \<Rightarrow> transport_error \<Rightarrow> fault_plan \<Rightarrow> fault_plan" where
  "fail_next_publish subject error = fault_push FPublish subject error"

definition fault_consume ::
  "fault_operation \<Rightarrow> string \<Rightarrow> fault_plan \<Rightarrow> (transport_error + unit) \<times> fault_plan" where
  "fault_consume operation subject plan =
     (case position (\<lambda>f. pf_operation f = operation \<and> pf_subject f = subject) plan of
        None \<Rightarrow> (Inr (), plan)
      | Some index \<Rightarrow> (Inl (pf_error (plan ! index)), remove_at index plan))"

definition before_request :: "string \<Rightarrow> fault_plan \<Rightarrow> (transport_error + unit) \<times> fault_plan" where
  "before_request subject = fault_consume FRequest subject"

definition before_publish :: "string \<Rightarrow> fault_plan \<Rightarrow> (transport_error + unit) \<times> fault_plan" where
  "before_publish subject = fault_consume FPublish subject"

definition faults_pending :: "fault_plan \<Rightarrow> nat" where
  "faults_pending plan = length plan"

text \<open>The abstraction: the errors planned for one operation and subject, oldest first.\<close>

definition fault_matches :: "fault_operation \<times> string \<Rightarrow> planned_fault \<Rightarrow> bool" where
  "fault_matches k f \<longleftrightarrow> pf_operation f = fst k \<and> pf_subject f = snd k"

definition fault_queue :: "fault_plan \<Rightarrow> fault_operation \<times> string \<Rightarrow> transport_error list" where
  "fault_queue plan k = map pf_error (filter (fault_matches k) plan)"

definition fault_pull ::
  "fault_operation \<times> string \<Rightarrow> fault_plan \<Rightarrow> transport_error option \<times> fault_plan" where
  "fault_pull k plan =
     (let (r, plan') = fault_consume (fst k) (snd k) plan
      in (case r of Inl e \<Rightarrow> Some e | Inr _ \<Rightarrow> None, plan'))"

lemma position_remove_filter:
  "position p xs = Some i \<Longrightarrow>
   filter p xs = xs ! i # filter p (remove_at i xs) \<and> p (xs ! i) \<and>
   (\<forall>q. \<not> q (xs ! i) \<longrightarrow> filter q (remove_at i xs) = filter q xs)"
  by (induction xs arbitrary: i) (auto split: if_splits option.splits)

lemma position_None_filter: "position p xs = None \<longleftrightarrow> filter p xs = []"
  by (induction xs) auto

lemma fault_pull_conv:
  "fault_pull k plan =
     (case position (fault_matches k) plan of
        None \<Rightarrow> (None, plan) | Some i \<Rightarrow> (Some (pf_error (plan ! i)), remove_at i plan))"
  by (simp add: fault_pull_def fault_consume_def fault_matches_def [abs_def] split: option.split)

interpretation faults: keyed_fifo "\<lambda>k. fault_push (fst k) (snd k)" fault_pull fault_queue
proof
  show "fault_queue (fault_push (fst k) (snd k) v plan) =
      (fault_queue plan)(k := fault_queue plan k @ [v])" for k v plan
    by (auto simp: fault_queue_def fault_push_def fault_matches_def fun_eq_iff prod_eq_iff)
  show "fault_pull k plan = (None, plan)" if "fault_queue plan k = []" for plan k
    using that by (simp add: fault_queue_def fault_pull_conv flip: position_None_filter)
  show "\<exists>plan'. fault_pull k plan = (Some v, plan') \<and> fault_queue plan' = (fault_queue plan)(k := vs)"
    if q: "fault_queue plan k = v # vs" for plan k v vs
  proof -
    obtain i where i: "position (fault_matches k) plan = Some i"
      using q by (cases "position (fault_matches k) plan") (auto simp: fault_queue_def position_None_filter)
    note p = position_remove_filter [OF i]
    have "\<not> fault_matches k' (plan ! i)" if "k' \<noteq> k" for k'
      using p that by (auto simp: fault_matches_def prod_eq_iff)
    then have "fault_queue (remove_at i plan) = (fault_queue plan)(k := vs)"
      using p q by (auto simp: fault_queue_def fun_eq_iff)
    then show ?thesis using i p q by (auto simp: fault_pull_conv fault_queue_def)
  qed
qed

text \<open>
  C40: planned faults are consumed deterministically.  Whatever the plan holds for other
  operations and subjects, a check before an operation on a subject fails with the oldest
  error planned for exactly this operation and subject and uses it up, leaves every other
  fault in its place, and passes, changing nothing, when none is planned.
\<close>

theorem faults_refine_keyed_queues:
  "fst (fault_consume op' subject plan) =
     (case fault_queue plan (op', subject) of [] \<Rightarrow> Inr () | e # es \<Rightarrow> Inl e) \<and>
   fault_queue (snd (fault_consume op' subject plan)) =
     (fault_queue plan)((op', subject) := tl (fault_queue plan (op', subject))) \<and>
   fault_queue (fault_push op' subject e plan) =
     (fault_queue plan)((op', subject) := fault_queue plan (op', subject) @ [e])"
proof -
  let ?k = "(op', subject)"
  have "fault_queue (snd (fault_pull ?k plan)) k' =
      (if k' = ?k then tl (fault_queue plan ?k) else fault_queue plan k')" for k'
    by (rule faults.queue_pull)
  moreover have "snd (fault_pull ?k plan) = snd (fault_consume op' subject plan)"
    by (simp add: fault_pull_def case_prod_beta)
  moreover have "fst (fault_consume op' subject plan) =
      (case fst (fault_pull ?k plan) of Some e \<Rightarrow> Inl e | None \<Rightarrow> Inr ())"
    by (simp add: fault_pull_def case_prod_beta split: sum.split)
  ultimately show ?thesis
    using faults.fst_pull [of ?k plan] faults.queue_push [of ?k e plan]
    by (auto simp: fun_eq_iff split: list.splits)
qed

end
