(* ===== verification/Jetstream_Simulator.thy ===== *)
theory Jetstream_Simulator
  imports Subjects Test_Support "HOL-Library.List_Lexorder" "HOL-Library.Char_ord"
begin

text \<open>
  \<open>nats-micro-testing/src/jetstream.rs\<close>: the in-memory JetStream simulator with its virtual
  clock.  The mutex-guarded \<open>State\<close> and the shared event log are one record, passed from call
  to call; \<open>BTreeMap\<close>s that are iterated are association lists sorted by key.  The result
  \<open>None\<close> of \<open>complete\<close>, \<open>complete_timeout\<close> and \<open>retry\<close> is the panic of
  \<open>expect("delivery durable is registered")\<close>.
\<close>

section \<open>State\<close>

record stream_declaration =
  sd_name :: string
  sd_subjects :: "string list"

record jetstream_config =
  jc_streams :: "stream_declaration list"
  jc_dead_letters :: "string \<rightharpoonup> string"

definition config_stream :: "string \<Rightarrow> string list \<Rightarrow> jetstream_config \<Rightarrow> jetstream_config" where
  "config_stream name subjects c =
     c\<lparr>jc_streams := jc_streams c @ [\<lparr>sd_name = name, sd_subjects = subjects\<rparr>]\<rparr>"

definition config_dead_letter :: "string \<Rightarrow> string \<Rightarrow> jetstream_config \<Rightarrow> jetstream_config" where
  "config_dead_letter durable subject c =
     c\<lparr>jc_dead_letters := (jc_dead_letters c)(durable \<mapsto> subject)\<rparr>"

record simulated_consumer =
  jk_stream :: string
  jk_durable :: string
  jk_filter_subject :: string
  jk_ack_wait :: duration
  jk_max_deliver :: nat
  jk_backoff :: "duration list"

record 'h delivery =
  dl_durable :: string
  dl_subject :: string
  dl_payload :: bytes
  dl_headers :: "'h option"
  dl_attempt :: nat
  dl_due_at :: duration

datatype simulated_action = SimAck | SimNack | SimNackAfter duration | SimTerm

record 'h simulator =
  js_config :: jetstream_config
  js_consumers :: "(string \<times> simulated_consumer) list"
  js_pending :: "'h delivery list"
  js_deliveries :: "string \<rightharpoonup> nat"
  js_timeout_next :: "string list"
  js_now :: duration
  js_events :: "'h event_log"

definition simulator_new :: "jetstream_config \<Rightarrow> 'h event_log \<Rightarrow> 'h simulator" where
  "simulator_new config events =
     \<lparr>js_config = config, js_consumers = [], js_pending = [], js_deliveries = Map.empty,
      js_timeout_next = [], js_now = 0, js_events = events\<rparr>"

section \<open>Operations\<close>

definition register_consumer :: "simulated_consumer \<Rightarrow> 'h simulator \<Rightarrow> string + 'h simulator" where
  "register_consumer c s =
     (if \<not> list_ex (\<lambda>stream. sd_name stream = jk_stream c) (jc_streams (js_config s))
      then Inl (''simulated stream `'' @ jk_stream c @ ''` is not declared for durable `'' @
        jk_durable c @ ''`'')
      else if map_of (js_consumers s) (jk_durable c) \<noteq> None
      then Inl (''simulated durable `'' @ jk_durable c @ ''` is declared more than once'')
      else Inr (s\<lparr>js_consumers := insort_key fst (jk_durable c, c) (js_consumers s)\<rparr>))"

definition matching_streams :: "string \<Rightarrow> 'h simulator \<Rightarrow> string list" where
  "matching_streams subject s =
     map sd_name (filter (\<lambda>stream. list_ex (\<lambda>pattern. subject_matches pattern subject)
       (sd_subjects stream)) (jc_streams (js_config s)))"

definition matching_consumers :: "string \<Rightarrow> 'h simulator \<Rightarrow> string list" where
  "matching_consumers subject s =
     map jk_durable (filter (\<lambda>c. jk_stream c \<in> set (matching_streams subject s) \<and>
       subject_matches (jk_filter_subject c) subject) (map snd (js_consumers s)))"

definition simulator_publish ::
  "string \<Rightarrow> bytes \<Rightarrow> 'h option \<Rightarrow> 'h simulator \<Rightarrow> string + 'h simulator" where
  "simulator_publish subject payload headers s =
     (if matching_streams subject s = []
      then Inl (''no simulated stream accepts subject `'' @ subject @ ''`'')
      else Inr (s\<lparr>js_pending := js_pending s @
        map (\<lambda>durable. \<lparr>dl_durable = durable, dl_subject = subject, dl_payload = payload,
               dl_headers = headers, dl_attempt = 1, dl_due_at = js_now s\<rparr>)
          (matching_consumers subject s)\<rparr>))"

definition deliveries :: "string \<Rightarrow> 'h simulator \<Rightarrow> nat" where
  "deliveries durable s = (case js_deliveries s durable of Some n \<Rightarrow> n | None \<Rightarrow> 0)"

definition next_due :: "'h simulator \<Rightarrow> ('h delivery \<times> 'h simulator) option" where
  "next_due s =
     (case position (\<lambda>d. dl_due_at d \<le> js_now s) (js_pending s) of
        None \<Rightarrow> None
      | Some index \<Rightarrow>
          (let scheduled = js_pending s ! index
           in Some (scheduled,
             s\<lparr>js_pending := remove_at index (js_pending s),
               js_deliveries := (js_deliveries s)
                 (dl_durable scheduled \<mapsto> deliveries (dl_durable scheduled) s + 1)\<rparr>)))"

definition retry :: "'h delivery \<Rightarrow> duration \<Rightarrow> 'h simulator \<Rightarrow> 'h simulator option" where
  "retry d delay s =
     (case map_of (js_consumers s) (dl_durable d) of
        None \<Rightarrow> None
      | Some consumer \<Rightarrow>
          if jk_max_deliver consumer \<le> dl_attempt d
          then (case jc_dead_letters (js_config s) (dl_durable d) of
                  Some subject \<Rightarrow> Some (s\<lparr>js_events :=
                    event_record subject (dl_payload d) (dl_headers d) (js_events s)\<rparr>)
                | None \<Rightarrow> Some s)
          else Some (s\<lparr>js_pending := js_pending s @
            [d\<lparr>dl_attempt := dl_attempt d + 1,
               dl_due_at := dur_saturating_add (js_now s) delay\<rparr>]\<rparr>))"

definition complete :: "'h delivery \<Rightarrow> simulated_action \<Rightarrow> 'h simulator \<Rightarrow> 'h simulator option" where
  "complete d action s =
     (case action of
        SimAck \<Rightarrow> Some s
      | SimTerm \<Rightarrow> Some s
      | SimNack \<Rightarrow> retry d 0 s
      | SimNackAfter delay \<Rightarrow> retry d delay s)"

definition timeout_delay :: "simulated_consumer \<Rightarrow> nat \<Rightarrow> duration" where
  "timeout_delay consumer attempt =
     (let i = attempt - 1
      in if i < length (jk_backoff consumer) then jk_backoff consumer ! i else jk_ack_wait consumer)"

definition complete_timeout :: "'h delivery \<Rightarrow> 'h simulator \<Rightarrow> 'h simulator option" where
  "complete_timeout d s =
     (case map_of (js_consumers s) (dl_durable d) of
        None \<Rightarrow> None
      | Some consumer \<Rightarrow> retry d (timeout_delay consumer (dl_attempt d)) s)"

definition plan_timeout :: "string \<Rightarrow> 'h simulator \<Rightarrow> 'h simulator" where
  "plan_timeout durable s = s\<lparr>js_timeout_next := js_timeout_next s @ [durable]\<rparr>"

definition consume_timeout :: "string \<Rightarrow> 'h simulator \<Rightarrow> bool \<times> 'h simulator" where
  "consume_timeout durable s =
     (case position (\<lambda>planned. planned = durable) (js_timeout_next s) of
        None \<Rightarrow> (False, s)
      | Some index \<Rightarrow> (True, s\<lparr>js_timeout_next := remove_at index (js_timeout_next s)\<rparr>))"

definition simulator_pending :: "'h simulator \<Rightarrow> nat" where
  "simulator_pending s = length (js_pending s)"

definition advance :: "duration \<Rightarrow> 'h simulator \<Rightarrow> 'h simulator" where
  "advance dur s = s\<lparr>js_now := dur_saturating_add (js_now s) dur\<rparr>"

section \<open>Planned timeouts are a queue per durable\<close>

definition pull_timeout :: "string \<Rightarrow> 'h simulator \<Rightarrow> unit option \<times> 'h simulator" where
  "pull_timeout durable s =
     (let (planned, s') = consume_timeout durable s in (if planned then Some () else None, s'))"

definition timeout_queue :: "'h simulator \<Rightarrow> string \<Rightarrow> unit list" where
  "timeout_queue s durable = map (\<lambda>_. ()) (filter (\<lambda>planned. planned = durable) (js_timeout_next s))"

interpretation timeouts: keyed_fifo "\<lambda>k _. plan_timeout k" pull_timeout timeout_queue
proof
  show "timeout_queue (plan_timeout k s) = (timeout_queue s)(k := timeout_queue s k @ [v])"
    for k v and s :: "'h simulator"
    by (auto simp: timeout_queue_def plan_timeout_def fun_eq_iff)
  show "pull_timeout k s = (None, s)" if "timeout_queue s k = []" for k and s :: "'h simulator"
    using that by (simp add: timeout_queue_def pull_timeout_def consume_timeout_def
        flip: position_None_filter)
  show "\<exists>s'. pull_timeout k s = (Some v, s') \<and> timeout_queue s' = (timeout_queue s)(k := vs)"
    if q: "timeout_queue s k = v # vs" for k v vs and s :: "'h simulator"
  proof -
    obtain i where i: "position (\<lambda>planned. planned = k) (js_timeout_next s) = Some i"
      using q by (cases "position (\<lambda>planned. planned = k) (js_timeout_next s)")
        (auto simp: timeout_queue_def position_None_filter)
    note p = position_remove_filter [OF i]
    have "timeout_queue (s\<lparr>js_timeout_next := remove_at i (js_timeout_next s)\<rparr>) =
        (timeout_queue s)(k := vs)"
      using p q by (auto simp: timeout_queue_def fun_eq_iff)
    then show ?thesis using i by (simp add: pull_timeout_def consume_timeout_def)
  qed
qed

section \<open>Invariant\<close>

definition delivery_ok :: "(string \<times> simulated_consumer) list \<Rightarrow> 'h delivery \<Rightarrow> bool" where
  "delivery_ok consumers d \<longleftrightarrow>
     (case map_of consumers (dl_durable d) of
        None \<Rightarrow> False
      | Some c \<Rightarrow> 1 \<le> dl_attempt d \<and> dl_attempt d \<le> max 1 (jk_max_deliver c))"

definition simulator_wf :: "'h simulator \<Rightarrow> bool" where
  "simulator_wf s \<longleftrightarrow>
     sorted (map fst (js_consumers s)) \<and> distinct (map fst (js_consumers s)) \<and>
     list_all (\<lambda>(k, c). k = jk_durable c) (js_consumers s) \<and>
     list_all (delivery_ok (js_consumers s)) (js_pending s)"

lemma simulator_new_wf: "simulator_wf (simulator_new config events)"
  by (simp add: simulator_wf_def simulator_new_def)

lemma map_of_insort:
  "k \<notin> fst ` set xs \<Longrightarrow> map_of (insort_key fst (k, v) xs) = (map_of xs)(k \<mapsto> v)"
  by (induction xs) (auto simp: fun_eq_iff)

lemma distinct_keys_insort:
  "distinct (map fst (insort_key fst x xs)) \<longleftrightarrow> fst x \<notin> fst ` set xs \<and> distinct (map fst xs)"
  by (induction xs) (auto simp: set_insort_key)

lemma register_consumer_wf:
  assumes "simulator_wf s" "register_consumer c s = Inr s'"
  shows "simulator_wf s' \<and> map_of (js_consumers s') = (map_of (js_consumers s))(jk_durable c \<mapsto> c)"
proof -
  have n: "jk_durable c \<notin> fst ` set (js_consumers s)"
    and s': "s' = s\<lparr>js_consumers := insort_key fst (jk_durable c, c) (js_consumers s)\<rparr>"
    using assms(2) by (auto simp: register_consumer_def map_of_eq_None_iff split: if_splits)
  note m = map_of_insort [OF n, of c]
  have d: "distinct (map fst (insort_key fst (jk_durable c, c) (js_consumers s)))"
    using n assms(1) by (simp add: distinct_keys_insort simulator_wf_def)
  have "delivery_ok (js_consumers s') x" if "delivery_ok (js_consumers s) x" for x :: "'h delivery"
    using that m n by (auto simp: s' delivery_ok_def map_of_eq_None_iff [symmetric] split: option.splits)
  then show ?thesis
    using assms(1) m d by (auto simp: s' simulator_wf_def list_all_iff set_insort_key
        sorted_insort_key)
qed

lemma register_consumer_delivery_ok:
  assumes "register_consumer c s = Inr s'" "delivery_ok (js_consumers s) d"
  shows "delivery_ok (js_consumers s') d"
proof -
  have n: "jk_durable c \<notin> fst ` set (js_consumers s)"
    and s': "s' = s\<lparr>js_consumers := insort_key fst (jk_durable c, c) (js_consumers s)\<rparr>"
    using assms(1) by (auto simp: register_consumer_def map_of_eq_None_iff split: if_splits)
  then have "map_of (js_consumers s) (jk_durable c) = None" by (simp add: map_of_eq_None_iff)
  then show ?thesis
    using assms(2) map_of_insort [OF n, of c] by (auto simp: s' delivery_ok_def split: option.splits)
qed

lemma matching_consumer_registered:
  assumes "simulator_wf s" "durable \<in> set (matching_consumers subject s)"
  shows "map_of (js_consumers s) durable \<noteq> None"
proof -
  obtain k c where c: "(k, c) \<in> set (js_consumers s)" "durable = jk_durable c"
    using assms(2) by (auto simp: matching_consumers_def)
  then have "k = durable"
    using assms(1) by (auto simp: simulator_wf_def list_all_iff)
  then have "durable \<in> fst ` set (js_consumers s)" using c(1) by force
  then show ?thesis by (simp add: map_of_eq_None_iff)
qed

lemma simulator_publish_wf:
  assumes "simulator_wf s" "simulator_publish subject payload headers s = Inr s'"
  shows "simulator_wf s' \<and> js_consumers s' = js_consumers s"
proof -
  have "delivery_ok (js_consumers s) \<lparr>dl_durable = durable, dl_subject = subject,
      dl_payload = payload, dl_headers = headers, dl_attempt = 1, dl_due_at = js_now s\<rparr>"
    if "durable \<in> set (matching_consumers subject s)" for durable
    using matching_consumer_registered [OF assms(1) that] by (auto simp: delivery_ok_def)
  then show ?thesis
    using assms by (auto simp: simulator_publish_def simulator_wf_def list_all_iff split: if_splits)
qed

lemma next_due_Some:
  assumes "next_due s = Some (d, s')"
  obtains i where "position (\<lambda>d. dl_due_at d \<le> js_now s) (js_pending s) = Some i"
    and "d = js_pending s ! i" "i < length (js_pending s)" "dl_due_at d \<le> js_now s"
    and "s' = s\<lparr>js_pending := remove_at i (js_pending s),
      js_deliveries := (js_deliveries s)(dl_durable d \<mapsto> deliveries (dl_durable d) s + 1)\<rparr>"
  using assms position_Some [of "\<lambda>d. dl_due_at d \<le> js_now s" "js_pending s"]
  by (auto simp: next_due_def Let_def split: option.splits)

lemma next_due_wf:
  assumes "simulator_wf s" "next_due s = Some (d, s')"
  shows "simulator_wf s' \<and> delivery_ok (js_consumers s) d \<and> js_consumers s' = js_consumers s"
  using assms(2)
proof (rule next_due_Some)
  fix i
  assume i: "d = js_pending s ! i" "i < length (js_pending s)"
    and s': "s' = s\<lparr>js_pending := remove_at i (js_pending s),
      js_deliveries := (js_deliveries s)(dl_durable d \<mapsto> deliveries (dl_durable d) s + 1)\<rparr>"
  then show ?thesis
    using assms(1) set_remove_at [of i "js_pending s"]
    by (auto simp: simulator_wf_def list_all_iff s')
qed

lemma retry_wf:
  assumes "simulator_wf s" "delivery_ok (js_consumers s) d"
  shows "\<exists>s'. retry d delay s = Some s' \<and> simulator_wf s' \<and> js_consumers s' = js_consumers s"
proof -
  obtain c where c: "map_of (js_consumers s) (dl_durable d) = Some c" "1 \<le> dl_attempt d"
    using assms(2) by (auto simp: delivery_ok_def split: option.splits)
  then have "delivery_ok (js_consumers s)
      (d\<lparr>dl_attempt := dl_attempt d + 1, dl_due_at := dur_saturating_add (js_now s) delay\<rparr>)"
    if "\<not> jk_max_deliver c \<le> dl_attempt d"
    using that by (auto simp: delivery_ok_def)
  then show ?thesis
    using assms(1) c by (auto simp: retry_def simulator_wf_def split: option.split)
qed

lemma complete_wf:
  assumes "simulator_wf s" "delivery_ok (js_consumers s) d"
  shows "\<exists>s'. complete d action s = Some s' \<and> simulator_wf s' \<and> js_consumers s' = js_consumers s"
  using retry_wf [OF assms] assms(1) by (cases action) (auto simp: complete_def)

lemma complete_timeout_wf:
  assumes "simulator_wf s" "delivery_ok (js_consumers s) d"
  shows "\<exists>s'. complete_timeout d s = Some s' \<and> simulator_wf s' \<and> js_consumers s' = js_consumers s"
  using retry_wf [OF assms] assms(2)
  by (auto simp: complete_timeout_def delivery_ok_def split: option.splits)

lemma consume_timeout_same:
  "js_consumers (snd (consume_timeout k s)) = js_consumers s \<and>
   js_pending (snd (consume_timeout k s)) = js_pending s \<and>
   js_deliveries (snd (consume_timeout k s)) = js_deliveries s \<and>
   simulator_wf (snd (consume_timeout k s)) = simulator_wf s"
  by (simp add: consume_timeout_def simulator_wf_def split: option.split)

section \<open>Reachable states\<close>

text \<open>
  The states a user can reach through the public interface, with the deliveries that have been
  handed out and not yet completed.
\<close>

inductive sim_reachable :: "jetstream_config \<Rightarrow> 'h simulator \<Rightarrow> 'h delivery list \<Rightarrow> bool"
  for config :: jetstream_config where
  sim_new: "sim_reachable config (simulator_new config events) []"
| sim_register: "sim_reachable config s hs \<Longrightarrow> register_consumer c s = Inr s' \<Longrightarrow>
    sim_reachable config s' hs"
| sim_publish: "sim_reachable config s hs \<Longrightarrow> simulator_publish subject payload headers s = Inr s' \<Longrightarrow>
    sim_reachable config s' hs"
| sim_due: "sim_reachable config s hs \<Longrightarrow> next_due s = Some (d, s') \<Longrightarrow>
    sim_reachable config s' (d # hs)"
| sim_complete: "sim_reachable config s (hs @ d # hs') \<Longrightarrow> complete d action s = Some s' \<Longrightarrow>
    sim_reachable config s' (hs @ hs')"
| sim_timeout: "sim_reachable config s (hs @ d # hs') \<Longrightarrow> complete_timeout d s = Some s' \<Longrightarrow>
    sim_reachable config s' (hs @ hs')"
| sim_plan: "sim_reachable config s hs \<Longrightarrow> sim_reachable config (plan_timeout k s) hs"
| sim_consume: "sim_reachable config s hs \<Longrightarrow> sim_reachable config (snd (consume_timeout k s)) hs"
| sim_advance: "sim_reachable config s hs \<Longrightarrow> sim_reachable config (advance dur s) hs"

lemma sim_reachable_wf:
  "sim_reachable config s hs \<Longrightarrow> simulator_wf s \<and> list_all (delivery_ok (js_consumers s)) hs"
proof (induction rule: sim_reachable.induct)
  case (sim_new events)
  then show ?case by (simp add: simulator_new_wf)
next
  case (sim_register s hs c s')
  then show ?case
    using register_consumer_wf [of s c s'] register_consumer_delivery_ok [of c s s']
    by (auto simp: list_all_iff)
next
  case (sim_publish s hs subject payload headers s')
  then show ?case using simulator_publish_wf [of s subject payload headers s'] by simp
next
  case (sim_due s hs d s')
  then show ?case using next_due_wf [of s d s'] by simp
next
  case (sim_complete s hs d hs' action s')
  then show ?case using complete_wf [of s d action] by auto
next
  case (sim_timeout s hs d hs' s')
  then show ?case using complete_timeout_wf [of s d] by auto
next
  case (sim_plan s hs k)
  then show ?case by (simp add: plan_timeout_def simulator_wf_def)
next
  case (sim_consume s hs k)
  then show ?case using consume_timeout_same [of k s] by simp
next
  case (sim_advance s hs dur)
  then show ?case by (simp add: advance_def simulator_wf_def)
qed

text \<open>
  C34: the simulator never panics and never exceeds a delivery limit.  In every reachable
  state, each pending or handed-out delivery belongs to a registered consumer and its attempt
  is between 1 and the consumer's limit (at least 1), and completing a handed-out delivery,
  by whatever action or by a timeout, succeeds.
\<close>

theorem simulator_never_panics:
  assumes "sim_reachable config s (hs @ d # hs')"
  shows "delivery_ok (js_consumers s) d \<and> list_all (delivery_ok (js_consumers s)) (js_pending s) \<and>
    complete d action s \<noteq> None \<and> complete_timeout d s \<noteq> None"
proof -
  have wf: "simulator_wf s" "delivery_ok (js_consumers s) d"
    using sim_reachable_wf [OF assms] by simp_all
  then show ?thesis
    using complete_wf [OF wf, of action] complete_timeout_wf [OF wf] by (auto simp: simulator_wf_def)
qed

definition demo_js_config :: jetstream_config where
  "demo_js_config =
     config_dead_letter ''d'' ''dead'' (config_stream ''S'' [''a.>'']
       \<lparr>jc_streams = [], jc_dead_letters = Map.empty\<rparr>)"

definition demo_consumer :: simulated_consumer where
  "demo_consumer =
     \<lparr>jk_stream = ''S'', jk_durable = ''d'', jk_filter_subject = ''a.*'', jk_ack_wait = 30,
      jk_max_deliver = 2, jk_backoff = [5]\<rparr>"

lemma demo_subject_matches: "subject_matches ''a.>'' ''a.b''" "subject_matches ''a.*'' ''a.b''"
  by code_simp+

lemma demo_reachable:
  "\<exists>d s. sim_reachable demo_js_config (s :: string simulator) ([] @ d # []) \<and> dl_durable d = ''d''"
proof -
  let ?s0 = "simulator_new demo_js_config [] :: string simulator"
  let ?s1 = "?s0\<lparr>js_consumers := [(''d'', demo_consumer)]\<rparr>"
  have 1: "register_consumer demo_consumer ?s0 = Inr ?s1"
    by (simp add: register_consumer_def simulator_new_def demo_js_config_def config_stream_def
        config_dead_letter_def demo_consumer_def)
  have m: "matching_streams ''a.b'' ?s1 = [''S'']"
    by (simp add: matching_streams_def simulator_new_def demo_js_config_def config_stream_def
        config_dead_letter_def demo_subject_matches)
  have c: "matching_consumers ''a.b'' ?s1 = [''d'']"
    by (simp add: matching_consumers_def m) (simp add: demo_consumer_def demo_subject_matches)
  let ?d = "\<lparr>dl_durable = ''d'', dl_subject = ''a.b'', dl_payload = [], dl_headers = None,
      dl_attempt = 1, dl_due_at = 0\<rparr> :: string delivery"
  let ?s2 = "?s1\<lparr>js_pending := [?d]\<rparr>"
  have 2: "simulator_publish ''a.b'' [] None ?s1 = Inr ?s2"
    by (simp add: simulator_publish_def m c) (simp add: simulator_new_def)
  have "\<exists>s3. next_due ?s2 = Some (?d, s3)"
    by (simp add: next_due_def simulator_new_def Let_def)
  then obtain s3 where 3: "next_due ?s2 = Some (?d, s3)" ..
  have "sim_reachable demo_js_config s3 ([] @ ?d # [])"
    using sim_due [OF sim_publish [OF sim_register [OF sim_new 1] 2] 3] by simp
  then show ?thesis by (intro exI [of _ ?d] exI [of _ s3]) simp
qed

theorem simulator_never_panics_witness:
  "\<exists>d (s :: string simulator). dl_durable d = ''d'' \<and> delivery_ok (js_consumers s) d \<and>
     complete d SimNack s \<noteq> None"
  using demo_reachable simulator_never_panics by blast

end
