(* ===== verification/Local_Transport.thy ===== *)
theory Local_Transport
  imports Jetstream_Simulator Processing Client_Calls App_Services
begin

text \<open>
  \<open>nats-micro/src/testing.rs\<close>: the in-memory transport, the test application and the loop
  that drives the JetStream simulator.  A service is a record of its specification and its two
  generated dispatch functions, which thread the application state \<open>'q\<close>; the type-level
  service list is a list, most recently served first.
\<close>

section \<open>Requests and services\<close>

datatype local_subject = LStatic string | LOwned string

primrec local_subject_str :: "local_subject \<Rightarrow> string" where
  "local_subject_str (LStatic v) = v"
| "local_subject_str (LOwned v) = v"

primrec local_subject_from :: "client_subject \<Rightarrow> local_subject" where
  "local_subject_from (SStatic v) = LStatic v"
| "local_subject_from (SBorrowed v) = LOwned v"
| "local_subject_from (SOwned v) = LOwned v"

record 'h local_request =
  lr_subject :: local_subject
  lr_payload :: bytes
  lr_headers :: "'h option"

definition local_view :: "'h header_ops \<Rightarrow> 'h local_request \<Rightarrow> 'h request" where
  "local_view H r =
     request_new H (local_subject_str (lr_subject r)) None (lr_payload r) (lr_headers r)"

datatype 'h local_dispatch =
  Matched "transport_error + 'h client_response" | NotMatched "'h local_request"

datatype 'h local_consumer_dispatch =
  CMatched consumer_action | CNotMatched "'h local_request"

record ('h, 'q) local_service =
  lv_spec :: service_spec
  lv_dispatch :: "'q \<Rightarrow> service_key_pair option \<Rightarrow> 'h local_request \<Rightarrow> 'h local_dispatch \<times> 'q"
  lv_consumer :: "'q \<Rightarrow> string \<Rightarrow> 'h local_request \<Rightarrow> 'h local_consumer_dispatch \<times> 'q"

section \<open>Endpoint dispatch\<close>

definition response_to_local_dispatch ::
  "'h header_ops \<Rightarrow> error_reply + 'h response \<Rightarrow> 'h local_dispatch" where
  "response_to_local_dispatch H result =
     Matched (Inr (case result of
        Inr REmpty \<Rightarrow> \<lparr>cx_payload = [], cx_headers = None\<rparr>
      | Inr (RPayload payload) \<Rightarrow> \<lparr>cx_payload = payload, cx_headers = None\<rparr>
      | Inr (RWithHeaders payload headers) \<Rightarrow> \<lparr>cx_payload = payload, cx_headers = Some headers\<rparr>
      | Inl error \<Rightarrow> \<lparr>cx_payload = rp_payload error,
          cx_headers = Some (service_error_headers H error)\<rparr>))"

definition dispatch_endpoint ::
  "'h header_ops \<Rightarrow> ('h request \<Rightarrow> error_reply + 'h response) \<Rightarrow> 'h local_request \<Rightarrow>
   'h local_dispatch" where
  "dispatch_endpoint H call r = response_to_local_dispatch H (call (local_view H r))"

definition dispatch_encrypted ::
  "'j json_ops \<Rightarrow> 'h header_ops \<Rightarrow> ('k \<Rightarrow> 'h request \<Rightarrow> error_reply + 'h response) \<Rightarrow> 'k option \<Rightarrow>
   'h local_request \<Rightarrow> 'h local_dispatch" where
  "dispatch_encrypted J H call keypair r =
     response_to_local_dispatch H
       (case keypair of
          Some k \<Rightarrow> call k (local_view H r)
        | None \<Rightarrow> Inl (reply_framework J NoEncryptionKey ''test application has no encryption key''
            (ri_existing (rq_request_id (local_view H r)))))"

definition dispatch_consumer_endpoint ::
  "'h header_ops \<Rightarrow> ('h request \<Rightarrow> error_reply + consumer_action) \<Rightarrow> 'h local_request \<Rightarrow>
   'h local_consumer_dispatch" where
  "dispatch_consumer_endpoint H call r =
     CMatched (case call (local_view H r) of Inr action \<Rightarrow> action | Inl _ \<Rightarrow> Nack)"

section \<open>Service sets\<close>

definition service_requires_encryption :: "service_spec \<Rightarrow> bool" where
  "service_requires_encryption spec =
     list_ex (\<lambda>o'. os_request_encrypted o' \<or> os_response_encrypted o') (ss_operations spec)"

fun requires_encryption :: "('h, 'q) local_service list \<Rightarrow> bool" where
  "requires_encryption [] = False"
| "requires_encryption (v # vs) =
     (service_requires_encryption (lv_spec v) \<or> requires_encryption vs)"

fun dispatch ::
  "('h, 'q) local_service list \<Rightarrow> 'q \<Rightarrow> service_key_pair option \<Rightarrow> 'h local_request \<Rightarrow>
   'h local_dispatch \<times> 'q" where
  "dispatch [] q keypair r = (NotMatched r, q)"
| "dispatch (v # vs) q keypair r =
     (case lv_dispatch v q keypair r of
        (Matched response, q') \<Rightarrow> (Matched response, q')
      | (NotMatched r', q') \<Rightarrow> dispatch vs q' keypair r')"

fun dispatch_consumer ::
  "('h, 'q) local_service list \<Rightarrow> 'q \<Rightarrow> string \<Rightarrow> 'h local_request \<Rightarrow>
   'h local_consumer_dispatch \<times> 'q" where
  "dispatch_consumer [] q durable r = (CNotMatched r, q)"
| "dispatch_consumer (v # vs) q durable r =
     (case lv_consumer v q durable r of
        (CMatched action, q') \<Rightarrow> (CMatched action, q')
      | (CNotMatched r', q') \<Rightarrow> dispatch_consumer vs q' durable r')"

text \<open>\<open>u64::try_from(max_deliver).unwrap_or(u64::MAX).max(1)\<close>\<close>

definition effective_max_deliver :: "int \<Rightarrow> nat" where
  "effective_max_deliver m = max 1 (if 0 \<le> m then nat m else u64_max)"

definition simulated_consumer_of :: "consumer_spec \<Rightarrow> simulated_consumer" where
  "simulated_consumer_of c =
     \<lparr>jk_stream = cs_stream c, jk_durable = cs_durable c,
      jk_filter_subject = cs_filter_subject c, jk_ack_wait = from_millis (cs_ack_wait_ms c),
      jk_max_deliver = effective_max_deliver (cs_max_deliver c),
      jk_backoff = map from_millis (cs_backoff_ms c)\<rparr>"

fun register_spec_consumers :: "consumer_spec list \<Rightarrow> 'h simulator \<Rightarrow> string + 'h simulator" where
  "register_spec_consumers [] s = Inr s"
| "register_spec_consumers (c # cs) s =
     try_then (register_consumer (simulated_consumer_of c) s) (register_spec_consumers cs)"

fun register_consumers :: "('h, 'q) local_service list \<Rightarrow> 'h simulator \<Rightarrow> string + 'h simulator" where
  "register_consumers [] s = Inr s"
| "register_consumers (v # vs) s =
     try_then (register_spec_consumers (ss_consumers (lv_spec v)) s) (register_consumers vs)"

section \<open>The test application and its transport\<close>

record ('h, 'q) harness =
  hn_services :: "('h, 'q) local_service list"
  hn_keypair :: "service_key_pair option"
  hn_state :: 'q
  hn_faults :: fault_plan
  hn_simulator :: "'h simulator"

record ('h, 'q) test_app =
  ta_state :: 'q
  ta_services :: "('h, 'q) local_service list"
  ta_jetstream :: jetstream_config
  ta_encryption :: "service_key_pair option"

definition test_app_new :: "'q \<Rightarrow> ('h, 'q) test_app" where
  "test_app_new q =
     \<lparr>ta_state = q, ta_services = [],
      ta_jetstream = \<lparr>jc_streams = [], jc_dead_letters = Map.empty\<rparr>, ta_encryption = None\<rparr>"

definition serve :: "('h, 'q) local_service \<Rightarrow> ('h, 'q) test_app \<Rightarrow> ('h, 'q) test_app" where
  "serve v a = a\<lparr>ta_services := v # ta_services a\<rparr>"

text \<open>\<open>TestApp::start\<close>; \<open>Inl\<close> is the panic of the failed \<open>expect\<close> or \<open>assert!\<close>.\<close>

definition test_app_start :: "('h, 'q) test_app \<Rightarrow> string + ('h, 'q) harness" where
  "test_app_start a =
     try_then (map_err (\<lambda>e. ''test application service validation failed: '' @ e)
         (validate_service_set (map lv_spec (ta_services a)))) (\<lambda>_.
     try_then (ensure (\<not> requires_encryption (ta_services a) \<or> ta_encryption a \<noteq> None)
         ''test application declares encrypted operations but has no encryption key'') (\<lambda>_.
     try_then (map_err (\<lambda>e. ''simulated JetStream consumer validation failed: '' @ e)
         (register_consumers (ta_services a) (simulator_new (ta_jetstream a) []))) (\<lambda>simulator.
     Inr \<lparr>hn_services = ta_services a, hn_keypair = ta_encryption a, hn_state = ta_state a,
          hn_faults = [], hn_simulator = simulator\<rparr>)))"

text \<open>
  \<open>late\<close> is the state the handler left behind if it had not finished when the timeout of the
  request elapsed; it is only looked at when the request has a timeout.
\<close>

definition local_transport_request ::
  "'q option \<Rightarrow> 'h client_request \<Rightarrow> ('h, 'q) harness \<Rightarrow>
   (transport_error + 'h client_response) \<times> ('h, 'q) harness" where
  "local_transport_request late r h =
     (case before_request (subject_as_str (cq_subject r)) (hn_faults h) of
        (Inl e, faults) \<Rightarrow> (Inl e, h\<lparr>hn_faults := faults\<rparr>)
      | (Inr _, faults) \<Rightarrow>
          (let h1 = h\<lparr>hn_faults := faults\<rparr>;
               request = \<lparr>lr_subject = local_subject_from (cq_subject r), lr_payload = cq_payload r,
                 lr_headers = cq_headers r\<rparr>
           in case (if cq_timeout r = None then None else late) of
                Some q \<Rightarrow> (Inl Timeout, h1\<lparr>hn_state := q\<rparr>)
              | None \<Rightarrow>
                  (case dispatch (hn_services h) (hn_state h) (hn_keypair h) request of
                     (Matched response, q) \<Rightarrow> (response, h1\<lparr>hn_state := q\<rparr>)
                   | (NotMatched _, q) \<Rightarrow> (Inl NoResponders, h1\<lparr>hn_state := q\<rparr>))))"

definition local_transport_publish ::
  "client_subject \<Rightarrow> bytes \<Rightarrow> 'h option \<Rightarrow> ('h, 'q) harness \<Rightarrow>
   (transport_error + unit) \<times> ('h, 'q) harness" where
  "local_transport_publish subject payload headers h =
     (case before_publish (subject_as_str subject) (hn_faults h) of
        (Inl e, faults) \<Rightarrow> (Inl e, h\<lparr>hn_faults := faults\<rparr>)
      | (Inr _, faults) \<Rightarrow>
          (Inr (), h\<lparr>hn_faults := faults,
             hn_simulator := (hn_simulator h)\<lparr>js_events :=
               event_record (subject_as_str subject) payload headers
                 (js_events (hn_simulator h))\<rparr>\<rparr>))"

section \<open>Driving the simulator\<close>

primrec sim_action :: "consumer_action \<Rightarrow> simulated_action" where
  "sim_action Ack = SimAck"
| "sim_action Nack = SimNack"
| "sim_action (NackAfter delay) = SimNackAfter delay"
| "sim_action Term = SimTerm"

definition delivered_request :: "'h header_ops \<Rightarrow> 'h delivery \<Rightarrow> 'h local_request" where
  "delivered_request H d =
     \<lparr>lr_subject = LOwned (dl_subject d), lr_payload = dl_payload d,
      lr_headers = Some (ho_insert H ''Nats-Num-Delivered'' (show_nat (dl_attempt d))
        (case dl_headers d of Some h \<Rightarrow> h | None \<Rightarrow> ho_empty H))\<rparr>"

text \<open>What is left to deliver: at most one delivery per remaining attempt.\<close>

definition attempts_left :: "(string \<times> simulated_consumer) list \<Rightarrow> 'h delivery \<Rightarrow> nat" where
  "attempts_left consumers d =
     (case map_of consumers (dl_durable d) of
        Some c \<Rightarrow> Suc (jk_max_deliver c - dl_attempt d) | None \<Rightarrow> 1)"

definition work_left :: "'h simulator \<Rightarrow> nat" where
  "work_left s = sum_list (map (attempts_left (js_consumers s)) (js_pending s))"

lemma work_left_due:
  assumes "next_due s = Some (d, s')"
  shows "work_left s = work_left s' + attempts_left (js_consumers s) d" and
    "js_consumers s' = js_consumers s"
  using assms
proof (rule_tac [!] next_due_Some, assumption)
  fix i
  assume i: "d = js_pending s ! i" "i < length (js_pending s)"
    and s': "s' = s\<lparr>js_pending := remove_at i (js_pending s),
      js_deliveries := (js_deliveries s)(dl_durable d \<mapsto> deliveries (dl_durable d) s + 1)\<rparr>"
  have "js_pending s = take i (js_pending s) @ d # drop (Suc i) (js_pending s)"
    using i by (simp add: id_take_nth_drop)
  then have "work_left s = sum_list (map (attempts_left (js_consumers s))
      (take i (js_pending s) @ d # drop (Suc i) (js_pending s)))"
    by (simp add: work_left_def)
  then show "work_left s = work_left s' + attempts_left (js_consumers s) d"
    by (simp add: work_left_def s' remove_at_def)
qed (auto)

lemma work_left_retry:
  assumes "retry d delay s = Some s'"
  shows "work_left s' < work_left s + attempts_left (js_consumers s) d"
    and "js_consumers s' = js_consumers s" "js_deliveries s' = js_deliveries s"
proof -
  obtain c where c: "map_of (js_consumers s) (dl_durable d) = Some c"
    using assms by (auto simp: retry_def split: option.splits)
  then have "work_left s' < work_left s + attempts_left (js_consumers s) d \<and>
      js_consumers s' = js_consumers s \<and> js_deliveries s' = js_deliveries s"
    using assms by (auto simp: retry_def work_left_def attempts_left_def split: option.splits if_splits)
  then show "work_left s' < work_left s + attempts_left (js_consumers s) d"
    "js_consumers s' = js_consumers s" "js_deliveries s' = js_deliveries s" by simp_all
qed

lemma attempts_left_pos: "0 < attempts_left consumers d"
  by (simp add: attempts_left_def split: option.split)

lemma work_left_complete:
  assumes "complete d action s = Some s'"
  shows "work_left s' < work_left s + attempts_left (js_consumers s) d"
    and "js_consumers s' = js_consumers s" "js_deliveries s' = js_deliveries s"
  using assms attempts_left_pos work_left_retry
  by (auto simp: complete_def split: simulated_action.splits)

lemma work_left_timeout:
  assumes "complete_timeout d s = Some s'"
  shows "work_left s' < work_left s + attempts_left (js_consumers s) d"
    and "js_consumers s' = js_consumers s" "js_deliveries s' = js_deliveries s"
  using assms work_left_retry
  by (auto simp: complete_timeout_def split: option.splits)

lemma work_left_consume [simp]:
  "work_left (snd (consume_timeout k s)) = work_left s"
  using consume_timeout_same [of k s] by (simp add: work_left_def)

text \<open>
  \<open>run_until_idle\<close>: the result is \<open>None\<close> if the simulator panics, otherwise the \<open>Result\<close>, the
  simulator and the application state.
\<close>

function run_until_idle ::
  "'h header_ops \<Rightarrow> ('h, 'q) local_service list \<Rightarrow> 'h simulator \<Rightarrow> 'q \<Rightarrow>
   ((string + unit) \<times> 'h simulator \<times> 'q) option" where
  "run_until_idle H services s q =
     (case next_due s of
        None \<Rightarrow> Some (Inr (), s, q)
      | Some (d, s1) \<Rightarrow>
          if fst (consume_timeout (dl_durable d) s1)
          then (case complete_timeout d (snd (consume_timeout (dl_durable d) s1)) of
                  None \<Rightarrow> None
                | Some s2 \<Rightarrow> run_until_idle H services s2 q)
          else (case dispatch_consumer services q (dl_durable d) (delivered_request H d) of
                  (CNotMatched _, q') \<Rightarrow>
                    Some (Inl (''no simulated consumer route matched durable `'' @ dl_durable d @ ''`''),
                      s1, q')
                | (CMatched action, q') \<Rightarrow>
                    (case complete d (sim_action action) s1 of
                       None \<Rightarrow> None
                     | Some s2 \<Rightarrow> run_until_idle H services s2 q')))"
  by pat_completeness auto

termination
proof (relation "measure (\<lambda>(H, services, s, q). work_left s)", simp)
  fix H :: "'h header_ops" and services :: "('h, 'q) local_service list"
    and s s1 s2 :: "'h simulator" and q :: 'q and x d
  assume due: "next_due s = Some x" "(d, s1) = x"
    and ct: "complete_timeout d (snd (consume_timeout (dl_durable d) s1)) = Some s2"
  have "next_due s = Some (d, s1)" using due by simp
  then show "((H, services, s2, q), H, services, s, q) \<in>
      measure (\<lambda>(H, services, s, q). work_left s)"
    using work_left_due [of s d s1] work_left_timeout(1) [OF ct]
      consume_timeout_same [of "dl_durable d" s1] by simp
next
  fix H :: "'h header_ops" and services :: "('h, 'q) local_service list"
    and s s1 s2 :: "'h simulator" and q q' :: 'q and x d y z action
  assume due: "next_due s = Some x" "(d, s1) = x"
    and c: "complete d (sim_action action) s1 = Some s2"
  have "next_due s = Some (d, s1)" using due by simp
  then show "((H, services, s2, q'), H, services, s, q) \<in>
      measure (\<lambda>(H, services, s, q). work_left s)"
    using work_left_due [of s d s1] work_left_complete(1) [OF c] by simp
qed

declare run_until_idle.simps [simp del]

section \<open>What a run achieves\<close>

definition run_ok ::
  "'h simulator \<Rightarrow> ((string + unit) \<times> 'h simulator \<times> 'q) option \<Rightarrow> bool" where
  "run_ok s result \<longleftrightarrow>
     (case result of
        None \<Rightarrow> False
      | Some (r, s', q') \<Rightarrow> simulator_wf s' \<and> js_consumers s' = js_consumers s \<and>
          (r = Inr () \<longrightarrow> next_due s' = None))"

lemma run_until_idle_ok: "simulator_wf s \<Longrightarrow> run_ok s (run_until_idle H services s q)"
proof (induction H services s q rule: run_until_idle.induct)
  case (1 H services s q)
  show ?case
  proof (cases "next_due s")
    case None
    then show ?thesis using 1(3) by (subst run_until_idle.simps) (simp add: run_ok_def)
  next
    case (Some x)
    obtain d s1 where x: "x = (d, s1)" by (cases x)
    have s1: "simulator_wf s1" "delivery_ok (js_consumers s1) d" "js_consumers s1 = js_consumers s"
      using next_due_wf [OF 1(3), of d s1] Some x by simp_all
    let ?s1 = "snd (consume_timeout (dl_durable d) s1)"
    show ?thesis
    proof (cases "fst (consume_timeout (dl_durable d) s1)")
      case True
      obtain s2 where s2: "complete_timeout d ?s1 = Some s2" "simulator_wf s2"
        "js_consumers s2 = js_consumers s"
        using complete_timeout_wf [of ?s1 d] consume_timeout_same [of "dl_durable d" s1] s1 by auto
      have "run_ok s2 (run_until_idle H services s2 q)"
        by (rule 1(1) [OF Some x [symmetric] True s2(1,2)])
      then show ?thesis using True s2 Some x
        by (subst run_until_idle.simps) (auto simp: run_ok_def split: option.splits)
    next
      case False
      obtain r q' where r: "dispatch_consumer services q (dl_durable d) (delivered_request H d) = (r, q')"
        by (cases "dispatch_consumer services q (dl_durable d) (delivered_request H d)")
      show ?thesis
      proof (cases r)
        case (CNotMatched r')
        then show ?thesis using False r Some x s1
          by (subst run_until_idle.simps) (simp add: run_ok_def)
      next
        case (CMatched action)
        obtain s2 where s2: "complete d (sim_action action) s1 = Some s2" "simulator_wf s2"
          "js_consumers s2 = js_consumers s"
          using complete_wf [OF s1(1,2), of "sim_action action"] s1(3) by auto
        have "run_ok s2 (run_until_idle H services s2 q')"
          by (rule 1(2) [OF Some x [symmetric] False r [symmetric] CMatched s2(1,2)])
        then show ?thesis using False r CMatched s2 Some x
          by (subst run_until_idle.simps) (auto simp: run_ok_def split: option.splits)
      qed
    qed
  qed
qed

text \<open>The same count for the deliveries of one durable.\<close>

definition work_for :: "string \<Rightarrow> 'h simulator \<Rightarrow> nat" where
  "work_for k s = sum_list (map (attempts_left (js_consumers s))
     (filter (\<lambda>d. dl_durable d = k) (js_pending s)))"

lemma work_for_due:
  assumes "next_due s = Some (d, s')"
  shows "deliveries k s' + work_for k s' \<le> deliveries k s + work_for k s -
      (if dl_durable d = k then attempts_left (js_consumers s) d - 1 else 0) \<and>
    (dl_durable d = k \<longrightarrow> attempts_left (js_consumers s) d \<le> work_for k s)"
  using assms
proof (rule next_due_Some)
  fix i
  assume i: "d = js_pending s ! i" "i < length (js_pending s)"
    and s': "s' = s\<lparr>js_pending := remove_at i (js_pending s),
      js_deliveries := (js_deliveries s)(dl_durable d \<mapsto> deliveries (dl_durable d) s + 1)\<rparr>"
  have "js_pending s = take i (js_pending s) @ d # drop (Suc i) (js_pending s)"
    using i by (simp add: id_take_nth_drop)
  then have "work_for k s = sum_list (map (attempts_left (js_consumers s))
      (filter (\<lambda>d. dl_durable d = k) (take i (js_pending s) @ d # drop (Suc i) (js_pending s))))"
    by (simp add: work_for_def)
  then have "work_for k s = work_for k s' +
      (if dl_durable d = k then attempts_left (js_consumers s) d else 0)"
    by (simp add: work_for_def s' remove_at_def)
  moreover have "deliveries k s' = deliveries k s + (if dl_durable d = k then 1 else 0)"
    by (simp add: s' deliveries_def)
  ultimately show ?thesis
    using attempts_left_pos [of "js_consumers s" d] by (auto simp: Suc_le_eq)
qed

lemma work_for_retry:
  assumes "retry d delay s = Some s'"
  shows "work_for k s' \<le> work_for k s +
      (if dl_durable d = k then attempts_left (js_consumers s) d - 1 else 0) \<and>
    js_deliveries s' = js_deliveries s"
proof -
  obtain c where c: "map_of (js_consumers s) (dl_durable d) = Some c"
    using assms by (auto simp: retry_def split: option.splits)
  then show ?thesis
    using assms by (auto simp: retry_def work_for_def attempts_left_def split: option.splits if_splits)
qed

lemma complete_retry:
  "complete d action s = Some s' \<Longrightarrow> s' = s \<or> (\<exists>delay. retry d delay s = Some s')"
  by (cases action) (auto simp: complete_def)

lemma work_for_complete:
  assumes "complete d action s = Some s'"
  shows "work_for k s' \<le> work_for k s +
      (if dl_durable d = k then attempts_left (js_consumers s) d - 1 else 0) \<and>
    js_deliveries s' = js_deliveries s"
  using complete_retry [OF assms]
proof (elim disjE exE)
  assume "s' = s"
  then show ?thesis by simp
next
  fix delay
  assume "retry d delay s = Some s'"
  then show ?thesis by (rule work_for_retry)
qed

lemma work_for_timeout:
  assumes "complete_timeout d s = Some s'"
  shows "work_for k s' \<le> work_for k s +
      (if dl_durable d = k then attempts_left (js_consumers s) d - 1 else 0) \<and>
    js_deliveries s' = js_deliveries s"
proof -
  obtain delay where "retry d delay s = Some s'"
    using assms by (auto simp: complete_timeout_def split: option.splits)
  then show ?thesis by (rule work_for_retry)
qed

lemma work_for_consume [simp]:
  "work_for k (snd (consume_timeout durable s)) = work_for k s"
  "deliveries k (snd (consume_timeout durable s)) = deliveries k s"
  using consume_timeout_same [of durable s] by (simp_all add: work_for_def deliveries_def)

definition run_bounded ::
  "string \<Rightarrow> 'h simulator \<Rightarrow> ((string + unit) \<times> 'h simulator \<times> 'q) option \<Rightarrow> bool" where
  "run_bounded k s result \<longleftrightarrow>
     (case result of
        None \<Rightarrow> True
      | Some (r, s', q') \<Rightarrow> deliveries k s' + work_for k s' \<le> deliveries k s + work_for k s)"

lemma run_until_idle_bounded: "run_bounded k s (run_until_idle H services s q)"
proof (induction H services s q rule: run_until_idle.induct)
  case (1 H services s q)
  show ?case
  proof (cases "next_due s")
    case None
    then show ?thesis by (subst run_until_idle.simps) (simp add: run_bounded_def)
  next
    case (Some x)
    obtain d s1 where x: "x = (d, s1)" by (cases x)
    have due: "next_due s = Some (d, s1)" using Some x by simp
    note w = work_for_due [OF due, of k] work_left_due(2) [OF due]
    let ?s1 = "snd (consume_timeout (dl_durable d) s1)"
    show ?thesis
    proof (cases "fst (consume_timeout (dl_durable d) s1)")
      case True
      show ?thesis
      proof (cases "complete_timeout d ?s1")
        case None
        then show ?thesis using True due by (subst run_until_idle.simps) (simp add: run_bounded_def)
      next
        case s2: (Some s2)
        have "run_bounded k s2 (run_until_idle H services s2 q)"
          by (rule 1(1) [OF Some x [symmetric] True s2])
        moreover have "deliveries k s2 + work_for k s2 \<le> deliveries k s + work_for k s"
          using w work_for_timeout [OF s2, of k] consume_timeout_same [of "dl_durable d" s1]
          by (auto simp: deliveries_def split: if_splits)
        ultimately show ?thesis using True s2 due
          by (subst run_until_idle.simps) (auto simp: run_bounded_def split: option.splits)
      qed
    next
      case False
      obtain r q' where r: "dispatch_consumer services q (dl_durable d) (delivered_request H d) = (r, q')"
        by (cases "dispatch_consumer services q (dl_durable d) (delivered_request H d)")
      show ?thesis
      proof (cases r)
        case (CNotMatched r')
        then show ?thesis using False r due w
          by (subst run_until_idle.simps) (auto simp: run_bounded_def split: if_splits)
      next
        case (CMatched action)
        show ?thesis
        proof (cases "complete d (sim_action action) s1")
          case None
          then show ?thesis using False r CMatched due
            by (subst run_until_idle.simps) (simp add: run_bounded_def)
        next
          case s2: (Some s2)
          have "run_bounded k s2 (run_until_idle H services s2 q')"
            by (rule 1(2) [OF Some x [symmetric] False r [symmetric] CMatched s2])
          moreover have "deliveries k s2 + work_for k s2 \<le> deliveries k s + work_for k s"
            using w work_for_complete [OF s2, of k] by (auto simp: deliveries_def split: if_splits)
          ultimately show ?thesis using False r CMatched s2 due
            by (subst run_until_idle.simps) (auto simp: run_bounded_def split: option.splits)
        qed
      qed
    qed
  qed
qed

text \<open>
  C33: \<open>run_until_idle\<close> always ends, and well.  From every state that the simulator can be in
  with no delivery handed out, whatever the handlers answer, it returns without a panic; if
  it returns \<open>Ok\<close> nothing is due any more; and it delivers to each durable at most as many
  times as its pending messages have attempts left.
\<close>

theorem run_until_idle_terminates:
  assumes "sim_reachable config s []"
  shows "\<exists>r s' q'. run_until_idle H services s q = Some (r, s', q') \<and>
    (r = Inr () \<longrightarrow> next_due s' = None) \<and> simulator_wf s' \<and>
    deliveries durable s' \<le> deliveries durable s +
      sum_list (map (attempts_left (js_consumers s))
        (filter (\<lambda>d. dl_durable d = durable) (js_pending s)))"
proof -
  have "simulator_wf s" using sim_reachable_wf [OF assms] by simp
  from run_until_idle_ok [OF this, of H services q]
    run_until_idle_bounded [of durable s H services q]
  show ?thesis
    by (cases "run_until_idle H services s q") (auto simp: run_ok_def run_bounded_def work_for_def)
qed

theorem run_until_idle_terminates_witness:
  "\<exists>r s' q'. run_until_idle alist_headers ([] :: (alist_map, nat) local_service list)
     (advance 5 (simulator_new demo_js_config [])) 0 = Some (r, s', q') \<and> simulator_wf s'"
  using run_until_idle_terminates [OF sim_advance [OF sim_new [of demo_js_config "[]"], of 5],
      of alist_headers "[]" 0] by blast

section \<open>The local transport against the real worker\<close>

text \<open>A handler that does not read the reply subject of its request, which a test has none of.\<close>

definition reply_blind :: "('h request \<Rightarrow> 'a) \<Rightarrow> bool" where
  "reply_blind call \<longleftrightarrow> (\<forall>q reply. call (q\<lparr>rq_reply := reply\<rparr>) = call q)"

lemma reply_blind_view:
  assumes "reply_blind call" and "rr_subject raw = local_subject_str (lr_subject r)"
    and "rr_payload raw = lr_payload r" and "rr_headers raw = lr_headers r"
  shows "call (raw_view H raw) = call (local_view H r)"
proof -
  have "raw_view H raw = (local_view H r)\<lparr>rq_reply := rr_reply raw\<rparr>"
    using assms(2-4) by (simp add: raw_view_def local_view_def request_new_def)
  then show ?thesis using assms(1) by (simp add: reply_blind_def)
qed

lemma local_dispatch_responses:
  "\<exists>x. response_to_local_dispatch H result = Matched (Inr x) \<and>
     responses (respond_with H telemetry spec raw result) = [(cx_payload x, cx_headers x)]"
  by (auto simp: response_to_local_dispatch_def respond_with_responses split: response.split sum.split)

text \<open>
  C35: tests exercise the real protocol.  Take a request of the in-memory transport and a frame of
  the network with the same subject, payload and headers, and with any reply subject; and
  endpoints that do not read the reply subject, which is the one difference of the two views.
  What the transport gives the client of a plain or an encrypted endpoint is exactly what the
  request worker sends as its single reply to the frame, whether the handler succeeds or fails;
  and the action that the simulator carries out for a consumer endpoint is the one final
  acknowledgement that the consumer worker sends, after its progress marks, when acknowledgements
  get through.
\<close>

theorem local_dispatch_equals_worker:
  assumes "reply_blind call" and "reply_blind (encrypted_call keypair)" and "reply_blind consumer_call"
    and "rr_subject raw = local_subject_str (lr_subject r)"
    and "rr_payload raw = lr_payload r" and "rr_headers raw = lr_headers r"
  shows "(\<exists>x. dispatch_endpoint H call r = Matched (Inr x) \<and>
      responses (fst (process_plain_request H telemetry spec call sent raw)) =
        [(cx_payload x, cx_headers x)]) \<and>
    (\<exists>x. dispatch_encrypted J H encrypted_call (Some keypair) r = Matched (Inr x) \<and>
      responses (fst (process_encrypted_request H telemetry spec encrypted_call keypair sent raw)) =
        [(cx_payload x, cx_headers x)]) \<and>
    (\<exists>action. dispatch_consumer_endpoint H consumer_call r = CMatched action \<and>
      acks (fst (process_consumer H telemetry cspec consumer_call ticks (\<lambda>_. Inr ()) elapsed raw)) =
        replicate (if cs_ack_wait_ms cspec = 0 then 0 else ticks) AckProgress @ [final_ack action])"
proof (intro conjI)
  note view = reply_blind_view [OF _ assms(4-6), of _ H]
  show "\<exists>x. dispatch_endpoint H call r = Matched (Inr x) \<and>
      responses (fst (process_plain_request H telemetry spec call sent raw)) =
        [(cx_payload x, cx_headers x)]"
    using local_dispatch_responses by (simp add: dispatch_endpoint_def process_plain_request_def view assms(1))
  show "\<exists>x. dispatch_encrypted J H encrypted_call (Some keypair) r = Matched (Inr x) \<and>
      responses (fst (process_encrypted_request H telemetry spec encrypted_call keypair sent raw)) =
        [(cx_payload x, cx_headers x)]"
    using local_dispatch_responses
    by (simp add: dispatch_encrypted_def process_encrypted_request_def view assms(2))
  show "\<exists>action. dispatch_consumer_endpoint H consumer_call r = CMatched action \<and>
      acks (fst (process_consumer H telemetry cspec consumer_call ticks (\<lambda>_. Inr ()) elapsed raw)) =
        replicate (if cs_ack_wait_ms cspec = 0 then 0 else ticks) AckProgress @ [final_ack action]"
    by (auto simp: dispatch_consumer_endpoint_def consumer_settles_once view assms(3) split: sum.split)
qed

theorem local_dispatch_equals_worker_witness:
  "\<forall>spec cspec.
     dispatch_endpoint alist_headers (\<lambda>q. Inr (RPayload (rq_payload q)))
       \<lparr>lr_subject = LStatic ''echo'', lr_payload = [1, 2], lr_headers = None\<rparr> =
       Matched (Inr \<lparr>cx_payload = [1, 2], cx_headers = None\<rparr>) \<and>
     responses (fst (process_plain_request alist_headers None spec
       (\<lambda>q. Inr (RPayload (rq_payload q))) (Inr ())
       \<lparr>rr_subject = ''echo'', rr_reply = Some ''inbox'', rr_payload = [1, 2], rr_headers = None\<rparr>)) =
       [([1, 2], None)] \<and>
     acks (fst (process_consumer alist_headers None cspec (\<lambda>q. Inr Term) 0 (\<lambda>_. Inr ()) 0
       \<lparr>rr_subject = ''echo'', rr_reply = Some ''inbox'', rr_payload = [1, 2], rr_headers = None\<rparr>)) =
       [AckTerm]"
proof (intro allI)
  fix spec cspec and J :: "unit json_ops"
  let ?r = "\<lparr>lr_subject = LStatic ''echo'', lr_payload = [1, 2], lr_headers = None\<rparr> :: alist_map local_request"
  let ?raw = "\<lparr>rr_subject = ''echo'', rr_reply = Some ''inbox'', rr_payload = [1, 2],
    rr_headers = None\<rparr> :: alist_map raw_request"
  let ?echo = "\<lambda>q. Inr (RPayload (rq_payload q)) :: error_reply + alist_map response"
  have blind: "reply_blind ?echo" "reply_blind ((\<lambda>k. ?echo) ())" "reply_blind (\<lambda>q. Inr Term)"
    by (simp_all add: reply_blind_def)
  have d: "dispatch_endpoint alist_headers ?echo ?r = Matched (Inr \<lparr>cx_payload = [1, 2], cx_headers = None\<rparr>)"
    "dispatch_consumer_endpoint alist_headers (\<lambda>q. Inr Term) ?r = CMatched Term"
    by (simp_all add: dispatch_endpoint_def response_to_local_dispatch_def local_view_def
        request_new_def dispatch_consumer_endpoint_def)
  show "dispatch_endpoint alist_headers ?echo ?r = Matched (Inr \<lparr>cx_payload = [1, 2], cx_headers = None\<rparr>) \<and>
     responses (fst (process_plain_request alist_headers None spec ?echo (Inr ()) ?raw)) = [([1, 2], None)] \<and>
     acks (fst (process_consumer alist_headers None cspec (\<lambda>q. Inr Term) 0 (\<lambda>_. Inr ()) 0 ?raw)) = [AckTerm]"
    using local_dispatch_equals_worker [where raw = ?raw and r = ?r and H = alist_headers and J = J
        and keypair = "()" and encrypted_call = "\<lambda>k. ?echo"
        and telemetry = None and spec = spec and cspec = cspec and sent = "Inr ()" and ticks = 0
        and elapsed = 0, OF blind] d
    by simp
qed

end
