(* ===== verification/Macro_Syntax.thy ===== *)
theory Macro_Syntax
  imports Codecs
begin

text \<open>
  What the \<open>#[service]\<close> macro reads (\<open>nats-micro-macros/src/service\<close>): the part of the syntax
  tree of \<open>syn\<close> that the source matches on, the inspection functions of \<open>classify.rs\<close>, and
  the codec and wrapper enumerations.  Parsing and printing of tokens belong to the libraries
  \<open>syn\<close> and \<open>quote\<close>: they are the parameter \<open>syn_ops\<close> over an abstract type of token streams.
\<close>

section \<open>Syntax trees\<close>

text \<open>\<open>SynError\<close> stands for every error that \<open>syn\<close> itself reports, \<open>MacroPanic\<close> for a panic of the macro.\<close>

datatype macro_error = MacroError string | SynError | MacroPanic

datatype other_type =
    BareFn | ImplTrait | Infer | TypeMacro | Never | Ptr | Slice | TraitObject
  | ArrayType | GroupType | ParenType | VerbatimType

text \<open>A path type: whether it has a qualified self and a leading \<open>::\<close>, and its segments.\<close>

datatype rust_type =
    TyPath bool bool "path_segment list"
  | TyReference "string option" bool rust_type
  | TyTuple "rust_type list"
  | TyOther other_type string
and path_segment = Segment string path_arguments
and path_arguments =
    NoArguments | AngleBracketed "generic_argument list" | Parenthesized string
and generic_argument = TypeArgument rust_type | OtherArgument string

primrec segment_ident :: "path_segment \<Rightarrow> string" where
  "segment_ident (Segment i a) = i"

primrec segment_arguments :: "path_segment \<Rightarrow> path_arguments" where
  "segment_arguments (Segment i a) = a"

text \<open>
  The operations of \<open>syn\<close> and \<open>quote\<close> on a token stream \<open>'tok\<close>: parsing it as a literal,
  identifier or type, with \<open>so_int\<close> giving the sign and the digits of an integer literal;
  splitting it at commas into items; and printing a type.
\<close>

datatype 'tok token_item =
    ItemLiteral string
  | ItemAssign string 'tok
  | ItemNested string "'tok token_item list"
  | ItemFlag string
  | ItemMalformed

record 'tok syn_ops =
  so_str :: "'tok \<Rightarrow> string option"
  so_int :: "'tok \<Rightarrow> (bool \<times> string) option"
  so_bool :: "'tok \<Rightarrow> bool option"
  so_ident :: "'tok \<Rightarrow> string option"
  so_type :: "'tok \<Rightarrow> rust_type option"
  so_str_list :: "'tok \<Rightarrow> string list option"
  so_items :: "'tok \<Rightarrow> 'tok token_item list"
  so_is_ident :: "string \<Rightarrow> bool"
  so_render :: "rust_type \<Rightarrow> string"

definition syn_parse :: "'a option \<Rightarrow> macro_error + 'a" where
  "syn_parse r = ok_or SynError r"

lemma syn_parse_simps [simp]: "syn_parse None = Inl SynError" "syn_parse (Some x) = Inr x"
  by (simp_all add: syn_parse_def)

lemma syn_parse_eq_Inr [simp]: "syn_parse r = Inr x \<longleftrightarrow> r = Some x"
  by (simp add: syn_parse_def)

text \<open>\<open>LitInt::base10_parse\<close> at \<open>usize\<close>, \<open>u16\<close> and \<open>i64\<close>; only the last may have a sign in front.\<close>

definition parse_lit_unsigned :: "nat \<Rightarrow> (bool \<times> string) option \<Rightarrow> macro_error + nat" where
  "parse_lit_unsigned mx lit =
     (case lit of
        Some (False, digits) \<Rightarrow> map_err (\<lambda>_. SynError) (parse_unsigned mx digits)
      | _ \<Rightarrow> Inl SynError)"

definition i64_max :: nat where
  "i64_max = 2 ^ 63 - 1"

definition parse_lit_i64 :: "(bool \<times> string) option \<Rightarrow> macro_error + int" where
  "parse_lit_i64 lit =
     (case lit of
        Some (negative, digits) \<Rightarrow>
          map_ok (\<lambda>v. if negative then - v else v)
            (map_err (\<lambda>_. SynError) (parse_signed i64_max digits))
      | None \<Rightarrow> Inl SynError)"

section \<open>Codecs and wrappers\<close>

datatype wire_codec = WireJson | WireProtobuf | WireRaw | WireUtf8 | WireEmpty

datatype wrapper = WrapDirect | WrapJson | WrapProto | WrapBody | WrapText | WrapResponse

definition codec_parse_ident :: "string \<Rightarrow> macro_error + wire_codec" where
  "codec_parse_ident ident =
     (if ident = ''json'' then Inr WireJson
      else if ident \<in> {''protobuf'', ''proto''} then Inr WireProtobuf
      else if ident = ''raw'' then Inr WireRaw
      else if ident \<in> {''utf8'', ''text''} then Inr WireUtf8
      else if ident = ''empty'' then Inr WireEmpty
      else Inl (MacroError ''codec must be `json`, `protobuf`, `raw`, `utf8`, or `empty`''))"

section \<open>Inspecting types\<close>

text \<open>\<open>Path::is_ident\<close>: no leading colons, one segment, no arguments.\<close>

definition path_is_ident :: "string \<Rightarrow> rust_type \<Rightarrow> bool" where
  "path_is_ident s ty =
     (case ty of TyPath q leading [Segment i NoArguments] \<Rightarrow> \<not> leading \<and> i = s | _ \<Rightarrow> False)"

definition last_segment :: "rust_type \<Rightarrow> path_segment option" where
  "last_segment ty =
     (case ty of TyPath q l segments \<Rightarrow> if segments = [] then None else Some (last segments)
      | _ \<Rightarrow> None)"

definition last_ident :: "rust_type \<Rightarrow> string option" where
  "last_ident ty = map_option segment_ident (last_segment ty)"

fun type_arguments :: "generic_argument list \<Rightarrow> rust_type list" where
  "type_arguments [] = []"
| "type_arguments (TypeArgument ty # rest) = ty # type_arguments rest"
| "type_arguments (OtherArgument _ # rest) = type_arguments rest"

definition last_type_arguments :: "rust_type \<Rightarrow> rust_type list" where
  "last_type_arguments ty =
     (case map_option segment_arguments (last_segment ty) of
        Some (AngleBracketed arguments) \<Rightarrow> type_arguments arguments
      | _ \<Rightarrow> [])"

definition last_type_argument :: "rust_type \<Rightarrow> rust_type option" where
  "last_type_argument ty = (case last_type_arguments ty of t # ts \<Rightarrow> Some t | [] \<Rightarrow> None)"

definition required_type_argument :: "rust_type \<Rightarrow> string \<Rightarrow> macro_error + rust_type" where
  "required_type_argument ty wrapper =
     ok_or (MacroError (wrapper @ '' requires one type argument'')) (last_type_argument ty)"

definition option_inner :: "rust_type \<Rightarrow> rust_type option" where
  "option_inner ty = (if last_ident ty = Some ''Option'' then last_type_argument ty else None)"

definition encryption_inner :: "rust_type \<Rightarrow> rust_type option" where
  "encryption_inner ty =
     (if last_ident ty = Some ''Encrypted'' then last_type_argument ty else None)"

definition auth_inner :: "rust_type \<Rightarrow> (rust_type \<times> bool) option" where
  "auth_inner ty =
     (if last_ident ty = Some ''Auth''
      then map_option (\<lambda>claims. (claims, False)) (last_type_argument ty)
      else case option_inner ty of
             Some inner \<Rightarrow>
               if last_ident inner = Some ''Auth''
               then map_option (\<lambda>claims. (claims, True)) (last_type_argument inner) else None
           | None \<Rightarrow> None)"

definition result_types :: "rust_type \<Rightarrow> (rust_type \<times> rust_type) option" where
  "result_types ty =
     (if last_ident ty = Some ''Result'' then
        (case last_type_arguments ty of a # b # _ \<Rightarrow> Some (a, b) | _ \<Rightarrow> None)
      else None)"

definition is_unit :: "rust_type \<Rightarrow> bool" where
  "is_unit ty = (case ty of TyTuple elems \<Rightarrow> elems = [] | _ \<Rightarrow> False)"

definition is_str_reference :: "rust_type \<Rightarrow> bool" where
  "is_str_reference ty =
     (case ty of TyReference l m elem \<Rightarrow> path_is_ident ''str'' elem | _ \<Rightarrow> False)"

definition is_vec_u8 :: "rust_type \<Rightarrow> bool" where
  "is_vec_u8 ty =
     (last_ident ty = Some ''Vec'' \<and>
      (case last_type_argument ty of Some inner \<Rightarrow> path_is_ident ''u8'' inner | None \<Rightarrow> False))"

definition compact :: "'tok syn_ops \<Rightarrow> rust_type \<Rightarrow> string" where
  "compact X ty = filter (\<lambda>c. c \<noteq> CHR '' '') (so_render X ty)"

definition same_type :: "'tok syn_ops \<Rightarrow> rust_type \<Rightarrow> rust_type \<Rightarrow> bool" where
  "same_type X left right = (compact X left = compact X right)"

definition is_state_reference ::
  "'tok syn_ops \<Rightarrow> rust_type \<Rightarrow> rust_type \<Rightarrow> macro_error + bool" where
  "is_state_reference X ty state_type =
     (case ty of
        TyReference l mutability elem \<Rightarrow>
          if mutability \<and> same_type X elem state_type
          then Inl (MacroError ''application state must be borrowed as `&State`, not `&mut State`'')
          else Inr (\<not> mutability \<and> same_type X elem state_type)
      | _ \<Rightarrow> Inr False)"

definition response_wire_type :: "rust_type \<Rightarrow> rust_type" where
  "response_wire_type ty =
     (if last_ident ty \<in> {Some ''Json'', Some ''Proto''}
      then (case last_type_argument ty of Some t \<Rightarrow> t | None \<Rightarrow> ty)
      else case ty of TyReference l m elem \<Rightarrow> elem | _ \<Rightarrow> ty)"

definition classify_response_value :: "rust_type \<Rightarrow> wire_codec \<times> wrapper" where
  "classify_response_value ty =
     (if is_unit ty then (WireEmpty, WrapDirect)
      else if last_ident ty = Some ''Response'' then (WireRaw, WrapResponse)
      else if last_ident ty = Some ''Json'' then (WireJson, WrapJson)
      else if last_ident ty = Some ''Proto'' then (WireProtobuf, WrapProto)
      else if last_ident ty \<in> {Some ''Bytes'', Some ''String''} then (WireRaw, WrapDirect)
      else if last_ident ty = Some ''Vec'' \<and> is_vec_u8 ty then (WireRaw, WrapDirect)
      else if is_str_reference ty then (WireUtf8, WrapDirect)
      else (WireJson, WrapDirect))"

end
