(* ===== verification/Service_Args.thy ===== *)
theory Service_Args
  imports Macro_Syntax
begin

text \<open>
  The arguments of \<open>#[service(...)]\<close> (\<open>nats-micro-macros/src/service/args.rs\<close>): the service
  defaults, the parser over the comma-separated items, and the duration literals
  \<open>"250ms"\<close>, \<open>"30s"\<close>, \<open>"2m"\<close> with their overflow check.
\<close>

section \<open>Durations\<close>

definition parse_duration_ms :: "string \<Rightarrow> macro_error + nat" where
  "parse_duration_ms value =
     (let number = takeWhile is_ascii_digit value; unit = dropWhile is_ascii_digit value
      in try_then (map_err (\<lambda>_. MacroError ''duration must start with an integer'')
           (parse_unsigned u64_max number)) (\<lambda>n.
         try_then
           (if unit = ''ms'' then Inr 1
            else if unit = ''s'' then Inr 1000
            else if unit = ''m'' then Inr 60000
            else Inl (MacroError ''duration unit must be `ms`, `s`, or `m`'')) (\<lambda>multiplier.
         if n * multiplier \<le> u64_max then Inr (n * multiplier)
         else Inl (MacroError ''duration is too large''))))"

definition duration_units :: "(string \<times> nat) set" where
  "duration_units = {(''ms'', 1), (''s'', 1000), (''m'', 60000)}"

lemma takeWhile_digits_unit:
  "list_all is_ascii_digit ds \<Longrightarrow> (u, m) \<in> duration_units \<Longrightarrow>
   takeWhile is_ascii_digit (ds @ u) = ds \<and> dropWhile is_ascii_digit (ds @ u) = u"
proof -
  assume d: "list_all is_ascii_digit ds" and u: "(u, m) \<in> duration_units"
  have "\<not> is_ascii_digit CHR ''m''" "\<not> is_ascii_digit CHR ''s''"
    by (simp_all add: is_ascii_digit_def byte_of_def)
  then have "takeWhile is_ascii_digit u = [] \<and> dropWhile is_ascii_digit u = u"
    using u by (auto simp: duration_units_def)
  then show ?thesis using d
    by (simp add: list_all_iff takeWhile_append2 dropWhile_append2)
qed

text \<open>
  C39: duration literals are read exactly and never wrap.  A text is accepted exactly when it
  is a non-empty run of decimal digits followed by one of the three units and the product fits
  in 64 bits, and then the result is that product of milliseconds.
\<close>

theorem duration_literals_exact:
  "parse_duration_ms value = Inr ms \<longleftrightarrow>
     (\<exists>digits unit multiplier. value = digits @ unit \<and> digits \<noteq> [] \<and>
        list_all is_ascii_digit digits \<and> (unit, multiplier) \<in> duration_units \<and>
        ms = decimal digits * multiplier \<and> ms \<le> u64_max)"
proof
  let ?d = "takeWhile is_ascii_digit value" and ?u = "dropWhile is_ascii_digit value"
  assume p: "parse_duration_ms value = Inr ms"
  then obtain n m where n: "parse_unsigned u64_max ?d = Inr n" and m: "(?u, m) \<in> duration_units"
    and ms: "ms = n * m" "n * m \<le> u64_max"
    by (auto simp: parse_duration_ms_def Let_def duration_units_def split: if_splits)
  have d: "list_all is_ascii_digit ?d" by (auto simp: list_all_iff dest: set_takeWhileD)
  have ne: "?d \<noteq> []" using n by (auto simp: parse_unsigned_def)
  have "n = decimal ?d" using n parse_unsigned_decimal [OF d ne] by (simp split: if_splits)
  then show "\<exists>digits unit multiplier. value = digits @ unit \<and> digits \<noteq> [] \<and>
      list_all is_ascii_digit digits \<and> (unit, multiplier) \<in> duration_units \<and>
      ms = decimal digits * multiplier \<and> ms \<le> u64_max"
    using d ne m ms by (intro exI [of _ ?d] exI [of _ ?u] exI [of _ m]) simp
next
  assume "\<exists>digits unit multiplier. value = digits @ unit \<and> digits \<noteq> [] \<and>
      list_all is_ascii_digit digits \<and> (unit, multiplier) \<in> duration_units \<and>
      ms = decimal digits * multiplier \<and> ms \<le> u64_max"
  then obtain ds u m where v: "value = ds @ u" and ne: "ds \<noteq> []" and d: "list_all is_ascii_digit ds"
    and u: "(u, m) \<in> duration_units" and ms: "ms = decimal ds * m" "ms \<le> u64_max"
    by blast
  have m: "1 \<le> m" using u by (auto simp: duration_units_def)
  have "decimal ds \<le> decimal ds * m" using mult_le_mono2 [OF m, of "decimal ds"] by simp
  then have "decimal ds \<le> u64_max" using ms by linarith
  then have "parse_unsigned u64_max ds = Inr (decimal ds)"
    by (simp add: parse_unsigned_decimal [OF d ne])
  then show "parse_duration_ms value = Inr ms"
    using u ms unfolding v parse_duration_ms_def
    by (auto simp: takeWhile_digits_unit [OF d u] Let_def duration_units_def)
qed

section \<open>Authentication intents and defaults\<close>

datatype auth_intent = IntentNone | IntentOptional | IntentRequired

definition intent_parse_ident :: "string \<Rightarrow> macro_error + auth_intent" where
  "intent_parse_ident ident =
     (if ident = ''none'' then Inr IntentNone
      else if ident = ''optional'' then Inr IntentOptional
      else if ident = ''required'' then Inr IntentRequired
      else Inl (MacroError ''auth must be `none`, `optional`, or `required`''))"

record service_defaults =
  sd_concurrency :: nat
  sd_queue :: "string option"
  sd_timeout_ms :: "nat option"
  sd_auth :: auth_intent
  sd_codec :: wire_codec

definition defaults_default :: service_defaults where
  "defaults_default =
     \<lparr>sd_concurrency = 256, sd_queue = None, sd_timeout_ms = None, sd_auth = IntentNone,
      sd_codec = WireJson\<rparr>"

record service_args =
  sa_name :: string
  sa_version :: string
  sa_description :: string
  sa_prefix :: string
  sa_state_type :: rust_type
  sa_defaults :: service_defaults
  sa_napi :: bool

section \<open>Parsing the arguments\<close>

text \<open>\<open>meta.value()\<close> needs an equals sign; \<open>parse_nested_meta\<close> needs parentheses.\<close>

definition meta_path :: "'tok token_item \<Rightarrow> macro_error + string" where
  "meta_path item =
     (case item of
        ItemAssign p _ \<Rightarrow> Inr p | ItemNested p _ \<Rightarrow> Inr p | ItemFlag p \<Rightarrow> Inr p
      | _ \<Rightarrow> Inl SynError)"

definition meta_value :: "'tok token_item \<Rightarrow> macro_error + 'tok" where
  "meta_value item = (case item of ItemAssign p v \<Rightarrow> Inr v | _ \<Rightarrow> Inl SynError)"

definition meta_str :: "'tok syn_ops \<Rightarrow> 'tok token_item \<Rightarrow> macro_error + string" where
  "meta_str X item = try_then (meta_value item) (\<lambda>v. syn_parse (so_str X v))"

definition parse_default ::
  "'tok syn_ops \<Rightarrow> 'tok token_item \<Rightarrow> service_defaults \<Rightarrow> macro_error + service_defaults" where
  "parse_default X item d =
     try_then (meta_path item) (\<lambda>path.
       if path = ''concurrency'' then
         try_then (meta_value item) (\<lambda>v.
           map_ok (\<lambda>n. d\<lparr>sd_concurrency := n\<rparr>) (parse_lit_unsigned usize_max (so_int X v)))
       else if path = ''queue'' then map_ok (\<lambda>s. d\<lparr>sd_queue := Some s\<rparr>) (meta_str X item)
       else if path = ''timeout'' then
         try_then (meta_str X item) (\<lambda>s.
           map_ok (\<lambda>ms. d\<lparr>sd_timeout_ms := Some ms\<rparr>) (parse_duration_ms s))
       else if path = ''auth'' then
         try_then (meta_value item) (\<lambda>v. try_then (syn_parse (so_ident X v)) (\<lambda>i.
           map_ok (\<lambda>a. d\<lparr>sd_auth := a\<rparr>) (intent_parse_ident i)))
       else if path = ''codec'' then
         try_then (meta_value item) (\<lambda>v. try_then (syn_parse (so_ident X v)) (\<lambda>i.
           map_ok (\<lambda>c. d\<lparr>sd_codec := c\<rparr>) (codec_parse_ident i)))
       else Inl (MacroError ''unsupported service default''))"

fun parse_defaults ::
  "'tok syn_ops \<Rightarrow> 'tok token_item list \<Rightarrow> service_defaults \<Rightarrow> macro_error + service_defaults" where
  "parse_defaults X [] d = Inr d"
| "parse_defaults X (item # rest) d = try_then (parse_default X item d) (parse_defaults X rest)"

text \<open>The local variables of \<open>ServiceArgs::parse\<close>.\<close>

record args_locals =
  al_name :: "string option"
  al_version :: "string option"
  al_description :: string
  al_prefix :: "string option"
  al_state_type :: rust_type
  al_defaults :: service_defaults
  al_napi :: bool

definition args_locals_start :: args_locals where
  "args_locals_start =
     \<lparr>al_name = None, al_version = None, al_description = [], al_prefix = None,
      al_state_type = TyTuple [], al_defaults = defaults_default, al_napi = False\<rparr>"

definition parse_args_item ::
  "'tok syn_ops \<Rightarrow> 'tok token_item \<Rightarrow> args_locals \<Rightarrow> macro_error + args_locals" where
  "parse_args_item X item a =
     try_then (meta_path item) (\<lambda>path.
       if path = ''name'' then map_ok (\<lambda>s. a\<lparr>al_name := Some s\<rparr>) (meta_str X item)
       else if path = ''version'' then map_ok (\<lambda>s. a\<lparr>al_version := Some s\<rparr>) (meta_str X item)
       else if path = ''description'' then map_ok (\<lambda>s. a\<lparr>al_description := s\<rparr>) (meta_str X item)
       else if path = ''prefix'' then map_ok (\<lambda>s. a\<lparr>al_prefix := Some s\<rparr>) (meta_str X item)
       else if path = ''state'' then
         try_then (meta_value item) (\<lambda>v.
           map_ok (\<lambda>t. a\<lparr>al_state_type := t\<rparr>) (syn_parse (so_type X v)))
       else if path = ''napi'' then
         (case item of
            ItemAssign _ v \<Rightarrow> map_ok (\<lambda>b. a\<lparr>al_napi := b\<rparr>) (syn_parse (so_bool X v))
          | ItemFlag _ \<Rightarrow> Inr (a\<lparr>al_napi := True\<rparr>)
          | _ \<Rightarrow> Inl SynError)
       else if path = ''defaults'' then
         (case item of
            ItemNested _ items \<Rightarrow>
              map_ok (\<lambda>d. a\<lparr>al_defaults := d\<rparr>) (parse_defaults X items (al_defaults a))
          | _ \<Rightarrow> Inl SynError)
       else Inl (MacroError ''unsupported #[service] option''))"

fun parse_args_items ::
  "'tok syn_ops \<Rightarrow> 'tok token_item list \<Rightarrow> args_locals \<Rightarrow> macro_error + args_locals" where
  "parse_args_items X [] a = Inr a"
| "parse_args_items X (item # rest) a = try_then (parse_args_item X item a) (parse_args_items X rest)"

definition service_args_parse :: "'tok syn_ops \<Rightarrow> 'tok \<Rightarrow> macro_error + service_args" where
  "service_args_parse X tokens =
     try_then (parse_args_items X (so_items X tokens) args_locals_start) (\<lambda>a.
     try_then (ok_or (MacroError ''missing required `name`'') (al_name a)) (\<lambda>name.
     try_then (ok_or (MacroError ''missing required `version`'') (al_version a)) (\<lambda>version.
       Inr \<lparr>sa_name = name, sa_version = version, sa_description = al_description a,
            sa_prefix = (case al_prefix a of Some p \<Rightarrow> p | None \<Rightarrow> name),
            sa_state_type = al_state_type a, sa_defaults = al_defaults a, sa_napi = al_napi a\<rparr>)))"

end
