(* ===== verification/Subject_Templates.thy ===== *)
theory Subject_Templates
  imports Service_Args Subjects Client_Calls
begin

text \<open>
  Subject templates: \<open>parse_subject_template\<close> and \<open>build_subject\<close>
  (\<open>nats-micro-macros/src/service/parse.rs\<close>) and the subject that a generated client method
  builds (\<open>subject_expression\<close>, \<open>client.rs\<close>).  A generated parameter is given by the pieces
  its \<open>Display\<close> writes.
\<close>

section \<open>Parsing a template\<close>

datatype macro_kind = MRequest | MPublish | MSubscribe | MConsumer

record subject_model =
  sm_template :: string
  sm_pattern :: string
  sm_placeholders :: "(string \<times> nat) list"

definition starts_with :: "char \<Rightarrow> string \<Rightarrow> bool" where
  "starts_with c s = (case s of x # xs \<Rightarrow> x = c | [] \<Rightarrow> False)"

definition ends_with :: "char \<Rightarrow> string \<Rightarrow> bool" where
  "ends_with c s = (s \<noteq> [] \<and> last s = c)"

definition parse_template_segment ::
  "'tok syn_ops \<Rightarrow> macro_kind \<Rightarrow> string \<Rightarrow> macro_error + string option" where
  "parse_template_segment X kind seg =
     (if seg = [] then Inl (MacroError ''subject contains an empty segment'')
      else if starts_with CHR ''{'' seg \<or> ends_with CHR ''}'' seg then
        (if \<not> starts_with CHR ''{'' seg \<or> \<not> ends_with CHR ''}'' seg
         then Inl (MacroError (''invalid subject template segment `'' @ seg @ ''`''))
         else
           let name = butlast (tl seg)
           in if so_is_ident X name then Inr (Some name)
              else Inl (MacroError (''invalid subject placeholder `'' @ name @ ''`'')))
      else if CHR ''{'' \<in> set seg \<or> CHR ''}'' \<in> set seg
      then Inl (MacroError (''invalid subject template segment `'' @ seg @ ''`''))
      else if kind \<in> {MRequest, MPublish} \<and> seg \<in> {''*'', ''>''}
      then Inl (MacroError ''request and publish templates use `{name}` instead of raw wildcards'')
      else Inr None)"

text \<open>The loop over \<open>template.split('.').enumerate()\<close> with its two vectors.\<close>

fun parse_template_segments ::
  "'tok syn_ops \<Rightarrow> macro_kind \<Rightarrow> nat \<Rightarrow> string list \<Rightarrow> string list \<Rightarrow> (string \<times> nat) list \<Rightarrow>
   macro_error + string list \<times> (string \<times> nat) list" where
  "parse_template_segments X kind index [] pat placeholders = Inr (pat, placeholders)"
| "parse_template_segments X kind index (seg # rest) pat placeholders =
     try_then (parse_template_segment X kind seg) (\<lambda>r.
       case r of
         Some name \<Rightarrow>
           parse_template_segments X kind (Suc index) rest (pat @ [''*'']) (placeholders @ [(name, index)])
       | None \<Rightarrow> parse_template_segments X kind (Suc index) rest (pat @ [seg]) placeholders)"

definition parse_subject_template ::
  "'tok syn_ops \<Rightarrow> string \<Rightarrow> macro_kind \<Rightarrow> macro_error + subject_model" where
  "parse_subject_template X template kind =
     (if template = [] then Inr \<lparr>sm_template = [], sm_pattern = [], sm_placeholders = []\<rparr>
      else map_ok (\<lambda>(pat, placeholders).
          \<lparr>sm_template = template, sm_pattern = join_with ''.'' pat, sm_placeholders = placeholders\<rparr>)
        (parse_template_segments X kind 0 (split_on CHR ''.'' template) [] []))"

section \<open>The subject a client builds\<close>

definition template_param :: "string \<Rightarrow> string option" where
  "template_param seg =
     (if starts_with CHR ''{'' seg \<and> ends_with CHR ''}'' (tl seg)
      then Some (butlast (tl seg)) else None)"

fun write_subject :: "(string \<Rightarrow> string list) \<Rightarrow> nat \<Rightarrow> string list \<Rightarrow> string \<Rightarrow> string" where
  "write_subject params index [] subject = subject"
| "write_subject params index (seg # rest) subject =
     (let subject = (if index > 0 then subject @ ''.'' else subject)
      in write_subject params (Suc index) rest
           (case template_param seg of
              Some name \<Rightarrow> push_subject_param subject (params name)
            | None \<Rightarrow> subject @ seg))"

fun subject_capacity :: "(string \<Rightarrow> string list) \<Rightarrow> nat \<Rightarrow> string list \<Rightarrow> nat" where
  "subject_capacity params index [] = 0"
| "subject_capacity params index (seg # rest) =
     (if index > 0 then 1 else 0) +
     (case template_param seg of
        Some name \<Rightarrow> subject_param_len (params name)
      | None \<Rightarrow> length seg) +
     subject_capacity params (Suc index) rest"

definition subject_expression :: "subject_model \<Rightarrow> (string \<Rightarrow> string list) \<Rightarrow> client_subject" where
  "subject_expression sm params =
     (if sm_placeholders sm = [] then SStatic (sm_pattern sm)
      else SOwned (write_subject params 0 (split_on CHR ''.'' (sm_template sm)) []))"

section \<open>Client and endpoint agree\<close>

text \<open>What a segment becomes in the pattern and in the subject.\<close>

definition pattern_segment :: "string \<Rightarrow> string" where
  "pattern_segment seg = (if template_param seg = None then seg else ''*'')"

definition filled_segment :: "(string \<Rightarrow> string list) \<Rightarrow> string \<Rightarrow> string" where
  "filled_segment params seg =
     (case template_param seg of Some name \<Rightarrow> concat (params name) | None \<Rightarrow> seg)"

fun placeholder_list :: "nat \<Rightarrow> string list \<Rightarrow> (string \<times> nat) list" where
  "placeholder_list index [] = []"
| "placeholder_list index (seg # rest) =
     (case template_param seg of
        Some name \<Rightarrow> (name, index) # placeholder_list (Suc index) rest
      | None \<Rightarrow> placeholder_list (Suc index) rest)"

lemma template_param_braces:
  "starts_with CHR ''{'' s \<Longrightarrow> ends_with CHR ''}'' s \<Longrightarrow> template_param s = Some (butlast (tl s))"
  by (cases s) (auto simp: template_param_def starts_with_def ends_with_def split: if_splits)

lemma template_param_None: "\<not> starts_with CHR ''{'' s \<Longrightarrow> template_param s = None"
  by (simp add: template_param_def)

lemma parse_template_segment_Inr:
  "parse_template_segment X kind s = Inr r \<Longrightarrow>
   template_param s = r \<and> s \<noteq> [] \<and>
   (r = None \<longrightarrow> kind \<in> {MRequest, MPublish} \<longrightarrow> s \<notin> {''*'', ''>''})"
  by (auto simp: parse_template_segment_def Let_def template_param_braces template_param_None
      split: if_splits)

lemma parse_template_segments_Inr:
  "parse_template_segments X kind index segs pat phs = Inr (pat', phs') \<Longrightarrow>
   pat' = pat @ map pattern_segment segs \<and> phs' = phs @ placeholder_list index segs \<and>
   [] \<notin> set segs \<and>
   (kind \<in> {MRequest, MPublish} \<longrightarrow> ''>'' \<notin> set (map pattern_segment segs))"
proof (induction segs arbitrary: index pat phs)
  case (Cons s segs)
  then obtain r where r: "parse_template_segment X kind s = Inr r"
    and rest: "(case r of
         Some name \<Rightarrow> parse_template_segments X kind (Suc index) segs (pat @ [''*'']) (phs @ [(name, index)])
       | None \<Rightarrow> parse_template_segments X kind (Suc index) segs (pat @ [s]) phs) = Inr (pat', phs')"
    by auto
  note s = parse_template_segment_Inr [OF r]
  show ?case
  proof (cases r)
    case None
    then show ?thesis using Cons.IH [of "Suc index" "pat @ [s]" phs] rest s
      by (auto simp: pattern_segment_def)
  next
    case (Some name)
    then show ?thesis
      using Cons.IH [of "Suc index" "pat @ [''*'']" "phs @ [(name, index)]"] rest s
      by (auto simp: pattern_segment_def)
  qed
qed simp

lemma parse_subject_template_Inr:
  assumes "parse_subject_template X template kind = Inr sm" "template \<noteq> []"
  shows "sm_template sm = template \<and>
    sm_pattern sm = join_with ''.'' (map pattern_segment (split_on CHR ''.'' template)) \<and>
    sm_placeholders sm = placeholder_list 0 (split_on CHR ''.'' template) \<and>
    (kind \<in> {MRequest, MPublish} \<longrightarrow>
       ''>'' \<notin> set (map pattern_segment (split_on CHR ''.'' template)))"
  using assms
  by (auto simp: parse_subject_template_def dest!: parse_template_segments_Inr)

lemma placeholder_list_nth:
  "(name, i) \<in> set (placeholder_list index segs) \<Longrightarrow>
   index \<le> i \<and> i - index < length segs \<and> template_param (segs ! (i - index)) = Some name"
proof (induction segs arbitrary: index)
  case (Cons s segs)
  show ?case
  proof (cases "i = index \<and> template_param s = Some name")
    case False
    then have "(name, i) \<in> set (placeholder_list (Suc index) segs)"
      using Cons.prems by (auto split: option.splits)
    then show ?thesis using Cons.IH [of "Suc index"]
      by (auto simp: nth_Cons' Suc_le_eq)
  qed simp
qed simp

lemma placeholder_list_Nil:
  "placeholder_list index segs = [] \<longleftrightarrow> list_all (\<lambda>s. template_param s = None) segs"
  by (induction segs arbitrary: index) (auto split: option.split)

lemma write_subject_tail:
  "index > 0 \<Longrightarrow> write_subject params index segs subject =
     subject @ concat (map (\<lambda>s. ''.'' @ filled_segment params s) segs)"
proof (induction segs arbitrary: index subject)
  case (Cons s segs)
  then show ?case
    by (cases "template_param s") (simp_all add: filled_segment_def push_subject_param_conv)
qed simp

lemma join_with_concat:
  "join_with sep (s # ts) = s @ concat (map (\<lambda>t. sep @ t) ts)"
  by (induction ts arbitrary: s) simp_all

lemma write_subject_conv:
  "segs \<noteq> [] \<Longrightarrow> write_subject params 0 segs [] = join_with ''.'' (map (filled_segment params) segs)"
proof (cases segs)
  case (Cons s rest)
  have "write_subject params 0 segs [] = write_subject params (Suc 0) rest (filled_segment params s)"
    by (cases "template_param s") (simp_all add: Cons filled_segment_def push_subject_param_conv)
  then show ?thesis by (simp add: Cons write_subject_tail join_with_concat comp_def)
qed simp

lemma subject_capacity_conv:
  "length (write_subject params index segs subject) =
     length subject + subject_capacity params index segs"
  by (induction segs arbitrary: index subject)
    (auto simp: Let_def push_subject_param_conv subject_param_len_conv split: option.split)

lemma built_subject_pieces:
  assumes "parse_subject_template X template kind = Inr sm" and "kind = MRequest \<or> kind = MPublish"
    and "template \<noteq> []" and "\<And>name. CHR ''.'' \<notin> set (concat (params name))"
  shows "sm_placeholders sm = placeholder_list 0 (split_on CHR ''.'' template)"
    and "''>'' \<notin> set (map pattern_segment (split_on CHR ''.'' template))"
    and "split_on CHR ''.'' (sm_pattern sm) = map pattern_segment (split_on CHR ''.'' template)"
    and "split_on CHR ''.'' (subject_as_str (subject_expression sm params)) =
      map (filled_segment params) (split_on CHR ''.'' template)"
proof -
  let ?segs = "split_on CHR ''.'' template"
  let ?subject = "subject_as_str (subject_expression sm params)"
  have sm: "sm_template sm = template"
    "sm_pattern sm = join_with ''.'' (map pattern_segment ?segs)"
    "sm_placeholders sm = placeholder_list 0 ?segs"
    and gt: "''>'' \<notin> set (map pattern_segment ?segs)"
    using parse_subject_template_Inr [OF assms(1,3)] assms(2) by auto
  have filled: "?subject = join_with ''.'' (map (filled_segment params) ?segs)"
  proof (cases "placeholder_list 0 ?segs = []")
    case True
    then have "map pattern_segment ?segs = map (filled_segment params) ?segs"
      by (auto simp: placeholder_list_Nil list_all_iff pattern_segment_def filled_segment_def)
    then have "join_with ''.'' (map pattern_segment ?segs) =
        join_with ''.'' (map (filled_segment params) ?segs)"
      by (rule arg_cong)
    then show ?thesis by (simp add: subject_expression_def sm True)
  next
    case False
    then show ?thesis by (simp add: subject_expression_def sm write_subject_conv)
  qed
  have no_dot: "CHR ''.'' \<notin> set s" if "s \<in> set ?segs" for s
    using that by (rule split_on_no_sep)
  have "CHR ''.'' \<notin> set (pattern_segment s)" if "s \<in> set ?segs" for s
    using no_dot [OF that] by (simp add: pattern_segment_def)
  then have p: "split_on CHR ''.'' (sm_pattern sm) = map pattern_segment ?segs"
    unfolding sm by (subst split_join) auto
  have "CHR ''.'' \<notin> set (filled_segment params s)" if "s \<in> set ?segs" for s
    using no_dot [OF that] assms(4) by (auto simp: filled_segment_def split: option.split)
  then have f: "split_on CHR ''.'' ?subject = map (filled_segment params) ?segs"
    unfolding filled by (subst split_join) auto
  show "sm_placeholders sm = placeholder_list 0 ?segs" "''>'' \<notin> set (map pattern_segment ?segs)"
    "split_on CHR ''.'' (sm_pattern sm) = map pattern_segment ?segs"
    "split_on CHR ''.'' ?subject = map (filled_segment params) ?segs"
    by (fact sm gt p f)+
qed

lemma built_subject_received:
  assumes "parse_subject_template X template kind = Inr sm" and "kind = MRequest \<or> kind = MPublish"
    and "template \<noteq> []" and "\<And>name. CHR ''.'' \<notin> set (concat (params name))"
    and "utf8_str (subject_as_str (subject_expression sm params))"
  shows "subject_matches (sm_pattern sm) (subject_as_str (subject_expression sm params))"
    and "(name, i) \<in> set (sm_placeholders sm) \<Longrightarrow>
      segment (subject_as_str (subject_expression sm params)) i = Some (concat (params name))"
proof -
  let ?segs = "split_on CHR ''.'' template"
  note pieces = built_subject_pieces [OF assms(1-4)]
  have "list_all2 token_ok (map pattern_segment ?segs) (map (filled_segment params) ?segs)"
    by (auto simp: list_all2_conv_all_nth token_ok_def pattern_segment_def filled_segment_def)
  then show "subject_matches (sm_pattern sm) (subject_as_str (subject_expression sm params))"
    unfolding subject_matches_def subject_matches_loop_iff pieces(3,4) nats_match_map [OF pieces(2)] .
  assume "(name, i) \<in> set (sm_placeholders sm)"
  then have "i < length ?segs" "template_param (?segs ! i) = Some name"
    using placeholder_list_nth [of name i 0 ?segs] by (simp_all add: pieces(1))
  then show "segment (subject_as_str (subject_expression sm params)) i = Some (concat (params name))"
    using segment_conv [OF assms(5), of i] by (simp add: pieces(4) Let_def filled_segment_def)
qed

text \<open>
  C32: what a generated client sends, its endpoint receives.  For every request or publish
  template the macro accepts, and parameters without a dot, the subject a client method
  builds matches the pattern the endpoint subscribes to; the endpoint extracts at every
  placeholder exactly the text the parameter was written as; and the string is as long as
  the capacity reserved for it.
\<close>

theorem client_subject_reaches_endpoint:
  assumes "parse_subject_template X template kind = Inr sm" and "kind = MRequest \<or> kind = MPublish"
    and "template \<noteq> []" and "\<And>name. CHR ''.'' \<notin> set (concat (params name))"
    and "utf8_str (subject_as_str (subject_expression sm params))"
  shows "subject_matches (sm_pattern sm) (subject_as_str (subject_expression sm params)) \<and>
    list_all (\<lambda>(name, i).
      segment (subject_as_str (subject_expression sm params)) i = Some (concat (params name)))
      (sm_placeholders sm) \<and>
    length (write_subject params 0 (split_on CHR ''.'' template) []) =
      subject_capacity params 0 (split_on CHR ''.'' template)"
  using built_subject_received [OF assms]
  by (auto simp: list_all_iff subject_capacity_conv)

definition demo_syn :: "string syn_ops" where
  "demo_syn =
     \<lparr>so_str = Some, so_int = (\<lambda>s. Some (False, s)), so_bool = (\<lambda>s. Some (s = ''true'')),
      so_ident = Some, so_type = (\<lambda>s. Some (TyPath False False [Segment s NoArguments])),
      so_str_list = (\<lambda>s. Some (split_on CHR '','' s)),
      so_items = (\<lambda>s. if s = ''demo''
        then [ItemAssign ''name'' ''demo'', ItemAssign ''version'' ''1.0.0''] else []),
      so_is_ident = (\<lambda>s. s \<noteq> [] \<and> list_all (\<lambda>c. is_ascii_alphanumeric c \<or> c = CHR ''_'') s),
      so_render = (\<lambda>ty. case last_ident ty of Some i \<Rightarrow> i | None \<Rightarrow> ''()'')\<rparr>"

theorem client_subject_reaches_endpoint_witness:
  "segment (subject_as_str (subject_expression
      \<lparr>sm_template = ''u.{id}'', sm_pattern = ''u.*'', sm_placeholders = [(''id'', 1)]\<rparr>
      (\<lambda>_. [''4'', ''2'']))) 1 = Some ''42''"
proof -
  let ?sm = "\<lparr>sm_template = ''u.{id}'', sm_pattern = ''u.*'', sm_placeholders = [(''id'', 1)]\<rparr>"
  have p: "parse_subject_template demo_syn ''u.{id}'' MRequest = Inr ?sm"
    by code_simp
  have u: "utf8_str (subject_as_str (subject_expression ?sm (\<lambda>_. [''4'', ''2''])))"
    by code_simp
  show ?thesis
    using client_subject_reaches_endpoint [OF p _ _ _ u] by simp
qed

section \<open>Building the subject of an operation\<close>

text \<open>
  \<open>build_subject\<close>: consumers take their filter, everything else is prefixed by the service's
  prefix and major version.  \<open>local\<close> is the declared subject and \<open>ident\<close> the method's name.
\<close>

definition build_subject ::
  "'tok syn_ops \<Rightarrow> service_args \<Rightarrow> string \<Rightarrow> macro_kind \<Rightarrow> string option \<Rightarrow> string option \<Rightarrow>
   macro_error + subject_model" where
  "build_subject X args ident kind filter_option subject_option =
     (let local =
        (if kind = MConsumer
         then (case filter_option of Some f \<Rightarrow> f
               | None \<Rightarrow> (case subject_option of Some s \<Rightarrow> s | None \<Rightarrow> []))
         else (case subject_option of Some s \<Rightarrow> s | None \<Rightarrow> ident));
          template =
        (if kind = MConsumer then local
         else sa_prefix args @ ''.v'' @ hd (split_on CHR ''.'' (sa_version args)) @ ''.'' @ local)
      in parse_subject_template X template kind)"

end
