(* ===== verification/Service_Model.thy ===== *)
theory Service_Model
  imports Subject_Templates
begin

text \<open>
  From the annotated \<open>impl\<close> block to the service model
  (\<open>nats-micro-macros/src/service/{mod,classify,parse}.rs\<close>): the operation options, the
  classification of arguments, payloads and responses, \<open>build_model\<close> and \<open>assign_indexes\<close>.
\<close>

section \<open>The syntax of an implementation block\<close>

text \<open>An attribute: its path when that is one identifier, and its tokens when it is a list.\<close>

record 'tok attribute =
  at_ident :: "string option"
  at_list :: "'tok option"

datatype 'tok fn_arg = Receiver | TypedArg "string option" rust_type "'tok attribute list"

record 'tok impl_fn =
  fn_ident :: string
  fn_async :: bool
  fn_attrs :: "'tok attribute list"
  fn_inputs :: "'tok fn_arg list"
  fn_output :: "rust_type option"

datatype 'tok impl_item = ImplFn "'tok impl_fn" | ImplOther string

record 'tok item_impl =
  im_trait :: bool
  im_generic :: bool
  im_self_ty :: rust_type
  im_items :: "'tok impl_item list"

section \<open>The model\<close>

record operation_options =
  oo_subject :: "string option"
  oo_queue :: "string option"
  oo_concurrency :: "nat option"
  oo_timeout_ms :: "nat option"
  oo_auth :: "auth_intent option"
  oo_response :: "rust_type option"
  oo_stream :: "string option"
  oo_durable :: "string option"
  oo_filter :: "string option"
  oo_ack_wait_ms :: "nat option"
  oo_max_deliver :: "int option"
  oo_backoff_ms :: "nat list"

definition options_default :: operation_options where
  "options_default =
     \<lparr>oo_subject = None, oo_queue = None, oo_concurrency = None, oo_timeout_ms = None,
      oo_auth = None, oo_response = None, oo_stream = None, oo_durable = None, oo_filter = None,
      oo_ack_wait_ms = None, oo_max_deliver = None, oo_backoff_ms = []\<rparr>"

record payload_model =
  pm_codec :: wire_codec
  pm_wrapper :: wrapper
  pm_optional :: bool
  pm_encrypted :: bool
  pm_decoded_type :: "rust_type option"

datatype argument_kind =
    ArgState
  | ArgStateRef rust_type
  | ArgSubject string nat
  | ArgHeader string bool
  | ArgHeaders
  | ArgRequestMeta
  | ArgAuth rust_type bool
  | ArgPayload payload_model

record argument_model =
  am_ident :: string
  am_ty :: rust_type
  am_kind :: argument_kind

record response_model =
  rs_ok_type :: rust_type
  rs_error_type :: "rust_type option"
  rs_wire_type :: rust_type
  rs_codec :: wire_codec
  rs_wrapper :: wrapper
  rs_optional :: bool
  rs_encrypted :: bool

record 'tok operation_model =
  om_kind :: macro_kind
  om_method :: "'tok impl_fn"
  om_options :: operation_options
  om_subject :: subject_model
  om_arguments :: "argument_model list"
  om_response :: response_model
  om_operation_index :: "nat option"
  om_consumer_index :: "nat option"

datatype 'tok method_model = MethodOp "'tok operation_model" | MethodOrdinary "'tok impl_fn"

primrec method_operation :: "'tok method_model \<Rightarrow> 'tok operation_model option" where
  "method_operation (MethodOp m) = Some m"
| "method_operation (MethodOrdinary f) = None"

record 'tok service_model =
  sv_args :: service_args
  sv_service_ident :: string
  sv_state_type :: rust_type
  sv_item_impl :: "'tok item_impl"
  sv_methods :: "'tok method_model list"

definition model_operations :: "'tok service_model \<Rightarrow> 'tok operation_model list" where
  "model_operations m = List.map_filter method_operation (sv_methods m)"

definition request_encrypted :: "'tok operation_model \<Rightarrow> bool" where
  "request_encrypted op =
     list_ex (\<lambda>a. case am_kind a of ArgPayload p \<Rightarrow> pm_encrypted p | _ \<Rightarrow> False) (om_arguments op)"

definition operation_is_encrypted :: "'tok operation_model \<Rightarrow> bool" where
  "operation_is_encrypted op = (rs_encrypted (om_response op) \<or> request_encrypted op)"

section \<open>Operation options\<close>

definition item_str :: "'tok syn_ops \<Rightarrow> 'tok \<Rightarrow> macro_error + string" where
  "item_str X v = syn_parse (so_str X v)"

definition item_duration :: "'tok syn_ops \<Rightarrow> 'tok \<Rightarrow> macro_error + nat" where
  "item_duration X v = try_then (item_str X v) parse_duration_ms"

fun parse_durations :: "string list \<Rightarrow> macro_error + nat list" where
  "parse_durations [] = Inr []"
| "parse_durations (v # vs) =
     try_then (parse_duration_ms v) (\<lambda>ms. map_ok (\<lambda>rest. ms # rest) (parse_durations vs))"

definition parse_option ::
  "'tok syn_ops \<Rightarrow> string \<Rightarrow> 'tok \<Rightarrow> operation_options \<Rightarrow> macro_error + operation_options" where
  "parse_option X name v o' =
     (if name = ''subject'' then map_ok (\<lambda>s. o'\<lparr>oo_subject := Some s\<rparr>) (item_str X v)
      else if name \<in> {''queue'', ''queue_group''}
        then map_ok (\<lambda>s. o'\<lparr>oo_queue := Some s\<rparr>) (item_str X v)
      else if name \<in> {''concurrency'', ''concurrency_limit''}
        then map_ok (\<lambda>n. o'\<lparr>oo_concurrency := Some n\<rparr>) (parse_lit_unsigned usize_max (so_int X v))
      else if name = ''timeout'' then map_ok (\<lambda>n. o'\<lparr>oo_timeout_ms := Some n\<rparr>) (item_duration X v)
      else if name = ''auth'' then
        try_then (syn_parse (so_ident X v)) (\<lambda>i.
          map_ok (\<lambda>a. o'\<lparr>oo_auth := Some a\<rparr>) (intent_parse_ident i))
      else if name = ''response''
        then map_ok (\<lambda>t. o'\<lparr>oo_response := Some t\<rparr>) (syn_parse (so_type X v))
      else if name = ''stream'' then map_ok (\<lambda>s. o'\<lparr>oo_stream := Some s\<rparr>) (item_str X v)
      else if name = ''durable'' then map_ok (\<lambda>s. o'\<lparr>oo_durable := Some s\<rparr>) (item_str X v)
      else if name \<in> {''filter'', ''filter_subject''}
        then map_ok (\<lambda>s. o'\<lparr>oo_filter := Some s\<rparr>) (item_str X v)
      else if name = ''ack_wait'' then map_ok (\<lambda>n. o'\<lparr>oo_ack_wait_ms := Some n\<rparr>) (item_duration X v)
      else if name = ''max_deliver''
        then map_ok (\<lambda>n. o'\<lparr>oo_max_deliver := Some n\<rparr>) (parse_lit_i64 (so_int X v))
      else if name = ''backoff'' then
        try_then (syn_parse (so_str_list X v)) (\<lambda>vs.
          map_ok (\<lambda>ms. o'\<lparr>oo_backoff_ms := ms\<rparr>) (parse_durations vs))
      else Inl (MacroError ''unsupported operation option''))"

fun parse_options ::
  "'tok syn_ops \<Rightarrow> bool \<Rightarrow> 'tok token_item list \<Rightarrow> operation_options \<Rightarrow>
   macro_error + operation_options" where
  "parse_options X first [] o' = Inr o'"
| "parse_options X first (item # rest) o' =
     try_then
       (case item of
          ItemLiteral s \<Rightarrow> if first then Inr (o'\<lparr>oo_subject := Some s\<rparr>) else Inl SynError
        | ItemAssign name v \<Rightarrow> parse_option X name v o'
        | _ \<Rightarrow> Inl SynError)
       (parse_options X False rest)"

definition parse_operation_options ::
  "'tok syn_ops \<Rightarrow> 'tok attribute \<Rightarrow> macro_error + operation_options" where
  "parse_operation_options X attr =
     (case at_list attr of
        None \<Rightarrow> Inr options_default
      | Some tokens \<Rightarrow> parse_options X True (so_items X tokens) options_default)"

section \<open>Classification\<close>

fun parse_header_attrs ::
  "'tok syn_ops \<Rightarrow> 'tok attribute list \<Rightarrow> string option \<Rightarrow> macro_error + string option" where
  "parse_header_attrs X [] header = Inr header"
| "parse_header_attrs X (attr # rest) header =
     (if at_ident attr \<noteq> Some ''header'' then parse_header_attrs X rest header
      else if header \<noteq> None then Inl (MacroError ''duplicate #[header] attribute'')
      else try_then (syn_parse (Option.bind (at_list attr) (so_str X)))
        (\<lambda>s. parse_header_attrs X rest (Some s)))"

definition parse_header_attr ::
  "'tok syn_ops \<Rightarrow> 'tok attribute list \<Rightarrow> macro_error + string option" where
  "parse_header_attr X attrs = parse_header_attrs X attrs None"

definition classify_payload :: "rust_type \<Rightarrow> wire_codec \<Rightarrow> macro_error + payload_model" where
  "classify_payload ty default_codec =
     (let (optional, v) = (case option_inner ty of None \<Rightarrow> (False, ty) | Some i \<Rightarrow> (True, i));
          (encrypted, v) = (case encryption_inner v of None \<Rightarrow> (False, v) | Some i \<Rightarrow> (True, i));
          model = (\<lambda>(codec, wrapper, decoded).
            \<lparr>pm_codec = codec, pm_wrapper = wrapper, pm_optional = optional,
             pm_encrypted = encrypted, pm_decoded_type = decoded\<rparr>)
      in map_ok model
           (if last_ident v = Some ''Json''
            then map_ok (\<lambda>t. (WireJson, WrapJson, Some t)) (required_type_argument v ''Json'')
            else if last_ident v = Some ''Proto''
            then map_ok (\<lambda>t. (WireProtobuf, WrapProto, Some t)) (required_type_argument v ''Proto'')
            else if last_ident v = Some ''Body'' then Inr (WireRaw, WrapBody, None)
            else if last_ident v = Some ''Text'' then Inr (WireUtf8, WrapText, None)
            else Inr (default_codec, WrapDirect, Some v)))"

definition unsupported_shape :: "rust_type \<Rightarrow> bool" where
  "unsupported_shape ty =
     (case ty of
        TyOther k _ \<Rightarrow>
          k \<in> {BareFn, ImplTrait, Infer, TypeMacro, Never, Ptr, Slice, TraitObject}
      | _ \<Rightarrow> False)"

text \<open>The branches that do not depend on the payload seen so far; \<open>None\<close> is a payload.\<close>

definition classify_non_payload ::
  "'tok syn_ops \<Rightarrow> rust_type \<Rightarrow> subject_model \<Rightarrow> string \<Rightarrow> rust_type \<Rightarrow> string option \<Rightarrow>
   macro_error + argument_kind option" where
  "classify_non_payload X state_type subject ident ty header =
     (case find (\<lambda>(name, _). ident = name) (sm_placeholders subject) of
        Some (name, i) \<Rightarrow>
          if header \<noteq> None
          then Inl (MacroError ''a subject parameter cannot also be a header parameter'')
          else Inr (Some (ArgSubject name i))
      | None \<Rightarrow>
          (case header of
             Some name \<Rightarrow>
               (let value_type = (case option_inner ty of Some t \<Rightarrow> t | None \<Rightarrow> ty)
                in if is_str_reference value_type
                   then Inr (Some (ArgHeader name (option_inner ty \<noteq> None)))
                   else Inl (MacroError ''header parameters must be `&str` or `Option<&str>`''))
           | None \<Rightarrow>
               try_then (is_state_reference X ty state_type) (\<lambda>is_state.
                 if is_state then Inr (Some ArgState)
                 else if last_ident ty = Some ''StateRef'' then
                   map_ok (\<lambda>t. Some (ArgStateRef t))
                     (ok_or (MacroError ''StateRef requires a projected state type'')
                       (last_type_argument ty))
                 else if last_ident ty = Some ''Headers'' then Inr (Some ArgHeaders)
                 else if last_ident ty = Some ''RequestMeta'' then Inr (Some ArgRequestMeta)
                 else case auth_inner ty of
                        Some (claims, optional) \<Rightarrow> Inr (Some (ArgAuth claims optional))
                      | None \<Rightarrow> Inr None)))"

fun classify_inputs ::
  "'tok syn_ops \<Rightarrow> rust_type \<Rightarrow> subject_model \<Rightarrow> wire_codec \<Rightarrow> bool \<Rightarrow> 'tok fn_arg list \<Rightarrow>
   macro_error + argument_model list" where
  "classify_inputs X state_type subject codec seen [] = Inr []"
| "classify_inputs X state_type subject codec seen (Receiver # rest) =
     Inl (MacroError ''service operations cannot take a receiver'')"
| "classify_inputs X state_type subject codec seen (TypedArg None ty attrs # rest) =
     Inl (MacroError ''operation arguments must be simple identifiers'')"
| "classify_inputs X state_type subject codec seen (TypedArg (Some ident) ty attrs # rest) =
     try_then (parse_header_attr X attrs) (\<lambda>header.
     try_then (classify_non_payload X state_type subject ident ty header) (\<lambda>kind.
       case kind of
         Some k \<Rightarrow>
           map_ok (\<lambda>args. \<lparr>am_ident = ident, am_ty = ty, am_kind = k\<rparr> # args)
             (classify_inputs X state_type subject codec seen rest)
       | None \<Rightarrow>
           if unsupported_shape ty then Inl (MacroError ''unsupported payload argument shape'')
           else if seen
           then Inl (MacroError ''service operations may have at most one payload argument'')
           else try_then (classify_payload ty codec) (\<lambda>p.
             map_ok (\<lambda>args. \<lparr>am_ident = ident, am_ty = ty, am_kind = ArgPayload p\<rparr> # args)
               (classify_inputs X state_type subject codec True rest))))"

definition classify_arguments ::
  "'tok syn_ops \<Rightarrow> 'tok impl_fn \<Rightarrow> rust_type \<Rightarrow> subject_model \<Rightarrow> wire_codec \<Rightarrow>
   macro_error + argument_model list" where
  "classify_arguments X method state_type subject default_codec =
     classify_inputs X state_type subject default_codec False (fn_inputs method)"

definition classify_response ::
  "'tok impl_fn \<Rightarrow> operation_options \<Rightarrow> macro_kind \<Rightarrow> response_model" where
  "classify_response method options kind =
     (let declared = (case fn_output method of None \<Rightarrow> TyTuple [] | Some ty \<Rightarrow> ty);
          (ok_type, error_type) =
            (case result_types declared of None \<Rightarrow> (declared, None) | Some (k, e) \<Rightarrow> (k, Some e));
          (optional, v) = (case option_inner ok_type of Some i \<Rightarrow> (True, i) | None \<Rightarrow> (False, ok_type));
          (encrypted, v) = (case encryption_inner v of Some i \<Rightarrow> (True, i) | None \<Rightarrow> (False, v));
          wire_type = (case oo_response options of Some t \<Rightarrow> t | None \<Rightarrow> response_wire_type v);
          (codec, wrapper) =
            (if kind = MConsumer then (WireEmpty, WrapDirect) else classify_response_value v)
      in \<lparr>rs_ok_type = ok_type, rs_error_type = error_type, rs_wire_type = wire_type,
          rs_codec = codec, rs_wrapper = wrapper,
          rs_optional = (if kind = MConsumer then False else optional),
          rs_encrypted = encrypted\<rparr>)"

section \<open>Building the model\<close>

definition operation_kind_of :: "'tok attribute \<Rightarrow> macro_kind option" where
  "operation_kind_of attr =
     (if at_ident attr = Some ''request'' then Some MRequest
      else if at_ident attr = Some ''publish'' then Some MPublish
      else if at_ident attr = Some ''subscribe'' then Some MSubscribe
      else if at_ident attr = Some ''consumer'' then Some MConsumer
      else None)"

definition service_ident :: "rust_type \<Rightarrow> macro_error + string" where
  "service_ident ty =
     (case ty of
        TyPath qself leading segments \<Rightarrow>
          if qself \<or> length segments \<noteq> 1
          then Inl (MacroError ''service impl must target one unqualified type name'')
          else Inr (segment_ident (segments ! 0))
      | _ \<Rightarrow> Inl (MacroError ''service impl must target a named type''))"

definition with_defaults :: "service_defaults \<Rightarrow> operation_options \<Rightarrow> operation_options" where
  "with_defaults d o' =
     o'\<lparr>oo_concurrency := Some (case oo_concurrency o' of Some n \<Rightarrow> n | None \<Rightarrow> sd_concurrency d),
        oo_timeout_ms := (case oo_timeout_ms o' of Some n \<Rightarrow> Some n | None \<Rightarrow> sd_timeout_ms d),
        oo_queue := (case oo_queue o' of Some q \<Rightarrow> Some q | None \<Rightarrow> sd_queue d),
        oo_auth := (case oo_auth o' of Some a \<Rightarrow> Some a
                    | None \<Rightarrow> if sd_auth d \<noteq> IntentNone then Some (sd_auth d) else None)\<rparr>"

primrec clean_fn_arg :: "'tok fn_arg \<Rightarrow> 'tok fn_arg" where
  "clean_fn_arg Receiver = Receiver"
| "clean_fn_arg (TypedArg i ty attrs) =
     TypedArg i ty (filter (\<lambda>a. at_ident a \<noteq> Some ''header'') attrs)"

definition clean_method :: "'tok impl_fn \<Rightarrow> 'tok impl_fn" where
  "clean_method f =
     f\<lparr>fn_attrs := filter (\<lambda>a. operation_kind_of a = None) (fn_attrs f),
       fn_inputs := map clean_fn_arg (fn_inputs f)\<rparr>"

definition build_method ::
  "'tok syn_ops \<Rightarrow> service_args \<Rightarrow> 'tok impl_fn \<Rightarrow> macro_error + 'tok method_model" where
  "build_method X args method =
     (case List.map_filter (\<lambda>a. map_option (\<lambda>k. (k, a)) (operation_kind_of a)) (fn_attrs method) of
        [] \<Rightarrow> Inr (MethodOrdinary method)
      | [(kind, attr)] \<Rightarrow>
          if \<not> fn_async method \<and> kind \<noteq> MPublish
          then Inl (MacroError ''service handlers must be async'')
          else try_then (parse_operation_options X attr) (\<lambda>parsed.
            let options = with_defaults (sa_defaults args) parsed
            in try_then (build_subject X args (fn_ident method) kind (oo_filter options)
                   (oo_subject options)) (\<lambda>subject.
               try_then (classify_arguments X method (sa_state_type args) subject
                   (sd_codec (sa_defaults args))) (\<lambda>arguments.
               Inr (MethodOp
                 \<lparr>om_kind = kind, om_method = clean_method method, om_options = options,
                  om_subject = subject, om_arguments = arguments,
                  om_response = classify_response method options kind,
                  om_operation_index = None, om_consumer_index = None\<rparr>))))
      | _ \<Rightarrow> Inl (MacroError ''a method may declare only one service operation attribute''))"

fun build_methods ::
  "'tok syn_ops \<Rightarrow> service_args \<Rightarrow> 'tok impl_item list \<Rightarrow> macro_error + 'tok method_model list" where
  "build_methods X args [] = Inr []"
| "build_methods X args (ImplOther _ # rest) = build_methods X args rest"
| "build_methods X args (ImplFn f # rest) =
     try_then (build_method X args f) (\<lambda>m. map_ok (\<lambda>ms. m # ms) (build_methods X args rest))"

text \<open>Building strips the operation attributes of the methods that declare an operation.\<close>

primrec clean_item :: "'tok impl_item \<Rightarrow> 'tok impl_item" where
  "clean_item (ImplOther s) = ImplOther s"
| "clean_item (ImplFn f) =
     ImplFn (if list_ex (\<lambda>a. operation_kind_of a \<noteq> None) (fn_attrs f) then clean_method f else f)"

definition build_model ::
  "'tok syn_ops \<Rightarrow> service_args \<Rightarrow> 'tok item_impl \<Rightarrow> macro_error + 'tok service_model" where
  "build_model X args item =
     (if im_trait item then Inl (MacroError ''#[service] requires an inherent impl block'')
      else if im_generic item then Inl (MacroError ''service impl blocks cannot be generic'')
      else try_then (service_ident (im_self_ty item)) (\<lambda>ident.
        map_ok (\<lambda>methods.
            \<lparr>sv_args = args, sv_service_ident = ident, sv_state_type = sa_state_type args,
             sv_item_impl = item\<lparr>im_items := map clean_item (im_items item)\<rparr>,
             sv_methods = methods\<rparr>)
          (build_methods X args (im_items item))))"

text \<open>\<open>assign_indexes\<close>: operations and consumers are numbered separately, in order.\<close>

fun assign_indexes_loop :: "nat \<Rightarrow> nat \<Rightarrow> 'tok method_model list \<Rightarrow> 'tok method_model list" where
  "assign_indexes_loop i j [] = []"
| "assign_indexes_loop i j (MethodOrdinary f # rest) =
     MethodOrdinary f # assign_indexes_loop i j rest"
| "assign_indexes_loop i j (MethodOp m # rest) =
     (if om_kind m = MConsumer
      then MethodOp (m\<lparr>om_consumer_index := Some j\<rparr>) # assign_indexes_loop i (Suc j) rest
      else MethodOp (m\<lparr>om_operation_index := Some i\<rparr>) # assign_indexes_loop (Suc i) j rest)"

definition assign_indexes :: "'tok service_model \<Rightarrow> 'tok service_model" where
  "assign_indexes m = m\<lparr>sv_methods := assign_indexes_loop 0 0 (sv_methods m)\<rparr>"

section \<open>The implementation block that is emitted\<close>

text \<open>
  \<open>cleaned_impl\<close> walks the items and the method models together; running out of models would
  be a panic of the macro, the value \<open>None\<close>.  \<open>allow\<close> is the attribute it adds to operations.
\<close>

fun cleaned_items ::
  "'tok attribute \<Rightarrow> 'tok impl_item list \<Rightarrow> 'tok method_model list \<Rightarrow> 'tok impl_item list option"
  where
  "cleaned_items allow [] ms = Some []"
| "cleaned_items allow (ImplOther s # items) ms =
     map_option (\<lambda>r. ImplOther s # r) (cleaned_items allow items ms)"
| "cleaned_items allow (ImplFn f # items) [] = None"
| "cleaned_items allow (ImplFn f # items) (m # ms) =
     map_option (\<lambda>r. ImplFn (case m of
         MethodOp op \<Rightarrow> (om_method op)\<lparr>fn_attrs := fn_attrs (om_method op) @ [allow]\<rparr>
       | MethodOrdinary g \<Rightarrow> g) # r) (cleaned_items allow items ms)"

definition cleaned_impl :: "'tok attribute \<Rightarrow> 'tok service_model \<Rightarrow> 'tok item_impl option" where
  "cleaned_impl allow m =
     map_option (\<lambda>items. (sv_item_impl m)\<lparr>im_items := items\<rparr>)
       (cleaned_items allow (im_items (sv_item_impl m)) (sv_methods m))"

lemma build_methods_cleaned:
  "build_methods X args items = Inr ms \<Longrightarrow>
   cleaned_items allow (map clean_item items) (assign_indexes_loop i j ms) \<noteq> None"
proof (induction X args items arbitrary: ms i j rule: build_methods.induct)
  case (3 X args f items)
  then obtain m rest where m: "build_method X args f = Inr m" "build_methods X args items = Inr rest"
    "ms = m # rest" by auto
  have "cleaned_items allow (map clean_item items) (assign_indexes_loop i' j' rest) \<noteq> None" for i' j'
    using 3 m by blast
  then show ?case by (cases m) (auto simp: m)
qed simp_all

lemma build_model_cleaned:
  "build_model X args item = Inr m \<Longrightarrow> cleaned_impl allow (assign_indexes m) \<noteq> None"
  by (auto simp: build_model_def cleaned_impl_def assign_indexes_def split: if_splits
      dest!: build_methods_cleaned [where i = 0 and j = 0 and allow = allow])

end
