(* ===== verification/Service_Validation.thy ===== *)
theory Service_Validation
  imports Service_Model
begin

text \<open>
  Compile-time validation of a service model (\<open>nats-micro-macros/src/service/validate.rs\<close>).
  The cargo features of the macro crate are the record \<open>features\<close>.
\<close>

record features =
  ft_json :: bool
  ft_protobuf :: bool
  ft_encryption :: bool
  ft_napi :: bool
  ft_test_util :: bool
  ft_test_jetstream :: bool

section \<open>Names, subjects and versions\<close>

definition validate_version :: "string \<Rightarrow> macro_error + unit" where
  "validate_version version =
     (let parts = split_on CHR ''.'' version
      in ensure (length parts = 3 \<and>
           list_all (\<lambda>part. part \<noteq> [] \<and> list_all is_ascii_digit part) parts)
           (MacroError ''service `version` must match x.x.x with ASCII digits''))"

definition token_byte :: "char \<Rightarrow> bool" where
  "token_byte c \<longleftrightarrow> is_ascii_alphanumeric c \<or> c \<in> set ''-_/:''"

definition validate_token :: "string \<Rightarrow> string \<Rightarrow> macro_error + unit" where
  "validate_token v label =
     ensure (v \<noteq> [] \<and> list_all token_byte v)
       (MacroError (''invalid '' @ label @ '' `'' @ v @ ''`''))"

definition subject_byte :: "char \<Rightarrow> bool" where
  "subject_byte c \<longleftrightarrow> is_ascii_alphanumeric c \<or> c \<in> set ''-_''"

text \<open>The loop over the segments; \<open>n\<close> is \<open>value.split('.').count()\<close>.\<close>

fun validate_subject_segments ::
  "nat \<Rightarrow> nat \<Rightarrow> string list \<Rightarrow> macro_error \<Rightarrow> macro_error + unit" where
  "validate_subject_segments n index [] e = Inr ()"
| "validate_subject_segments n index (seg # rest) e =
     (if seg = [] \<or> seg = ''>'' \<and> index + 1 \<noteq> n \<or>
         seg \<notin> {''*'', ''>''} \<and> \<not> list_all subject_byte seg
      then Inl e else validate_subject_segments n (Suc index) rest e)"

definition validate_subject :: "string \<Rightarrow> string \<Rightarrow> macro_error + unit" where
  "validate_subject v label =
     (if v = [] then Inl (MacroError (label @ '' cannot be empty''))
      else validate_subject_segments (length (split_on CHR ''.'' v)) 0 (split_on CHR ''.'' v)
             (MacroError (''invalid '' @ label @ '' `'' @ v @ ''`'')))"

section \<open>Types and codecs\<close>

function split_whitespace_from :: "string \<Rightarrow> string \<Rightarrow> string list" where
  "split_whitespace_from cur s =
     (case s of
        [] \<Rightarrow> (if cur = [] then [] else [cur])
      | c # cs \<Rightarrow>
          (case find (\<lambda>w. w \<noteq> [] \<and> take (length w) s = w) white_space of
             Some w \<Rightarrow>
               (if cur = [] then [] else [cur]) @ split_whitespace_from [] (drop (length w) s)
           | None \<Rightarrow> split_whitespace_from (cur @ [c]) cs))"
  by pat_completeness auto
termination
  by (relation "measure (\<lambda>(cur, s). length s)") (auto simp: find_Some_iff)

declare split_whitespace_from.simps [simp del]

lemma white_space_heads: "w \<in> set white_space \<Longrightarrow> w \<noteq> [] \<Longrightarrow> byte_of (hd w) \<le> 32 \<or> 128 \<le> byte_of (hd w)"
  by (auto simp: white_space_def byte_of_def)

lemma find_white_space_None:
  "32 < byte_of c \<Longrightarrow> byte_of c < 128 \<Longrightarrow>
   find (\<lambda>w. w \<noteq> [] \<and> take (length w) (c # cs) = w) white_space = None"
proof -
  assume c: "32 < byte_of c" "byte_of c < 128"
  have "take (length w) (c # cs) \<noteq> w" if "w \<in> set white_space" "w \<noteq> []" for w
    using white_space_heads [OF that] that(2) c by (cases w) auto
  then show ?thesis by (auto simp: find_None_iff)
qed

lemma split_whitespace_plain:
  "list_all (\<lambda>c. 32 < byte_of c \<and> byte_of c < 128) s \<Longrightarrow> cur @ s \<noteq> [] \<Longrightarrow>
   split_whitespace_from cur s = [cur @ s]"
proof (induction s arbitrary: cur)
  case (Cons c s)
  then show ?case using find_white_space_None [of c s]
    by (subst split_whitespace_from.simps) simp
qed (simp add: split_whitespace_from.simps)

definition type_contains_encrypted :: "'tok syn_ops \<Rightarrow> rust_type \<Rightarrow> bool" where
  "type_contains_encrypted X ty = (''Encrypted'' \<in> set (split_whitespace_from [] (so_render X ty)))"

definition validate_codec :: "features \<Rightarrow> wire_codec \<Rightarrow> macro_error + unit" where
  "validate_codec F codec =
     (if codec = WireJson \<and> \<not> ft_json F
      then Inl (MacroError ''JSON operations require the `json` feature'')
      else if codec = WireProtobuf \<and> \<not> ft_protobuf F
      then Inl (MacroError ''protobuf operations require the `protobuf` feature'')
      else Inr ())"

fun contains_text :: "string \<Rightarrow> string \<Rightarrow> bool" where
  "contains_text needle [] = (needle = [])"
| "contains_text needle (c # cs) =
     (take (length needle) (c # cs) = needle \<or> contains_text needle cs)"

definition validate_napi_type :: "'tok syn_ops \<Rightarrow> rust_type \<Rightarrow> macro_error + unit" where
  "validate_napi_type X ty =
     ensure (\<not> list_ex (\<lambda>u. contains_text u (so_render X ty))
         [''HashMap'', ''BTreeMap'', ''Rc'', ''Arc'', ''RequestMeta'', ''Headers''])
       (MacroError ''unsupported N-API wire type'')"

fun validate_all_units :: "('a \<Rightarrow> macro_error + unit) \<Rightarrow> 'a list \<Rightarrow> macro_error + unit" where
  "validate_all_units f [] = Inr ()"
| "validate_all_units f (x # xs) = try_then (f x) (\<lambda>_. validate_all_units f xs)"

lemma validate_all_units_iff: "validate_all_units f xs = Inr () \<longleftrightarrow> (\<forall>x \<in> set xs. f x = Inr ())"
  by (induction xs) auto

definition validate_napi_operation ::
  "'tok syn_ops \<Rightarrow> 'tok operation_model \<Rightarrow> macro_error + unit" where
  "validate_napi_operation X op =
     (if om_kind op \<notin> {MRequest, MPublish} then Inr ()
      else try_then
        (validate_all_units (\<lambda>a. case am_kind a of
             ArgSubject _ _ \<Rightarrow> validate_napi_type X (am_ty a)
           | ArgPayload _ \<Rightarrow> validate_napi_type X (am_ty a)
           | _ \<Rightarrow> Inr ()) (om_arguments op))
        (\<lambda>_. validate_napi_type X (rs_wire_type (om_response op))))"

definition validate_napi_model :: "'tok syn_ops \<Rightarrow> 'tok service_model \<Rightarrow> macro_error + unit" where
  "validate_napi_model X m = validate_all_units (validate_napi_operation X) (model_operations m)"

section \<open>Operations\<close>

fun validate_placeholders ::
  "argument_model list \<Rightarrow> string set \<Rightarrow> (string \<times> nat) list \<Rightarrow> macro_error + unit" where
  "validate_placeholders args seen [] = Inr ()"
| "validate_placeholders args seen ((name, _) # rest) =
     (if name \<in> seen
      then Inl (MacroError (''duplicate subject placeholder `'' @ name @ ''`''))
      else if \<not> list_ex (\<lambda>a. case am_kind a of ArgSubject n _ \<Rightarrow> n = name | _ \<Rightarrow> False) args
      then Inl (MacroError
        (''subject placeholder `'' @ name @ ''` requires a matching handler argument''))
      else validate_placeholders args (insert name seen) rest)"

definition is_reference :: "rust_type \<Rightarrow> bool" where
  "is_reference ty = (case ty of TyReference _ _ _ \<Rightarrow> True | _ \<Rightarrow> False)"

definition validate_argument ::
  "'tok syn_ops \<Rightarrow> features \<Rightarrow> rust_type \<Rightarrow> argument_model \<Rightarrow> macro_error + unit" where
  "validate_argument X F state_type a =
     (case am_kind a of
        ArgPayload p \<Rightarrow>
          if is_reference (am_ty a)
          then Inl (MacroError (''state reference does not match configured state `'' @
            so_render X state_type @ ''`''))
          else try_then (validate_codec F (pm_codec p)) (\<lambda>_.
            if type_contains_encrypted X (am_ty a) \<and> \<not> pm_encrypted p
            then Inl (MacroError
              ''`Encrypted<T>` must be the outer payload wrapper (or inside `Option`)'')
            else if pm_encrypted p \<and> \<not> ft_encryption F
            then Inl (MacroError ''encrypted operations require the `encryption` feature'')
            else Inr ())
      | _ \<Rightarrow> Inr ())"

definition auth_count :: "bool \<Rightarrow> 'tok operation_model \<Rightarrow> nat" where
  "auth_count optional op =
     length (filter (\<lambda>a. case am_kind a of ArgAuth _ b \<Rightarrow> b = optional | _ \<Rightarrow> False) (om_arguments op))"

definition validate_auth :: "'tok service_model \<Rightarrow> 'tok operation_model \<Rightarrow> macro_error + unit" where
  "validate_auth m op =
     (let required_count = auth_count False op;
          optional_count = auth_count True op;
          inferred = (if required_count > 0 then IntentRequired
            else if optional_count > 0 then IntentOptional else IntentNone);
          declared = (case oo_auth (om_options op) of
              Some a \<Rightarrow> a
            | None \<Rightarrow> if sd_auth (sa_defaults (sv_args m)) = IntentNone then inferred
                else sd_auth (sa_defaults (sv_args m)))
      in case declared of
           IntentRequired \<Rightarrow>
             ensure (required_count \<noteq> 0)
               (MacroError ''`auth = required` requires an `Auth<T>` argument'')
         | IntentOptional \<Rightarrow>
             ensure (\<not> (optional_count = 0 \<or> required_count > 0))
               (MacroError
                 ''`auth = optional` requires `Option<Auth<T>>` and no required auth argument'')
         | IntentNone \<Rightarrow>
             ensure (\<not> required_count + optional_count > 0)
               (MacroError ''`auth = none` cannot be combined with auth arguments''))"

definition is_static_str :: "rust_type \<Rightarrow> bool" where
  "is_static_str ty =
     (case ty of TyReference lifetime m elem \<Rightarrow>
        path_is_ident ''str'' elem \<and> lifetime = Some ''static'' | _ \<Rightarrow> False)"

definition validate_response :: "'tok operation_model \<Rightarrow> macro_error + unit" where
  "validate_response op =
     (let response = om_response op;
          v = (if rs_optional response
               then (case option_inner (rs_ok_type response) of
                       Some t \<Rightarrow> t | None \<Rightarrow> rs_ok_type response)
               else rs_ok_type response)
      in if rs_optional response \<and> rs_wrapper response = WrapResponse
         then Inl (MacroError ''Option<Response> is unsupported; return Response directly'')
         else if is_reference v \<and> \<not> is_static_str v \<and> oo_response (om_options op) = None
         then Inl (MacroError ''borrowed server responses require `response = OwnedType`'')
         else Inr ())"

definition validate_consumer :: "'tok operation_model \<Rightarrow> macro_error + unit" where
  "validate_consumer op =
     (let o' = om_options op
      in try_then (ok_or (MacroError ''consumer requires `stream = \"...\"`'') (oo_stream o'))
           (\<lambda>stream.
         try_then (ok_or (MacroError ''consumer requires `durable = \"...\"`'') (oo_durable o'))
           (\<lambda>durable.
         if sm_pattern (om_subject op) = []
         then Inl (MacroError ''consumer requires `filter = \"...\"`'')
         else
           try_then (validate_token stream ''consumer stream'') (\<lambda>_.
           try_then (validate_token durable ''consumer durable'') (\<lambda>_.
             if oo_ack_wait_ms o' = Some 0
             then Inl (MacroError ''consumer ack_wait must be greater than zero'')
             else ensure (0 \<notin> set (oo_backoff_ms o'))
               (MacroError ''consumer backoff durations must be greater than zero''))))))"

definition validate_encryption ::
  "'tok syn_ops \<Rightarrow> features \<Rightarrow> 'tok operation_model \<Rightarrow> macro_error + unit" where
  "validate_encryption X F op =
     (let response = om_response op
      in if type_contains_encrypted X (rs_ok_type response) \<and> \<not> rs_encrypted response
         then Inl (MacroError
           ''`Encrypted<T>` must be the outer response wrapper (or inside `Option`)'')
         else if rs_encrypted response \<and> \<not> ft_encryption F
         then Inl (MacroError ''encrypted operations require the `encryption` feature'')
         else ensure (\<not> (operation_is_encrypted op \<and> om_kind op \<notin> {MRequest, MPublish}))
           (MacroError
             ''encrypted payloads are supported only for request and publish operations''))"

definition validate_operation ::
  "'tok syn_ops \<Rightarrow> features \<Rightarrow> 'tok service_model \<Rightarrow> 'tok operation_model \<Rightarrow> macro_error + unit"
  where
  "validate_operation X F m op =
     (let d = sa_defaults (sv_args m);
          concurrency = (case oo_concurrency (om_options op) of Some n \<Rightarrow> n | None \<Rightarrow> sd_concurrency d);
          queue = (case oo_queue (om_options op) of Some q \<Rightarrow> Some q | None \<Rightarrow> sd_queue d)
      in try_then (ensure (concurrency \<noteq> 0) (MacroError ''concurrency must be greater than zero''))
           (\<lambda>_.
         try_then (case queue of Some q \<Rightarrow> validate_token q ''queue group'' | None \<Rightarrow> Inr ()) (\<lambda>_.
         try_then (validate_subject (sm_pattern (om_subject op)) ''subject'') (\<lambda>_.
         try_then (validate_placeholders (om_arguments op) {} (sm_placeholders (om_subject op))) (\<lambda>_.
         try_then (validate_all_units (validate_argument X F (sv_state_type m)) (om_arguments op)) (\<lambda>_.
         try_then (validate_auth m op) (\<lambda>_.
         try_then (validate_codec F (rs_codec (om_response op))) (\<lambda>_.
         try_then (validate_response op) (\<lambda>_.
         try_then (validate_encryption X F op) (\<lambda>_.
           if om_kind op = MConsumer then validate_consumer op else Inr ()))))))))))"

section \<open>Services\<close>

fun validate_methods ::
  "'tok syn_ops \<Rightarrow> features \<Rightarrow> 'tok service_model \<Rightarrow> string set \<Rightarrow> string set \<Rightarrow>
   'tok method_model list \<Rightarrow> macro_error + unit" where
  "validate_methods X F m rust_names subjects [] = Inr ()"
| "validate_methods X F m rust_names subjects (MethodOrdinary f # rest) =
     validate_methods X F m rust_names subjects rest"
| "validate_methods X F m rust_names subjects (MethodOp op # rest) =
     (let name = fn_ident (om_method op); pat = sm_pattern (om_subject op)
      in if name \<in> rust_names
         then Inl (MacroError (''duplicate normalized operation name `'' @ name @ ''`''))
         else try_then (validate_operation X F m op) (\<lambda>_.
           if om_kind op = MConsumer
           then validate_methods X F m (insert name rust_names) subjects rest
           else if pat \<in> subjects
           then Inl (MacroError (''duplicate operation subject `'' @ pat @ ''`''))
           else validate_methods X F m (insert name rust_names) (insert pat subjects) rest))"

definition validate_service ::
  "'tok syn_ops \<Rightarrow> features \<Rightarrow> 'tok service_model \<Rightarrow> macro_error + unit" where
  "validate_service X F m =
     try_then (validate_version (sa_version (sv_args m))) (\<lambda>_.
     try_then (validate_token (sa_name (sv_args m)) ''service name'') (\<lambda>_.
     try_then (validate_subject (sa_prefix (sv_args m)) ''service prefix'') (\<lambda>_.
     try_then (ensure (sd_concurrency (sa_defaults (sv_args m)) \<noteq> 0)
         (MacroError ''default concurrency must be greater than zero'')) (\<lambda>_.
     try_then (validate_methods X F m {} {} (sv_methods m)) (\<lambda>_.
       if sa_napi (sv_args m) then
         if \<not> ft_napi F
         then Inl (MacroError ''`napi` service generation requires the `napi` feature'')
         else validate_napi_model X m
       else Inr ())))))"

section \<open>What an accepted service satisfies\<close>

lemma model_operations_Cons [simp]:
  "List.map_filter method_operation (MethodOp op # ms) = op # List.map_filter method_operation ms"
  "List.map_filter method_operation (MethodOrdinary f # ms) = List.map_filter method_operation ms"
  "List.map_filter method_operation [] = []"
  by (simp_all add: List.map_filter_def)

definition served :: "'tok operation_model \<Rightarrow> bool" where
  "served op \<longleftrightarrow> om_kind op \<noteq> MConsumer"

lemma validate_methods_Inr:
  "validate_methods X F m names subjects ms = Inr () \<Longrightarrow>
   (let ops = List.map_filter method_operation ms;
        patterns = map (\<lambda>op. sm_pattern (om_subject op)) (filter served ops)
    in (\<forall>op \<in> set ops. validate_operation X F m op = Inr ()) \<and>
       distinct (map (\<lambda>op. fn_ident (om_method op)) ops) \<and>
       names \<inter> (\<lambda>op. fn_ident (om_method op)) ` set ops = {} \<and>
       distinct patterns \<and> subjects \<inter> set patterns = {})"
proof (induction X F m names subjects ms rule: validate_methods.induct)
  case (3 X F m names subjects op rest)
  let ?name = "fn_ident (om_method op)" and ?pat = "sm_pattern (om_subject op)"
  have op: "?name \<notin> names" "validate_operation X F m op = Inr ()"
    using "3.prems" by (auto simp: Let_def split: if_splits)
  show ?case
  proof (cases "om_kind op = MConsumer")
    case True
    then have "validate_methods X F m (insert ?name names) subjects rest = Inr ()"
      using "3.prems" op by (simp add: Let_def)
    from "3.IH"(1) [OF refl refl op(1) True this] show ?thesis
      using op True by (auto simp: Let_def served_def)
  next
    case False
    then have fresh: "?pat \<notin> subjects"
      and "validate_methods X F m (insert ?name names) (insert ?pat subjects) rest = Inr ()"
      using "3.prems" op by (auto simp: Let_def split: if_splits)
    from "3.IH"(2) [OF refl refl op(1) False fresh this(2)] show ?thesis
      using op False fresh by (auto simp: Let_def served_def)
  qed
qed (simp_all add: Let_def)

end
