(* ===== verification/Service_Metadata.thy ===== *)
theory Service_Metadata
  imports Service_Validation App_Services
begin

text \<open>
  The metadata the \<open>#[service]\<close> macro emits (\<open>nats-micro-macros/src/service/metadata.rs\<close> and
  \<open>contract.rs\<close>): the service, operation and consumer specifications as the constants they
  evaluate to, and what compile-time validation guarantees about them.
\<close>

section \<open>Specifications\<close>

primrec spec_kind :: "macro_kind \<Rightarrow> operation_kind" where
  "spec_kind MRequest = KRequest"
| "spec_kind MPublish = KPublish"
| "spec_kind MSubscribe = KSubscribe"
| "spec_kind MConsumer = KConsumer"

primrec codec_tokens :: "wire_codec \<Rightarrow> codec" where
  "codec_tokens WireJson = CJson"
| "codec_tokens WireProtobuf = CProtobuf"
| "codec_tokens WireRaw = CRaw"
| "codec_tokens WireUtf8 = CUtf8"
| "codec_tokens WireEmpty = CEmpty"

definition spec_auth_policy :: "'tok operation_model \<Rightarrow> auth_policy" where
  "spec_auth_policy op =
     (let inferred =
        (if list_ex (\<lambda>a. case am_kind a of ArgAuth _ optional \<Rightarrow> \<not> optional | _ \<Rightarrow> False) (om_arguments op)
         then IntentRequired
         else if list_ex (\<lambda>a. case am_kind a of ArgAuth _ optional \<Rightarrow> optional | _ \<Rightarrow> False)
             (om_arguments op)
         then IntentOptional else IntentNone)
      in case (case oo_auth (om_options op) of Some a \<Rightarrow> a | None \<Rightarrow> inferred) of
           IntentNone \<Rightarrow> AuthNone | IntentOptional \<Rightarrow> AuthOptional | IntentRequired \<Rightarrow> AuthRequired)"

fun find_payload :: "argument_model list \<Rightarrow> (rust_type \<times> payload_model) option" where
  "find_payload [] = None"
| "find_payload (a # rest) =
     (case am_kind a of ArgPayload p \<Rightarrow> Some (am_ty a, p) | _ \<Rightarrow> find_payload rest)"

text \<open>The segment is emitted with \<open>as u16\<close>, which keeps its low 16 bits.\<close>

fun param_specs :: "'tok syn_ops \<Rightarrow> argument_model list \<Rightarrow> param_spec list" where
  "param_specs X [] = []"
| "param_specs X (a # rest) =
     (case am_kind a of
        ArgSubject name i \<Rightarrow>
          \<lparr>ps_name = name, ps_segment = i mod 65536, ps_rust_type = so_render X (am_ty a)\<rparr>
            # param_specs X rest
      | _ \<Rightarrow> param_specs X rest)"

definition spec_of_operation ::
  "'tok syn_ops \<Rightarrow> 'tok operation_model \<Rightarrow> string \<Rightarrow> string \<Rightarrow> operation_spec" where
  "spec_of_operation X op service_name service_version =
     \<lparr>os_service_name = service_name, os_service_version = service_version,
      os_rust_name = fn_ident (om_method op),
      os_kind = spec_kind (om_kind op),
      os_subject = sm_pattern (om_subject op),
      os_subject_template = sm_template (om_subject op),
      os_queue_group = oo_queue (om_options op),
      os_request_codec =
        (case find_payload (om_arguments op) of
           Some (_, p) \<Rightarrow> codec_tokens (pm_codec p) | None \<Rightarrow> codec_tokens WireEmpty),
      os_response_codec = codec_tokens (rs_codec (om_response op)),
      os_request_encrypted = request_encrypted op,
      os_response_encrypted = rs_encrypted (om_response op),
      os_request_type =
        (case find_payload (om_arguments op) of
           Some (ty, _) \<Rightarrow> Some (so_render X ty) | None \<Rightarrow> None),
      os_response_type =
        (if is_unit (rs_wire_type (om_response op)) then None
         else Some (so_render X (rs_wire_type (om_response op)))),
      os_error_type = map_option (so_render X) (rs_error_type (om_response op)),
      os_auth = spec_auth_policy op,
      os_concurrency = (case oo_concurrency (om_options op) of Some n \<Rightarrow> n | None \<Rightarrow> 256),
      os_params = param_specs X (om_arguments op)\<rparr>"

definition spec_of_consumer :: "'tok operation_model \<Rightarrow> string \<Rightarrow> string \<Rightarrow> consumer_spec" where
  "spec_of_consumer op service_name service_version =
     \<lparr>cs_service_name = service_name, cs_service_version = service_version,
      cs_rust_name = fn_ident (om_method op),
      cs_stream = (case oo_stream (om_options op) of Some s \<Rightarrow> s | None \<Rightarrow> []),
      cs_durable = (case oo_durable (om_options op) of Some s \<Rightarrow> s | None \<Rightarrow> []),
      cs_filter_subject = sm_pattern (om_subject op),
      cs_concurrency = (case oo_concurrency (om_options op) of Some n \<Rightarrow> n | None \<Rightarrow> 256),
      cs_ack_wait_ms = (case oo_ack_wait_ms (om_options op) of Some n \<Rightarrow> n | None \<Rightarrow> 30000),
      cs_max_deliver = (case oo_max_deliver (om_options op) of Some n \<Rightarrow> n | None \<Rightarrow> 5),
      cs_backoff_ms = oo_backoff_ms (om_options op)\<rparr>"

definition spec_of_service :: "'tok syn_ops \<Rightarrow> 'tok service_model \<Rightarrow> service_spec" where
  "spec_of_service X m =
     (let name = sa_name (sv_args m); version = sa_version (sv_args m)
      in \<lparr>ss_name = name, ss_version = version,
          ss_description = sa_description (sv_args m), ss_prefix = sa_prefix (sv_args m),
          ss_operations = map (\<lambda>op. spec_of_operation X op name version)
            (filter (\<lambda>op. om_kind op \<noteq> MConsumer) (model_operations m)),
          ss_consumers = map (\<lambda>op. spec_of_consumer op name version)
            (filter (\<lambda>op. om_kind op = MConsumer) (model_operations m))\<rparr>)"

text \<open>The generated \<open>contract()\<close>.\<close>

definition generated_contract :: "'tok syn_ops \<Rightarrow> 'tok service_model \<Rightarrow> service_contract" where
  "generated_contract X m = \<lparr>sc_service = spec_of_service X m\<rparr>"

text \<open>
  An operation marker: the method's name in upper snake case (\<open>heck\<close>, the argument) with the
  operation's index and the specification found there; \<open>None\<close> is the macro's panic or an
  index outside the array, which the compiler rejects.
\<close>

definition operation_marker ::
  "(string \<Rightarrow> string) \<Rightarrow> 'tok syn_ops \<Rightarrow> 'tok service_model \<Rightarrow> 'tok operation_model \<Rightarrow>
   (string \<times> nat \<times> operation_spec) option" where
  "operation_marker shouty X m op =
     (case om_operation_index op of
        None \<Rightarrow> None
      | Some i \<Rightarrow>
          if i < length (ss_operations (spec_of_service X m))
          then Some (shouty (fn_ident (om_method op)), i, ss_operations (spec_of_service X m) ! i)
          else None)"

section \<open>What validation guarantees\<close>

lemma validate_version_semver: "validate_version v = Inr () \<Longrightarrow> valid_semver v"
proof -
  assume "validate_version v = Inr ()"
  then have v: "length (split_on CHR ''.'' v) = 3"
    "list_all (\<lambda>part. part \<noteq> [] \<and> list_all is_ascii_digit part) (split_on CHR ''.'' v)"
    by (simp_all add: validate_version_def Let_def)
  then obtain a b c where "split_on CHR ''.'' v = [a, b, c]"
    by (auto simp: numeral_3_eq_3 length_Suc_conv)
  with v(2) show ?thesis by (intro valid_semver_digits3 [of v a b c]) auto
qed

lemma validate_operation_wf:
  assumes "validate_operation X F m op = Inr ()"
  shows "sm_pattern (om_subject op) \<noteq> []"
    and "(case oo_concurrency (om_options op) of Some n \<Rightarrow> n | None \<Rightarrow> 256) \<noteq> (0::nat)"
    and "om_kind op = MConsumer \<Longrightarrow>
      (\<exists>s. oo_stream (om_options op) = Some s \<and> s \<noteq> []) \<and>
      (\<exists>s. oo_durable (om_options op) = Some s \<and> s \<noteq> [])"
  using assms
  by (auto simp: validate_operation_def Let_def validate_subject_def validate_consumer_def
      validate_token_def split: if_splits option.splits)

lemma validate_service_operations:
  assumes "validate_service X F m = Inr ()"
  shows "op \<in> set (model_operations m) \<Longrightarrow> validate_operation X F m op = Inr ()"
    and "distinct (map (\<lambda>op. sm_pattern (om_subject op)) (filter served (model_operations m)))"
    and "distinct (map (\<lambda>op. fn_ident (om_method op)) (model_operations m))"
    and "validate_version (sa_version (sv_args m)) = Inr ()"
    and "sa_name (sv_args m) \<noteq> []"
proof -
  have "validate_methods X F m {} {} (sv_methods m) = Inr ()"
    using assms by (auto simp: validate_service_def)
  from validate_methods_Inr [OF this]
  show "op \<in> set (model_operations m) \<Longrightarrow> validate_operation X F m op = Inr ()"
    and "distinct (map (\<lambda>op. sm_pattern (om_subject op)) (filter served (model_operations m)))"
    and "distinct (map (\<lambda>op. fn_ident (om_method op)) (model_operations m))"
    by (simp_all add: Let_def model_operations_def)
  show "validate_version (sa_version (sv_args m)) = Inr ()" "sa_name (sv_args m) \<noteq> []"
    using assms by (auto simp: validate_service_def validate_token_def)
qed

lemma spec_of_service_sel [simp]:
  "ss_name (spec_of_service X m) = sa_name (sv_args m)"
  "ss_version (spec_of_service X m) = sa_version (sv_args m)"
  "map os_subject (ss_operations (spec_of_service X m)) =
     map (\<lambda>op. sm_pattern (om_subject op)) (filter served (model_operations m))"
  "set (ss_operations (spec_of_service X m)) =
     (\<lambda>op. spec_of_operation X op (sa_name (sv_args m)) (sa_version (sv_args m))) `
       {op \<in> set (model_operations m). om_kind op \<noteq> MConsumer}"
  "set (ss_consumers (spec_of_service X m)) =
     (\<lambda>op. spec_of_consumer op (sa_name (sv_args m)) (sa_version (sv_args m))) `
       {op \<in> set (model_operations m). om_kind op = MConsumer}"
  by (auto simp: spec_of_service_def Let_def spec_of_operation_def served_def [abs_def])

text \<open>
  C28: what the macro accepts, the tools and the runtime accept.  If \<open>#[service]\<close> validates a
  service, its generated contract passes \<open>ContractDocument::validate\<close>, and at start the
  service alone passes the service set check if and only if no two of its consumers share a
  stream and durable, which is the one condition the macro leaves to the runtime.
\<close>

theorem accepted_services_have_valid_contracts:
  assumes "validate_service X F m = Inr ()"
  shows "validate_document (document_from_contract (generated_contract X m)) = Inr () \<and>
    (validate_service_set [spec_of_service X m] = Inr ()) =
      distinct (map (\<lambda>op. (oo_stream (om_options op), oo_durable (om_options op)))
        (filter (\<lambda>op. om_kind op = MConsumer) (model_operations m)))"
proof -
  note ok = validate_service_operations [OF assms]
  have ops: "operation_wf (operation_to_contract s)" if "s \<in> set (ss_operations (spec_of_service X m))" for s
    using that validate_operation_wf(1,2) [OF ok(1)]
    by (auto simp: operation_wf_def spec_of_operation_def)
  have cons: "consumer_wf (consumer_to_contract s)" if "s \<in> set (ss_consumers (spec_of_service X m))" for s
    using that validate_operation_wf [OF ok(1)]
    by (fastforce simp: consumer_wf_def spec_of_consumer_def)
  have doc: "validate_document (document_from_contract (generated_contract X m)) = Inr ()"
    unfolding validate_document_wf_iff
    using validate_version_semver [OF ok(4)] ok(2,5) ops cons
    by (auto simp: generated_contract_def contract_operations_def contract_consumers_def
        list_all_iff comp_def)
  let ?cs = "filter (\<lambda>op. om_kind op = MConsumer) (model_operations m)"
  have key: "map (\<lambda>c. (cs_stream c, cs_durable c)) (ss_consumers (spec_of_service X m)) =
      map (\<lambda>(s, d). (the s, the d))
        (map (\<lambda>op. (oo_stream (om_options op), oo_durable (om_options op))) ?cs)"
    using validate_operation_wf(3) [OF ok(1)]
    by (fastforce simp: spec_of_service_def Let_def spec_of_consumer_def)
  have inj: "inj_on (\<lambda>(s, d). (the s, the d))
      (set (map (\<lambda>op. (oo_stream (om_options op), oo_durable (om_options op))) ?cs))"
    using validate_operation_wf(3) [OF ok(1)]
    by (intro inj_on_inverseI [where g = "\<lambda>(s, d). (Some s, Some d)"]) fastforce
  show ?thesis
    using doc ok(2) inj
    by (simp add: validate_service_set_distinct service_subjects_def service_consumer_keys_def
        key distinct_map del: map_map)
qed

text \<open>A service with one request \<open>get(body: Text) -> String\<close>, for the witnesses.\<close>

definition demo_type :: "string \<Rightarrow> rust_type" where
  "demo_type i = TyPath False False [Segment i NoArguments]"

definition demo_args :: service_args where
  "demo_args =
     \<lparr>sa_name = ''demo'', sa_version = ''1.0.0'', sa_description = [], sa_prefix = ''demo'',
      sa_state_type = TyTuple [], sa_defaults = defaults_default, sa_napi = False\<rparr>"

definition demo_method :: "string impl_fn" where
  "demo_method =
     \<lparr>fn_ident = ''get'', fn_async = True,
      fn_attrs = [\<lparr>at_ident = Some ''request'', at_list = None\<rparr>],
      fn_inputs = [TypedArg (Some ''body'') (demo_type ''Text'') []],
      fn_output = Some (demo_type ''String'')\<rparr>"

definition demo_item :: "string item_impl" where
  "demo_item =
     \<lparr>im_trait = False, im_generic = False, im_self_ty = demo_type ''Demo'',
      im_items = [ImplFn demo_method]\<rparr>"

definition demo_features :: features where
  "demo_features =
     \<lparr>ft_json = True, ft_protobuf = False, ft_encryption = False, ft_napi = False,
      ft_test_util = True, ft_test_jetstream = True\<rparr>"

definition demo_operation :: "string operation_model" where
  "demo_operation =
     \<lparr>om_kind = MRequest, om_method = clean_method demo_method,
      om_options = with_defaults defaults_default options_default,
      om_subject = \<lparr>sm_template = ''demo.v1.get'', sm_pattern = ''demo.v1.get'', sm_placeholders = []\<rparr>,
      om_arguments = [\<lparr>am_ident = ''body'', am_ty = demo_type ''Text'',
        am_kind = ArgPayload \<lparr>pm_codec = WireUtf8, pm_wrapper = WrapText, pm_optional = False,
          pm_encrypted = False, pm_decoded_type = None\<rparr>\<rparr>],
      om_response = \<lparr>rs_ok_type = demo_type ''String'', rs_error_type = None,
        rs_wire_type = demo_type ''String'', rs_codec = WireRaw, rs_wrapper = WrapDirect,
        rs_optional = False, rs_encrypted = False\<rparr>,
      om_operation_index = None, om_consumer_index = None\<rparr>"

definition demo_service :: "string service_model" where
  "demo_service =
     \<lparr>sv_args = demo_args, sv_service_ident = ''Demo'', sv_state_type = TyTuple [],
      sv_item_impl = demo_item\<lparr>im_items := [ImplFn (clean_method demo_method)]\<rparr>,
      sv_methods = [MethodOp demo_operation]\<rparr>"

lemma demo_build_method: "build_method demo_syn demo_args demo_method = Inr (MethodOp demo_operation)"
  by code_simp

lemma demo_build_model: "build_model demo_syn demo_args demo_item = Inr demo_service"
  using demo_build_method
  by (simp add: build_model_def demo_item_def demo_service_def service_ident_def demo_type_def
      demo_args_def operation_kind_of_def)
    (simp add: demo_method_def operation_kind_of_def)

lemma demo_plain:
  "\<not> type_contains_encrypted demo_syn (demo_type ''Text'')"
  "\<not> type_contains_encrypted demo_syn (demo_type ''String'')"
  by (simp_all add: type_contains_encrypted_def demo_syn_def demo_type_def last_ident_def
      last_segment_def split_whitespace_plain byte_of_def)

lemma demo_validate: "validate_service demo_syn demo_features demo_service = Inr ()"
proof -
  have parts: "validate_subject ''demo.v1.get'' ''subject'' = Inr ()"
    "validate_subject ''demo'' ''service prefix'' = Inr ()"
    "validate_version ''1.0.0'' = Inr ()" "validate_token ''demo'' ''service name'' = Inr ()"
    "validate_auth demo_service demo_operation = Inr ()"
    "validate_response demo_operation = Inr ()"
    by code_simp+
  have "validate_operation demo_syn demo_features demo_service demo_operation = Inr ()"
    using demo_plain parts
    by (simp add: validate_operation_def Let_def)
      (simp add: demo_operation_def validate_argument_def validate_codec_def validate_encryption_def
        with_defaults_def options_default_def defaults_default_def demo_features_def demo_type_def
        is_reference_def operation_is_encrypted_def request_encrypted_def demo_service_def demo_args_def)
  then show ?thesis
    using parts
    by (simp add: validate_service_def demo_service_def demo_args_def defaults_default_def Let_def)
qed

theorem accepted_services_have_valid_contracts_witness:
  "validate_document (document_from_contract (generated_contract demo_syn demo_service)) = Inr ()"
  using accepted_services_have_valid_contracts [OF demo_validate] by simp

end
