(* ===== verification/Generated_Service.thy ===== *)
theory Generated_Service
  imports Service_Metadata Local_Transport
begin

text \<open>
  The server code that \<open>#[service]\<close> generates
  (\<open>nats-micro-macros/src/service/{dispatch,consumer,local,startup}.rs\<close>).  Generation and
  meaning are two steps, as in the program: the generator yields the emitted expressions as
  data (\<open>None\<close> where it would panic), and the \<open>eval\<close> functions run them on a request.  What
  the user's types provide is the record \<open>user_ops\<close>.
\<close>

section \<open>Emitted expressions\<close>

datatype decode_expr =
    DecBody | DecText | DecJson rust_type | DecProto rust_type | DecUnit
  | DecCopyBytes | DecToVec | DecTextOwned | DecRawBody | DecRequest

definition payload_decode :: "rust_type \<Rightarrow> payload_model \<Rightarrow> decode_expr option" where
  "payload_decode ty p =
     (case pm_wrapper p of
        WrapBody \<Rightarrow> Some DecBody
      | WrapText \<Rightarrow> Some DecText
      | WrapJson \<Rightarrow> map_option DecJson (pm_decoded_type p)
      | WrapProto \<Rightarrow> map_option DecProto (pm_decoded_type p)
      | WrapResponse \<Rightarrow> Some DecRequest
      | WrapDirect \<Rightarrow>
          (let value_type = (case pm_decoded_type p of Some t \<Rightarrow> t | None \<Rightarrow> ty)
           in Some (case pm_codec p of
                WireJson \<Rightarrow> DecJson value_type
              | WireProtobuf \<Rightarrow> DecProto value_type
              | WireUtf8 \<Rightarrow> DecText
              | WireEmpty \<Rightarrow> DecUnit
              | WireRaw \<Rightarrow>
                  (if last_ident value_type = Some ''Bytes'' then DecCopyBytes
                   else if last_ident value_type = Some ''Vec'' then DecToVec
                   else if last_ident value_type = Some ''String'' then DecTextOwned
                   else DecRawBody))))"

datatype binding =
    BindState
  | BindStateRef rust_type
  | BindSubject rust_type string nat
  | BindHeader string bool
  | BindHeaders
  | BindRequestMeta
  | BindAuth rust_type bool
  | BindPayload decode_expr bool

definition argument_binding :: "argument_model \<Rightarrow> binding option" where
  "argument_binding a =
     (case am_kind a of
        ArgState \<Rightarrow> Some BindState
      | ArgStateRef inner \<Rightarrow> Some (BindStateRef inner)
      | ArgSubject name i \<Rightarrow> Some (BindSubject (am_ty a) name i)
      | ArgHeader name optional \<Rightarrow> Some (BindHeader name optional)
      | ArgHeaders \<Rightarrow> Some BindHeaders
      | ArgRequestMeta \<Rightarrow> Some BindRequestMeta
      | ArgAuth claims optional \<Rightarrow> Some (BindAuth claims optional)
      | ArgPayload p \<Rightarrow> map_option (\<lambda>d. BindPayload d (pm_optional p)) (payload_decode (am_ty a) p))"

fun all_some :: "'a option list \<Rightarrow> 'a list option" where
  "all_some [] = Some []"
| "all_some (None # xs) = None"
| "all_some (Some x # xs) = map_option (\<lambda>r. x # r) (all_some xs)"

definition argument_bindings :: "'tok operation_model \<Rightarrow> binding list option" where
  "argument_bindings op = all_some (map argument_binding (om_arguments op))"

datatype encode_expr = EncResponse | EncJson | EncProto | EncEmpty | EncBytes

definition encode_value :: "rust_type \<Rightarrow> wire_codec \<Rightarrow> wrapper \<Rightarrow> encode_expr" where
  "encode_value wire_type codec wrapper =
     (case wrapper of
        WrapResponse \<Rightarrow> EncResponse
      | WrapJson \<Rightarrow> EncJson
      | WrapProto \<Rightarrow> EncProto
      | WrapDirect \<Rightarrow>
          (if is_unit wire_type then EncEmpty
           else case codec of
             WireJson \<Rightarrow> EncJson | WireProtobuf \<Rightarrow> EncProto | WireRaw \<Rightarrow> EncBytes
           | WireUtf8 \<Rightarrow> EncBytes | WireEmpty \<Rightarrow> EncEmpty)
      | WrapBody \<Rightarrow> EncBytes
      | WrapText \<Rightarrow> EncBytes)"

section \<open>Values and what the user's types provide\<close>

datatype 'v payload_value = PvUser 'v | PvText string | PvBytes bytes | PvUnit

datatype ('v, 'h) argument_value =
    VState
  | VUser 'v
  | VHeader "string option"
  | VHeaders "'h headers_view"
  | VMeta "'h request_meta"
  | VAuth "'v option"
  | VPayload "'v payload_value option"

text \<open>
  A \<open>Body\<close>, \<open>Text\<close>, \<open>Json\<close>, \<open>Proto\<close>, \<open>Encrypted\<close> or \<open>Auth\<close> wrapper is identified with its
  content.  A handler returns a value, possibly optional, or fails when it is declared to.
\<close>

datatype ('v, 'h) response_value = RvUser 'v | RvBytes bytes | RvUnit | RvResponse "'h response"

datatype ('v, 'h) handler_value = Direct "('v, 'h) response_value"
  | Optional "('v, 'h) response_value option"

datatype ('v, 'h, 'q, 'e) handler =
    Infallible "'q \<Rightarrow> ('v, 'h) argument_value list \<Rightarrow> ('v, 'h) handler_value"
  | Fallible "'q \<Rightarrow> ('v, 'h) argument_value list \<Rightarrow> 'e + ('v, 'h) handler_value"

record ('v, 'h, 'q, 'e) user_ops =
  uo_from_state :: "rust_type \<Rightarrow> 'q \<Rightarrow> 'v"
  uo_from_subject :: "rust_type \<Rightarrow> string \<Rightarrow> string + 'v"
  uo_from_json :: "rust_type \<Rightarrow> bytes \<Rightarrow> string + 'v"
  uo_from_proto :: "rust_type \<Rightarrow> bytes \<Rightarrow> string + 'v"
  uo_to_json :: "'v \<Rightarrow> serialized"
  uo_to_proto :: "'v \<Rightarrow> string + bytes"
  uo_claims :: "rust_type \<Rightarrow> 'h request_meta \<Rightarrow> auth_error + 'v"
  uo_into_service_error :: "'e \<Rightarrow> request_id \<Rightarrow> error_reply"

section \<open>Running the bindings\<close>

definition eval_decode ::
  "'j json_ops \<Rightarrow> ('v, 'h, 'q, 'e) user_ops \<Rightarrow> decode_expr \<Rightarrow> 'h request \<Rightarrow>
   error_reply + 'v payload_value" where
  "eval_decode J U d request =
     (case d of
        DecBody \<Rightarrow> Inr (PvBytes (rq_payload request))
      | DecText \<Rightarrow> map_ok PvText (decode_text J request)
      | DecJson ty \<Rightarrow> map_ok PvUser (decode_json J (uo_from_json U ty) request)
      | DecProto ty \<Rightarrow> map_ok PvUser (decode_proto J (uo_from_proto U ty) request)
      | DecUnit \<Rightarrow> Inr PvUnit
      | DecCopyBytes \<Rightarrow> Inr (PvBytes (rq_payload request))
      | DecToVec \<Rightarrow> Inr (PvBytes (rq_payload request))
      | DecTextOwned \<Rightarrow> map_ok PvText (decode_text J request)
      | DecRawBody \<Rightarrow> Inr (PvBytes (rq_payload request))
      | DecRequest \<Rightarrow> Inr (PvBytes (rq_payload request)))"

definition eval_binding ::
  "'j json_ops \<Rightarrow> 'h header_ops \<Rightarrow> ('v, 'h, 'q, 'e) user_ops \<Rightarrow> string \<Rightarrow> 'q \<Rightarrow> 'h request \<Rightarrow>
   binding \<Rightarrow> error_reply + ('v, 'h) argument_value" where
  "eval_binding J H U uuid q request b =
     (let existing = ri_existing (rq_request_id request)
      in case b of
           BindState \<Rightarrow> Inr VState
         | BindStateRef inner \<Rightarrow> Inr (VUser (uo_from_state U inner q))
         | BindSubject ty name i \<Rightarrow>
             try_then (ok_or (missing_subject_parameter J name existing)
                 (segment (rq_subject request) i)) (\<lambda>raw.
               map_ok VUser (map_err (\<lambda>e. invalid_subject_parameter J name e existing)
                 (uo_from_subject U ty raw)))
         | BindHeader name optional \<Rightarrow>
             (let v = headers_get H (rq_headers request) name
              in if optional then Inr (VHeader v)
                 else map_ok (\<lambda>s. VHeader (Some s)) (ok_or (missing_header J name existing) v))
         | BindHeaders \<Rightarrow> Inr (VHeaders (rq_headers request))
         | BindRequestMeta \<Rightarrow> Inr (VMeta (request_meta request))
         | BindAuth claims optional \<Rightarrow>
             (case uo_claims U claims (request_meta request) of
                Inr c \<Rightarrow> Inr (VAuth (Some c))
              | Inl e \<Rightarrow>
                  if optional \<and> e = MissingCredentials then Inr (VAuth None)
                  else Inl (into_service_error J into_nats_error_auth uuid e (rq_request_id request)))
         | BindPayload d optional \<Rightarrow>
             (if optional \<and> rq_payload request = [] then Inr (VPayload None)
              else map_ok (\<lambda>v. VPayload (Some v)) (eval_decode J U d request)))"

fun eval_bindings ::
  "'j json_ops \<Rightarrow> 'h header_ops \<Rightarrow> ('v, 'h, 'q, 'e) user_ops \<Rightarrow> string \<Rightarrow> 'q \<Rightarrow> 'h request \<Rightarrow>
   binding list \<Rightarrow> error_reply + ('v, 'h) argument_value list" where
  "eval_bindings J H U uuid q request [] = Inr []"
| "eval_bindings J H U uuid q request (b # bs) =
     try_then (eval_binding J H U uuid q request b) (\<lambda>v.
       map_ok (\<lambda>vs. v # vs) (eval_bindings J H U uuid q request bs))"

text \<open>\<open>handler_call\<close>: only a handler with an error type is matched on.\<close>

definition eval_call ::
  "('v, 'h, 'q, 'e) user_ops \<Rightarrow> ('v, 'h, 'q, 'e) handler \<Rightarrow> 'q \<Rightarrow> 'h request \<Rightarrow>
   ('v, 'h) argument_value list \<Rightarrow> error_reply + ('v, 'h) handler_value" where
  "eval_call U handler q request args =
     (case handler of
        Infallible f \<Rightarrow> Inr (f q args)
      | Fallible f \<Rightarrow>
          map_err (\<lambda>e. uo_into_service_error U e (rq_request_id request)) (f q args))"

section \<open>Encoding the response\<close>

definition eval_encode ::
  "'j json_ops \<Rightarrow> ('v, 'h, 'q, 'e) user_ops \<Rightarrow> encode_expr \<Rightarrow> ('v, 'h) response_value \<Rightarrow>
   error_reply + 'h response" where
  "eval_encode J U e v =
     (case (e, v) of
        (EncResponse, RvResponse r) \<Rightarrow> Inr r
      | (EncJson, RvUser x) \<Rightarrow> map_ok (\<lambda>(_, b). RPayload b) (encode_json J (uo_to_json U x))
      | (EncProto, RvUser x) \<Rightarrow> map_ok RPayload (encode_proto J (uo_to_proto U x))
      | (EncBytes, RvBytes b) \<Rightarrow> Inr (response_bytes b)
      | _ \<Rightarrow> Inr response_empty)"

definition encode_response ::
  "'j json_ops \<Rightarrow> 'h header_ops \<Rightarrow> ('v, 'h, 'q, 'e) user_ops \<Rightarrow> response_model \<Rightarrow>
   ('v, 'h) handler_value \<Rightarrow> error_reply + 'h response" where
  "encode_response J H U response v =
     (let e = encode_value (rs_wire_type response) (rs_codec response) (rs_wrapper response)
      in case v of
           Optional None \<Rightarrow> Inr (optional_none H)
         | Optional (Some x) \<Rightarrow> eval_encode J U e x
         | Direct x \<Rightarrow> eval_encode J U e x)"

definition request_body ::
  "'j json_ops \<Rightarrow> 'h header_ops \<Rightarrow> ('v, 'h, 'q, 'e) user_ops \<Rightarrow> string \<Rightarrow> binding list \<Rightarrow>
   response_model \<Rightarrow> ('v, 'h, 'q, 'e) handler \<Rightarrow> 'q \<Rightarrow> 'h request \<Rightarrow> error_reply + 'h response" where
  "request_body J H U uuid bindings response handler q request =
     try_then (eval_bindings J H U uuid q request bindings) (\<lambda>args.
     try_then (eval_call U handler q request args)
       (encode_response J H U response))"

section \<open>The generated endpoints\<close>

text \<open>\<open>RequestEndpoint::call\<close> of a plain request operation.\<close>

definition generated_request ::
  "'j json_ops \<Rightarrow> 'h header_ops \<Rightarrow> ('v, 'h, 'q, 'e) user_ops \<Rightarrow> string \<Rightarrow> 'tok operation_model \<Rightarrow>
   ('v, 'h, 'q, 'e) handler \<Rightarrow> ('q \<Rightarrow> 'h request \<Rightarrow> error_reply + 'h response) option" where
  "generated_request J H U uuid op handler =
     map_option (\<lambda>bindings. request_body J H U uuid bindings (om_response op) handler)
       (argument_bindings op)"

text \<open>\<open>EncryptedRequestEndpoint::call\<close>: prepare, run the body on the decrypted view, encrypt.\<close>

definition generated_encrypted_request ::
  "'j json_ops \<Rightarrow> crypto_ops \<Rightarrow> 'h header_ops \<Rightarrow> map_json \<Rightarrow> ('v, 'h, 'q, 'e) user_ops \<Rightarrow> string \<Rightarrow>
   bytes \<Rightarrow> 'tok operation_model \<Rightarrow> ('v, 'h, 'q, 'e) handler \<Rightarrow>
   ('q \<Rightarrow> service_key_pair \<Rightarrow> 'h request \<Rightarrow> error_reply + 'h response) option" where
  "generated_encrypted_request J C H M U uuid nonce op handler =
     map_option (\<lambda>bindings q keypair request.
       try_then (prepare J C H M keypair request (request_encrypted op)) (\<lambda>encrypted.
       try_then (request_body J H U uuid bindings (om_response op) handler q
           (encrypted_request_view H encrypted)) (\<lambda>response.
         if rs_encrypted (om_response op)
         then request_encrypt_response J C encrypted nonce response
         else Inr response)))
       (argument_bindings op)"

text \<open>\<open>SubscriptionHandler::call\<close> discards the handler's value.\<close>

definition generated_subscription ::
  "'j json_ops \<Rightarrow> 'h header_ops \<Rightarrow> ('v, 'h, 'q, 'e) user_ops \<Rightarrow> string \<Rightarrow> 'tok operation_model \<Rightarrow>
   ('v, 'h, 'q, 'e) handler \<Rightarrow> ('q \<Rightarrow> 'h request \<Rightarrow> error_reply + unit) option" where
  "generated_subscription J H U uuid op handler =
     map_option (\<lambda>bindings q request.
       try_then (eval_bindings J H U uuid q request bindings) (\<lambda>args.
         map_ok (\<lambda>_. ()) (eval_call U handler q request args)))
       (argument_bindings op)"

text \<open>
  \<open>ConsumerHandler::call\<close>: a unit result acknowledges, a \<open>ConsumerAction\<close> is returned, any
  other type is converted by its \<open>Into<ConsumerAction>\<close>, the argument \<open>into\<close>.
\<close>

definition consumer_action_of ::
  "(('v, 'h) handler_value \<Rightarrow> consumer_action) \<Rightarrow> rust_type \<Rightarrow> ('v, 'h) handler_value \<Rightarrow>
   consumer_action" where
  "consumer_action_of into ok_type v = (if is_unit ok_type then Ack else into v)"

definition generated_consumer ::
  "'j json_ops \<Rightarrow> 'h header_ops \<Rightarrow> ('v, 'h, 'q, 'e) user_ops \<Rightarrow> string \<Rightarrow>
   (('v, 'h) handler_value \<Rightarrow> consumer_action) \<Rightarrow> 'tok operation_model \<Rightarrow>
   ('v, 'h, 'q, 'e) handler \<Rightarrow> ('q \<Rightarrow> 'h request \<Rightarrow> error_reply + consumer_action) option" where
  "generated_consumer J H U uuid into op handler =
     map_option (\<lambda>bindings q request.
       try_then (eval_bindings J H U uuid q request bindings) (\<lambda>args.
         map_ok (consumer_action_of into (rs_ok_type (om_response op)))
           (eval_call U handler q request args)))
       (argument_bindings op)"

section \<open>Startup\<close>

datatype 'tok starter =
    SpawnRequest "'tok operation_model"
  | SpawnEncryptedRequest "'tok operation_model"
  | SpawnSubscription "'tok operation_model"
  | SpawnConsumer "'tok operation_model"

definition operation_starter :: "'tok operation_model \<Rightarrow> 'tok starter option" where
  "operation_starter op =
     (case om_kind op of
        MRequest \<Rightarrow> Some (if operation_is_encrypted op then SpawnEncryptedRequest op else SpawnRequest op)
      | MSubscribe \<Rightarrow> Some (SpawnSubscription op)
      | MConsumer \<Rightarrow> Some (SpawnConsumer op)
      | MPublish \<Rightarrow> None)"

definition generated_starters :: "'tok service_model \<Rightarrow> 'tok starter list" where
  "generated_starters m = List.map_filter operation_starter (model_operations m)"

section \<open>Local dispatch\<close>

text \<open>
  \<open>dispatch_local\<close> of the test utilities: one \<open>if\<close> per request operation in order.  The
  endpoint's call is the argument \<open>endpoint\<close>.
\<close>

fun local_routes ::
  "('tok operation_model \<Rightarrow> 'h local_request \<Rightarrow> 'h local_dispatch) \<Rightarrow> 'tok operation_model list \<Rightarrow>
   'h local_request \<Rightarrow> 'h local_dispatch" where
  "local_routes endpoint [] request = NotMatched request"
| "local_routes endpoint (op # ops) request =
     (if om_kind op = MRequest \<and>
         subject_matches (sm_pattern (om_subject op)) (local_subject_str (lr_subject request))
      then endpoint op request else local_routes endpoint ops request)"

fun local_consumer_routes ::
  "('tok operation_model \<Rightarrow> 'h local_request \<Rightarrow> 'h local_consumer_dispatch) \<Rightarrow>
   'tok operation_model list \<Rightarrow> string \<Rightarrow> 'h local_request \<Rightarrow> 'h local_consumer_dispatch" where
  "local_consumer_routes consumer [] durable request = CNotMatched request"
| "local_consumer_routes consumer (op # ops) durable request =
     (if om_kind op = MConsumer \<and>
         durable = (case oo_durable (om_options op) of Some d \<Rightarrow> d | None \<Rightarrow> [])
      then consumer op request else local_consumer_routes consumer ops durable request)"

text \<open>\<open>LocalService::dispatch_local\<close> selects the operation by its index.\<close>

fun index_routes ::
  "'j json_ops \<Rightarrow> ('tok operation_model \<Rightarrow> 'h request \<Rightarrow> error_reply + 'h response) \<Rightarrow>
   'tok operation_model list \<Rightarrow> nat \<Rightarrow> 'h request \<Rightarrow> error_reply + 'h response" where
  "index_routes J endpoint [] operation request =
     Inl (reply_framework J InvalidResponse ''operation is not a local request route''
       (ri_existing (rq_request_id request)))"
| "index_routes J endpoint (op # ops) operation request =
     (if om_kind op = MRequest \<and> om_operation_index op = Some operation then
        (if operation_is_encrypted op
         then Inl (reply_framework J NoEncryptionKey
           ''encrypted local dispatch requires TestApp with an encryption key''
           (ri_existing (rq_request_id request)))
         else endpoint op request)
      else index_routes J endpoint ops operation request)"

end
