(* ===== verification/Service_Typing.thy ===== *)
theory Service_Typing
  imports Generated_Service
begin

text \<open>
  Typing of the models the macro builds: what classification establishes of every operation,
  so that none of the \<open>expect\<close> calls of the generators can fire, and how the indexes of
  \<open>assign_indexes\<close> address the emitted specification arrays.
\<close>

section \<open>Classified arguments\<close>

definition payload_wf :: "payload_model \<Rightarrow> bool" where
  "payload_wf p \<longleftrightarrow>
     (case pm_wrapper p of
        WrapJson \<Rightarrow> pm_codec p = WireJson \<and> pm_decoded_type p \<noteq> None
      | WrapProto \<Rightarrow> pm_codec p = WireProtobuf \<and> pm_decoded_type p \<noteq> None
      | WrapBody \<Rightarrow> pm_codec p = WireRaw
      | WrapText \<Rightarrow> pm_codec p = WireUtf8
      | WrapDirect \<Rightarrow> pm_decoded_type p \<noteq> None
      | WrapResponse \<Rightarrow> False)"

definition argument_wf :: "subject_model \<Rightarrow> argument_model \<Rightarrow> bool" where
  "argument_wf subject a \<longleftrightarrow>
     (case am_kind a of
        ArgSubject name i \<Rightarrow> am_ident a = name \<and> (name, i) \<in> set (sm_placeholders subject)
      | ArgHeader name optional \<Rightarrow>
          is_str_reference (case option_inner (am_ty a) of Some t \<Rightarrow> t | None \<Rightarrow> am_ty a) \<and>
          optional = (option_inner (am_ty a) \<noteq> None)
      | ArgPayload p \<Rightarrow> payload_wf p
      | _ \<Rightarrow> True)"

definition is_payload :: "argument_model \<Rightarrow> bool" where
  "is_payload a = (case am_kind a of ArgPayload _ \<Rightarrow> True | _ \<Rightarrow> False)"

lemma classify_payload_wf: "classify_payload ty codec = Inr p \<Longrightarrow> payload_wf p"
  by (auto simp: classify_payload_def Let_def payload_wf_def split: if_splits prod.splits)

lemma classify_non_payload_wf:
  assumes "classify_non_payload X st subject ident ty header = Inr (Some k)"
  shows "argument_wf subject \<lparr>am_ident = ident, am_ty = ty, am_kind = k\<rparr> \<and>
    \<not> is_payload \<lparr>am_ident = ident, am_ty = ty, am_kind = k\<rparr>"
proof (cases "find (\<lambda>(name, _). ident = name) (sm_placeholders subject)")
  case None
  then show ?thesis using assms
    by (auto simp: classify_non_payload_def argument_wf_def is_payload_def Let_def
        split: option.splits if_splits)
next
  case (Some x)
  obtain name i where x: "x = (name, i)" by (cases x)
  with Some have "ident = name" "(name, i) \<in> set (sm_placeholders subject)"
    by (auto simp: find_Some_iff) (metis nth_mem)
  then show ?thesis using assms Some x
    by (auto simp: classify_non_payload_def argument_wf_def is_payload_def split: if_splits)
qed

lemma classify_inputs_wf:
  "classify_inputs X st subject codec seen inputs = Inr args \<Longrightarrow>
   list_all (argument_wf subject) args \<and>
   length (filter is_payload args) \<le> (if seen then 0 else 1)"
proof (induction X st subject codec seen inputs arbitrary: args rule: classify_inputs.induct)
  case (4 X st subject codec seen ident ty attrs rest)
  from "4.prems" obtain header kind where h: "parse_header_attr X attrs = Inr header"
    and k: "classify_non_payload X st subject ident ty header = Inr kind" by auto
  show ?case
  proof (cases kind)
    case (Some k')
    then obtain args' where args': "classify_inputs X st subject codec seen rest = Inr args'"
      "args = \<lparr>am_ident = ident, am_ty = ty, am_kind = k'\<rparr> # args'"
      using "4.prems" h k by auto
    have "argument_wf subject \<lparr>am_ident = ident, am_ty = ty, am_kind = k'\<rparr> \<and>
        \<not> is_payload \<lparr>am_ident = ident, am_ty = ty, am_kind = k'\<rparr>"
      using classify_non_payload_wf k Some by blast
    then show ?thesis using "4.IH"(2) [OF args'(1)] args' by simp
  next
    case None
    then obtain p args' where p: "\<not> unsupported_shape ty" "\<not> seen" "classify_payload ty codec = Inr p"
      and args': "classify_inputs X st subject codec True rest = Inr args'"
        "args = \<lparr>am_ident = ident, am_ty = ty, am_kind = ArgPayload p\<rparr> # args'"
      using "4.prems" h k by (auto split: if_splits)
    have "list_all (argument_wf subject) args' \<and> length (filter is_payload args') \<le> 0"
      using "4.IH"(1) [OF p(1,2) args'(1)] by simp
    moreover have "argument_wf subject \<lparr>am_ident = ident, am_ty = ty, am_kind = ArgPayload p\<rparr>"
      using classify_payload_wf [OF p(3)] by (simp add: argument_wf_def)
    ultimately show ?thesis using args' p by simp
  qed
qed simp_all

lemma all_some_iff: "all_some xs = None \<longleftrightarrow> None \<in> set xs"
  by (induction xs rule: all_some.induct) auto

lemma payload_decode_total: "payload_wf p \<Longrightarrow> payload_decode ty p \<noteq> None"
  by (auto simp: payload_wf_def payload_decode_def split: wrapper.splits)

lemma argument_binding_total: "argument_wf subject a \<Longrightarrow> argument_binding a \<noteq> None"
  using payload_decode_total
  by (auto simp: argument_wf_def argument_binding_def split: argument_kind.splits)

lemma argument_bindings_total:
  "list_all (argument_wf subject) (om_arguments op) \<Longrightarrow> argument_bindings op \<noteq> None"
  by (auto simp: argument_bindings_def all_some_iff list_all_iff image_iff
      dest!: argument_binding_total dest: sym)

section \<open>Methods\<close>

definition response_wf :: "response_model \<Rightarrow> bool" where
  "response_wf r \<longleftrightarrow>
     rs_wrapper r \<in> {WrapDirect, WrapJson, WrapProto, WrapResponse} \<and>
     (rs_wrapper r = WrapJson \<longrightarrow> rs_codec r = WireJson) \<and>
     (rs_wrapper r = WrapProto \<longrightarrow> rs_codec r = WireProtobuf)"

definition operation_wf_model :: "'tok operation_model \<Rightarrow> bool" where
  "operation_wf_model op \<longleftrightarrow>
     list_all (argument_wf (om_subject op)) (om_arguments op) \<and>
     length (filter is_payload (om_arguments op)) \<le> 1 \<and>
     response_wf (om_response op) \<and>
     oo_concurrency (om_options op) \<noteq> None"

lemma classify_response_wf: "response_wf (classify_response method options kind)"
  by (auto simp: response_wf_def classify_response_def classify_response_value_def Let_def
      split: prod.splits)

lemma build_method_wf:
  "build_method X args f = Inr (MethodOp op) \<Longrightarrow> operation_wf_model op"
  using classify_response_wf
  by (auto simp: build_method_def operation_wf_model_def classify_arguments_def with_defaults_def Let_def
      split: list.splits if_splits dest!: classify_inputs_wf)

lemma build_methods_wf:
  "build_methods X args items = Inr ms \<Longrightarrow> MethodOp op \<in> set ms \<Longrightarrow> operation_wf_model op"
  by (induction X args items arbitrary: ms rule: build_methods.induct)
    (auto dest: build_method_wf)

lemma set_model_operations: "op \<in> set (model_operations m) \<longleftrightarrow> MethodOp op \<in> set (sv_methods m)"
proof -
  have "op \<in> set (List.map_filter method_operation ms) \<longleftrightarrow> MethodOp op \<in> set ms" for ms
  proof (induction ms)
    case (Cons x ms)
    then show ?case by (cases x) auto
  qed simp
  then show ?thesis by (simp add: model_operations_def)
qed

section \<open>Indexes\<close>

lemma assign_indexes_wf:
  "MethodOp op' \<in> set (assign_indexes_loop i j ms) \<Longrightarrow>
   \<exists>op. MethodOp op \<in> set ms \<and> operation_wf_model op' = operation_wf_model op"
  by (induction i j ms rule: assign_indexes_loop.induct)
    (auto simp: operation_wf_model_def split: if_splits)

lemma assign_indexes_positions:
  "(k < length (filter served (List.map_filter method_operation (assign_indexes_loop i j ms))) \<longrightarrow>
     om_operation_index (filter served (List.map_filter method_operation
       (assign_indexes_loop i j ms)) ! k) = Some (i + k)) \<and>
   (k < length (filter (\<lambda>op. om_kind op = MConsumer)
       (List.map_filter method_operation (assign_indexes_loop i j ms))) \<longrightarrow>
     om_consumer_index (filter (\<lambda>op. om_kind op = MConsumer) (List.map_filter method_operation
       (assign_indexes_loop i j ms)) ! k) = Some (j + k))"
proof (induction i j ms arbitrary: k rule: assign_indexes_loop.induct)
  case (3 i j m rest)
  then show ?case by (cases k) (auto simp: served_def)
qed simp_all

lemma filter_index: "x \<in> set xs \<Longrightarrow> P x \<Longrightarrow> \<exists>k < length (filter P xs). filter P xs ! k = x"
  by (simp flip: in_set_conv_nth)

lemma served_conv: "(\<lambda>op. om_kind op \<noteq> MConsumer) = served"
  by (auto simp: served_def)

lemma model_operation_wf:
  assumes "build_model X args item = Inr m" and "op \<in> set (model_operations m)"
  shows "operation_wf_model op"
proof -
  have "build_methods X args (im_items item) = Inr (sv_methods m)"
    using assms(1) by (auto simp: build_model_def split: if_splits)
  then show ?thesis using assms(2) build_methods_wf by (metis set_model_operations)
qed

lemma indexed_operation_wf:
  assumes "build_model X args item = Inr m" and "op \<in> set (model_operations (assign_indexes m))"
  shows "operation_wf_model op"
proof -
  have "MethodOp op \<in> set (assign_indexes_loop 0 0 (sv_methods m))"
    using assms(2) by (simp add: set_model_operations assign_indexes_def)
  then show ?thesis
    using assign_indexes_wf model_operation_wf [OF assms(1)] by (metis set_model_operations)
qed

text \<open>The index of an operation is the position of its entry in the emitted specification.\<close>

definition index_wf :: "'tok syn_ops \<Rightarrow> (string \<Rightarrow> string) \<Rightarrow> 'tok service_model \<Rightarrow> 'tok operation_model \<Rightarrow> bool"
  where
  "index_wf X shouty m op \<longleftrightarrow>
    (if om_kind op = MConsumer
     then \<exists>j. om_consumer_index op = Some j \<and> j < length (ss_consumers (spec_of_service X m)) \<and>
       ss_consumers (spec_of_service X m) ! j =
         spec_of_consumer op (sa_name (sv_args m)) (sa_version (sv_args m))
     else \<exists>i. om_operation_index op = Some i \<and> operation_marker shouty X m op =
       Some (shouty (fn_ident (om_method op)), i,
         spec_of_operation X op (sa_name (sv_args m)) (sa_version (sv_args m))))"

lemma assign_indexes_index_wf:
  assumes "op \<in> set (model_operations (assign_indexes m))"
  shows "index_wf X shouty (assign_indexes m) op"
proof -
  have ops: "model_operations (assign_indexes m) =
      List.map_filter method_operation (assign_indexes_loop 0 0 (sv_methods m))"
    by (simp add: model_operations_def assign_indexes_def)
  note pos = assign_indexes_positions [of _ 0 0 "sv_methods m", folded ops]
  show ?thesis
  proof (cases "om_kind op = MConsumer")
    case True
    then obtain k where "k < length (filter (\<lambda>op. om_kind op = MConsumer) (model_operations (assign_indexes m)))"
      "filter (\<lambda>op. om_kind op = MConsumer) (model_operations (assign_indexes m)) ! k = op"
      using filter_index [OF assms, of "\<lambda>op. om_kind op = MConsumer"] by auto
    then show ?thesis using True pos [of k] by (auto simp: index_wf_def spec_of_service_def Let_def)
  next
    case False
    then obtain k where "k < length (filter served (model_operations (assign_indexes m)))"
      "filter served (model_operations (assign_indexes m)) ! k = op"
      using filter_index [OF assms, of served] by (auto simp: served_def)
    then show ?thesis using False pos [of k]
      by (auto simp: index_wf_def operation_marker_def spec_of_service_def Let_def served_conv)
  qed
qed

text \<open>
  C30: code generation is type-safe.  For every \<open>impl\<close> block that is accepted, each operation
  has at most one payload; every subject argument is bound to the segment of its placeholder;
  every payload has the codec of its wrapper and a type to decode, so the generators produce
  every binding without a panic, and so has every response; and the index given to an operation or consumer is exactly
  the position of its own entry in the emitted specification.
\<close>

theorem generated_code_is_well_typed:
  assumes "build_model X args item = Inr m" and "m' = assign_indexes m"
    and "op \<in> set (model_operations m')"
  shows "list_all (argument_wf (om_subject op)) (om_arguments op) \<and>
    length (filter is_payload (om_arguments op)) \<le> 1 \<and>
    argument_bindings op \<noteq> None \<and> response_wf (om_response op) \<and>
    (if om_kind op = MConsumer
     then \<exists>j. om_consumer_index op = Some j \<and> j < length (ss_consumers (spec_of_service X m')) \<and>
       ss_consumers (spec_of_service X m') ! j =
         spec_of_consumer op (sa_name (sv_args m')) (sa_version (sv_args m'))
     else \<exists>i. om_operation_index op = Some i \<and> operation_marker shouty X m' op =
       Some (shouty (fn_ident (om_method op)), i,
         spec_of_operation X op (sa_name (sv_args m')) (sa_version (sv_args m'))))"
proof -
  have wf: "operation_wf_model op" using indexed_operation_wf assms by blast
  then have args: "list_all (argument_wf (om_subject op)) (om_arguments op)"
    by (simp add: operation_wf_model_def)
  show ?thesis
    using wf args argument_bindings_total [OF args]
      assign_indexes_index_wf [OF assms(3) [unfolded assms(2)], folded assms(2)]
    by (simp only: operation_wf_model_def index_wf_def) blast
qed

theorem generated_code_is_well_typed_witness:
  "argument_bindings (demo_operation\<lparr>om_operation_index := Some 0\<rparr>) \<noteq> None"
  using generated_code_is_well_typed [OF demo_build_model refl,
      of "demo_operation\<lparr>om_operation_index := Some 0\<rparr>"]
  by (simp add: assign_indexes_def demo_service_def model_operations_def demo_operation_def)

end
