(* ===== verification/Generated_Client.thy ===== *)
theory Generated_Client
  imports Service_Typing Client_Calls
begin

text \<open>
  The client that \<open>#[service]\<close> generates (\<open>nats-micro-macros/src/service/client.rs\<close>): the
  parameters of each method with their types, the payload expression, the response type and
  decoder, and the call each method builds.  As for the server, generation yields the emitted
  expressions as data and the \<open>run\<close> functions give their meaning.  The last part puts client
  and server together: a remote call is the local call.
\<close>

section \<open>Parameters\<close>

record client_parameter =
  cp_ident :: string
  cp_ty :: rust_type

definition plain_path :: "string \<Rightarrow> rust_type" where
  "plain_path i = TyPath False False [Segment i NoArguments]"

definition borrowed :: "rust_type \<Rightarrow> rust_type" where
  "borrowed ty = TyReference None False ty"

definition option_of :: "rust_type \<Rightarrow> rust_type" where
  "option_of ty = TyPath False False [Segment ''Option'' (AngleBracketed [TypeArgument ty])]"

text \<open>A path in the crate \<open>nats_micro\<close>.\<close>

definition nats_micro_type :: "string \<Rightarrow> rust_type" where
  "nats_micro_type i =
     TyPath False True [Segment ''nats_micro'' NoArguments, Segment i NoArguments]"

definition payload_value_type :: "rust_type \<Rightarrow> payload_model \<Rightarrow> rust_type" where
  "payload_value_type declared p =
     (case pm_decoded_type p of Some t \<Rightarrow> t | None \<Rightarrow> declared)"

definition client_payload_type :: "rust_type \<Rightarrow> payload_model \<Rightarrow> rust_type" where
  "client_payload_type declared p =
     (let v = payload_value_type declared p;
          slice = borrowed (TyOther Slice ''[u8]'');
          b = (case pm_wrapper p of
              WrapBody \<Rightarrow> slice
            | WrapText \<Rightarrow> borrowed (plain_path ''str'')
            | WrapDirect \<Rightarrow>
                (if last_ident v = Some ''Vec'' \<and> pm_codec p = WireRaw then slice else borrowed v)
            | WrapJson \<Rightarrow> borrowed v
            | WrapProto \<Rightarrow> borrowed v
            | WrapResponse \<Rightarrow> declared)
      in if pm_optional p then option_of b else b)"

definition client_parameter_of :: "argument_model \<Rightarrow> client_parameter option" where
  "client_parameter_of a =
     (case am_kind a of
        ArgSubject _ _ \<Rightarrow> Some \<lparr>cp_ident = am_ident a, cp_ty = am_ty a\<rparr>
      | ArgPayload p \<Rightarrow> Some \<lparr>cp_ident = am_ident a, cp_ty = client_payload_type (am_ty a) p\<rparr>
      | _ \<Rightarrow> None)"

definition client_parameters :: "'tok operation_model \<Rightarrow> client_parameter list" where
  "client_parameters op = List.map_filter client_parameter_of (om_arguments op)"

section \<open>The payload expression\<close>

datatype payload_encode = PeJson | PeProto | PeStr | PeClone | PeCopy | PeEmpty

definition payload_encoding :: "rust_type \<Rightarrow> payload_model \<Rightarrow> payload_encode" where
  "payload_encoding ty p =
     (case pm_codec p of
        WireJson \<Rightarrow> PeJson
      | WireProtobuf \<Rightarrow> PeProto
      | WireUtf8 \<Rightarrow> PeStr
      | WireRaw \<Rightarrow>
          (if pm_wrapper p = WrapDirect \<and> last_ident (payload_value_type ty p) = Some ''Bytes''
           then PeClone
           else if pm_wrapper p = WrapDirect \<and> last_ident (payload_value_type ty p) = Some ''String''
           then PeStr else PeCopy)
      | WireEmpty \<Rightarrow> PeEmpty)"

text \<open>Without a payload argument the expression is the empty payload, the value \<open>None\<close>.\<close>

definition payload_expression :: "'tok operation_model \<Rightarrow> (string \<times> bool \<times> payload_encode) option"
  where
  "payload_expression op =
     map_option (\<lambda>a. case am_kind a of
         ArgPayload p \<Rightarrow> (am_ident a, pm_optional p, payload_encoding (am_ty a) p))
       (find is_payload (om_arguments op))"

definition run_encoding ::
  "'j json_ops \<Rightarrow> ('v, 'h, 'q, 'e) user_ops \<Rightarrow> payload_encode \<Rightarrow> 'v payload_value \<Rightarrow>
   error_reply + bytes" where
  "run_encoding J U e v =
     (case (e, v) of
        (PeJson, PvUser x) \<Rightarrow> map_ok snd (encode_json J (uo_to_json U x))
      | (PeProto, PvUser x) \<Rightarrow> encode_proto J (uo_to_proto U x)
      | (PeStr, PvText s) \<Rightarrow> Inr (as_bytes s)
      | (PeClone, PvBytes b) \<Rightarrow> Inr b
      | (PeCopy, PvBytes b) \<Rightarrow> Inr b
      | _ \<Rightarrow> Inr [])"

text \<open>\<open>input\<close> is the payload parameter; one that is not optional is always \<open>Some\<close>.\<close>

definition run_payload ::
  "'j json_ops \<Rightarrow> ('v, 'h, 'q, 'e) user_ops \<Rightarrow> (string \<times> bool \<times> payload_encode) option \<Rightarrow>
   'v payload_value option \<Rightarrow> error_reply + bytes" where
  "run_payload J U expression input =
     (case expression of
        None \<Rightarrow> Inr []
      | Some (ident, optional, e) \<Rightarrow>
          (case input of Some v \<Rightarrow> run_encoding J U e v | None \<Rightarrow> Inr []))"

section \<open>The response\<close>

definition client_response_type :: "'tok operation_model \<Rightarrow> rust_type" where
  "client_response_type op =
     (let response = om_response op;
          v = (if rs_wrapper response = WrapResponse then nats_micro_type ''ClientResponse''
               else if path_is_ident ''str'' (rs_wire_type response) then plain_path ''String''
               else rs_wire_type response)
      in if rs_optional response then option_of v else v)"

datatype decoder =
    JsonDecoder | OptionalJsonDecoder | ProtoDecoder | OptionalProtoDecoder
  | TextDecoder | OptionalTextDecoder | BytesDecoder | OptionalBytesDecoder
  | VecDecoder | OptionalVecDecoder | EmptyDecoder | ClientResponseDecoder

definition decoder_type :: "response_model \<Rightarrow> decoder" where
  "decoder_type response =
     (let optional = rs_optional response; i = last_ident (rs_wire_type response)
      in if rs_wrapper response = WrapResponse then ClientResponseDecoder
         else case rs_codec response of
           WireJson \<Rightarrow> (if optional then OptionalJsonDecoder else JsonDecoder)
         | WireProtobuf \<Rightarrow> (if optional then OptionalProtoDecoder else ProtoDecoder)
         | WireUtf8 \<Rightarrow> (if optional then OptionalTextDecoder else TextDecoder)
         | WireRaw \<Rightarrow>
             (if i = Some ''String'' then (if optional then OptionalTextDecoder else TextDecoder)
              else if i = Some ''Vec'' then (if optional then OptionalVecDecoder else VecDecoder)
              else if optional then OptionalBytesDecoder else BytesDecoder)
         | WireEmpty \<Rightarrow> EmptyDecoder)"

datatype ('v, 'h) client_value =
    CvUser 'v | CvText string | CvBytes bytes | CvUnit | CvResponse "'h client_response"

datatype ('v, 'h) client_result =
    Present "('v, 'h) client_value" | Maybe "('v, 'h) client_value option"

definition run_decoder ::
  "'j json_ops \<Rightarrow> 'h header_ops \<Rightarrow> ('v, 'h, 'q, 'e) user_ops \<Rightarrow>
   ('j nats_error_response \<Rightarrow> ('j, 'd) service_error_match) \<Rightarrow> response_model \<Rightarrow>
   'h client_response \<Rightarrow> ('j, 'd) client_error + ('v, 'h) client_result" where
  "run_decoder J H U from_response response reply =
     (let ty = rs_wire_type response
      in case decoder_type response of
        JsonDecoder \<Rightarrow>
          map_ok (Present \<circ> CvUser) (json_decoder J H from_response (uo_from_json U ty) reply)
      | OptionalJsonDecoder \<Rightarrow> map_ok (Maybe \<circ> map_option CvUser)
          (optional_json_decoder J H from_response (uo_from_json U ty) reply)
      | ProtoDecoder \<Rightarrow>
          map_ok (Present \<circ> CvUser) (proto_decoder J H from_response (uo_from_proto U ty) reply)
      | OptionalProtoDecoder \<Rightarrow> map_ok (Maybe \<circ> map_option CvUser)
          (optional_proto_decoder J H from_response (uo_from_proto U ty) reply)
      | TextDecoder \<Rightarrow> map_ok (Present \<circ> CvText) (text_decoder J H from_response reply)
      | OptionalTextDecoder \<Rightarrow>
          map_ok (Maybe \<circ> map_option CvText) (optional_text_decoder J H from_response reply)
      | BytesDecoder \<Rightarrow> map_ok (Present \<circ> CvBytes) (bytes_decoder J H from_response reply)
      | OptionalBytesDecoder \<Rightarrow>
          map_ok (Maybe \<circ> map_option CvBytes) (optional_bytes_decoder J H from_response reply)
      | VecDecoder \<Rightarrow> map_ok (Present \<circ> CvBytes) (vec_decoder J H from_response reply)
      | OptionalVecDecoder \<Rightarrow>
          map_ok (Maybe \<circ> map_option CvBytes) (optional_vec_decoder J H from_response reply)
      | EmptyDecoder \<Rightarrow> map_ok (\<lambda>_. Present CvUnit) (empty_decoder J H from_response reply)
      | ClientResponseDecoder \<Rightarrow>
          map_ok (Present \<circ> CvResponse) (client_response_decoder J H from_response reply))"

section \<open>Methods\<close>

definition client_error_type :: "'tok operation_model \<Rightarrow> rust_type" where
  "client_error_type op =
     (case rs_error_type (om_response op) of
        None \<Rightarrow> nats_micro_type ''NatsErrorResponse''
      | Some e \<Rightarrow>
          if last_ident e = Some ''ErrorReply'' then nats_micro_type ''NatsErrorResponse'' else e)"

text \<open>Which call a method builds; the flags are \<open>encrypt_payload\<close> and \<open>decrypt_response\<close>.\<close>

datatype method_call =
    MakeRequest | MakeEncryptedRequest bool bool | MakePublish | MakeEncryptedPublish bool

definition operation_method :: "'tok operation_model \<Rightarrow> method_call option" where
  "operation_method op =
     (case om_kind op of
        MRequest \<Rightarrow> Some
          (if rs_encrypted (om_response op) \<or> request_encrypted op
           then MakeEncryptedRequest (request_encrypted op) (rs_encrypted (om_response op))
           else MakeRequest)
      | MPublish \<Rightarrow> Some (if request_encrypted op then MakeEncryptedPublish True else MakePublish)
      | MSubscribe \<Rightarrow> None
      | MConsumer \<Rightarrow> None)"

text \<open>The generated client: its default headers and, for encrypted services, the recipient.\<close>

record 'h generated_client =
  gc_default_headers :: "'h option"
  gc_recipient :: "bytes option"

definition generated_client_new :: "'h generated_client" where
  "generated_client_new = \<lparr>gc_default_headers = None, gc_recipient = None\<rparr>"

definition with_default_headers :: "'h \<Rightarrow> 'h generated_client \<Rightarrow> 'h generated_client" where
  "with_default_headers headers c = c\<lparr>gc_default_headers := Some headers\<rparr>"

definition with_recipient :: "bytes \<Rightarrow> 'h generated_client \<Rightarrow> 'h generated_client" where
  "with_recipient recipient c = c\<lparr>gc_recipient := Some recipient\<rparr>"

definition client_has_recipient :: "'tok service_model \<Rightarrow> bool" where
  "client_has_recipient m =
     list_ex (\<lambda>op. rs_encrypted (om_response op) \<or> request_encrypted op) (model_operations m)"

text \<open>
  The body of \<open>#call_method\<close>: \<open>params\<close> gives the chunks that each subject parameter's
  \<open>Display\<close> writes and \<open>input\<close> the payload parameter.
\<close>

definition generated_call ::
  "'j json_ops \<Rightarrow> ('v, 'h, 'q, 'e) user_ops \<Rightarrow> 'tok operation_model \<Rightarrow> 'h generated_client \<Rightarrow>
   (string \<Rightarrow> string list) \<Rightarrow> 'v payload_value option \<Rightarrow> 'h request_call" where
  "generated_call J U op c params input =
     request_call_new (subject_expression (om_subject op) params)
       (run_payload J U (payload_expression op) input) (gc_default_headers c)
       (if om_kind op = MRequest then map_option from_millis (oo_timeout_ms (om_options op))
        else None)"

definition generated_encrypted_call ::
  "'j json_ops \<Rightarrow> ('v, 'h, 'q, 'e) user_ops \<Rightarrow> 'tok operation_model \<Rightarrow> 'h generated_client \<Rightarrow>
   (string \<Rightarrow> string list) \<Rightarrow> 'v payload_value option \<Rightarrow> 'h encrypted_call" where
  "generated_encrypted_call J U op c params input =
     \<lparr>ce_recipient = gc_recipient c, ce_call = generated_call J U op c params input,
      ce_encrypted_headers = [],
      ce_encrypt_payload = request_encrypted op,
      ce_decrypt_response = (om_kind op = MRequest \<and> rs_encrypted (om_response op))\<rparr>"

text \<open>\<open>operation_models\<close>: one marker type per callable operation with its index.\<close>

definition operation_models ::
  "(string \<Rightarrow> string) \<Rightarrow> 'tok service_model \<Rightarrow> (string \<times> nat option) list" where
  "operation_models camel m =
     map (\<lambda>op. (sv_service_ident m @ camel (fn_ident (om_method op)) @ ''Operation'',
         om_operation_index op))
       (filter (\<lambda>op. om_kind op = MRequest \<or> om_kind op = MPublish) (model_operations m))"

end
