(* ===== verification/Test_Harness.thy ===== *)
theory Test_Harness
  imports Local_Transport Generated_Client
begin

text \<open>
  The rest of \<open>nats-micro/src/testing.rs\<close>: the options of \<open>TestApp\<close>, its start without the
  JetStream simulator, the clients a \<open>TestHarness\<close> hands out and its JetStream handle.  The
  simulator, the event log and the fault plan are shared by all handles, so every operation
  passes the \<open>harness\<close> on.
\<close>

section \<open>Configuring and starting\<close>

definition test_app_stateless :: "('h, unit) test_app" where
  "test_app_stateless = test_app_new ()"

definition test_app_encryption :: "service_key_pair \<Rightarrow> ('h, 'q) test_app \<Rightarrow> ('h, 'q) test_app" where
  "test_app_encryption keypair a = a\<lparr>ta_encryption := Some keypair\<rparr>"

definition test_app_jetstream ::
  "(jetstream_config \<Rightarrow> jetstream_config) \<Rightarrow> ('h, 'q) test_app \<Rightarrow> ('h, 'q) test_app" where
  "test_app_jetstream configure a = a\<lparr>ta_jetstream := configure (ta_jetstream a)\<rparr>"

text \<open>
  \<open>start\<close> without the feature \<open>test-jetstream\<close> registers no consumers; the simulator of the
  harness only holds its event log then.
\<close>

definition test_app_start_plain :: "('h, 'q) test_app \<Rightarrow> string + ('h, 'q) harness" where
  "test_app_start_plain a =
     try_then (map_err (\<lambda>e. ''test application service validation failed: '' @ e)
         (validate_service_set (map lv_spec (ta_services a)))) (\<lambda>_.
     try_then (ensure (\<not> requires_encryption (ta_services a) \<or> ta_encryption a \<noteq> None)
         ''test application declares encrypted operations but has no encryption key'') (\<lambda>_.
     Inr \<lparr>hn_services = ta_services a, hn_keypair = ta_encryption a, hn_state = ta_state a,
          hn_faults = [], hn_simulator = simulator_new (ta_jetstream a) []\<rparr>))"

section \<open>Clients\<close>

text \<open>\<open>Service::client\<close> and \<open>EncryptedService::encrypted_client\<close>, as the macro emits them.\<close>

definition service_client :: "'h generated_client" where
  "service_client = generated_client_new"

definition service_encrypted_client :: "bytes \<Rightarrow> 'h generated_client" where
  "service_encrypted_client recipient = with_recipient recipient generated_client_new"

definition harness_client :: "('h, 'q) harness \<Rightarrow> 'h generated_client" where
  "harness_client h = service_client"

text \<open>\<open>None\<close> is the panic of \<open>expect\<close> when the application has no key.\<close>

definition harness_encrypted_client :: "('h, 'q) harness \<Rightarrow> 'h generated_client option" where
  "harness_encrypted_client h =
     map_option (\<lambda>keypair. service_encrypted_client (kp_public keypair)) (hn_keypair h)"

section \<open>Events, faults and the clock\<close>

definition harness_events :: "('h, 'q) harness \<Rightarrow> 'h event_log" where
  "harness_events h = js_events (hn_simulator h)"

definition event_clear :: "'h event_log \<Rightarrow> 'h event_log" where
  "event_clear log = []"

definition faults_clear :: "fault_plan \<Rightarrow> fault_plan" where
  "faults_clear plan = []"

definition harness_advance :: "duration \<Rightarrow> ('h, 'q) harness \<Rightarrow> ('h, 'q) harness" where
  "harness_advance dur h = h\<lparr>hn_simulator := advance dur (hn_simulator h)\<rparr>"

definition harness_deliveries :: "string \<Rightarrow> ('h, 'q) harness \<Rightarrow> nat" where
  "harness_deliveries durable h = deliveries durable (hn_simulator h)"

section \<open>The JetStream handle\<close>

definition js_publish :: "string \<Rightarrow> bytes \<Rightarrow> ('h, 'q) harness \<Rightarrow> string + ('h, 'q) harness" where
  "js_publish subject payload h =
     map_ok (\<lambda>s. h\<lparr>hn_simulator := s\<rparr>) (simulator_publish subject payload None (hn_simulator h))"

text \<open>\<open>encoded\<close> is what \<open>serde_json::to_vec\<close> returns for the value.\<close>

definition js_publish_json ::
  "string \<Rightarrow> string + bytes \<Rightarrow> ('h, 'q) harness \<Rightarrow> string + ('h, 'q) harness" where
  "js_publish_json subject encoded h = try_then encoded (\<lambda>payload. js_publish subject payload h)"

definition js_publish_proto ::
  "('v \<Rightarrow> bytes) \<Rightarrow> string \<Rightarrow> 'v \<Rightarrow> ('h, 'q) harness \<Rightarrow> string + ('h, 'q) harness" where
  "js_publish_proto encode_to_vec subject v h = js_publish subject (encode_to_vec v) h"

definition harness_timeout_next :: "string \<Rightarrow> ('h, 'q) harness \<Rightarrow> ('h, 'q) harness" where
  "harness_timeout_next durable h = h\<lparr>hn_simulator := plan_timeout durable (hn_simulator h)\<rparr>"

definition js_pending_count :: "('h, 'q) harness \<Rightarrow> nat" where
  "js_pending_count h = simulator_pending (hn_simulator h)"

definition harness_run_until_idle ::
  "'h header_ops \<Rightarrow> ('h, 'q) harness \<Rightarrow> ((string + unit) \<times> ('h, 'q) harness) option" where
  "harness_run_until_idle H h =
     map_option (\<lambda>(r, s, q). (r, h\<lparr>hn_simulator := s, hn_state := q\<rparr>))
       (run_until_idle H (hn_services h) (hn_simulator h) (hn_state h))"

section \<open>Acknowledged messages\<close>

text \<open>
  A run in which nothing goes wrong: the consumers' handlers see the pending deliveries one after
  the other, in their order.
\<close>

definition handle_delivery ::
  "'h header_ops \<Rightarrow> ('h, 'q) local_service list \<Rightarrow> 'h delivery \<Rightarrow> 'q \<Rightarrow> 'q" where
  "handle_delivery H services d q =
     snd (dispatch_consumer services q (dl_durable d) (delivered_request H d))"

definition acknowledges :: "('h, 'q) local_service list \<Rightarrow> string \<Rightarrow> bool" where
  "acknowledges services durable \<longleftrightarrow>
     (\<forall>q r. fst (dispatch_consumer services q durable r) = CMatched Ack)"

lemma next_due_first:
  assumes "js_pending s = d # ds" "dl_due_at d \<le> js_now s"
  shows "next_due s = Some (d, s\<lparr>js_pending := ds,
    js_deliveries := (js_deliveries s)(dl_durable d \<mapsto> deliveries (dl_durable d) s + 1)\<rparr>)"
  using assms by (simp add: next_due_def remove_at_def Let_def)

lemma run_until_idle_acknowledged:
  assumes "js_timeout_next s = []" "\<forall>d\<in>set (js_pending s). dl_due_at d \<le> js_now s"
    and "\<forall>d\<in>set (js_pending s). acknowledges services (dl_durable d)"
  shows "\<exists>s'. run_until_idle H services s q =
      Some (Inr (), s', fold (handle_delivery H services) (js_pending s) q) \<and>
    js_pending s' = [] \<and> js_events s' = js_events s \<and>
    (\<forall>k. deliveries k s' = deliveries k s + length (filter (\<lambda>d. dl_durable d = k) (js_pending s)))"
  using assms
proof (induction "js_pending s" arbitrary: s q)
  case Nil
  then have "next_due s = None" by (simp add: next_due_def)
  then show ?case using Nil by (subst run_until_idle.simps) simp
next
  case (Cons d ds)
  let ?s1 = "s\<lparr>js_pending := ds,
    js_deliveries := (js_deliveries s)(dl_durable d \<mapsto> deliveries (dl_durable d) s + 1)\<rparr>"
  let ?q = "handle_delivery H services d q"
  have pending: "js_pending s = d # ds" using Cons.hyps(2) by simp
  have due: "next_due s = Some (d, ?s1)"
    using next_due_first [OF pending] Cons.prems(2) pending by simp
  have "fst (dispatch_consumer services q (dl_durable d) (delivered_request H d)) = CMatched Ack"
    using Cons.prems(3) pending by (simp add: acknowledges_def)
  then have handled: "dispatch_consumer services q (dl_durable d) (delivered_request H d) =
      (CMatched Ack, ?q)"
    by (simp add: handle_delivery_def prod_eq_iff)
  have step: "run_until_idle H services s q = run_until_idle H services ?s1 ?q"
    using due handled Cons.prems(1)
    by (subst run_until_idle.simps) (simp add: consume_timeout_def complete_def)
  have "\<exists>s'. run_until_idle H services ?s1 ?q =
      Some (Inr (), s', fold (handle_delivery H services) (js_pending ?s1) ?q) \<and>
    js_pending s' = [] \<and> js_events s' = js_events ?s1 \<and>
    (\<forall>k. deliveries k s' = deliveries k ?s1 +
      length (filter (\<lambda>d. dl_durable d = k) (js_pending ?s1)))"
    by (rule Cons.hyps(1)) (use Cons.prems pending in simp_all)
  then show ?case
    using pending by (auto simp: step deliveries_def)
qed

text \<open>Publishing a list of messages, each with its subject and payload.\<close>

fun publish_all :: "(string \<times> bytes) list \<Rightarrow> ('h, 'q) harness \<Rightarrow> string + ('h, 'q) harness" where
  "publish_all [] h = Inr h"
| "publish_all ((subject, payload) # ms) h = try_then (js_publish subject payload h) (publish_all ms)"

definition first_delivery :: "duration \<Rightarrow> string \<Rightarrow> string \<times> bytes \<Rightarrow> 'h delivery" where
  "first_delivery now durable m =
     \<lparr>dl_durable = durable, dl_subject = fst m, dl_payload = snd m, dl_headers = None,
      dl_attempt = 1, dl_due_at = now\<rparr>"

definition first_deliveries :: "'h simulator \<Rightarrow> (string \<times> bytes) list \<Rightarrow> 'h delivery list" where
  "first_deliveries s ms = concat (map (\<lambda>m. map (\<lambda>durable. first_delivery (js_now s) durable m)
     (matching_consumers (fst m) s)) ms)"

lemma matching_consumers_pending [simp]:
  "matching_consumers subject (s\<lparr>js_pending := ds\<rparr>) = matching_consumers subject s"
  by (simp add: matching_consumers_def matching_streams_def)

lemma publish_all_pending:
  "publish_all ms h = Inr h' \<Longrightarrow>
   h' = h\<lparr>hn_simulator := (hn_simulator h)\<lparr>js_pending :=
     js_pending (hn_simulator h) @ first_deliveries (hn_simulator h) ms\<rparr>\<rparr>"
proof (induction ms arbitrary: h)
  case Nil
  then show ?case by (simp add: first_deliveries_def)
next
  case (Cons m ms)
  obtain subject payload where m: "m = (subject, payload)" by (cases m)
  let ?s = "hn_simulator h"
  let ?h = "h\<lparr>hn_simulator := ?s\<lparr>js_pending := js_pending ?s @
      map (\<lambda>durable. first_delivery (js_now ?s) durable m) (matching_consumers subject ?s)\<rparr>\<rparr>"
  have "publish_all ms ?h = Inr h'"
    using Cons.prems by (auto simp: m js_publish_def simulator_publish_def first_delivery_def split: if_splits)
  from Cons.IH [OF this] show ?case by (simp add: first_deliveries_def m)
qed

text \<open>
  C20: every published message is handled exactly once, in order.  Publish any list of messages
  to a harness that has nothing pending and no planned timeout, and let the consumers whose
  streams and filters match them acknowledge.  Then \<open>run_until_idle\<close> returns \<open>Ok\<close> with nothing
  pending; the application state is the one that the handlers leave when each message, in the
  order of publication, is passed once to each of its consumers, in their order, as a first
  delivery; no dead letter is recorded, and each durable was delivered exactly these messages.
\<close>

theorem acknowledged_messages_handled_once:
  assumes "js_pending (hn_simulator h) = []" and "js_timeout_next (hn_simulator h) = []"
    and "publish_all messages h = Inr published"
  defines "handlings \<equiv> concat (map (\<lambda>(subject, payload).
      map (\<lambda>durable. (durable, subject, payload)) (matching_consumers subject (hn_simulator h))) messages)"
  assumes "\<forall>(durable, subject, payload) \<in> set handlings. \<forall>q r.
      fst (dispatch_consumer (hn_services h) q durable r) = CMatched Ack"
  shows "\<exists>h'. harness_run_until_idle H published = Some (Inr (), h') \<and> js_pending_count h' = 0 \<and>
    hn_state h' = fold (\<lambda>(durable, subject, payload) q.
        snd (dispatch_consumer (hn_services h) q durable
          \<lparr>lr_subject = LOwned subject, lr_payload = payload,
           lr_headers = Some (ho_insert H ''Nats-Num-Delivered'' (show_nat 1) (ho_empty H))\<rparr>))
      handlings (hn_state h) \<and>
    harness_events h' = harness_events h \<and>
    (\<forall>k. harness_deliveries k h' =
      harness_deliveries k h + length (filter (\<lambda>(durable, _). durable = k) handlings))"
proof -
  let ?s = "hn_simulator h" and ?p = "hn_simulator published"
  define delivery where "delivery = (\<lambda>(durable, m). first_delivery (js_now ?s) durable m :: 'a delivery)"
  have ds: "first_deliveries ?s messages = map delivery handlings"
    by (auto simp: first_deliveries_def handlings_def delivery_def map_concat comp_def case_prod_unfold)
  have p: "published = h\<lparr>hn_simulator := ?s\<lparr>js_pending := map delivery handlings\<rparr>\<rparr>"
    using publish_all_pending [OF assms(3)] assms(1) by (simp add: ds)
  have pending: "js_timeout_next ?p = []" "\<forall>d\<in>set (js_pending ?p). dl_due_at d \<le> js_now ?p"
    "\<forall>d\<in>set (js_pending ?p). acknowledges (hn_services published) (dl_durable d)"
    using assms(2,5) by (auto simp: p delivery_def first_delivery_def acknowledges_def)
  obtain s' where run: "run_until_idle H (hn_services published) ?p (hn_state published) =
      Some (Inr (), s', fold (handle_delivery H (hn_services published)) (js_pending ?p) (hn_state published))"
    "js_pending s' = []" "js_events s' = js_events ?p"
    "\<forall>k. deliveries k s' = deliveries k ?p + length (filter (\<lambda>d. dl_durable d = k) (js_pending ?p))"
    using run_until_idle_acknowledged [OF pending, of H "hn_state published"] by blast
  have "handle_delivery H (hn_services h) (delivery x) = (\<lambda>(durable, subject, payload) q.
      snd (dispatch_consumer (hn_services h) q durable
        \<lparr>lr_subject = LOwned subject, lr_payload = payload,
         lr_headers = Some (ho_insert H ''Nats-Num-Delivered'' (show_nat 1) (ho_empty H))\<rparr>)) x" for x
    by (cases x) (simp add: fun_eq_iff handle_delivery_def delivery_def first_delivery_def delivered_request_def)
  then have "fold (handle_delivery H (hn_services h)) (map delivery handlings) = fold (\<lambda>(durable, subject, payload) q.
      snd (dispatch_consumer (hn_services h) q durable
        \<lparr>lr_subject = LOwned subject, lr_payload = payload,
         lr_headers = Some (ho_insert H ''Nats-Num-Delivered'' (show_nat 1) (ho_empty H))\<rparr>)) handlings"
    by (simp add: fold_map comp_def)
  moreover have "length (filter (\<lambda>d. dl_durable d = k) (map delivery handlings)) =
      length (filter (\<lambda>(durable, _). durable = k) handlings)" for k
    by (simp add: filter_map comp_def delivery_def first_delivery_def case_prod_unfold)
  moreover have "deliveries k ?p = deliveries k ?s" for k by (simp add: p deliveries_def)
  ultimately show ?thesis
    using run by (simp add: p harness_run_until_idle_def js_pending_count_def simulator_pending_def
        harness_events_def harness_deliveries_def)
qed

text \<open>A service that records what its consumer receives, and a harness serving it.\<close>

definition recording_service :: "(alist_map, bytes list) local_service" where
  "recording_service =
     \<lparr>lv_spec = \<lparr>ss_name = ''demo'', ss_version = ''1.0.0'', ss_description = [], ss_prefix = ''demo'',
        ss_operations = [], ss_consumers = []\<rparr>,
      lv_dispatch = (\<lambda>q keypair r. (NotMatched r, q)),
      lv_consumer = (\<lambda>q durable r. (CMatched Ack, q @ [lr_payload r]))\<rparr>"

definition recording_harness :: "(alist_map, bytes list) harness" where
  "recording_harness =
     \<lparr>hn_services = [recording_service], hn_keypair = None, hn_state = [], hn_faults = [],
      hn_simulator = (simulator_new demo_js_config [])
        \<lparr>js_consumers := [(''d'', demo_consumer)]\<rparr>\<rparr>"

theorem acknowledged_messages_handled_once_witness:
  "\<exists>published h'. publish_all [(''a.b'', [1, 2]), (''a.b'', [3])] recording_harness = Inr published \<and>
     harness_run_until_idle alist_headers published = Some (Inr (), h') \<and>
     hn_state h' = [[1, 2], [3]] \<and> harness_deliveries ''d'' h' = 2"
proof -
  let ?s = "hn_simulator recording_harness"
  have m: "matching_streams ''a.b'' (?s\<lparr>js_pending := ds\<rparr>) = [''S'']" "matching_streams ''a.b'' ?s = [''S'']" for ds
    by (simp_all add: recording_harness_def matching_streams_def simulator_new_def demo_js_config_def
        config_stream_def config_dead_letter_def demo_subject_matches)
  have c: "matching_consumers ''a.b'' ?s = [''d'']"
    by (simp add: matching_consumers_def m)
      (simp add: recording_harness_def demo_consumer_def demo_subject_matches)
  obtain published where p: "publish_all [(''a.b'', [1, 2]), (''a.b'', [3])] recording_harness = Inr published"
    by (simp add: js_publish_def simulator_publish_def m c)
  have "js_pending ?s = []" "js_timeout_next ?s = []"
    by (simp_all add: recording_harness_def simulator_new_def)
  from acknowledged_messages_handled_once [OF this p, of alist_headers] c p show ?thesis
    by (auto simp: harness_deliveries_def deliveries_def recording_harness_def simulator_new_def
        recording_service_def)
qed

end
