(* ===== verification/Remote_Calls.thy ===== *)
theory Remote_Calls
  imports Generated_Client
begin

text \<open>
  Generated client and generated server together.  A call of a client method, carried by a
  transport that hands each request to the worker subscribed to its subject, has the result
  of calling the handler directly: the specification \<open>local_outcome\<close>, which mentions neither
  codecs nor messages.
\<close>

section \<open>Values that the user's types carry faithfully\<close>

definition json_round_trip ::
  "('v, 'h, 'q, 'e) user_ops \<Rightarrow> rust_type \<Rightarrow> 'v \<Rightarrow> bool" where
  "json_round_trip U ty x \<longleftrightarrow>
     snd (uo_to_json U x) = None \<and> uo_from_json U ty (concat (fst (uo_to_json U x))) = Inr x"

definition proto_round_trip ::
  "('v, 'h, 'q, 'e) user_ops \<Rightarrow> rust_type \<Rightarrow> 'v \<Rightarrow> bool" where
  "proto_round_trip U ty x \<longleftrightarrow>
     (case uo_to_proto U x of Inr b \<Rightarrow> uo_from_proto U ty b = Inr x | Inl _ \<Rightarrow> False)"

definition payload_fits ::
  "('v, 'h, 'q, 'e) user_ops \<Rightarrow> rust_type \<Rightarrow> payload_model \<Rightarrow> 'v payload_value \<Rightarrow> bool" where
  "payload_fits U ty p v \<longleftrightarrow>
     (case (payload_encoding ty p, v) of
        (PeJson, PvUser x) \<Rightarrow> json_round_trip U (payload_value_type ty p) x
      | (PeProto, PvUser x) \<Rightarrow> proto_round_trip U (payload_value_type ty p) x
      | (PeStr, PvText s) \<Rightarrow> utf8_str s
      | (PeClone, PvBytes b) \<Rightarrow> True
      | (PeCopy, PvBytes b) \<Rightarrow> True
      | (PeEmpty, PvUnit) \<Rightarrow> True
      | _ \<Rightarrow> False)"

lemma encode_json_ok:
  "snd s = None \<Longrightarrow>
   encode_json J s = Inr (min usize_max (length (concat (fst s))), concat (fst s))"
  by (simp add: encode_json_def to_writer_def foldl_json_bytes foldl_json_size)

lemma str_from_utf8_text: "utf8_str s \<Longrightarrow> str_from_utf8 (as_bytes s) = Inr s"
  using utf8_scan_None [of 0 "map unat (as_bytes s)"] from_utf8_ascii_text [of s]
  by (auto simp: str_from_utf8_def from_utf8_def split: if_splits)

text \<open>Each payload encoding of the client is undone by the decoding of the server.\<close>

lemma payload_round_trip:
  assumes "payload_wf p" and "payload_fits U ty p v"
  shows "\<exists>b d. run_encoding J U (payload_encoding ty p) v = Inr b \<and> payload_decode ty p = Some d \<and>
    (\<forall>request. rq_payload request = b \<longrightarrow> eval_decode J U d request = Inr v)"
  using assms
  by (cases "pm_wrapper p"; cases "pm_codec p"; cases v)
    (auto simp: payload_wf_def payload_fits_def payload_encoding_def payload_value_type_def
      payload_decode_def run_encoding_def eval_decode_def decode_json_def decode_proto_def
      decode_text_def str_from_utf8_text json_round_trip_def proto_round_trip_def encode_json_ok
      encode_proto_def Let_def split: if_splits sum.splits option.splits)

section \<open>Responses\<close>

definition reads_text :: "response_model \<Rightarrow> bool" where
  "reads_text r \<longleftrightarrow> decoder_type r \<in> {TextDecoder, OptionalTextDecoder}"

definition response_value_fits ::
  "'h header_ops \<Rightarrow> ('v, 'h, 'q, 'e) user_ops \<Rightarrow> response_model \<Rightarrow> ('v, 'h) response_value \<Rightarrow> bool"
  where
  "response_value_fits H U r v \<longleftrightarrow>
     (case (encode_value (rs_wire_type r) (rs_codec r) (rs_wrapper r), v) of
        (EncJson, RvUser x) \<Rightarrow> json_round_trip U (rs_wire_type r) x
      | (EncProto, RvUser x) \<Rightarrow> proto_round_trip U (rs_wire_type r) x
      | (EncBytes, RvBytes b) \<Rightarrow> reads_text r \<longrightarrow> is_ok (str_from_utf8 b)
      | (EncEmpty, RvUnit) \<Rightarrow> True
      | (EncResponse, RvResponse x) \<Rightarrow> \<not> reports_service_error H (received x)
      | _ \<Rightarrow> False)"

definition response_fits ::
  "'h header_ops \<Rightarrow> ('v, 'h, 'q, 'e) user_ops \<Rightarrow> response_model \<Rightarrow> ('v, 'h) handler_value \<Rightarrow> bool"
  where
  "response_fits H U r v \<longleftrightarrow>
     (case v of
        Direct x \<Rightarrow> \<not> rs_optional r \<and> response_value_fits H U r x
      | Optional None \<Rightarrow> rs_optional r
      | Optional (Some x) \<Rightarrow> rs_optional r \<and> response_value_fits H U r x)"

definition client_value_of ::
  "response_model \<Rightarrow> ('v, 'h) response_value \<Rightarrow> ('v, 'h) client_value" where
  "client_value_of r v =
     (case v of
        RvUser x \<Rightarrow> CvUser x
      | RvBytes b \<Rightarrow> if reads_text r then CvText (bytes_to_string b) else CvBytes b
      | RvUnit \<Rightarrow> CvUnit
      | RvResponse x \<Rightarrow> CvResponse (received x))"

definition client_result_of ::
  "response_model \<Rightarrow> ('v, 'h) handler_value \<Rightarrow> ('v, 'h) client_result" where
  "client_result_of r v =
     (case v of
        Direct x \<Rightarrow> Present (client_value_of r x)
      | Optional x \<Rightarrow> Maybe (map_option (client_value_of r) x))"

text \<open>
  The method the macro emits has the type its decoder yields: the unit response is decoded by
  \<open>EmptyDecoder\<close>, which has no optional form.  Otherwise the emitted client does not compile.
\<close>

definition response_compiles :: "response_model \<Rightarrow> bool" where
  "response_compiles r \<longleftrightarrow>
     (rs_wrapper r = WrapDirect \<longrightarrow> is_unit (rs_wire_type r) = (rs_codec r = WireEmpty)) \<and>
     (rs_codec r = WireEmpty \<longrightarrow> \<not> rs_optional r) \<and>
     (rs_wrapper r = WrapResponse \<longrightarrow> \<not> rs_optional r)"

lemma str_from_utf8_bytes: "is_ok (str_from_utf8 b) \<Longrightarrow> str_from_utf8 b = Inr (bytes_to_string b)"
  by (auto simp: str_from_utf8_def is_ok_def split: option.splits)

lemma received_plain [simp]:
  "ensure_success J H from_response (received (RPayload b)) = Inr ()"
  "ensure_success J H from_response (received REmpty) = Inr ()"
  "cx_payload (received (RPayload b)) = b"
  "\<not> is_optional_none H (received (RPayload b))"
  using plain_payload_flags [of H b]
  by (simp_all add: ensure_success_ok)
    (simp_all add: received_def ensure_success_def error_response_def)

text \<open>The decoder chosen for the client reads what the server's encoding writes.\<close>

lemma decoder_matches_encoding:
  assumes "response_wf r" "response_compiles r"
  shows "case encode_value (rs_wire_type r) (rs_codec r) (rs_wrapper r) of
      EncJson \<Rightarrow> decoder_type r = (if rs_optional r then OptionalJsonDecoder else JsonDecoder)
    | EncProto \<Rightarrow> decoder_type r = (if rs_optional r then OptionalProtoDecoder else ProtoDecoder)
    | EncBytes \<Rightarrow> decoder_type r \<in> (if rs_optional r
        then {OptionalTextDecoder, OptionalBytesDecoder, OptionalVecDecoder}
        else {TextDecoder, BytesDecoder, VecDecoder})
    | EncEmpty \<Rightarrow> decoder_type r = EmptyDecoder \<and> \<not> rs_optional r
    | EncResponse \<Rightarrow> decoder_type r = ClientResponseDecoder \<and> \<not> rs_optional r"
  using assms
  by (cases "rs_wrapper r"; cases "rs_codec r")
    (simp_all add: response_wf_def response_compiles_def encode_value_def decoder_type_def Let_def)

lemma response_value_round_trip:
  assumes wf: "response_wf r" "response_compiles r" and fits: "response_value_fits H U r v"
  shows "\<exists>response. eval_encode J U (encode_value (rs_wire_type r) (rs_codec r) (rs_wrapper r)) v =
      Inr response \<and>
    run_decoder J H U from_response r (received response) =
      Inr (if rs_optional r then Maybe (Some (client_value_of r v)) else Present (client_value_of r v))"
proof -
  let ?e = "encode_value (rs_wire_type r) (rs_codec r) (rs_wrapper r)"
  note decoder = decoder_matches_encoding [OF wf]
  note defs = response_value_fits_def eval_encode_def run_decoder_def decoder_defs
    client_value_of_def response_bytes_def response_empty_def Let_def
  show ?thesis
  proof (cases ?e)
    case EncJson
    then show ?thesis using fits decoder
      by (cases v) (simp_all add: defs json_round_trip_def encode_json_ok)
  next
    case EncProto
    then obtain x where "v = RvUser x" "proto_round_trip U (rs_wire_type r) x"
      using fits by (cases v) (simp_all add: defs)
    moreover from this obtain b where "uo_to_proto U x = Inr b" "uo_from_proto U (rs_wire_type r) b = Inr x"
      by (auto simp: proto_round_trip_def split: sum.splits)
    ultimately show ?thesis using EncProto decoder by (simp add: defs encode_proto_def)
  next
    case EncBytes
    then obtain b where b: "v = RvBytes b" "reads_text r \<Longrightarrow> is_ok (str_from_utf8 b)"
      using fits by (cases v) (simp_all add: defs)
    show ?thesis
    proof (cases "reads_text r")
      case True
      then show ?thesis using EncBytes decoder b str_from_utf8_bytes [OF b(2)]
        by (auto simp: defs reads_text_def)
    next
      case False
      then show ?thesis using EncBytes decoder b
        by (auto simp: defs reads_text_def split: if_splits)
    qed
  next
    case EncEmpty
    then show ?thesis using fits decoder by (cases v) (simp_all add: defs)
  next
    case EncResponse
    then show ?thesis using fits decoder by (cases v) (simp_all add: defs ensure_success_ok)
  qed
qed

lemma response_round_trip:
  assumes H: "header_map_laws H" and wf: "response_wf r" "response_compiles r"
    and fits: "response_fits H U r v"
  shows "\<exists>response. encode_response J H U r v = Inr response \<and>
    run_decoder J H U from_response r (received response) = Inr (client_result_of r v)"
proof (cases v)
  case (Direct x)
  then show ?thesis
    using response_value_round_trip [OF wf, of H U x J from_response] fits
    by (auto simp: response_fits_def encode_response_def client_result_of_def Let_def)
next
  case (Optional y)
  show ?thesis
  proof (cases y)
    case None
    have none: "ensure_success J H from_response (received (optional_none H)) = Inr ()"
      "is_optional_none H (received (optional_none H))"
      using optional_none_flags [OF H] by (simp_all add: ensure_success_ok)
    have "rs_optional r" using fits by (simp add: response_fits_def Optional None)
    then have "decoder_type r \<in> {OptionalJsonDecoder, OptionalProtoDecoder, OptionalTextDecoder,
        OptionalBytesDecoder, OptionalVecDecoder}"
      using decoder_matches_encoding [OF wf]
      by (cases "encode_value (rs_wire_type r) (rs_codec r) (rs_wrapper r)") auto
    then show ?thesis using none
      by (auto simp: Optional None encode_response_def client_result_of_def run_decoder_def
          decoder_defs Let_def)
  next
    case (Some x)
    then show ?thesis
      using response_value_round_trip [OF wf, of H U x J from_response] fits
      by (auto simp: Optional response_fits_def encode_response_def client_result_of_def Let_def)
  qed
qed

section \<open>Arguments\<close>

text \<open>
  The inputs of a client method fit the handler: every subject parameter is written without a
  dot and parses back, and the payload is of the declared type; a handler that also reads
  headers, metadata or credentials is outside this statement.
\<close>

definition inputs_fit ::
  "('v, 'h, 'q, 'e) user_ops \<Rightarrow> ('v \<Rightarrow> string list) \<Rightarrow> 'tok operation_model \<Rightarrow> (string \<Rightarrow> 'v) \<Rightarrow>
   'v payload_value option \<Rightarrow> bool" where
  "inputs_fit U display op params input \<longleftrightarrow>
     list_all (\<lambda>a. case am_kind a of
         ArgState \<Rightarrow> True
       | ArgStateRef _ \<Rightarrow> True
       | ArgSubject name i \<Rightarrow>
           uo_from_subject U (am_ty a) (concat (display (params name))) = Inr (params name)
       | ArgPayload p \<Rightarrow>
           (case input of Some v \<Rightarrow> payload_fits U (am_ty a) p v | None \<Rightarrow> pm_optional p)
       | _ \<Rightarrow> False) (om_arguments op) \<and>
     (\<forall>name. CHR ''.'' \<notin> set (concat (display (params name)))) \<and>
     utf8_str (subject_as_str (subject_expression (om_subject op) (\<lambda>name. display (params name))))"

text \<open>
  What the handler receives.  The payload arrives as it was given, except that an optional
  payload whose encoding is empty arrives as \<open>None\<close>.
\<close>

definition handler_argument ::
  "('v, 'h, 'q, 'e) user_ops \<Rightarrow> 'q \<Rightarrow> (string \<Rightarrow> 'v) \<Rightarrow> 'v payload_value option \<Rightarrow> bytes \<Rightarrow>
   argument_model \<Rightarrow> ('v, 'h) argument_value" where
  "handler_argument U q params input encoded a =
     (case am_kind a of
        ArgStateRef inner \<Rightarrow> VUser (uo_from_state U inner q)
      | ArgSubject name i \<Rightarrow> VUser (params name)
      | ArgPayload p \<Rightarrow> VPayload (if pm_optional p \<and> encoded = [] then None else input)
      | _ \<Rightarrow> VState)"

lemma find_unique: "length (filter P xs) \<le> 1 \<Longrightarrow> x \<in> set xs \<Longrightarrow> P x \<Longrightarrow> find P xs = Some x"
proof (induction xs)
  case (Cons y ys)
  then show ?case by (cases "P y") (auto simp: filter_empty_conv)
qed simp

lemma all_some_map:
  "all_some (map f xs) = Some ys \<Longrightarrow> list_all2 (\<lambda>x y. f x = Some y) xs ys"
proof (induction xs arbitrary: ys)
  case (Cons x xs)
  then show ?case by (cases "f x") auto
qed simp

lemma eval_bindings_map:
  "list_all2 (\<lambda>a b. argument_binding a = Some b) as bs \<Longrightarrow>
   (\<And>a b. a \<in> set as \<Longrightarrow> argument_binding a = Some b \<Longrightarrow>
      eval_binding J H U uuid q request b = Inr (f a)) \<Longrightarrow>
   eval_bindings J H U uuid q request bs = Inr (map f as)"
  by (induction as bs rule: list_all2_induct) auto

text \<open>With the payload of the call, every binding yields the handler's argument.\<close>

lemma run_payload_some:
  assumes "operation_wf_model op" "inputs_fit U display op params input"
    and "a \<in> set (om_arguments op)" "am_kind a = ArgPayload p"
  shows "\<exists>b d. run_payload J U (payload_expression op) input = Inr b \<and>
    payload_decode (am_ty a) p = Some d \<and>
    (\<forall>request v. rq_payload request = b \<longrightarrow> input = Some v \<longrightarrow> eval_decode J U d request = Inr v) \<and>
    (input = None \<longrightarrow> b = [] \<and> pm_optional p)"
proof -
  have "find is_payload (om_arguments op) = Some a"
    using assms by (intro find_unique) (auto simp: operation_wf_model_def is_payload_def)
  then have e: "payload_expression op =
      Some (am_ident a, pm_optional p, payload_encoding (am_ty a) p)"
    by (simp add: payload_expression_def assms(4))
  have wf: "payload_wf p"
    using assms(1,3,4) by (auto simp: operation_wf_model_def list_all_iff argument_wf_def)
  have fit: "case input of Some v \<Rightarrow> payload_fits U (am_ty a) p v | None \<Rightarrow> pm_optional p"
    using assms(2-4) by (auto simp: inputs_fit_def list_all_iff)
  show ?thesis
  proof (cases input)
    case None
    then show ?thesis using fit payload_decode_total [OF wf, of "am_ty a"]
      by (auto simp: run_payload_def e)
  next
    case (Some v)
    then show ?thesis using fit payload_round_trip [OF wf, of U "am_ty a" v J]
      by (auto simp: run_payload_def e)
  qed
qed

lemma binding_yields_argument:
  assumes wf: "operation_wf_model op" and fit: "inputs_fit U display op params input"
    and payload: "run_payload J U (payload_expression op) input = Inr encoded"
      "rq_payload request = encoded"
    and subject: "\<And>name i. (name, i) \<in> set (sm_placeholders (om_subject op)) \<Longrightarrow>
      segment (rq_subject request) i = Some (concat (display (params name)))"
    and a: "a \<in> set (om_arguments op)" "argument_binding a = Some b"
  shows "eval_binding J H U uuid q request b = Inr (handler_argument U q params input encoded a)"
proof (cases "am_kind a")
  case (ArgSubject name i)
  then have "(name, i) \<in> set (sm_placeholders (om_subject op))"
    "uo_from_subject U (am_ty a) (concat (display (params name))) = Inr (params name)"
    using wf fit a(1) by (auto simp: operation_wf_model_def list_all_iff argument_wf_def inputs_fit_def)
  then show ?thesis using a(2) ArgSubject subject
    by (auto simp: argument_binding_def eval_binding_def handler_argument_def Let_def)
next
  case (ArgPayload p)
  then obtain d where d: "payload_decode (am_ty a) p = Some d"
    "input = None \<Longrightarrow> encoded = [] \<and> pm_optional p"
    "\<And>v. input = Some v \<Longrightarrow> eval_decode J U d request = Inr v"
    using run_payload_some [OF wf fit a(1) ArgPayload, of J] payload by auto
  then show ?thesis using a(2) ArgPayload payload(2)
    by (cases input) (auto simp: argument_binding_def eval_binding_def handler_argument_def Let_def)
qed (use assms in \<open>auto simp: inputs_fit_def list_all_iff argument_binding_def eval_binding_def
  handler_argument_def Let_def\<close>)

section \<open>The remote call\<close>

definition handler_run ::
  "('v, 'h, 'q, 'e) handler \<Rightarrow> 'q \<Rightarrow> ('v, 'h) argument_value list \<Rightarrow> 'e + ('v, 'h) handler_value"
  where
  "handler_run handler q args =
     (case handler of Infallible f \<Rightarrow> Inr (f q args) | Fallible f \<Rightarrow> f q args)"

lemma eval_call_run:
  "eval_call U handler q request args =
     map_err (\<lambda>e. uo_into_service_error U e (rq_request_id request)) (handler_run handler q args)"
  by (simp add: eval_call_def handler_run_def split: handler.split)

text \<open>The request the transport delivers and the reply of the worker that serves it.\<close>

definition carried_request :: "string \<Rightarrow> 'h client_request \<Rightarrow> 'h raw_request" where
  "carried_request inbox c =
     \<lparr>rr_subject = subject_as_str (cq_subject c), rr_reply = Some inbox,
      rr_payload = cq_payload c, rr_headers = cq_headers c\<rparr>"

definition worker_reply ::
  "'h header_ops \<Rightarrow> telemetry_config option \<Rightarrow> operation_spec \<Rightarrow>
   ('h request \<Rightarrow> error_reply + 'h response) \<Rightarrow> 'h raw_request \<Rightarrow> 'h client_response" where
  "worker_reply H telemetry spec call raw =
     (case responses (fst (process_plain_request H telemetry spec call (Inr ()) raw)) of
        (payload, headers) # _ \<Rightarrow> \<lparr>cx_payload = payload, cx_headers = headers\<rparr>
      | [] \<Rightarrow> \<lparr>cx_payload = [], cx_headers = None\<rparr>)"

lemma worker_reply_conv:
  "worker_reply H telemetry spec call raw =
     (case call (raw_view H raw) of
        Inr response \<Rightarrow> received response
      | Inl error \<Rightarrow> \<lparr>cx_payload = rp_payload error,
          cx_headers = Some (service_error_headers H error)\<rparr>)"
  by (simp add: worker_reply_def process_plain_request_def respond_with_responses received_def
      split: sum.split response.split)

text \<open>What any transport gives the client that runs the endpoint on the request it carries.\<close>

definition answered ::
  "'h header_ops \<Rightarrow> string option \<Rightarrow> ('h request \<Rightarrow> error_reply + 'h response) \<Rightarrow>
   'h client_request \<Rightarrow> 'h client_response" where
  "answered H inbox call c =
     (case call (request_new H (subject_as_str (cq_subject c)) inbox (cq_payload c) (cq_headers c)) of
        Inr response \<Rightarrow> received response
      | Inl error \<Rightarrow> \<lparr>cx_payload = rp_payload error,
          cx_headers = Some (service_error_headers H error)\<rparr>)"

lemma worker_reply_answered:
  "worker_reply H telemetry spec call (carried_request inbox c) = answered H (Some inbox) call c"
  by (simp add: worker_reply_conv answered_def raw_view_def carried_request_def)

text \<open>The specification: what the handler returns, as the client's types show it.\<close>

definition local_outcome ::
  "('j nats_error_response \<Rightarrow> ('j, 'd) service_error_match) \<Rightarrow>
   ('e \<Rightarrow> string \<Rightarrow> 'j nats_error_response) \<Rightarrow> string \<Rightarrow> response_model \<Rightarrow>
   'e + ('v, 'h) handler_value \<Rightarrow> ('j, 'd) client_error + ('v, 'h) client_result" where
  "local_outcome from_response into_nats_error request_id r result =
     (case result of
        Inr v \<Rightarrow> Inr (client_result_of r v)
      | Inl e \<Rightarrow> Inl (from_service_response from_response (into_nats_error e request_id)))"

lemma run_decoder_error:
  assumes "reports_service_error H response"
    and "jo_error_from_slice J (cx_payload response) = Inr error"
  shows "run_decoder J H U from_response r response = Inl (from_service_response from_response error)"
  using ensure_success_error [OF assms(1), of J from_response] assms(2)
  by (cases "decoder_type r") (simp_all add: run_decoder_def decoder_defs Let_def)

lemma reply_decodes:
  fixes from_response :: "'j nats_error_response \<Rightarrow> ('j, 'd) service_error_match"
  assumes J: "json_laws J" and H: "header_map_laws H"
    and wf: "response_wf r" "response_compiles r"
    and ok: "\<And>v. handler_run handler q args = Inr v \<Longrightarrow> response_fits H U r v"
    and err: "\<And>e. handler_run handler q args = Inl e \<Longrightarrow>
      uo_into_service_error U e (rq_request_id request) =
        into_service_error J into_nats_error uuid e (rq_request_id request) \<and>
      error_wf J (into_nats_error e (fst (get_or_generate uuid (rq_request_id request))))"
    and bindings: "eval_bindings J H U uuid q request bs = Inr args"
  shows "run_decoder J H U from_response r
      (case request_body J H U uuid bs r handler q request of
        Inr response \<Rightarrow> received response
      | Inl error \<Rightarrow> \<lparr>cx_payload = rp_payload error,
          cx_headers = Some (service_error_headers H error)\<rparr>) =
    local_outcome from_response into_nats_error (fst (get_or_generate uuid (rq_request_id request))) r
      (handler_run handler q args)"
proof (cases "handler_run handler q args")
  case (Inr v)
  then show ?thesis
    using response_round_trip [OF H wf ok [OF Inr], of J from_response] bindings
    by (auto simp: request_body_def eval_call_run local_outcome_def)
next
  case (Inl e)
  let ?error = "into_service_error J into_nats_error uuid e (rq_request_id request)"
  let ?response = "\<lparr>cx_payload = rp_payload ?error, cx_headers = Some (service_error_headers H ?error)\<rparr>"
  have "reports_service_error H ?response"
    by (simp add: reports_service_error_def service_error_headers_get [OF H])
  moreover have "jo_error_from_slice J (cx_payload ?response) =
      Inr (into_nats_error e (fst (get_or_generate uuid (rq_request_id request))))"
    using err [OF Inl] by (simp add: into_service_error_def from_nats_error_payload [OF J])
  ultimately show ?thesis
    using Inl err [OF Inl] bindings
    by (simp add: request_body_def eval_call_run local_outcome_def run_decoder_error)
qed

lemma build_method_subject:
  "build_method X args f = Inr (MethodOp op) \<Longrightarrow> om_kind op = MRequest \<Longrightarrow>
   \<exists>template. template \<noteq> [] \<and> parse_subject_template X template MRequest = Inr (om_subject op)"
proof -
  have "parse_subject_template X (p @ CHR ''.'' # s) MRequest = Inr sm \<Longrightarrow>
      \<exists>template. template \<noteq> [] \<and> parse_subject_template X template MRequest = Inr sm" for p s sm
    by (intro exI [of _ "p @ CHR ''.'' # s"]) simp
  then show "build_method X args f = Inr (MethodOp op) \<Longrightarrow> om_kind op = MRequest \<Longrightarrow> ?thesis"
    by (auto simp: build_method_def build_subject_def Let_def split: list.splits if_splits)
qed

lemma build_methods_subject:
  "build_methods X args items = Inr ms \<Longrightarrow> MethodOp op \<in> set ms \<Longrightarrow> om_kind op = MRequest \<Longrightarrow>
   \<exists>template. template \<noteq> [] \<and> parse_subject_template X template MRequest = Inr (om_subject op)"
  by (induction X args items arbitrary: ms rule: build_methods.induct)
    (auto dest: build_method_subject)

lemma call_payload_ok:
  assumes "operation_wf_model op" "inputs_fit U display op params input"
  shows "\<exists>b. run_payload J U (payload_expression op) input = Inr b"
proof (cases "find is_payload (om_arguments op)")
  case None
  then show ?thesis by (simp add: run_payload_def payload_expression_def)
next
  case (Some a)
  then have "a \<in> set (om_arguments op)" "is_payload a"
    by (metis find_Some_iff nth_mem)+
  then show ?thesis
    using run_payload_some [OF assms, of a _ J] by (auto simp: is_payload_def split: argument_kind.splits)
qed

text \<open>The subject a client method writes is received by the operation's endpoint.\<close>

lemma call_subject_received:
  assumes "build_model X args item = Inr m" "op \<in> set (model_operations m)" "om_kind op = MRequest"
    and inputs: "inputs_fit U display op params input"
  shows "subject_matches (sm_pattern (om_subject op))
      (subject_as_str (subject_expression (om_subject op) (\<lambda>name. display (params name))))"
    and "(name, i) \<in> set (sm_placeholders (om_subject op)) \<Longrightarrow>
      segment (subject_as_str (subject_expression (om_subject op) (\<lambda>name. display (params name)))) i =
        Some (concat (display (params name)))"
proof -
  obtain template where template: "template \<noteq> []"
    "parse_subject_template X template MRequest = Inr (om_subject op)"
    using build_methods_subject [of X args "im_items item" "sv_methods m" op] assms(1-3)
    by (auto simp: build_model_def set_model_operations split: if_splits)
  have dots: "\<And>name. CHR ''.'' \<notin> set (concat (display (params name)))"
    and utf8: "utf8_str (subject_as_str (subject_expression (om_subject op)
      (\<lambda>name. display (params name))))"
    using inputs by (simp_all add: inputs_fit_def)
  note received = built_subject_received [OF template(2) disjI1 [OF refl] template(1) dots utf8]
  show "subject_matches (sm_pattern (om_subject op))
      (subject_as_str (subject_expression (om_subject op) (\<lambda>name. display (params name))))"
    by (rule received(1))
  show "(name, i) \<in> set (sm_placeholders (om_subject op)) \<Longrightarrow>
      segment (subject_as_str (subject_expression (om_subject op) (\<lambda>name. display (params name)))) i =
        Some (concat (display (params name)))"
    by (rule received(2))
qed

text \<open>The outcome of a call over any transport that answers for the endpoint.\<close>

lemma generated_call_outcome:
  fixes from_response :: "'j nats_error_response \<Rightarrow> ('j, 'd) service_error_match"
  assumes J: "json_laws J" and H: "header_map_laws H"
    and model: "build_model X args item = Inr m" "op \<in> set (model_operations m)"
    and kind: "om_kind op = MRequest"
    and compiles: "response_compiles (om_response op)"
    and inputs: "inputs_fit U display op params input"
    and endpoint: "generated_request J H U uuid op handler = Some endpoint"
    and network: "\<And>c. cq_subject c = subject_expression (om_subject op) (\<lambda>name. display (params name)) \<Longrightarrow>
      tr_request T c = Inr (answered H inbox (endpoint q) c)"
    and id: "request_id = fst (get_or_generate uuid
      (request_id_new H (headers_new (gc_default_headers client))))"
    and ok: "\<forall>args v. handler_run handler q args = Inr v \<longrightarrow> response_fits H U (om_response op) v"
    and err: "\<forall>args e. handler_run handler q args = Inl e \<longrightarrow>
      (\<forall>i. uo_into_service_error U e i = into_service_error J into_nats_error uuid e i) \<and>
      error_wf J (into_nats_error e request_id)"
  shows "\<exists>encoded. run_payload J U (payload_expression op) input = Inr encoded \<and>
    request_call_send H T (run_decoder J H U from_response (om_response op))
      (generated_call J U op client (\<lambda>name. display (params name)) input) =
    local_outcome from_response into_nats_error request_id (om_response op)
      (handler_run handler q (map (handler_argument U q params input encoded) (om_arguments op)))"
proof -
  let ?subject = "subject_expression (om_subject op) (\<lambda>name. display (params name))"
  have wf: "operation_wf_model op" by (rule model_operation_wf [OF model])
  obtain encoded where encoded: "run_payload J U (payload_expression op) input = Inr encoded"
    using call_payload_ok [OF wf inputs] by blast
  obtain bs where bs: "argument_bindings op = Some bs"
    "endpoint = request_body J H U uuid bs (om_response op) handler"
    using endpoint by (auto simp: generated_request_def)
  define request where "request =
    request_new H (subject_as_str ?subject) inbox encoded (gc_default_headers client)"
  have r: "rq_payload request = encoded" "rq_subject request = subject_as_str ?subject"
    "request_id = fst (get_or_generate uuid (rq_request_id request))"
    by (simp_all add: request_def request_new_def id)
  have args: "eval_bindings J H U uuid q request bs =
      Inr (map (handler_argument U q params input encoded) (om_arguments op))"
    using all_some_map [OF bs(1) [unfolded argument_bindings_def]]
      binding_yields_argument [OF wf inputs encoded r(1)] call_subject_received(2) [OF model kind inputs]
    by (intro eval_bindings_map) (auto simp: r(2))
  have "request_call_send H T (run_decoder J H U from_response (om_response op))
      (generated_call J U op client (\<lambda>name. display (params name)) input) =
    run_decoder J H U from_response (om_response op) (case endpoint q request of
        Inr response \<Rightarrow> received response
      | Inl error \<Rightarrow> \<lparr>cx_payload = rp_payload error,
          cx_headers = Some (service_error_headers H error)\<rparr>)"
    using network by (cases "gc_default_headers client")
      (simp_all add: request_call_send_def generated_call_def request_call_new_def encoded
        merge_headers_def kind answered_def request_def)
  also have "\<dots> = local_outcome from_response into_nats_error request_id (om_response op)
      (handler_run handler q (map (handler_argument U q params input encoded) (om_arguments op)))"
    unfolding bs(2) r(3)
    using wf ok err reply_decodes [OF J H _ compiles _ _ args, where into_nats_error = into_nats_error
        and from_response = from_response and handler = handler]
    by (simp add: operation_wf_model_def r(3))
  finally show ?thesis using encoded by blast
qed

text \<open>
  C1: a remote call is a local call.  For every plain request operation of a service the macro
  accepts, whose handler takes state, subject parameters and a payload: calling the generated
  client method over a transport that hands requests to the worker subscribed to their subject
  returns what the handler returns on the caller's arguments, a value or the service error made
  of the handler's error; the payload is the caller's, save that an optional one with an empty
  encoding arrives as \<open>None\<close>.
\<close>

theorem remote_call_is_local_call:
  fixes from_response :: "'j nats_error_response \<Rightarrow> ('j, 'd) service_error_match"
  assumes J: "json_laws J" and H: "header_map_laws H"
    and model: "build_model X args item = Inr m" "op \<in> set (model_operations m)"
    and kind: "om_kind op = MRequest" "\<not> operation_is_encrypted op"
    and compiles: "response_compiles (om_response op)"
    and inputs: "inputs_fit U display op params input"
    and endpoint: "generated_request J H U uuid op handler = Some endpoint"
    and network: "\<forall>c. subject_matches (sm_pattern (om_subject op)) (subject_as_str (cq_subject c)) \<longrightarrow>
      tr_request T c = Inr (worker_reply H telemetry spec (endpoint q) (carried_request inbox c))"
    and id: "request_id = fst (get_or_generate uuid
      (request_id_new H (headers_new (gc_default_headers client))))"
    and ok: "\<forall>args v. handler_run handler q args = Inr v \<longrightarrow> response_fits H U (om_response op) v"
    and err: "\<forall>args e. handler_run handler q args = Inl e \<longrightarrow>
      (\<forall>i. uo_into_service_error U e i = into_service_error J into_nats_error uuid e i) \<and>
      error_wf J (into_nats_error e request_id)"
  shows "\<exists>encoded. run_payload J U (payload_expression op) input = Inr encoded \<and>
    request_call_send H T (run_decoder J H U from_response (om_response op))
      (generated_call J U op client (\<lambda>name. display (params name)) input) =
    local_outcome from_response into_nats_error request_id (om_response op)
      (handler_run handler q (map (handler_argument U q params input encoded) (om_arguments op)))"
proof -
  have answer: "tr_request T c = Inr (answered H (Some inbox) (endpoint q) c)"
    if "cq_subject c = subject_expression (om_subject op) (\<lambda>name. display (params name))" for c
    using that network call_subject_received(1) [OF model kind(1) inputs]
    by (simp add: worker_reply_answered)
  show ?thesis
    by (rule generated_call_outcome [OF J H model kind(1) compiles inputs endpoint answer id ok err])
qed

definition demo_user_ops :: "(unit, alist_map, unit, string) user_ops" where
  "demo_user_ops =
     \<lparr>uo_from_state = (\<lambda>_ _. ()), uo_from_subject = (\<lambda>_ _. Inr ()), uo_from_json = (\<lambda>_ _. Inr ()),
      uo_from_proto = (\<lambda>_ _. Inr ()), uo_to_json = (\<lambda>_. ([], None)), uo_to_proto = (\<lambda>_. Inr []),
      uo_claims = (\<lambda>_ _. Inr ()),
      uo_into_service_error = into_service_error demo_json into_nats_error_string ''u1''\<rparr>"

text \<open>A handler that returns its text.\<close>

definition echo_text :: "(unit, alist_map) argument_value list \<Rightarrow> string" where
  "echo_text args =
     (case args of [VPayload (Some (PvText s))] \<Rightarrow> if utf8_str s then s else [] | _ \<Rightarrow> [])"

definition echo :: "(unit, alist_map, unit, string) handler" where
  "echo = Infallible (\<lambda>q args. Direct (RvBytes (as_bytes (echo_text args))))"

lemma utf8_echo_text: "utf8_str (echo_text args)"
proof -
  have "utf8_str []" by code_simp
  then show ?thesis
    by (simp add: echo_text_def
        split: list.split argument_value.split payload_value.split option.split)
qed

definition echo_endpoint :: "unit \<Rightarrow> alist_map request \<Rightarrow> error_reply + alist_map response" where
  "echo_endpoint = request_body demo_json alist_headers demo_user_ops ''u1''
     [BindPayload DecText False] (om_response demo_operation) echo"

definition echo_transport :: "operation_spec \<Rightarrow> alist_map client_transport" where
  "echo_transport spec =
     \<lparr>tr_request = (\<lambda>c. Inr (worker_reply alist_headers None spec (echo_endpoint ())
        (carried_request ''inbox'' c))),
      tr_publish = (\<lambda>_ _ _. Inr ())\<rparr>"

lemma demo_facts:
  "om_kind demo_operation = MRequest" "\<not> operation_is_encrypted demo_operation"
  "response_compiles (om_response demo_operation)" "reads_text (om_response demo_operation)"
  "encode_value (rs_wire_type (om_response demo_operation)) (rs_codec (om_response demo_operation))
    (rs_wrapper (om_response demo_operation)) = EncBytes"
  "\<not> rs_optional (om_response demo_operation)" "utf8_str ''hi''" "utf8_str ''demo.v1.get''"
  by code_simp+

lemma demo_endpoint_generated:
  "generated_request demo_json alist_headers demo_user_ops ''u1'' demo_operation echo =
    Some echo_endpoint"
  by (simp add: generated_request_def echo_endpoint_def argument_bindings_def demo_operation_def
      argument_binding_def payload_decode_def)

lemma demo_inputs_fit:
  "inputs_fit demo_user_ops (\<lambda>_. []) demo_operation (\<lambda>_. ()) (Some (PvText ''hi''))"
  using demo_facts(7,8) by (simp add: inputs_fit_def demo_operation_def payload_fits_def
      payload_encoding_def subject_expression_def)

lemma echo_ok:
  "\<forall>args v. handler_run echo () args = Inr v \<longrightarrow>
    response_fits alist_headers demo_user_ops (om_response demo_operation) v"
  using demo_facts(4-6) by (auto simp: handler_run_def echo_def response_fits_def
      response_value_fits_def str_from_utf8_text utf8_echo_text)

lemma echo_err:
  "\<forall>args e. handler_run echo () args = Inl e \<longrightarrow>
    (\<forall>i. uo_into_service_error demo_user_ops e i =
      into_service_error demo_json into_nats_error_string ''u1'' e i) \<and>
    error_wf demo_json (into_nats_error_string e ''u1'')"
  by (simp add: handler_run_def echo_def)

lemma demo_arguments:
  "map (handler_argument demo_user_ops () (\<lambda>_. ()) (Some (PvText ''hi'')) encoded)
    (om_arguments demo_operation) = [VPayload (Some (PvText ''hi''))]" for encoded
  by (simp add: demo_operation_def handler_argument_def)

lemma echoed:
  "echo_text [VPayload (Some (PvText ''hi''))] = ''hi''"
  using demo_facts(7) by (simp add: echo_text_def)

theorem remote_call_is_local_call_witness:
  "\<forall>spec. request_call_send alist_headers (echo_transport spec)
     (run_decoder demo_json alist_headers demo_user_ops from_response_self (om_response demo_operation))
     (generated_call demo_json demo_user_ops demo_operation generated_client_new (\<lambda>_. [])
       (Some (PvText ''hi''))) = Inr (Present (CvText ''hi''))"
proof
  fix spec
  have model: "demo_operation \<in> set (model_operations demo_service)"
    by (simp add: model_operations_def demo_service_def)
  have network: "\<forall>c. subject_matches (sm_pattern (om_subject demo_operation))
      (subject_as_str (cq_subject c)) \<longrightarrow> tr_request (echo_transport spec) c =
      Inr (worker_reply alist_headers None spec (echo_endpoint ()) (carried_request ''inbox'' c))"
    by (simp add: echo_transport_def)
  have id: "''u1'' = fst (get_or_generate ''u1'' (request_id_new alist_headers
      (headers_new (gc_default_headers generated_client_new))))"
    by (simp add: request_id_new_def headers_get_def headers_new_def option_filter_def
        get_or_generate_def generated_client_new_def)
  show "request_call_send alist_headers (echo_transport spec)
     (run_decoder demo_json alist_headers demo_user_ops from_response_self (om_response demo_operation))
     (generated_call demo_json demo_user_ops demo_operation generated_client_new (\<lambda>_. [])
       (Some (PvText ''hi''))) = Inr (Present (CvText ''hi''))"
    using remote_call_is_local_call [where from_response = from_response_self,
        OF demo_json_laws alist_headers_laws demo_build_model model demo_facts(1-3) demo_inputs_fit
          demo_endpoint_generated network id echo_ok echo_err] demo_facts(4) demo_arguments echoed
    by (simp add: local_outcome_def handler_run_def echo_def client_result_of_def client_value_of_def)
qed

end
