(* ===== verification/Encrypted_Calls.thy ===== *)
theory Encrypted_Calls
  imports Remote_Calls Encrypted_Round_Trip
begin

text \<open>
  The generated client and the generated server of an encrypted operation together: the
  client's builder, the transport, the worker of the service that holds the key pair and the
  client's decoder compose to a call of the handler, the same specification
  \<open>local_outcome\<close> that plain operations have.
\<close>

section \<open>What the client may send\<close>

definition header_entries :: "'h header_ops \<Rightarrow> 'h \<Rightarrow> (string \<times> string) list" where
  "header_entries H h =
     concat (map (\<lambda>(name, values). map (\<lambda>v. (name, v)) values) (ho_iter H h))"

text \<open>
  The default headers of the client: well formed, one value per name, no transport name of
  the encryption layer, a valid request id if there is one.
\<close>

definition encrypted_defaults_ok :: "'h header_ops \<Rightarrow> 'h option \<Rightarrow> bool" where
  "encrypted_defaults_ok H headers \<longleftrightarrow>
     (case headers of
        None \<Rightarrow> True
      | Some h \<Rightarrow>
          list_all (\<lambda>(name, values). length values = 1) (ho_iter H h) \<and>
          list_all (\<lambda>(name, v). is_ok (ho_parse_name H name) \<and> is_ok (ho_parse_value H v))
            (header_entries H h) \<and>
          plain_headers_ok (header_entries H h))"

text \<open>Sealing a message that fits in memory does not fail.\<close>

definition seal_total :: "crypto_ops \<Rightarrow> bool" where
  "seal_total C \<longleftrightarrow> (\<forall>key nonce p. cr_seal C key nonce p \<noteq> None)"

lemma encrypt_aead_total: "seal_total C \<Longrightarrow> \<exists>c. encrypt_aead C nonce key p = Inr (c, nonce)"
  by (auto simp: seal_total_def encrypt_aead_def split: option.split)

lemma is_ok_parse:
  assumes "header_map_laws H"
  shows "is_ok (ho_parse_name H s) \<longleftrightarrow> ho_parse_name H s = Inr s"
    and "is_ok (ho_parse_value H s) \<longleftrightarrow> ho_parse_value H s = Inr s"
  using header_get_laws(6,7) [OF assms, of s]
  by (auto simp: is_ok_def split: sum.splits)

lemma add_plain_headers_ok:
  assumes "header_map_laws H"
    and "list_all (\<lambda>(name, v). is_ok (ho_parse_name H name) \<and> is_ok (ho_parse_value H v)) xs"
  shows "add_headers (try_header H) xs b =
    Inr (b\<lparr>rb_plaintext_headers := rb_plaintext_headers b @ xs\<rparr>)"
  using assms(2)
  by (induction xs arbitrary: b) (auto simp: try_header_def is_ok_parse [OF assms(1)])

text \<open>With one value per name the builder's last value is the map's first.\<close>

lemma map_of_entries:
  assumes "distinct (map fst xs)" "list_all (\<lambda>(name, values). length values = 1) xs"
  shows "map_of (rev (concat (map (\<lambda>(name, values). map (\<lambda>v. (name, v)) values) xs))) k =
    first_value xs k"
proof -
  have single: "concat (map (\<lambda>(name, values). map (\<lambda>v. (name, v)) values) xs) =
      map (\<lambda>(name, values). (name, hd values)) xs"
    using assms(2)
  proof (induction xs)
    case (Cons x xs)
    obtain n vs where x: "x = (n, vs)" by (cases x)
    then obtain v where "vs = [v]" using Cons.prems by (auto simp: length_Suc_conv)
    then show ?case using Cons x by simp
  qed simp
  have fsts: "map fst (map (\<lambda>(name, values). (name, hd values)) xs) = map fst xs"
    by (simp add: case_prod_beta comp_def)
  have "map_of (rev ys) = map_of ys" if "distinct (map fst ys)" for ys :: "(string \<times> string) list"
    using that map_of_inject_set [of "rev ys" ys] by (simp flip: rev_map)
  then have "map_of (rev (map (\<lambda>(name, values). (name, hd values)) xs)) k =
      map_of (map (\<lambda>(name, values). (name, hd values)) xs) k"
    using assms(1) fsts by metis
  also have "\<dots> = map_option hd (map_of xs k)"
    by (induction xs) auto
  also have "\<dots> = first_value xs k"
  proof (cases "map_of xs k")
    case (Some vs)
    then have "length vs = 1" using map_of_SomeD [OF Some] assms(2) by (auto simp: list_all_iff)
    then show ?thesis using Some by (auto simp: first_value_def length_Suc_conv)
  qed (simp add: first_value_def)
  finally show ?thesis by (simp only: single)
qed

text \<open>The plaintext headers that a call's builder ends up with.\<close>

definition call_entries :: "'h header_ops \<Rightarrow> 'h option \<Rightarrow> (string \<times> string) list" where
  "call_entries H headers = (case headers of None \<Rightarrow> [] | Some h \<Rightarrow> header_entries H h)"

lemma call_entries_ok:
  assumes "encrypted_defaults_ok H headers"
  shows "plain_headers_ok (call_entries H headers)"
  using assms
  by (cases headers) (simp_all add: call_entries_def encrypted_defaults_ok_def plain_headers_ok_def)

lemma call_entries_get:
  assumes "header_map_laws H" "encrypted_defaults_ok H headers"
  shows "map_of (rev (call_entries H headers)) k = Option.bind headers (\<lambda>m. ho_get H m k)"
  using assms map_of_entries [of "ho_iter H (the headers)" k]
  by (cases headers)
    (simp_all add: call_entries_def header_entries_def encrypted_defaults_ok_def header_get_laws(4,5))

section \<open>The client's build\<close>

lemma build_succeeds:
  assumes "seal_total C" "rb_encrypted_headers b = []"
  shows "\<exists>built. build_for_subject C H M b subject nonce1 nonce2 = Inr built"
  using encrypt_aead_total [OF assms(1)] assms(2)
  by (auto simp: build_for_subject_def Let_def build_encrypted_headers_def build_payload_def
      context_encrypt_def split: option.split) metis

text \<open>The builder from which the client of an encrypted call builds its request.\<close>

definition call_builder ::
  "crypto_ops \<Rightarrow> 'h header_ops \<Rightarrow> bytes \<Rightarrow> bytes \<Rightarrow> bool \<Rightarrow> 'h option \<Rightarrow> bytes \<Rightarrow> unit request_builder"
  where
  "call_builder C H eph_secret recipient sealed headers payload =
     \<lparr>rb_ctx = recipient_begin C eph_secret recipient, rb_client = None,
      rb_plaintext_headers = call_entries H headers, rb_encrypted_headers = [],
      rb_payload = Some payload, rb_encrypt_payload = sealed\<rparr>"

lemma build_encrypted_call_ok:
  assumes "header_map_laws H" "encrypted_defaults_ok H (gc_default_headers client)"
    and "gc_recipient client = Some recipient"
    and "run_payload J U (payload_expression op) input = Inr encoded"
    and "build_for_subject C H M (call_builder C H eph_secret recipient (request_encrypted op)
        (gc_default_headers client) encoded)
      (subject_as_str (subject_expression (om_subject op) params)) nonce1 nonce2 = Inr built"
  shows "build_encrypted_call C H M eph_secret nonce1 nonce2
    (generated_encrypted_call J U op client params input) = Inr built"
proof (cases "gc_default_headers client")
  case None
  then show ?thesis
    using assms by (cases "request_encrypted op") (simp_all add: build_encrypted_call_def generated_encrypted_call_def
        generated_call_def request_call_new_def merge_headers_def call_builder_def Let_def
        request_builder_new_def builder_payload_def builder_encrypted_payload_def call_entries_def)
next
  case (Some h)
  then have "list_all (\<lambda>(name, v). is_ok (ho_parse_name H name) \<and> is_ok (ho_parse_value H v))
      (header_entries H h)"
    using assms(2) by (simp add: encrypted_defaults_ok_def)
  note add = add_plain_headers_ok [OF assms(1) this]
  show ?thesis
    using assms(3-5) Some
    by (cases "request_encrypted op") (simp_all add: build_encrypted_call_def generated_encrypted_call_def
        generated_call_def request_call_new_def merge_headers_def call_builder_def Let_def
        request_builder_new_def builder_payload_def builder_encrypted_payload_def call_entries_def
        add_plain_headers_def add [unfolded header_entries_def] header_entries_def)
qed

section \<open>The service's reply\<close>

lemma prepare_original:
  "prepare J C H M keypair request decrypt = Inr r \<Longrightarrow>
   eq_original r = request \<and> eq_keypair r = keypair"
  by (auto simp: prepare_def Let_def split: if_splits)

text \<open>Encrypting the response and decrypting it on the client is the identity.\<close>

lemma encrypted_response_received:
  assumes C: "crypto_laws C" "seal_total C"
    and l: "length eph_secret = 32" "length secret = 32" "length nonce = 24"
    and r: "eq_keypair r = from_private_bytes C secret"
      "eq_ephemeral_public_key r = cr_public C eph_secret"
  shows "\<exists>sealed. request_encrypt_response J C r nonce response = Inr sealed \<and>
    cx_headers (received sealed) = cx_headers (received response) \<and>
    decrypt_response C (recipient_begin C eph_secret (cr_public C secret))
      (cx_payload (received sealed)) = Inr (cx_payload (received response))"
proof -
  have "\<exists>p. encrypt_response_payload J C r nonce payload = Inr p \<and>
      decrypt_response C (recipient_begin C eph_secret (cr_public C secret)) p = Inr payload"
    for payload
  proof -
    obtain p where p: "encrypt_response C (from_private_bytes C secret) nonce payload
        (cr_public C eph_secret) = Inr p"
      using encrypt_aead_total [OF C(2)] by (force simp: encrypt_response_def)
    then show ?thesis
      using decrypt_response_encrypt [OF C(1) l p] r by (simp add: encrypt_response_payload_def)
  qed
  note payload = this
  show ?thesis
    using payload [of "[]"] payload [of "cx_payload (received response)"]
    by (cases response) (auto simp: request_encrypt_response_def received_def)
qed

text \<open>A response of the declared type is not mistaken for an error.\<close>

lemma reports_service_error_plain:
  "\<not> reports_service_error H (received (RPayload b))" "\<not> reports_service_error H (received REmpty)"
  by (simp_all add: reports_service_error_def received_def)

lemma response_not_error:
  assumes "header_map_laws H" "response_fits H U r v" "encode_response J H U r v = Inr response"
  shows "\<not> reports_service_error H (received response)"
proof -
  have "\<not> reports_service_error H (received y)"
    if "response_value_fits H U r x"
      "eval_encode J U (encode_value (rs_wire_type r) (rs_codec r) (rs_wrapper r)) x = Inr y" for x y
    using that
    by (cases "encode_value (rs_wire_type r) (rs_codec r) (rs_wrapper r)"; cases x)
      (auto simp: response_value_fits_def eval_encode_def response_bytes_def response_empty_def
        map_ok_def reports_service_error_plain split: sum.splits)
  then show ?thesis
    using assms optional_none_flags(2) [OF assms(1)]
    by (auto simp: response_fits_def encode_response_def Let_def
        split: handler_value.splits option.splits)
qed

definition encrypted_worker_reply ::
  "'h header_ops \<Rightarrow> telemetry_config option \<Rightarrow> operation_spec \<Rightarrow>
   (service_key_pair \<Rightarrow> 'h request \<Rightarrow> error_reply + 'h response) \<Rightarrow> service_key_pair \<Rightarrow>
   'h raw_request \<Rightarrow> 'h client_response" where
  "encrypted_worker_reply H telemetry spec call keypair raw =
     (case responses (fst (process_encrypted_request H telemetry spec call keypair (Inr ()) raw)) of
        (payload, headers) # _ \<Rightarrow> \<lparr>cx_payload = payload, cx_headers = headers\<rparr>
      | [] \<Rightarrow> \<lparr>cx_payload = [], cx_headers = None\<rparr>)"

lemma encrypted_worker_reply_conv:
  "encrypted_worker_reply H telemetry spec call keypair raw =
     (case call keypair (raw_view H raw) of
        Inr response \<Rightarrow> received response
      | Inl error \<Rightarrow> \<lparr>cx_payload = rp_payload error,
          cx_headers = Some (service_error_headers H error)\<rparr>)"
  by (simp add: encrypted_worker_reply_def process_encrypted_request_def respond_with_responses
      received_def split: sum.split response.split)

lemma encrypted_worker_reply_answered:
  "encrypted_worker_reply H telemetry spec call keypair (carried_request inbox c) =
     answered H (Some inbox) (call keypair) c"
  by (simp add: encrypted_worker_reply_conv answered_def raw_view_def carried_request_def)

text \<open>What the client decodes, once the response is decrypted.\<close>

definition decrypted_reply ::
  "crypto_ops \<Rightarrow> 'h header_ops \<Rightarrow> bool \<Rightarrow> ephemeral_context \<Rightarrow> 'h client_response \<Rightarrow>
   ('j, 'e) client_error + 'h client_response" where
  "decrypted_reply C H decrypt context response =
     (if decrypt \<and> \<not> reports_service_error H response
      then map_ok (\<lambda>p. response\<lparr>cx_payload := p\<rparr>)
        (map_err encryption_decrypt_error (decrypt_response C context (cx_payload response)))
      else Inr response)"

lemma encrypted_reply_opened:
  assumes "crypto_laws C" "seal_total C"
    and "length eph_secret = 32" "length secret = 32" "length nonce = 24"
    and "eq_keypair r = from_private_bytes C secret"
      "eq_ephemeral_public_key r = cr_public C eph_secret"
    and H: "header_map_laws H"
    and plain: "\<And>response. result = Inr response \<Longrightarrow> \<not> reports_service_error H (received response)"
  shows "decrypted_reply C H decrypt (recipient_begin C eph_secret (cr_public C secret))
      (case try_then result (\<lambda>response. if decrypt then request_encrypt_response J C r nonce response
          else Inr response) of
        Inr response \<Rightarrow> received response
      | Inl error \<Rightarrow> \<lparr>cx_payload = rp_payload error,
          cx_headers = Some (service_error_headers H error)\<rparr>) =
    Inr (case result of
        Inr response \<Rightarrow> received response
      | Inl error \<Rightarrow> \<lparr>cx_payload = rp_payload error,
          cx_headers = Some (service_error_headers H error)\<rparr>)"
proof (cases result)
  case (Inl error)
  then show ?thesis
    by (simp add: decrypted_reply_def reports_service_error_def service_error_headers_get [OF H])
next
  case (Inr response)
  obtain sealed where sealed: "request_encrypt_response J C r nonce response = Inr sealed"
    "cx_headers (received sealed) = cx_headers (received response)"
    "decrypt_response C (recipient_begin C eph_secret (cr_public C secret))
      (cx_payload (received sealed)) = Inr (cx_payload (received response))"
    using encrypted_response_received [OF assms(1-7)] by blast
  have "\<not> reports_service_error H (received sealed)"
    using plain [OF Inr] sealed(2) by (simp add: reports_service_error_def)
  then show ?thesis
    using Inr sealed by (simp add: decrypted_reply_def)
qed

lemma encrypted_request_send_steps:
  fixes decode :: "'h client_response \<Rightarrow> ('j, 'e) client_error + 'r"
  assumes "build_encrypted_call C H M eph_secret nonce1 nonce2 c =
      (Inr built :: ('j, 'e) client_error + 'h built_request)"
    and "tr_request T \<lparr>cq_subject = ca_subject (ce_call c), cq_payload = br_payload built,
      cq_headers = Some (br_headers built), cq_timeout = ca_timeout (ce_call c)\<rparr> = Inr response"
    and "decrypted_reply C H (ce_decrypt_response c) (br_context built) response =
      (Inr opened :: ('j, 'e) client_error + 'h client_response)"
  shows "encrypted_request_send C H M eph_secret nonce1 nonce2 T decode c = decode opened"
  using assms by (simp add: encrypted_request_send_def decrypted_reply_def)

lemma generated_encrypted_call_fields:
  "om_kind op = MRequest \<Longrightarrow>
   ca_subject (ce_call (generated_encrypted_call J U op client params input)) =
     subject_expression (om_subject op) params \<and>
   ca_timeout (ce_call (generated_encrypted_call J U op client params input)) =
     map_option from_millis (oo_timeout_ms (om_options op)) \<and>
   ce_decrypt_response (generated_encrypted_call J U op client params input) =
     rs_encrypted (om_response op)"
  by (simp add: generated_encrypted_call_def generated_call_def request_call_new_def)

section \<open>The request the service sees\<close>

lemma built_request_id:
  assumes H: "header_map_laws H" and d: "encrypted_defaults_ok H headers"
    and build: "build_for_subject C H M (call_builder C H eph_secret recipient sealed headers payload)
      subject nonce1 nonce2 = Inr built"
  shows "ho_get H (br_headers built) REQUEST_ID_HEADER =
    Option.bind headers (\<lambda>m. ho_get H m REQUEST_ID_HEADER)"
proof -
  let ?b = "call_builder C H eph_secret recipient sealed headers payload"
  obtain e where "br_headers built = ho_insert H SIGNATURE_HEADER_NAME
      (cr_b64_encode C (compute_signature_for_transcript C (dk_signature (ec_keys (rb_ctx ?b)))
        \<lparr>st_subject = subject, st_ephemeral_pub = ec_ephemeral_pub (rb_ctx ?b),
         st_request_id = ho_get H (built_headers C H ?b e) ''x-request-id'',
         st_client_version = ho_get H (built_headers C H ?b e) ''x-client-version'',
         st_encrypted_headers = e, st_payload = br_payload built\<rparr>))
      (built_headers C H ?b e)"
    using build by (rule build_for_subject_parts) blast
  then have "ho_get H (br_headers built) REQUEST_ID_HEADER =
      ho_get H (built_headers C H ?b e) REQUEST_ID_HEADER"
    by (simp add: header_get_laws(2) [OF H] header_names)
  also have "\<dots> = map_of (rev (call_entries H headers)) REQUEST_ID_HEADER"
    using built_headers_get(3) [OF H, of ?b C e] call_entries_ok [OF d]
    by (simp add: call_builder_def)
  finally show ?thesis by (simp add: call_entries_get [OF H d])
qed

text \<open>
  The service accepts the request of an encrypted call and shows the handler's code the
  subject, payload and request id that a plain call would have shown.
\<close>

lemma encrypted_call_prepared:
  assumes C: "crypto_laws C" and H: "header_map_laws H" and M: "map_json_laws M"
    and l: "length eph_secret = 32" "length secret = 32" "length nonce1 = 24" "length nonce2 = 24"
    and d: "encrypted_defaults_ok H headers"
    and build: "build_for_subject C H M
      (call_builder C H eph_secret (cr_public C secret) sealed headers payload)
      subject nonce1 nonce2 = Inr built"
  shows "\<exists>r. prepare J C H M (from_private_bytes C secret)
      (request_new H subject reply (br_payload built) (Some (br_headers built))) sealed = Inr r \<and>
    eq_keypair r = from_private_bytes C secret \<and>
    eq_ephemeral_public_key r = cr_public C eph_secret \<and>
    rq_payload (encrypted_request_view H r) = payload \<and>
    rq_subject (encrypted_request_view H r) = subject \<and>
    rq_request_id (encrypted_request_view H r) = request_id_new H (headers_new headers)"
proof -
  let ?b = "call_builder C H eph_secret (cr_public C secret) sealed headers payload"
  let ?req = "request_new H subject reply (br_payload built) (Some (br_headers built))"
  have b: "rb_ctx ?b = recipient_begin C eph_secret (cr_public C secret)"
    "plain_headers_ok (rb_plaintext_headers ?b)" "encrypted_headers_ok (rb_encrypted_headers ?b)"
    "rb_payload ?b = Some payload" "rb_encrypt_payload ?b = sealed"
    "last_wins (rb_encrypted_headers ?b) = []"
    using call_entries_ok [OF d] by (simp_all add: call_builder_def encrypted_headers_ok_def)
  obtain r where r: "prepare J C H M (from_private_bytes C secret) ?req sealed = Inr r"
    "rq_payload (encrypted_request_view H r) = payload"
    "eq_keypair r = from_private_bytes C secret" "eq_ephemeral_public_key r = cr_public C eph_secret"
    "eq_overlay r = []"
    using prepare_built [OF C H M l b(1-4) build, of J reply] b(5,6) by auto
  have original: "eq_original r = ?req" using prepare_original [OF r(1)] by simp
  have "rq_subject (encrypted_request_view H r) = subject"
    by (simp add: encrypted_request_view_def original request_new_def)
  moreover have "rq_request_id (encrypted_request_view H r) = request_id_new H (headers_new headers)"
    using built_request_id [OF H d build]
    by (simp add: encrypted_request_view_def original r(5) with_body_and_overlay_def Let_def
        request_new_def request_id_new_def headers_get_def headers_with_overlay_def headers_new_def
        headers_raw_def overlay_get_def)
  ultimately show ?thesis using r by blast
qed

text \<open>The request of a generated call, as its client builds it and its service prepares it.\<close>

lemma generated_call_prepared:
  assumes C: "crypto_laws C" "seal_total C" and H: "header_map_laws H" and M: "map_json_laws M"
    and l: "length eph_secret = 32" "length secret = 32" "length nonce1 = 24" "length nonce2 = 24"
    and recipient: "gc_recipient client = Some (cr_public C secret)"
    and defaults: "encrypted_defaults_ok H (gc_default_headers client)"
    and encoded: "run_payload J U (payload_expression op) input = Inr encoded"
    and subject: "subject = subject_as_str (subject_expression (om_subject op) params)"
  shows "\<exists>built r. build_encrypted_call C H M eph_secret nonce1 nonce2
      (generated_encrypted_call J U op client params input) =
        (Inr built :: ('j, 'e) client_error + 'h built_request) \<and>
    br_context built = recipient_begin C eph_secret (cr_public C secret) \<and>
    prepare J' C H M (from_private_bytes C secret)
      (request_new H subject reply (br_payload built) (Some (br_headers built)))
      (request_encrypted op) = Inr r \<and>
    eq_keypair r = from_private_bytes C secret \<and>
    eq_ephemeral_public_key r = cr_public C eph_secret \<and>
    rq_payload (encrypted_request_view H r) = encoded \<and>
    rq_subject (encrypted_request_view H r) = subject \<and>
    rq_request_id (encrypted_request_view H r) =
      request_id_new H (headers_new (gc_default_headers client))"
proof -
  let ?b = "call_builder C H eph_secret (cr_public C secret) (request_encrypted op)
      (gc_default_headers client) encoded"
  obtain built where built: "build_for_subject C H M ?b subject nonce1 nonce2 = Inr built"
    using build_succeeds [OF C(2), of ?b H M subject nonce1 nonce2] by (auto simp: call_builder_def)
  have "br_context built = recipient_begin C eph_secret (cr_public C secret)"
    using build_for_subject_parts [OF built] by (simp add: call_builder_def) metis
  then show ?thesis
    using build_encrypted_call_ok [OF H defaults recipient encoded built [unfolded subject]]
      encrypted_call_prepared [OF C(1) H M l defaults built, of J' reply] by blast
qed

section \<open>The encrypted call\<close>

text \<open>The outcome of an encrypted call over any transport that answers for the endpoint.\<close>

lemma generated_encrypted_call_outcome:
  fixes from_response :: "'j nats_error_response \<Rightarrow> ('j, 'd) service_error_match"
  assumes J: "json_laws J" and H: "header_map_laws H" and M: "map_json_laws M"
    and C: "crypto_laws C" "seal_total C"
    and l: "length eph_secret = 32" "length secret = 32" "length nonce1 = 24" "length nonce2 = 24"
      "length nonce = 24"
    and model: "build_model X args item = Inr m" "op \<in> set (model_operations m)"
    and kind: "om_kind op = MRequest" "operation_is_encrypted op"
    and compiles: "response_compiles (om_response op)"
    and inputs: "inputs_fit U display op params input"
    and recipient: "gc_recipient client = Some (cr_public C secret)"
    and defaults: "encrypted_defaults_ok H (gc_default_headers client)"
    and endpoint: "generated_encrypted_request J C H M U uuid nonce op handler = Some endpoint"
    and network: "\<And>c. cq_subject c = subject_expression (om_subject op) (\<lambda>name. display (params name)) \<Longrightarrow>
      tr_request T c = Inr (answered H inbox (endpoint q (from_private_bytes C secret)) c)"
    and id: "request_id = fst (get_or_generate uuid
      (request_id_new H (headers_new (gc_default_headers client))))"
    and ok: "\<forall>args v. handler_run handler q args = Inr v \<longrightarrow> response_fits H U (om_response op) v"
    and err: "\<forall>args e. handler_run handler q args = Inl e \<longrightarrow>
      (\<forall>i. uo_into_service_error U e i = into_service_error J into_nats_error uuid e i) \<and>
      error_wf J (into_nats_error e request_id)"
  shows "\<exists>encoded. run_payload J U (payload_expression op) input = Inr encoded \<and>
    encrypted_request_send C H M eph_secret nonce1 nonce2 T
      (run_decoder J H U from_response (om_response op))
      (generated_encrypted_call J U op client (\<lambda>name. display (params name)) input) =
    local_outcome from_response into_nats_error request_id (om_response op)
      (handler_run handler q (map (handler_argument U q params input encoded) (om_arguments op)))"
proof -
  let ?subject = "subject_expression (om_subject op) (\<lambda>name. display (params name))"
  let ?ctx = "recipient_begin C eph_secret (cr_public C secret)"
  have wf: "operation_wf_model op" by (rule model_operation_wf [OF model])
  obtain encoded where encoded: "run_payload J U (payload_expression op) input = Inr encoded"
    using call_payload_ok [OF wf inputs] by blast
  obtain bs where bs: "argument_bindings op = Some bs"
    "endpoint = (\<lambda>q keypair request.
       try_then (prepare J C H M keypair request (request_encrypted op)) (\<lambda>encrypted.
       try_then (request_body J H U uuid bs (om_response op) handler q
           (encrypted_request_view H encrypted)) (\<lambda>response.
         if rs_encrypted (om_response op)
         then request_encrypt_response J C encrypted nonce response
         else Inr response)))"
    using endpoint by (auto simp: generated_encrypted_request_def)
  obtain built r where call: "build_encrypted_call C H M eph_secret nonce1 nonce2
      (generated_encrypted_call J U op client (\<lambda>name. display (params name)) input) =
        (Inr built :: ('j, 'd) client_error + _ built_request)"
    and ctx: "br_context built = ?ctx"
    and r: "prepare J C H M (from_private_bytes C secret) (request_new H (subject_as_str ?subject)
        inbox (br_payload built) (Some (br_headers built))) (request_encrypted op) = Inr r"
      "eq_keypair r = from_private_bytes C secret" "eq_ephemeral_public_key r = cr_public C eph_secret"
      "rq_payload (encrypted_request_view H r) = encoded"
      "rq_subject (encrypted_request_view H r) = subject_as_str ?subject"
      "rq_request_id (encrypted_request_view H r) =
        request_id_new H (headers_new (gc_default_headers client))"
    using generated_call_prepared [OF C H M l(1-4) recipient defaults encoded refl] by blast
  define c where "c = \<lparr>cq_subject = ?subject, cq_payload = br_payload built,
      cq_headers = Some (br_headers built),
      cq_timeout = map_option from_millis (oo_timeout_ms (om_options op))\<rparr>"
  have args: "eval_bindings J H U uuid q (encrypted_request_view H r) bs =
      Inr (map (handler_argument U q params input encoded) (om_arguments op))"
    using all_some_map [OF bs(1) [unfolded argument_bindings_def]]
      binding_yields_argument [OF wf inputs encoded r(4)]
      call_subject_received(2) [OF model kind(1) inputs]
    by (intro eval_bindings_map) (auto simp: r(5))
  let ?result = "request_body J H U uuid bs (om_response op) handler q (encrypted_request_view H r)"
  let ?plain = "case ?result of
      Inr response \<Rightarrow> received response
    | Inl error \<Rightarrow> \<lparr>cx_payload = rp_payload error,
        cx_headers = Some (service_error_headers H error)\<rparr>"
  have rid: "request_id = fst (get_or_generate uuid (rq_request_id (encrypted_request_view H r)))"
    by (simp add: id r(6))
  have no_error: "\<not> reports_service_error H (received response)" if "?result = Inr response" for response
    using that args ok response_not_error [OF H, of U "om_response op" _ J response]
    by (auto simp: request_body_def eval_call_run split: sum.splits)
  have reply: "tr_request T c = Inr (case try_then ?result (\<lambda>response.
        if rs_encrypted (om_response op) then request_encrypt_response J C r nonce response
        else Inr response) of
      Inr response \<Rightarrow> received response
    | Inl error \<Rightarrow> \<lparr>cx_payload = rp_payload error,
        cx_headers = Some (service_error_headers H error)\<rparr>)"
    using network [of c] by (simp add: answered_def c_def bs(2) r(1))
  note opened = encrypted_reply_opened [OF C l(1,2,5) r(2,3) H,
      where result = ?result and J = J and decrypt = "rs_encrypted (om_response op)", OF no_error]
  have "encrypted_request_send C H M eph_secret nonce1 nonce2 T
      (run_decoder J H U from_response (om_response op))
      (generated_encrypted_call J U op client (\<lambda>name. display (params name)) input) =
    run_decoder J H U from_response (om_response op) ?plain"
    by (rule encrypted_request_send_steps [OF call])
      (use reply opened in \<open>simp_all add: generated_encrypted_call_fields [OF kind(1)] c_def ctx\<close>)
  also have "\<dots> = local_outcome from_response into_nats_error request_id (om_response op)
      (handler_run handler q (map (handler_argument U q params input encoded) (om_arguments op)))"
    unfolding rid
    using wf ok err reply_decodes [OF J H _ compiles _ _ args, where into_nats_error = into_nats_error
        and from_response = from_response and handler = handler]
    by (simp add: operation_wf_model_def rid)
  finally show ?thesis using encoded by blast
qed

text \<open>
  C2: an encrypted remote call is a local call.  For every encrypted request operation of a
  service the macro accepts, whose handler takes state, subject parameters and a payload: the
  generated client that holds the public key of the service, over a transport that hands
  requests to the worker subscribed to their subject, returns what the handler returns on the
  caller's arguments, a value or the service error made of the handler's error.  Building,
  signing, sealing, preparing, opening and decoding leave no trace in the result, whichever of
  the request and the response is encrypted.  The client's default headers must be ones that a
  request can carry (\<open>encrypted_defaults_ok\<close>): well formed, with one value per name, none of the
  names of the encryption headers, and no invalid request id.
\<close>

theorem encrypted_call_is_local_call:
  fixes from_response :: "'j nats_error_response \<Rightarrow> ('j, 'd) service_error_match"
  assumes J: "json_laws J" and H: "header_map_laws H" and M: "map_json_laws M"
    and C: "crypto_laws C" "seal_total C"
    and l: "length eph_secret = 32" "length secret = 32" "length nonce1 = 24" "length nonce2 = 24"
      "length nonce = 24"
    and model: "build_model X args item = Inr m" "op \<in> set (model_operations m)"
    and kind: "om_kind op = MRequest" "operation_is_encrypted op"
    and compiles: "response_compiles (om_response op)"
    and inputs: "inputs_fit U display op params input"
    and recipient: "gc_recipient client = Some (cr_public C secret)"
    and defaults: "encrypted_defaults_ok H (gc_default_headers client)"
    and endpoint: "generated_encrypted_request J C H M U uuid nonce op handler = Some endpoint"
    and network: "\<forall>c. subject_matches (sm_pattern (om_subject op)) (subject_as_str (cq_subject c)) \<longrightarrow>
      tr_request T c = Inr (encrypted_worker_reply H telemetry spec (endpoint q)
        (from_private_bytes C secret) (carried_request inbox c))"
    and id: "request_id = fst (get_or_generate uuid
      (request_id_new H (headers_new (gc_default_headers client))))"
    and ok: "\<forall>args v. handler_run handler q args = Inr v \<longrightarrow> response_fits H U (om_response op) v"
    and err: "\<forall>args e. handler_run handler q args = Inl e \<longrightarrow>
      (\<forall>i. uo_into_service_error U e i = into_service_error J into_nats_error uuid e i) \<and>
      error_wf J (into_nats_error e request_id)"
  shows "\<exists>encoded. run_payload J U (payload_expression op) input = Inr encoded \<and>
    encrypted_request_send C H M eph_secret nonce1 nonce2 T
      (run_decoder J H U from_response (om_response op))
      (generated_encrypted_call J U op client (\<lambda>name. display (params name)) input) =
    local_outcome from_response into_nats_error request_id (om_response op)
      (handler_run handler q (map (handler_argument U q params input encoded) (om_arguments op)))"
proof -
  have answer: "tr_request T c = Inr (answered H (Some inbox) (endpoint q (from_private_bytes C secret)) c)"
    if "cq_subject c = subject_expression (om_subject op) (\<lambda>name. display (params name))" for c
    using that network call_subject_received(1) [OF model kind(1) inputs]
    by (simp add: encrypted_worker_reply_answered)
  show ?thesis
    by (rule generated_encrypted_call_outcome [OF J H M C l model kind compiles inputs recipient
        defaults endpoint answer id ok err])
qed

section \<open>A concrete instance\<close>

text \<open>An operation \<open>get(body: Encrypted<Text>) -> Encrypted<String>\<close>.\<close>

definition sealed_type :: "string \<Rightarrow> rust_type" where
  "sealed_type i =
     TyPath False False [Segment ''Encrypted'' (AngleBracketed [TypeArgument (demo_type i)])]"

definition sealed_method :: "string impl_fn" where
  "sealed_method =
     demo_method\<lparr>fn_inputs := [TypedArg (Some ''body'') (sealed_type ''Text'') []],
       fn_output := Some (sealed_type ''String'')\<rparr>"

definition sealed_item :: "string item_impl" where
  "sealed_item = demo_item\<lparr>im_items := [ImplFn sealed_method]\<rparr>"

definition sealed_operation :: "string operation_model" where
  "sealed_operation =
     demo_operation\<lparr>om_method := clean_method sealed_method,
       om_arguments := [\<lparr>am_ident = ''body'', am_ty = sealed_type ''Text'',
         am_kind = ArgPayload \<lparr>pm_codec = WireUtf8, pm_wrapper = WrapText, pm_optional = False,
           pm_encrypted = True, pm_decoded_type = None\<rparr>\<rparr>],
       om_response := (om_response demo_operation)
         \<lparr>rs_ok_type := sealed_type ''String'', rs_encrypted := True\<rparr>\<rparr>"

definition sealed_service :: "string service_model" where
  "sealed_service =
     demo_service\<lparr>sv_item_impl := demo_item\<lparr>im_items := [ImplFn (clean_method sealed_method)]\<rparr>,
       sv_methods := [MethodOp sealed_operation]\<rparr>"

lemma sealed_build_method:
  "build_method demo_syn demo_args sealed_method = Inr (MethodOp sealed_operation)"
  by code_simp

lemma sealed_build_model: "build_model demo_syn demo_args sealed_item = Inr sealed_service"
  using sealed_build_method
  by (simp add: build_model_def sealed_item_def demo_item_def sealed_service_def demo_service_def
      service_ident_def demo_type_def demo_args_def operation_kind_of_def)
    (simp add: sealed_method_def demo_method_def operation_kind_of_def)

definition sealed_client :: "alist_map generated_client" where
  "sealed_client = with_recipient (cr_public demo_crypto (replicate 32 2)) generated_client_new"

definition sealed_endpoint ::
  "unit \<Rightarrow> service_key_pair \<Rightarrow> alist_map request \<Rightarrow> error_reply + alist_map response" where
  "sealed_endpoint q keypair request =
     try_then (prepare demo_json demo_crypto alist_headers demo_map_json keypair request True)
       (\<lambda>encrypted. try_then (request_body demo_json alist_headers demo_user_ops ''u1''
           [BindPayload DecText False] (om_response sealed_operation) echo q
           (encrypted_request_view alist_headers encrypted))
         (request_encrypt_response demo_json demo_crypto encrypted (replicate 24 7)))"

definition sealed_transport :: "operation_spec \<Rightarrow> alist_map client_transport" where
  "sealed_transport spec =
     \<lparr>tr_request = (\<lambda>c. Inr (encrypted_worker_reply alist_headers None spec (sealed_endpoint ())
        (from_private_bytes demo_crypto (replicate 32 2)) (carried_request ''inbox'' c))),
      tr_publish = (\<lambda>_ _ _. Inr ())\<rparr>"

lemma sealed_facts:
  "om_kind sealed_operation = MRequest" "operation_is_encrypted sealed_operation"
  "response_compiles (om_response sealed_operation)" "reads_text (om_response sealed_operation)"
  "encode_value (rs_wire_type (om_response sealed_operation))
    (rs_codec (om_response sealed_operation)) (rs_wrapper (om_response sealed_operation)) = EncBytes"
  "\<not> rs_optional (om_response sealed_operation)" "utf8_str ''hi''" "utf8_str ''demo.v1.get''"
  "request_encrypted sealed_operation" "rs_encrypted (om_response sealed_operation)"
  by code_simp+

lemma sealed_endpoint_generated:
  "generated_encrypted_request demo_json demo_crypto alist_headers demo_map_json demo_user_ops
    ''u1'' (replicate 24 7) sealed_operation echo = Some sealed_endpoint"
  using sealed_facts(9,10) by (simp add: generated_encrypted_request_def sealed_endpoint_def fun_eq_iff
      argument_bindings_def)
    (simp add: sealed_operation_def argument_binding_def payload_decode_def)

lemma sealed_inputs_fit:
  "inputs_fit demo_user_ops (\<lambda>_. []) sealed_operation (\<lambda>_. ()) (Some (PvText ''hi''))"
  using sealed_facts(7,8) by (simp add: inputs_fit_def sealed_operation_def demo_operation_def
      payload_fits_def payload_encoding_def subject_expression_def)

theorem encrypted_call_is_local_call_witness:
  "\<forall>spec. encrypted_request_send demo_crypto alist_headers demo_map_json (replicate 32 1)
     (replicate 24 5) (replicate 24 6) (sealed_transport spec)
     (run_decoder demo_json alist_headers demo_user_ops from_response_self
       (om_response sealed_operation))
     (generated_encrypted_call demo_json demo_user_ops sealed_operation sealed_client (\<lambda>_. [])
       (Some (PvText ''hi''))) = Inr (Present (CvText ''hi''))"
proof
  fix spec
  have model: "sealed_operation \<in> set (model_operations sealed_service)"
    by (simp add: model_operations_def sealed_service_def)
  have seal: "seal_total demo_crypto" by (simp add: seal_total_def demo_crypto_def)
  have network: "\<forall>c. subject_matches (sm_pattern (om_subject sealed_operation))
      (subject_as_str (cq_subject c)) \<longrightarrow> tr_request (sealed_transport spec) c =
      Inr (encrypted_worker_reply alist_headers None spec (sealed_endpoint ())
        (from_private_bytes demo_crypto (replicate 32 2)) (carried_request ''inbox'' c))"
    by (simp add: sealed_transport_def)
  have client: "gc_recipient sealed_client = Some (cr_public demo_crypto (replicate 32 2))"
    "gc_default_headers sealed_client = None"
    by (simp_all add: sealed_client_def with_recipient_def generated_client_new_def)
  have id: "''u1'' = fst (get_or_generate ''u1'' (request_id_new alist_headers
      (headers_new (gc_default_headers sealed_client))))"
    by (simp add: request_id_new_def headers_get_def headers_new_def option_filter_def
        get_or_generate_def client)
  have defaults: "encrypted_defaults_ok alist_headers (gc_default_headers sealed_client)"
    by (simp add: encrypted_defaults_ok_def client)
  have ok: "\<forall>args v. handler_run echo () args = Inr v \<longrightarrow>
      response_fits alist_headers demo_user_ops (om_response sealed_operation) v"
    using sealed_facts(4-6) by (auto simp: handler_run_def echo_def response_fits_def
        response_value_fits_def str_from_utf8_text utf8_echo_text)
  have arguments: "map (handler_argument demo_user_ops () (\<lambda>_. ()) (Some (PvText ''hi'')) encoded)
      (om_arguments sealed_operation) = [VPayload (Some (PvText ''hi''))]" for encoded
    by (simp add: sealed_operation_def handler_argument_def)
  show "encrypted_request_send demo_crypto alist_headers demo_map_json (replicate 32 1)
     (replicate 24 5) (replicate 24 6) (sealed_transport spec)
     (run_decoder demo_json alist_headers demo_user_ops from_response_self
       (om_response sealed_operation))
     (generated_encrypted_call demo_json demo_user_ops sealed_operation sealed_client (\<lambda>_. [])
       (Some (PvText ''hi''))) = Inr (Present (CvText ''hi''))"
    using encrypted_call_is_local_call [where from_response = from_response_self,
        OF demo_json_laws alist_headers_laws demo_map_json_laws demo_crypto_laws seal _ _ _ _ _
          sealed_build_model model sealed_facts(1-3) sealed_inputs_fit client(1) defaults
          sealed_endpoint_generated network id ok echo_err]
      sealed_facts(4) arguments echoed
    by (simp add: local_outcome_def handler_run_def echo_def client_result_of_def client_value_of_def)
qed

end
