(* ===== verification/Error_Attributes.thy ===== *)
theory Error_Attributes
  imports Service_Args
begin

text \<open>
  The attributes of \<open>#[service_error]\<close> (\<open>nats-micro-macros/src/service_error/{mod,parse}.rs\<close>):
  the version 2 syntax is rewritten to the plain attributes, derives are normalised, and each
  variant's \<open>error\<close>, \<open>code\<close>, \<open>internal\<close>, \<open>kind\<close> and \<open>details\<close> attributes and field roles are
  read.  What \<open>syn\<close>, \<open>quote\<close> and \<open>heck\<close> do with tokens is the parameter \<open>error_syn\<close>.
\<close>

section \<open>Syntax\<close>

datatype 'tok meta = MetaPath | MetaList 'tok | MetaNameValue

record 'tok error_attribute =
  ea_ident :: "string option"
  ea_meta :: "'tok meta"

record 'tok error_field =
  ef_ident :: "string option"
  ef_ty :: rust_type
  ef_attrs :: "'tok error_attribute list"

datatype 'tok error_fields =
    FieldsUnit
  | FieldsUnnamed "'tok error_field list"
  | FieldsNamed "'tok error_field list"

primrec fields_list :: "'tok error_fields \<Rightarrow> 'tok error_field list" where
  "fields_list FieldsUnit = []"
| "fields_list (FieldsUnnamed fs) = fs"
| "fields_list (FieldsNamed fs) = fs"

record 'tok error_variant =
  ev_ident :: string
  ev_attrs :: "'tok error_attribute list"
  ev_fields :: "'tok error_fields"

record 'tok error_enum =
  en_is_enum :: bool
  en_public :: bool
  en_attrs :: "'tok error_attribute list"
  en_variants :: "'tok error_variant list"

text \<open>An option of the version 2 syntax: its path when that is an identifier, and its value.\<close>

datatype option_value = OptInt "bool \<times> string" | OptStr string | OptOther

datatype error_token = TokIdent string | TokStr string | TokInt string | TokComma | TokDot | TokOther

record 'tok error_syn = "'tok syn_ops" +
  es_options :: "'tok \<Rightarrow> (string option \<times> option_value) list option"
  es_paths :: "'tok \<Rightarrow> string list list option"
  es_cursor :: "'tok \<Rightarrow> error_token list"
  es_show :: "'tok \<Rightarrow> string"
  es_int_tokens :: "bool \<times> string \<Rightarrow> 'tok"
  es_str_tokens :: "string \<Rightarrow> 'tok"
  es_path_tokens :: "string list list \<Rightarrow> 'tok"
  es_kind :: "string \<Rightarrow> string"

definition attr_is :: "string \<Rightarrow> 'tok error_attribute \<Rightarrow> bool" where
  "attr_is name a \<longleftrightarrow> ea_ident a = Some name"

text \<open>\<open>parse_args\<close> needs a list attribute; \<open>parse\<close> is what \<open>syn\<close> makes of its tokens.\<close>

definition parse_args :: "('tok \<Rightarrow> 'a option) \<Rightarrow> 'tok error_attribute \<Rightarrow> 'a option" where
  "parse_args parse a = (case ea_meta a of MetaList t \<Rightarrow> parse t | _ \<Rightarrow> None)"

definition list_attr :: "string \<Rightarrow> 'tok \<Rightarrow> 'tok error_attribute" where
  "list_attr name tokens = \<lparr>ea_ident = Some name, ea_meta = MetaList tokens\<rparr>"

section \<open>The version 2 syntax\<close>

fun contains_infix :: "string \<Rightarrow> string \<Rightarrow> bool" where
  "contains_infix needle [] = (needle = [])"
| "contains_infix needle (c # cs) =
     (take (length needle) (c # cs) = needle \<or> contains_infix needle cs)"

fun read_v2_options ::
  "(string option \<times> option_value) list \<Rightarrow> (bool \<times> string) option \<Rightarrow> string option \<Rightarrow>
   macro_error + (bool \<times> string) option \<times> string option" where
  "read_v2_options [] code message = Inr (code, message)"
| "read_v2_options ((path, v) # rest) code message =
     (if path = Some ''code'' then
        (case v of OptInt l \<Rightarrow> read_v2_options rest (Some l) message
         | _ \<Rightarrow> Inl (MacroError ''code requires an integer''))
      else if path = Some ''message'' then
        (case v of OptStr s \<Rightarrow> read_v2_options rest code (Some s)
         | _ \<Rightarrow> Inl (MacroError ''message requires a string''))
      else Inl (MacroError ''unsupported v2 error option''))"

definition normalize_attr ::
  "'tok error_syn \<Rightarrow> 'tok error_attribute \<Rightarrow> macro_error + 'tok error_attribute list" where
  "normalize_attr X a =
     (case ea_meta a of
        MetaList tokens \<Rightarrow>
          (if \<not> attr_is ''error'' a \<or> \<not> contains_infix ''code'' (es_show X tokens) then Inr [a]
           else try_then (syn_parse (es_options X tokens)) (\<lambda>options.
             try_then (read_v2_options options None None) (\<lambda>(code, message).
             try_then (ok_or (MacroError ''missing error code'') code) (\<lambda>code.
             try_then (ok_or (MacroError ''missing error message'') message) (\<lambda>message.
               Inr [list_attr ''code'' (es_int_tokens X code),
                 list_attr ''error'' (es_str_tokens X message)])))))
      | _ \<Rightarrow> Inr [a])"

fun normalize_attrs ::
  "'tok error_syn \<Rightarrow> 'tok error_attribute list \<Rightarrow> macro_error + 'tok error_attribute list" where
  "normalize_attrs X [] = Inr []"
| "normalize_attrs X (a # rest) =
     try_then (normalize_attr X a) (\<lambda>n. map_ok (\<lambda>ns. n @ ns) (normalize_attrs X rest))"

definition normalize_variant ::
  "'tok error_syn \<Rightarrow> 'tok error_variant \<Rightarrow> macro_error + 'tok error_variant" where
  "normalize_variant X v =
     map_ok (\<lambda>normalized. v\<lparr>ev_attrs :=
         (if list_ex (attr_is ''internal'') normalized \<and> \<not> list_ex (attr_is ''error'') normalized
          then normalized @ [list_attr ''error'' (es_str_tokens X ''internal error'')]
          else normalized)\<rparr>)
       (normalize_attrs X (ev_attrs v))"

fun normalize_variants ::
  "'tok error_syn \<Rightarrow> 'tok error_variant list \<Rightarrow> macro_error + 'tok error_variant list" where
  "normalize_variants X [] = Inr []"
| "normalize_variants X (v # rest) =
     try_then (normalize_variant X v) (\<lambda>n. map_ok (\<lambda>ns. n # ns) (normalize_variants X rest))"

definition normalize_v2_error_attrs ::
  "'tok error_syn \<Rightarrow> 'tok error_enum \<Rightarrow> macro_error + 'tok error_enum" where
  "normalize_v2_error_attrs X input =
     (if \<not> en_is_enum input then Inr input
      else map_ok (\<lambda>vs. input\<lparr>en_variants := vs\<rparr>) (normalize_variants X (en_variants input)))"

section \<open>Derives\<close>

datatype impl_mode = SelfContained | ExternalDerive

text \<open>A path with \<open>Debug\<close> last becomes plain \<open>Debug\<close>; a path without segments is kept.\<close>

definition rewrite_path :: "string list \<Rightarrow> string list" where
  "rewrite_path p = (if p \<noteq> [] \<and> last p = ''Debug'' then [''Debug''] else p)"

definition path_named :: "string \<Rightarrow> string list \<Rightarrow> bool" where
  "path_named i p = (p \<noteq> [] \<and> last p = i)"

fun normalize_derives ::
  "'tok error_syn \<Rightarrow> 'tok error_attribute list \<Rightarrow> bool \<times> bool \<times> 'tok error_attribute list" where
  "normalize_derives X [] = (False, False, [])"
| "normalize_derives X (a # rest) =
     (let (debug, error, attrs) = normalize_derives X rest
      in case (if attr_is ''derive'' a then parse_args (es_paths X) a else None) of
           None \<Rightarrow> (debug, error, a # attrs)
         | Some paths \<Rightarrow>
             (debug \<or> list_ex (path_named ''Debug'') paths,
              error \<or> list_ex (path_named ''Error'') paths,
              if paths = [] then attrs
              else list_attr ''derive'' (es_path_tokens X (map rewrite_path paths)) # attrs))"

definition normalize_service_error_derives ::
  "'tok error_syn \<Rightarrow> 'tok error_enum \<Rightarrow> impl_mode \<times> 'tok error_enum" where
  "normalize_service_error_derives X input =
     (let (debug, error, attrs) = normalize_derives X (en_attrs input)
      in (if error then ExternalDerive else SelfContained,
          input\<lparr>en_attrs := attrs @
            (if debug then [] else [list_attr ''derive'' (es_path_tokens X [[''Debug'']])])\<rparr>))"

section \<open>The message attribute\<close>

datatype format_arg = FmtIndex nat | FmtName string

datatype message_attr = AttrMessage string "format_arg list" | AttrTransparent

definition expression_arguments_error :: string where
  "expression_arguments_error =
     ''#[service_error] does not support thiserror expression argument syntax here; '' @
     ''use a simpler format or implement IntoNatsError manually''"

fun parse_format_args :: "error_token list \<Rightarrow> macro_error + format_arg list" where
  "parse_format_args [] = Inr []"
| "parse_format_args [TokComma] = Inr []"
| "parse_format_args (TokComma # TokDot # TokInt d # rest) =
     try_then (map_err (\<lambda>_. SynError) (parse_unsigned usize_max d)) (\<lambda>i.
       map_ok (\<lambda>args. FmtIndex i # args) (parse_format_args rest))"
| "parse_format_args (TokComma # TokDot # TokIdent i # rest) =
     map_ok (\<lambda>args. FmtName i # args) (parse_format_args rest)"
| "parse_format_args (TokComma # TokDot # rest) = Inl (MacroError expression_arguments_error)"
| "parse_format_args (t # rest) = Inl SynError"

definition parse_message_attr :: "error_token list \<Rightarrow> macro_error + message_attr" where
  "parse_message_attr tokens =
     (if tokens = [TokIdent ''transparent''] then Inr AttrTransparent
      else case tokens of
             TokStr message # rest \<Rightarrow> map_ok (AttrMessage message) (parse_format_args rest)
           | _ \<Rightarrow> Inl SynError)"

definition variant_error_attr_strict ::
  "'tok error_syn \<Rightarrow> 'tok error_variant \<Rightarrow> macro_error + message_attr" where
  "variant_error_attr_strict X v =
     (case find (attr_is ''error'') (ev_attrs v) of
        None \<Rightarrow> Inl (MacroError
          ''service_error variants require #[error(\"...\")] or #[error(transparent)]'')
      | Some a \<Rightarrow>
          (case ea_meta a of
             MetaList tokens \<Rightarrow> parse_message_attr (es_cursor X tokens)
           | _ \<Rightarrow> Inl SynError))"

definition variant_is_transparent_light :: "'tok error_syn \<Rightarrow> 'tok error_variant \<Rightarrow> bool" where
  "variant_is_transparent_light X v =
     (case find (attr_is ''error'') (ev_attrs v) of
        None \<Rightarrow> False
      | Some a \<Rightarrow> parse_args (so_ident X) a = Some ''transparent'')"

section \<open>Codes, kinds and details\<close>

definition u16_max :: nat where
  "u16_max = 65535"

fun read_code_attrs ::
  "'tok error_syn \<Rightarrow> 'tok error_attribute list \<Rightarrow> nat option \<Rightarrow> macro_error + nat option" where
  "read_code_attrs X [] code = Inr code"
| "read_code_attrs X (a # rest) code =
     (if code \<noteq> None
      then Inl (MacroError ''#[code(...)] may only be specified once per service_error variant'')
      else try_then (ok_or (MacroError ''#[code(...)] requires an integer literal'')
          (parse_args (so_int X) a)) (\<lambda>lit.
        try_then (map_err (\<lambda>_. MacroError ''#[code(...)] must be in the range 400..=599'')
          (parse_lit_unsigned u16_max (Some lit))) (\<lambda>n.
        if n < 400 \<or> 599 < n
        then Inl (MacroError ''#[code(...)] must be in the range 400..=599'')
        else read_code_attrs X rest (Some n))))"

definition variant_code_attr ::
  "'tok error_syn \<Rightarrow> 'tok error_variant \<Rightarrow> macro_error + nat option" where
  "variant_code_attr X v = read_code_attrs X (filter (attr_is ''code'') (ev_attrs v)) None"

record internal_attr =
  ia_present :: bool
  ia_expose_kind :: bool

fun read_internal_attrs ::
  "'tok error_syn \<Rightarrow> 'tok error_attribute list \<Rightarrow> internal_attr \<Rightarrow> macro_error + internal_attr" where
  "read_internal_attrs X [] parsed = Inr parsed"
| "read_internal_attrs X (a # rest) parsed =
     (if ia_present parsed
      then Inl (MacroError ''#[internal] may only be specified once per service_error variant'')
      else try_then
        (if ea_meta a = MetaPath then Inr False
         else if parse_args (so_ident X) a = Some ''expose_kind'' then Inr True
         else Inl (MacroError ''#[internal] only accepts #[internal] or #[internal(expose_kind)]''))
        (\<lambda>expose. read_internal_attrs X rest \<lparr>ia_present = True, ia_expose_kind = expose\<rparr>))"

definition variant_internal_attr ::
  "'tok error_syn \<Rightarrow> 'tok error_variant \<Rightarrow> macro_error + internal_attr" where
  "variant_internal_attr X v =
     read_internal_attrs X (filter (attr_is ''internal'') (ev_attrs v))
       \<lparr>ia_present = False, ia_expose_kind = False\<rparr>"

definition is_valid_wire_kind :: "string \<Rightarrow> bool" where
  "is_valid_wire_kind v =
     (case v of
        [] \<Rightarrow> False
      | c # cs \<Rightarrow> is_ascii_upper c \<and>
          list_all (\<lambda>d. is_ascii_upper d \<or> is_ascii_digit d \<or> d = CHR ''_'') cs)"

fun read_kind_attrs ::
  "'tok error_syn \<Rightarrow> 'tok error_attribute list \<Rightarrow> string option \<Rightarrow> macro_error + string option" where
  "read_kind_attrs X [] kind = Inr kind"
| "read_kind_attrs X (a # rest) kind =
     (if kind \<noteq> None
      then Inl (MacroError ''#[kind(...)] may only be specified once per service_error variant'')
      else try_then (ok_or (MacroError ''#[kind(...)] requires a string literal'')
          (parse_args (so_str X) a)) (\<lambda>k.
        if \<not> is_valid_wire_kind k then Inl (MacroError ''#[kind(...)] must match ^[A-Z][A-Z0-9_]*$'')
        else read_kind_attrs X rest (Some k)))"

definition variant_kind_attr ::
  "'tok error_syn \<Rightarrow> 'tok error_variant \<Rightarrow> macro_error + string option" where
  "variant_kind_attr X v = read_kind_attrs X (filter (attr_is ''kind'') (ev_attrs v)) None"

text \<open>Both readers of \<open>details\<close> attributes, with the identifiers they accept.\<close>

fun read_details_attrs ::
  "'tok error_syn \<Rightarrow> string set \<Rightarrow> string \<Rightarrow> string \<Rightarrow> 'tok error_attribute list \<Rightarrow> bool \<Rightarrow>
   macro_error + bool" where
  "read_details_attrs X accepted repeated wrong [] skip = Inr skip"
| "read_details_attrs X accepted repeated wrong (a # rest) skip =
     (if skip then Inl (MacroError repeated)
      else case parse_args (so_ident X) a of
             Some i \<Rightarrow>
               if i \<in> accepted then read_details_attrs X accepted repeated wrong rest True
               else Inl (MacroError wrong)
           | None \<Rightarrow> Inl (MacroError wrong))"

definition variant_details_skip_all ::
  "'tok error_syn \<Rightarrow> 'tok error_variant \<Rightarrow> macro_error + bool" where
  "variant_details_skip_all X v =
     read_details_attrs X {''skip'', ''skip_all''}
       ''#[details(...)] may only be specified once per service_error variant''
       ''#[details(...)] on a variant only accepts skip or skip_all''
       (filter (attr_is ''details'') (ev_attrs v)) False"

definition field_details_skip ::
  "'tok error_syn \<Rightarrow> 'tok error_field \<Rightarrow> macro_error + bool" where
  "field_details_skip X f =
     read_details_attrs X {''skip''}
       ''#[details(skip)] may only be specified once per service_error field''
       ''#[details(...)] on a field only accepts skip''
       (filter (attr_is ''details'') (ef_attrs f)) False"

section \<open>Field roles\<close>

record field_role =
  fr_source :: bool
  fr_from :: bool
  fr_backtrace :: bool
  fr_details_skip :: bool

record field_meta =
  fm_roles :: "field_role list"
  fm_from_index :: "nat option"
  fm_source_index :: "nat option"
  fm_details_skip_all :: bool

definition fm_has_from :: "field_meta \<Rightarrow> bool" where
  "fm_has_from m \<longleftrightarrow> fm_from_index m \<noteq> None"

definition field_role_attr ::
  "'tok error_field \<Rightarrow> string \<Rightarrow> impl_mode \<Rightarrow> macro_error + bool" where
  "field_role_attr f name mode =
     (case find (attr_is name) (ef_attrs f) of
        None \<Rightarrow> Inr False
      | Some a \<Rightarrow>
          if mode = SelfContained \<and> ea_meta a \<noteq> MetaPath
          then Inl (MacroError (''#['' @ name @
            ''] does not accept arguments in self-contained service_error mode''))
          else Inr True)"

text \<open>One field: its role, and the indexes of the \<open>from\<close> and source fields so far.\<close>

definition read_field ::
  "'tok error_syn \<Rightarrow> impl_mode \<Rightarrow> nat \<Rightarrow> 'tok error_field \<Rightarrow> field_meta \<Rightarrow> macro_error + field_meta"
  where
  "read_field X mode index f m =
     try_then (field_role_attr f ''from'' mode) (\<lambda>from_role.
     try_then (field_role_attr f ''source'' mode) (\<lambda>explicit_source.
     let source = (from_role \<or> explicit_source \<or> ef_ident f = Some ''source'')
     in try_then (field_role_attr f ''backtrace'' mode) (\<lambda>backtrace.
     try_then (field_details_skip X f) (\<lambda>details_skip.
       if from_role \<and> fm_from_index m \<noteq> None \<and> mode = SelfContained
       then Inl (MacroError ''#[from] is only valid on one field per service_error variant'')
       else if source \<and> fm_source_index m \<noteq> None \<and> mode = SelfContained
       then Inl (MacroError ''#[source] is only valid on one field per service_error variant'')
       else Inr
         (m\<lparr>fm_roles := fm_roles m @ [\<lparr>fr_source = source, fr_from = from_role,
              fr_backtrace = backtrace, fr_details_skip = details_skip\<rparr>],
            fm_from_index := (if from_role then Some index else fm_from_index m),
            fm_source_index := (if source then Some index else fm_source_index m)\<rparr>)))))"

fun read_fields ::
  "'tok error_syn \<Rightarrow> impl_mode \<Rightarrow> nat \<Rightarrow> 'tok error_field list \<Rightarrow> field_meta \<Rightarrow>
   macro_error + field_meta" where
  "read_fields X mode index [] m = Inr m"
| "read_fields X mode index (f # rest) m =
     try_then (read_field X mode index f m) (read_fields X mode (Suc index) rest)"

definition mark_transparent :: "field_meta \<Rightarrow> field_meta" where
  "mark_transparent m =
     m\<lparr>fm_roles := map (\<lambda>r. r\<lparr>fr_source := True\<rparr>) (fm_roles m), fm_source_index := Some 0\<rparr>"

definition field_meta_for_variant ::
  "'tok error_syn \<Rightarrow> 'tok error_variant \<Rightarrow> impl_mode \<Rightarrow> bool \<Rightarrow> macro_error + field_meta" where
  "field_meta_for_variant X v mode is_transparent =
     try_then (variant_details_skip_all X v) (\<lambda>skip_all.
     try_then (read_fields X mode 0 (fields_list (ev_fields v))
         \<lparr>fm_roles = [], fm_from_index = None, fm_source_index = None,
          fm_details_skip_all = skip_all\<rparr>) (\<lambda>m.
       if mode = SelfContained \<and> fm_from_index m \<noteq> None \<and> length (fm_roles m) \<noteq> 1
       then Inl (MacroError ''#[from] is only valid on a single-field service_error variant'')
       else if is_transparent \<and> mode = SelfContained \<and> length (fm_roles m) \<noteq> 1
       then Inl (MacroError ''#[error(transparent)] requires exactly one field'')
       else if is_transparent \<and> length (fm_roles m) = 1 then Inr (mark_transparent m)
       else Inr m))"

definition on_wire :: "field_meta \<Rightarrow> field_role \<Rightarrow> bool" where
  "on_wire m r \<longleftrightarrow>
     \<not> fm_details_skip_all m \<and> \<not> fr_source r \<and> \<not> fr_from r \<and> \<not> fr_backtrace r \<and> \<not> fr_details_skip r"

definition wire_indices :: "field_meta \<Rightarrow> nat list" where
  "wire_indices m = filter (\<lambda>i. on_wire m (fm_roles m ! i)) [0..<length (fm_roles m)]"

definition has_skipped_wire_fields :: "field_meta \<Rightarrow> bool" where
  "has_skipped_wire_fields m \<longleftrightarrow>
     (fm_details_skip_all m \<and> fm_roles m \<noteq> []) \<or>
     list_ex (\<lambda>r. fr_source r \<or> fr_from r \<or> fr_backtrace r \<or> fr_details_skip r) (fm_roles m)"

lemma read_field_roles:
  "read_field X mode index f m = Inr m' \<Longrightarrow>
   length (fm_roles m') = Suc (length (fm_roles m)) \<and> fm_details_skip_all m' = fm_details_skip_all m"
  by (auto simp: read_field_def Let_def split: if_splits)

lemma read_fields_roles:
  "read_fields X mode index fs m = Inr m' \<Longrightarrow>
   length (fm_roles m') = length (fm_roles m) + length fs \<and>
   fm_details_skip_all m' = fm_details_skip_all m"
proof (induction fs arbitrary: index m)
  case (Cons f fs)
  then obtain m1 where "read_field X mode index f m = Inr m1"
    "read_fields X mode (Suc index) fs m1 = Inr m'" by auto
  then show ?case using Cons.IH read_field_roles by fastforce
qed simp

lemma field_meta_roles:
  "field_meta_for_variant X v mode t = Inr m \<Longrightarrow>
   length (fm_roles m) = length (fields_list (ev_fields v))"
  by (auto simp: field_meta_for_variant_def mark_transparent_def dest!: read_fields_roles
      split: if_splits)

text \<open>No field is left out exactly when every field is on the wire.\<close>

lemma wire_indices_all: "\<not> has_skipped_wire_fields m \<Longrightarrow> wire_indices m = [0..<length (fm_roles m)]"
  by (auto simp: has_skipped_wire_fields_def wire_indices_def on_wire_def list_ex_iff
      intro!: filter_True)

lemma read_code_attrs_range:
  "read_code_attrs X as code = Inr r \<Longrightarrow> pred_option (\<lambda>n. 400 \<le> n \<and> n \<le> 599) code \<Longrightarrow>
   pred_option (\<lambda>n. 400 \<le> n \<and> n \<le> 599) r"
  by (induction X as code rule: read_code_attrs.induct) (auto split: if_splits)

lemma variant_code_range: "variant_code_attr X v = Inr (Some n) \<Longrightarrow> 400 \<le> n \<and> n \<le> 599"
  unfolding variant_code_attr_def by (drule read_code_attrs_range) simp_all

section \<open>Stripping the attributes\<close>

definition strip_variant :: "impl_mode \<Rightarrow> 'tok error_variant \<Rightarrow> 'tok error_variant" where
  "strip_variant mode v =
     (let strip_field = (\<lambda>f. f\<lparr>ef_attrs := filter (\<lambda>a. \<not> attr_is ''details'' a \<and>
          (mode = SelfContained \<longrightarrow> \<not> attr_is ''from'' a \<and> \<not> attr_is ''source'' a \<and>
             \<not> attr_is ''backtrace'' a)) (ef_attrs f)\<rparr>)
      in v\<lparr>ev_attrs := filter (\<lambda>a. \<not> attr_is ''internal'' a \<and> \<not> attr_is ''code'' a \<and>
             \<not> attr_is ''kind'' a \<and> \<not> attr_is ''details'' a \<and>
             (mode = SelfContained \<longrightarrow> \<not> attr_is ''error'' a)) (ev_attrs v),
           ev_fields := (case ev_fields v of
               FieldsUnit \<Rightarrow> FieldsUnit
             | FieldsUnnamed fs \<Rightarrow> FieldsUnnamed (map strip_field fs)
             | FieldsNamed fs \<Rightarrow> FieldsNamed (map strip_field fs))\<rparr>)"

definition strip_service_error_only_attrs ::
  "impl_mode \<Rightarrow> 'tok error_enum \<Rightarrow> 'tok error_enum" where
  "strip_service_error_only_attrs mode input =
     (if en_is_enum input then input\<lparr>en_variants := map (strip_variant mode) (en_variants input)\<rparr>
      else input)"

end
