(* ===== verification/Error_Display.thy ===== *)
theory Error_Display
  imports Error_Attributes
begin

text \<open>
  The \<open>Display\<close>, \<open>source\<close> and \<open>From\<close> implementations that \<open>#[service_error]\<close> generates
  (\<open>nats-micro-macros/src/service_error/mod.rs\<close>): the message is split into a format string
  with implicit placeholders and the list of fields to print.  \<open>write!\<close> is modelled by
  \<open>format_write\<close> with the grammar of \<open>std::fmt\<close>; how one value prints under a specification, if
  its type has the trait, is an argument.
\<close>

section \<open>Format strings\<close>

datatype placeholder_key = KeyImplicit | KeyIndex nat | KeyName string

definition parse_placeholder_key ::
  "'tok error_syn \<Rightarrow> string \<Rightarrow> macro_error + placeholder_key \<times> string" where
  "parse_placeholder_key X placeholder =
     (let (raw_key, raw_spec) =
        (case split_once (\<lambda>c. c = CHR '':'') placeholder of
           Some (key, spec) \<Rightarrow> (key, CHR '':'' # spec)
         | None \<Rightarrow> (placeholder, []));
          key = trim raw_key
      in if key = [] then Inr (KeyImplicit, raw_spec)
         else case parse_unsigned usize_max key of
                Inr i \<Rightarrow> Inr (KeyIndex i, raw_spec)
              | Inl _ \<Rightarrow>
                  if so_is_ident X key then Inr (KeyName key, raw_spec)
                  else Inl (MacroError
                    (''unsupported service_error placeholder `{'' @ key @ ''}`'')))"

definition no_brace :: "char \<Rightarrow> bool" where
  "no_brace c \<longleftrightarrow> c \<noteq> CHR ''{'' \<and> c \<noteq> CHR ''}''"

function parse_error_format ::
  "'tok error_syn \<Rightarrow> string \<Rightarrow> macro_error + string \<times> placeholder_key list" where
  "parse_error_format X [] = Inr ([], [])"
| "parse_error_format X (c # cs) =
     (if c = CHR ''{'' then
        (if cs \<noteq> [] \<and> hd cs = CHR ''{''
         then map_ok (\<lambda>(f, ps). (''{{'' @ f, ps)) (parse_error_format X (tl cs))
         else case dropWhile no_brace cs of
                [] \<Rightarrow> Inl (MacroError
                  ''unterminated format placeholder in service_error message'')
              | d # rest \<Rightarrow>
                  if d = CHR ''{''
                  then Inl (MacroError
                    ''nested braces are not supported in service_error format strings'')
                  else try_then (parse_placeholder_key X (takeWhile no_brace cs)) (\<lambda>(key, spec).
                    map_ok (\<lambda>(f, ps). (''{'' @ spec @ ''}'' @ f, key # ps))
                      (parse_error_format X rest)))
      else if c = CHR ''}'' then
        (if cs \<noteq> [] \<and> hd cs = CHR ''}''
         then map_ok (\<lambda>(f, ps). (''}}'' @ f, ps)) (parse_error_format X (tl cs))
         else Inl (MacroError ''unmatched closing brace in service_error message''))
      else map_ok (\<lambda>(f, ps). (c # f, ps)) (parse_error_format X cs))"
  by pat_completeness auto

termination
proof (relation "measure (\<lambda>(X, s). length s)", goal_cases)
  case (3 X c cs d rest)
  then have "length (d # rest) \<le> length cs" by (metis length_dropWhile_le)
  then show ?case by simp
qed auto

section \<open>The arguments of the format string\<close>

text \<open>Fields are bound in order, so an argument is the index of its binding.\<close>

definition unknown_field :: "string \<Rightarrow> string \<Rightarrow> macro_error" where
  "unknown_field what name = MacroError (''unknown service_error '' @ what @ '' `'' @ name @ ''`'')"

definition field_position :: "string list \<Rightarrow> string \<Rightarrow> string \<Rightarrow> macro_error + nat" where
  "field_position idents what name =
     ok_or (unknown_field what name) (position (\<lambda>i. i = name) idents)"

definition bound_index :: "nat \<Rightarrow> string \<Rightarrow> string \<Rightarrow> nat \<Rightarrow> macro_error + nat" where
  "bound_index n before after i =
     (if i < n then Inr i
      else Inl (MacroError (before @ show_nat i @ after @ '' is out of bounds'')))"

definition format_arg_index :: "nat \<Rightarrow> string list \<Rightarrow> format_arg \<Rightarrow> macro_error + nat" where
  "format_arg_index n idents arg =
     try_then (case arg of
         FmtIndex i \<Rightarrow> Inr i
       | FmtName name \<Rightarrow> field_position idents ''explicit format field'' name)
       (bound_index n ''service_error explicit format field `'' ''`'')"

fun display_args ::
  "nat \<Rightarrow> string list \<Rightarrow> format_arg list \<Rightarrow> nat \<Rightarrow> nat \<Rightarrow> placeholder_key list \<Rightarrow>
   macro_error + nat list" where
  "display_args n idents explicit next_implicit next_explicit [] =
     (if next_explicit \<noteq> length explicit then Inl (MacroError expression_arguments_error) else Inr [])"
| "display_args n idents explicit next_implicit next_explicit (key # rest) =
     (if explicit \<noteq> [] then
        (if key \<noteq> KeyImplicit
         then Inl (MacroError (''#[service_error] does not support mixing explicit error format '' @
           ''arguments with named or indexed placeholders''))
         else if length explicit \<le> next_explicit
         then Inl (MacroError ''service_error format placeholder has no matching explicit argument'')
         else try_then (format_arg_index n idents (explicit ! next_explicit)) (\<lambda>i.
           map_ok (\<lambda>is. i # is)
             (display_args n idents explicit next_implicit (Suc next_explicit) rest)))
      else try_then (case key of
             KeyImplicit \<Rightarrow> Inr next_implicit
           | KeyIndex i \<Rightarrow> Inr i
           | KeyName name \<Rightarrow> field_position idents ''format field'' name) (\<lambda>i.
        try_then (bound_index n ''service_error format placeholder {'' ''}'' i) (\<lambda>i.
          map_ok (\<lambda>is. i # is)
            (display_args n idents explicit
              (if key = KeyImplicit then Suc next_implicit else next_implicit) next_explicit rest))))"

section \<open>The arms\<close>

datatype display_arm = WriteArm string "nat list" | TransparentArm

definition field_names :: "'tok error_fields \<Rightarrow> string list" where
  "field_names fs =
     (case fs of
        FieldsNamed l \<Rightarrow> map (\<lambda>f. case ef_ident f of Some i \<Rightarrow> i | None \<Rightarrow> []) l
      | _ \<Rightarrow> [])"

text \<open>\<open>Ident::new\<close> of \<open>__\<close> and a field name panics when that is no identifier (\<open>r#type\<close>).\<close>

definition bind_fields :: "'tok error_syn \<Rightarrow> 'tok error_fields \<Rightarrow> macro_error + unit" where
  "bind_fields X fs =
     ensure (list_all (\<lambda>i. so_is_ident X (''__'' @ i)) (field_names fs)) MacroPanic"

definition transparent_display_arm :: "'tok error_variant \<Rightarrow> macro_error + display_arm" where
  "transparent_display_arm v =
     (if length (fields_list (ev_fields v)) \<noteq> 1
      then Inl (MacroError ''#[error(transparent)] requires exactly one field'')
      else Inr TransparentArm)"

definition display_arm_tokens ::
  "'tok error_syn \<Rightarrow> 'tok error_variant \<Rightarrow> message_attr \<Rightarrow> macro_error + display_arm" where
  "display_arm_tokens X v a =
     (case a of
        AttrTransparent \<Rightarrow> transparent_display_arm v
      | AttrMessage message explicit \<Rightarrow>
          try_then (parse_error_format X message) (\<lambda>(format, placeholders).
            if ev_fields v = FieldsUnit then
              (if placeholders \<noteq> []
               then Inl (MacroError ''service_error format placeholders require enum fields'')
               else Inr (WriteArm format []))
            else try_then (bind_fields X (ev_fields v)) (\<lambda>_.
              map_ok (WriteArm format)
                (display_args (length (fields_list (ev_fields v))) (field_names (ev_fields v))
                  explicit 0 0 placeholders))))"

section \<open>Format specifications\<close>

text \<open>
  The grammar of \<open>std::fmt\<close>: fill and alignment, sign, \<open>#\<close>, \<open>0\<close>, width, precision and trait.  A
  count is a number of at most 16 bits, or the value of a positional (\<open>1$\<close>) or named (\<open>n$\<close>)
  argument; a precision \<open>*\<close> takes the next argument.  Identifiers are ASCII.
\<close>

datatype format_count = NoCount | Count nat | ArgIndex nat | ArgName string | NextArg

record format_spec =
  fs_fill :: string
  fs_align :: "char option"
  fs_sign :: "char option"
  fs_alternate :: bool
  fs_zero :: bool
  fs_width :: format_count
  fs_precision :: format_count
  fs_trait :: string

definition take_flag :: "char set \<Rightarrow> string \<Rightarrow> char option \<times> string" where
  "take_flag flags s = (case s of c # r \<Rightarrow> if c \<in> flags then (Some c, r) else (None, s) | [] \<Rightarrow> (None, s))"

text \<open>The bytes of the UTF-8 character that begins with a byte.\<close>

definition char_bytes :: "char \<Rightarrow> nat" where
  "char_bytes c = (if byte_of c < 192 then 1 else if byte_of c < 224 then 2 else if byte_of c < 240 then 3 else 4)"

definition take_align :: "string \<Rightarrow> string \<times> char option \<times> string" where
  "take_align s =
     (let n = (case s of [] \<Rightarrow> 0 | c # _ \<Rightarrow> char_bytes c)
      in if 0 < n \<and> n < length s \<and> s ! n \<in> {CHR ''<'', CHR ''^'', CHR ''>''}
         then (take n s, Some (s ! n), drop (Suc n) s)
         else ([], take_flag {CHR ''<'', CHR ''^'', CHR ''>''} s))"

definition take_word :: "string \<Rightarrow> string \<times> string" where
  "take_word s =
     (let part = (\<lambda>c. is_ascii_alphanumeric c \<or> c = CHR ''_'')
      in if s \<noteq> [] \<and> \<not> is_ascii_digit (hd s) then (takeWhile part s, dropWhile part s) else ([], s))"

definition take_count :: "string \<Rightarrow> (format_count \<times> string) option" where
  "take_count s =
     (let digits = takeWhile is_ascii_digit s; r = dropWhile is_ascii_digit s; w = take_word s
      in if digits \<noteq> []
         then (case parse_unsigned 65535 digits of
             Inl _ \<Rightarrow> None
           | Inr n \<Rightarrow> Some (if take 1 r = ''$'' then (ArgIndex n, tl r) else (Count n, r)))
         else Some (if fst w \<noteq> [] \<and> take 1 (snd w) = ''$'' then (ArgName (fst w), tl (snd w))
           else (NoCount, s)))"

definition take_width :: "bool \<Rightarrow> string \<Rightarrow> (format_count \<times> string) option" where
  "take_width zero s =
     (if zero \<and> take 1 s = ''$'' then Some (ArgIndex 0, tl s) else take_count s)"

definition take_precision :: "string \<Rightarrow> (format_count \<times> string) option" where
  "take_precision s =
     (if take 1 s = ''.''
      then if take 1 (tl s) = ''*'' then Some (NextArg, drop 2 s) else take_count (tl s)
      else Some (NoCount, s))"

definition take_trait :: "string \<Rightarrow> string \<times> string" where
  "take_trait s =
     (if take 2 s = ''x?'' \<or> take 2 s = ''X?'' then (take 2 s, drop 2 s)
      else if take 1 s \<in> {''x'', ''X'', ''?''} then (take 1 s, drop 1 s)
      else take_word s)"

definition format_traits :: "string list" where
  "format_traits = ['''', ''?'', ''x?'', ''X?'', ''x'', ''X'', ''o'', ''b'', ''e'', ''E'', ''p'']"

text \<open>
  The text of a placeholder without an argument: nothing, or a colon and the specification.
  \<open>None\<close> is one that the compiler rejects.
\<close>

definition parse_format_spec :: "string \<Rightarrow> format_spec option" where
  "parse_format_spec text =
     (if text \<noteq> [] \<and> hd text \<noteq> CHR '':'' then None
      else
        let (fill, align, s) = take_align (drop 1 text);
            (sign, s) = take_flag {CHR ''+'', CHR ''-''} s;
            (alternate, s) = take_flag {CHR ''#''} s;
            (zero, s) = take_flag {CHR ''0''} s;
            zero_flag = (zero \<noteq> None \<and> take 1 s \<noteq> ''$'')
        in Option.bind (take_width (zero \<noteq> None) s) (\<lambda>(width, s).
           Option.bind (take_precision s) (\<lambda>(precision, s).
             let (trait_name, s) = take_trait s
             in if trim s = [] \<and> trait_name \<in> set format_traits
                then Some \<lparr>fs_fill = fill, fs_align = align, fs_sign = sign,
                  fs_alternate = (alternate \<noteq> None),
                  fs_zero = zero_flag, fs_width = width,
                  fs_precision = precision, fs_trait = trait_name\<rparr>
                else None)))"

section \<open>Running the arms\<close>

text \<open>
  How values print: \<open>fm_show\<close> under a specification with width and precision (\<open>None\<close> if the type
  does not implement the trait), the number a \<open>usize\<close> argument is, and the identifiers that a
  format string can capture.
\<close>

record 'v formatting =
  fm_show :: "format_spec \<Rightarrow> nat option \<Rightarrow> nat option \<Rightarrow> 'v \<Rightarrow> string option"
  fm_usize :: "'v \<Rightarrow> nat option"
  fm_scope :: "string \<Rightarrow> nat option"

text \<open>A format string as the compiler splits it: characters, and the texts of its placeholders.\<close>

function format_segments :: "string \<Rightarrow> (char + string) list option" where
  "format_segments [] = Some []"
| "format_segments (c # cs) =
     (if c = CHR ''{'' then
        (if cs \<noteq> [] \<and> hd cs = CHR ''{'' then map_option (\<lambda>ss. Inl c # ss) (format_segments (tl cs))
         else case dropWhile no_brace cs of
                [] \<Rightarrow> None
              | d # rest \<Rightarrow>
                  if d = CHR ''{'' then None
                  else map_option (\<lambda>ss. Inr (takeWhile no_brace cs) # ss) (format_segments rest))
      else if c = CHR ''}'' then
        (if cs \<noteq> [] \<and> hd cs = CHR ''}'' then map_option (\<lambda>ss. Inl c # ss) (format_segments (tl cs))
         else None)
      else map_option (\<lambda>ss. Inl c # ss) (format_segments cs))"
  by pat_completeness auto

termination
proof (relation "measure length", goal_cases)
  case (3 c cs d rest)
  then have "length (d # rest) \<le> length cs" by (metis length_dropWhile_le)
  then show ?case by simp
qed auto

definition format_holes :: "(char + string) list \<Rightarrow> string list" where
  "format_holes segments = List.map_filter (\<lambda>s. case s of Inr text \<Rightarrow> Some text | Inl _ \<Rightarrow> None) segments"

definition resolve_count :: "'v formatting \<Rightarrow> 'v list \<Rightarrow> nat \<Rightarrow> format_count \<Rightarrow> nat option option" where
  "resolve_count F args next_arg c =
     (let usize_arg = (\<lambda>i. if i < length args then map_option Some (fm_usize F (args ! i)) else None)
      in case c of
           NoCount \<Rightarrow> Some None
         | Count n \<Rightarrow> Some (Some n)
         | ArgIndex i \<Rightarrow> usize_arg i
         | ArgName name \<Rightarrow> map_option Some (fm_scope F name)
         | NextArg \<Rightarrow> usize_arg next_arg)"

definition count_args :: "format_count \<Rightarrow> nat list" where
  "count_args c = (case c of ArgIndex i \<Rightarrow> [i] | _ \<Rightarrow> [])"

text \<open>
  \<open>write!\<close>: \<open>next_arg\<close> is the next implicit argument, \<open>used\<close> the arguments that counts named.
  \<open>None\<close> is a call the compiler rejects: a missing or an unused argument, a count that is no
  number, a specification or a trait that does not exist or that the type does not have.
\<close>

fun write_segments ::
  "'v formatting \<Rightarrow> (char + string) list \<Rightarrow> 'v list \<Rightarrow> nat \<Rightarrow> nat list \<Rightarrow> string option" where
  "write_segments F [] args next_arg used =
     (if list_all (\<lambda>i. i < next_arg \<or> i \<in> set used) [0..<length args] then Some [] else None)"
| "write_segments F (Inl c # segments) args next_arg used =
     map_option (\<lambda>s. c # s) (write_segments F segments args next_arg used)"
| "write_segments F (Inr text # segments) args next_arg used =
     Option.bind (parse_format_spec text) (\<lambda>spec.
     Option.bind (resolve_count F args next_arg (fs_width spec)) (\<lambda>width.
     Option.bind (resolve_count F args next_arg (fs_precision spec)) (\<lambda>precision.
       let k = (if fs_precision spec = NextArg then Suc next_arg else next_arg)
       in if k < length args
          then Option.bind (fm_show F spec width precision (args ! k)) (\<lambda>shown.
            map_option (\<lambda>s. shown @ s) (write_segments F segments args (Suc k)
              (count_args (fs_width spec) @ count_args (fs_precision spec) @ used)))
          else None)))"

definition format_write :: "'v formatting \<Rightarrow> string \<Rightarrow> 'v list \<Rightarrow> string option" where
  "format_write F format args =
     Option.bind (format_segments format) (\<lambda>segments. write_segments F segments args 0 [])"

text \<open>A transparent arm calls \<open>Display::fmt\<close> of its field.\<close>

definition display_spec :: format_spec where
  "display_spec =
     \<lparr>fs_fill = [], fs_align = None, fs_sign = None, fs_alternate = False, fs_zero = False,
      fs_width = NoCount, fs_precision = NoCount, fs_trait = []\<rparr>"

definition run_display :: "'v formatting \<Rightarrow> display_arm \<Rightarrow> 'v list \<Rightarrow> string option" where
  "run_display F arm vals =
     (case arm of
        WriteArm format indexes \<Rightarrow> format_write F format (map (\<lambda>i. vals ! i) indexes)
      | TransparentArm \<Rightarrow> fm_show F display_spec None None (hd vals))"

text \<open>The specifications and the fields of an arm.\<close>

definition arm_holes :: "display_arm \<Rightarrow> string list" where
  "arm_holes arm =
     (case arm of
        WriteArm format indexes \<Rightarrow>
          (case format_segments format of Some segments \<Rightarrow> format_holes segments | None \<Rightarrow> [])
      | TransparentArm \<Rightarrow> [])"

definition arm_indexes :: "display_arm \<Rightarrow> nat list" where
  "arm_indexes arm = (case arm of WriteArm format indexes \<Rightarrow> indexes | TransparentArm \<Rightarrow> [])"

lemma arm_simps [simp]:
  "format_segments format = Some segments \<Longrightarrow> arm_holes (WriteArm format indexes) = format_holes segments"
  "arm_indexes (WriteArm format indexes) = indexes"
  by (simp_all add: arm_holes_def arm_indexes_def)

section \<open>Specifications that stand alone\<close>

text \<open>A value under a specification that takes no argument of its own.\<close>

definition literal_count :: "format_count \<Rightarrow> nat option option" where
  "literal_count c = (case c of NoCount \<Rightarrow> Some None | Count n \<Rightarrow> Some (Some n) | _ \<Rightarrow> None)"

definition show_spec :: "'v formatting \<Rightarrow> string \<Rightarrow> 'v \<Rightarrow> string option" where
  "show_spec F text v =
     Option.bind (parse_format_spec text) (\<lambda>spec.
     Option.bind (literal_count (fs_width spec)) (\<lambda>width.
     Option.bind (literal_count (fs_precision spec)) (\<lambda>precision. fm_show F spec width precision v)))"

text \<open>No count of a specification names an argument; \<open>*\<close> is allowed.\<close>

definition names_no_argument :: "string \<Rightarrow> bool" where
  "names_no_argument text \<longleftrightarrow>
     (case parse_format_spec text of
        None \<Rightarrow> True
      | Some spec \<Rightarrow> list_all (\<lambda>c. case c of ArgIndex _ \<Rightarrow> False | ArgName _ \<Rightarrow> False | _ \<Rightarrow> True)
          [fs_width spec, fs_precision spec])"

text \<open>The segments against their arguments, one for each placeholder.\<close>

fun segments_text :: "'v formatting \<Rightarrow> (char + string) list \<Rightarrow> 'v list \<Rightarrow> string option" where
  "segments_text F [] vs = (if vs = [] then Some [] else None)"
| "segments_text F (Inl c # segments) vs = map_option (\<lambda>s. c # s) (segments_text F segments vs)"
| "segments_text F (Inr text # segments) [] = None"
| "segments_text F (Inr text # segments) (v # vs) =
     Option.bind (show_spec F text v) (\<lambda>shown. map_option (\<lambda>s. shown @ s) (segments_text F segments vs))"

lemma format_holes_simps [simp]:
  "format_holes [] = []" "format_holes (Inl c # segments) = format_holes segments"
  "format_holes (Inr text # segments) = text # format_holes segments"
  by (simp_all add: format_holes_def map_filter_simps)

text \<open>A width is never \<open>*\<close>.\<close>

lemma take_count_not_next: "take_count s = Some (c, r) \<Longrightarrow> c \<noteq> NextArg"
  by (auto simp: take_count_def Let_def split: if_splits sum.splits)

lemma take_width_not_next: "take_width zero s = Some (c, r) \<Longrightarrow> c \<noteq> NextArg"
  using take_count_not_next by (auto simp: take_width_def split: if_splits)

lemma parse_format_spec_width: "parse_format_spec hole = Some spec \<Longrightarrow> fs_width spec \<noteq> NextArg"
  by (auto simp: parse_format_spec_def Let_def case_prod_beta bind_eq_Some_conv
      dest: take_width_not_next split: if_splits)

text \<open>With fewer arguments left than placeholders, a format string does not compile.\<close>

lemma write_segments_short:
  "length args < next_arg + length (format_holes segments) \<Longrightarrow> next_arg \<le> length args \<Longrightarrow>
   write_segments F segments args next_arg used = None"
proof (induction segments arbitrary: next_arg used)
  case (Cons x segments)
  show ?case
  proof (cases x)
    case (Inr hole)
    have "write_segments F segments args (Suc k) used' = None"
      if "next_arg \<le> k" "k < length args" for k used'
      using Cons.IH [of "Suc k" used'] Cons.prems that Inr by simp
    then show ?thesis by (auto simp: Inr Let_def bind_eq_None_conv)
  qed (use Cons in auto)
qed simp

text \<open>When no count names an argument, every placeholder takes one: the next.\<close>

lemma write_segments_text:
  "list_all names_no_argument (format_holes segments) \<Longrightarrow>
   length args = next_arg + length (format_holes segments) \<Longrightarrow>
   write_segments F segments args next_arg used = segments_text F segments (drop next_arg args)"
proof (induction segments arbitrary: next_arg used)
  case (Cons x segments)
  show ?case
  proof (cases x)
    case (Inr hole)
    with Cons.prems have n: "next_arg < length args" by simp
    then have d: "drop next_arg args = args ! next_arg # drop (Suc next_arg) args"
      by (simp add: Cons_nth_drop_Suc)
    show ?thesis
    proof (cases "parse_format_spec hole")
      case (Some spec)
      have IH: "write_segments F segments args (Suc next_arg) used' =
          segments_text F segments (drop (Suc next_arg) args)" for used'
        using Cons.IH [of "Suc next_arg" used'] Cons.prems Inr by simp
      have short: "write_segments F segments args (Suc (Suc next_arg)) used' = None"
        if "Suc next_arg < length args" for used'
        using write_segments_short [of args "Suc (Suc next_arg)" segments F used'] Cons.prems Inr that
        by (simp add: Suc_le_eq)
      have w: "resolve_count F args next_arg (fs_width spec) = literal_count (fs_width spec)"
        using Cons.prems(1) Some Inr parse_format_spec_width [OF Some]
        by (auto simp: names_no_argument_def resolve_count_def literal_count_def
            split: format_count.splits)
      show ?thesis
      proof (cases "fs_precision spec = NextArg")
        case True
        then show ?thesis using short
          by (auto simp: Inr Some d show_spec_def literal_count_def Let_def bind_eq_None_conv)
      next
        case False
        have "resolve_count F args next_arg (fs_precision spec) = literal_count (fs_precision spec)"
          using Cons.prems(1) Some Inr False
          by (auto simp: names_no_argument_def resolve_count_def literal_count_def
              split: format_count.splits)
        then show ?thesis using n False
          by (simp add: Inr Some d show_spec_def w IH bind_assoc)
      qed
    qed (simp add: Inr d show_spec_def)
  qed (use Cons in auto)
qed (simp add: list_all_iff)

text \<open>The segments have a text if and only if every placeholder can show its argument.\<close>

lemma segments_text_defined:
  "length (format_holes segments) = length vs \<Longrightarrow>
   segments_text F segments vs \<noteq> None \<longleftrightarrow>
     list_all2 (\<lambda>spec v. show_spec F spec v \<noteq> None) (format_holes segments) vs"
  by (induction F segments vs rule: segments_text.induct) (auto simp: bind_eq_None_conv)

section \<open>The message as its author reads it\<close>

text \<open>
  The reference: the message itself is walked once; a doubled brace prints one brace, and a
  placeholder prints the field it names: the next field, the field with its index or its name,
  or the next explicit argument when there are any; then all placeholders are implicit, and the
  message has no reading that leaves an argument over.
\<close>

definition placeholder_field ::
  "string list \<Rightarrow> format_arg list \<Rightarrow> nat \<Rightarrow> nat \<Rightarrow> placeholder_key \<Rightarrow> nat option" where
  "placeholder_field idents explicit next_implicit next_explicit key =
     (if explicit \<noteq> [] then
        (if key = KeyImplicit \<and> next_explicit < length explicit
         then (case explicit ! next_explicit of
                 FmtIndex i \<Rightarrow> Some i | FmtName name \<Rightarrow> position (\<lambda>i. i = name) idents)
         else None)
      else case key of
             KeyImplicit \<Rightarrow> Some next_implicit
           | KeyIndex i \<Rightarrow> Some i
           | KeyName name \<Rightarrow> position (\<lambda>i. i = name) idents)"

function message_text ::
  "'tok error_syn \<Rightarrow> (string \<Rightarrow> 'v \<Rightarrow> string option) \<Rightarrow> string list \<Rightarrow> format_arg list \<Rightarrow> 'v list \<Rightarrow>
   nat \<Rightarrow> nat \<Rightarrow> string \<Rightarrow> string option" where
  "message_text X disp idents explicit vals ni ne [] =
     (if ne = length explicit then Some [] else None)"
| "message_text X disp idents explicit vals ni ne (c # cs) =
     (if no_brace c then map_option (\<lambda>s. c # s) (message_text X disp idents explicit vals ni ne cs)
      else if cs \<noteq> [] \<and> hd cs = c
      then map_option (\<lambda>s. c # s) (message_text X disp idents explicit vals ni ne (tl cs))
      else case parse_placeholder_key X (takeWhile no_brace cs) of
             Inr (key, spec) \<Rightarrow>
               (case placeholder_field idents explicit ni ne key of
                  Some i \<Rightarrow>
                    if i < length vals
                    then Option.bind (disp spec (vals ! i)) (\<lambda>shown. map_option (\<lambda>s. shown @ s)
                      (message_text X disp idents explicit vals
                        (if explicit = [] \<and> key = KeyImplicit then Suc ni else ni)
                        (if explicit = [] then ne else Suc ne) (tl (dropWhile no_brace cs))))
                    else None
                | None \<Rightarrow> None)
           | Inl _ \<Rightarrow> None)"
  by pat_completeness auto

termination
proof (relation "measure (\<lambda>(X, disp, idents, explicit, vals, ni, ne, s). length s)", goal_cases)
  case (4 X disp idents explicit vals ni ne c cs)
  have "length (dropWhile no_brace cs) \<le> length cs" by (rule length_dropWhile_le)
  then show ?case by (auto simp: less_Suc_eq_le intro: le_trans)
qed auto

text \<open>A specification is cut off at the colon of a placeholder, so it has no brace.\<close>

lemma split_once_snd: "split_once p s = Some (a, b) \<Longrightarrow> set b \<subseteq> set s"
  by (induction s arbitrary: a b) (auto split: if_splits option.splits)

lemma placeholder_spec_no_brace:
  assumes "parse_placeholder_key X (takeWhile no_brace cs) = Inr (key, spec)"
  shows "list_all no_brace spec"
proof -
  have "\<forall>d \<in> set (takeWhile no_brace cs). no_brace d" by (auto dest: set_takeWhileD)
  moreover have "set spec \<subseteq> insert CHR '':'' (set (takeWhile no_brace cs))"
    using assms split_once_snd [of "\<lambda>c. c = CHR '':''" "takeWhile no_brace cs"]
    by (fastforce simp: parse_placeholder_key_def Let_def split: option.splits sum.splits if_splits)
  ultimately show ?thesis by (auto simp: list_all_iff no_brace_def)
qed

lemma format_segments_hole:
  assumes "list_all no_brace spec"
  shows "format_segments (CHR ''{'' # spec @ CHR ''}'' # f) =
    map_option (\<lambda>segments. Inr spec # segments) (format_segments f)"
proof -
  have "dropWhile no_brace (spec @ CHR ''}'' # f) = CHR ''}'' # f"
    "takeWhile no_brace (spec @ CHR ''}'' # f) = spec"
    using assms by (simp_all add: dropWhile_append2 takeWhile_append2 list_all_iff no_brace_def)
  moreover have "hd (spec @ CHR ''}'' # f) \<noteq> CHR ''{''"
    using assms by (cases spec) (simp_all add: no_brace_def)
  ultimately show ?thesis by simp
qed

lemma display_args_Cons:
  assumes "display_args n idents explicit ni ne (key # rest) = Inr is"
  shows "\<exists>i is'. is = i # is' \<and> i < n \<and> placeholder_field idents explicit ni ne key = Some i \<and>
    display_args n idents explicit (if explicit = [] \<and> key = KeyImplicit then Suc ni else ni)
      (if explicit = [] then ne else Suc ne) rest = Inr is'"
proof (cases "explicit = []")
  case True
  then show ?thesis using assms
    by (cases key) (auto simp: placeholder_field_def bound_index_def field_position_def split: if_splits)
next
  case False
  then show ?thesis using assms
    by (cases "explicit ! ne")
      (auto simp: placeholder_field_def format_arg_index_def bound_index_def field_position_def
        split: if_splits)
qed

text \<open>The format string splits, has one placeholder per argument, and reads as the message does.\<close>

lemma format_pipeline:
  assumes "parse_error_format X msg = Inr (f, ps)"
    and "display_args (length vals) idents explicit ni ne ps = Inr is"
  shows "\<exists>segments. format_segments f = Some segments \<and>
    length (format_holes segments) = length is \<and>
    message_text X (show_spec F) idents explicit vals ni ne msg =
      segments_text F segments (map (\<lambda>i. vals ! i) is)"
  using assms
proof (induction X msg arbitrary: f ps ni ne "is" rule: parse_error_format.induct)
  case (1 X)
  then show ?case by (auto split: if_splits)
next
  case (2 X c cs)
  consider (open2) "c = CHR ''{''" "cs \<noteq> [] \<and> hd cs = CHR ''{''"
    | (hole) "c = CHR ''{''" "\<not> (cs \<noteq> [] \<and> hd cs = CHR ''{'')"
    | (close) "c = CHR ''}''" | (plain) "no_brace c"
    by (auto simp: no_brace_def)
  then show ?case
  proof cases
    case open2
    then obtain g where g: "parse_error_format X (tl cs) = Inr (g, ps)" "f = ''{{'' @ g"
      using "2.prems"(1) by auto
    show ?thesis using "2.IH"(1) [OF open2 g(1) "2.prems"(2)] open2 g(2)
      by (auto simp: no_brace_def)
  next
    case close
    then obtain g where g: "parse_error_format X (tl cs) = Inr (g, ps)" "f = ''}}'' @ g"
      "cs \<noteq> [] \<and> hd cs = CHR ''}''"
      using "2.prems"(1) by (auto split: if_splits)
    show ?thesis using "2.IH"(3) [OF _ close g(3,1) "2.prems"(2)] close g(2,3)
      by (auto simp: no_brace_def)
  next
    case plain
    then have c: "c \<noteq> CHR ''{''" "c \<noteq> CHR ''}''" by (simp_all add: no_brace_def)
    then obtain g where g: "parse_error_format X cs = Inr (g, ps)" "f = c # g"
      using "2.prems"(1) by auto
    show ?thesis using "2.IH"(4) [OF c g(1) "2.prems"(2)] plain c g(2) by auto
  next
    case hole
    then obtain d rest key spec g ps' where h: "dropWhile no_brace cs = d # rest" "d \<noteq> CHR ''{''"
      "parse_placeholder_key X (takeWhile no_brace cs) = Inr (key, spec)"
      "parse_error_format X rest = Inr (g, ps')" "ps = key # ps'" "f = ''{'' @ spec @ ''}'' @ g"
      using "2.prems"(1) by (auto split: list.splits if_splits)
    obtain i is' where i: "is = i # is'" "i < length vals"
      "placeholder_field idents explicit ni ne key = Some i"
      "display_args (length vals) idents explicit
        (if explicit = [] \<and> key = KeyImplicit then Suc ni else ni)
        (if explicit = [] then ne else Suc ne) ps' = Inr is'"
      using display_args_Cons "2.prems"(2) [unfolded h(5)] by blast
    obtain segments where IH: "format_segments g = Some segments"
      "length (format_holes segments) = length is'"
      "message_text X (show_spec F) idents explicit vals
          (if explicit = [] \<and> key = KeyImplicit then Suc ni else ni)
          (if explicit = [] then ne else Suc ne) rest = segments_text F segments (map ((!) vals) is')"
      using "2.IH"(2) [OF hole h(1,2,4) i(4)] by blast
    have "format_segments f = Some (Inr spec # segments)"
      using format_segments_hole [OF placeholder_spec_no_brace [OF h(3)], of g] IH(1) by (simp add: h(6))
    moreover have "message_text X (show_spec F) idents explicit vals ni ne (c # cs) =
        Option.bind (show_spec F spec (vals ! i)) (\<lambda>shown. map_option (\<lambda>s. shown @ s)
          (segments_text F segments (map ((!) vals) is')))"
      using hole h(1,3) i(2,3) IH(3) by (auto simp: no_brace_def)
    ultimately show ?thesis using IH(2) by (auto simp: i(1))
  qed
qed


definition demo_error_syn :: "string error_syn" where
  "demo_error_syn =
     \<lparr>so_str = Some, so_int = (\<lambda>s. Some (False, s)), so_bool = (\<lambda>s. Some (s = ''true'')),
      so_ident = Some, so_type = (\<lambda>s. Some (TyPath False False [Segment s NoArguments])),
      so_str_list = (\<lambda>s. Some (split_on CHR '','' s)), so_items = (\<lambda>_. []),
      so_is_ident = (\<lambda>s. s \<noteq> [] \<and> list_all (\<lambda>c. is_ascii_alphanumeric c \<or> c = CHR ''_'') s),
      so_render = (\<lambda>_. []),
      es_options = (\<lambda>_. None), es_paths = (\<lambda>s. Some (map (\<lambda>i. [i]) (split_on CHR '','' s))),
      es_cursor = (\<lambda>s. [TokStr s]), es_show = id, es_int_tokens = snd, es_str_tokens = id,
      es_path_tokens = (\<lambda>ps. join_with '','' (map (join_with ''::'') ps)), es_kind = id\<rparr>"

definition demo_variant :: "string error_variant" where
  "demo_variant =
     \<lparr>ev_ident = ''Range'', ev_attrs = [list_attr ''error'' ''{{{1:x}..{0}''],
      ev_fields = FieldsUnnamed (replicate 2
        \<lparr>ef_ident = None, ef_ty = TyPath False False [Segment ''u32'' NoArguments], ef_attrs = []\<rparr>)\<rparr>"

lemma white_space_bytes:
  "w \<in> set white_space \<Longrightarrow> c \<in> set w \<Longrightarrow> byte_of c \<le> 32 \<or> 128 \<le> byte_of c"
  by (auto simp: white_space_def byte_of_def)

lemma strip_all_plain:
  assumes "\<And>w d. w \<in> set ws \<Longrightarrow> d \<in> set w \<Longrightarrow> byte_of d \<le> 32 \<or> 128 \<le> byte_of d"
    and "32 < byte_of c" "byte_of c < 128"
  shows "strip_all ws (c # cs) = c # cs"
proof -
  have "c \<notin> set w" if "w \<in> set ws" for w using assms(1) [OF that] assms(2,3) by fastforce
  then have "w = [] \<or> take (length w) (c # cs) \<noteq> w" "w \<noteq> c # cs" if "w \<in> set ws" for w
    using that by (cases w; fastforce)+
  then have "find (\<lambda>w. w \<noteq> [] \<and> w \<noteq> c # cs \<and> take (length w) (c # cs) = w) ws = None" "c # cs \<notin> set ws"
    by (auto simp: find_None_iff)
  then show ?thesis by (subst strip_all.simps) simp
qed

lemma trim_plain:
  assumes "32 < byte_of c" "byte_of c < 128"
  shows "trim [c] = [c]"
proof -
  have "byte_of d \<le> 32 \<or> 128 \<le> byte_of d" if "w \<in> set (map rev white_space)" "d \<in> set w" for w d
    using that white_space_bytes [of "rev w" d] by auto
  then show ?thesis
    using strip_all_plain [OF white_space_bytes assms] strip_all_plain [of "map rev white_space", OF _ assms]
    by (simp add: trim_def)
qed

lemma trim_digit: "trim ''0'' = ''0''" "trim ''1'' = ''1''"
  by (simp_all add: trim_plain byte_of_def)

text \<open>Numbers in decimal, in hexadecimal with a suffix, and no other trait.\<close>

definition demo_formatting :: "nat formatting" where
  "demo_formatting =
     \<lparr>fm_show = (\<lambda>spec width precision v.
        if fs_trait spec = [] then Some (show_nat v)
        else if fs_trait spec = ''x'' then Some (show_nat v @ ''h'') else None),
      fm_usize = Some, fm_scope = (\<lambda>_. None)\<rparr>"

lemma demo_specs:
  "parse_format_spec [] = Some display_spec"
  "parse_format_spec '':x'' = Some (display_spec\<lparr>fs_trait := ''x''\<rparr>)"
  by code_simp+


end
