(* ===== verification/Error_Wire.thy ===== *)
theory Error_Wire
  imports Error_Display Error_Responses
begin

text \<open>
  The wire form of a \<open>#[service_error]\<close> enum
  (\<open>nats-micro-macros/src/service_error/{mod,wire,client,display}.rs\<close>): status, kind and details
  of every variant, the check that wire keys are unambiguous, and the generated
  \<open>IntoNatsError\<close> and \<open>FromNatsErrorResponse\<close>.  A value of the enum is the position of its
  variant with the values of its fields; \<open>serde_json\<close> is the parameter \<open>error_values\<close>.
\<close>

section \<open>Variants\<close>

definition INTERNAL_KIND :: string where
  "INTERNAL_KIND = ''INTERNAL_ERROR''"

definition default_kind :: "'tok error_syn \<Rightarrow> string \<Rightarrow> string" where
  "default_kind X ident = es_kind X ident"

definition typed_reconstruction_enabled :: "bool \<Rightarrow> bool" where
  "typed_reconstruction_enabled is_internal = (\<not> is_internal)"

record 'tok variant_model =
  vm_variant :: "'tok error_variant"
  vm_attr :: "message_attr option"
  vm_meta :: field_meta
  vm_code :: nat
  vm_kind :: string
  vm_internal :: bool
  vm_display :: "display_arm option"

definition vm_key :: "'tok variant_model \<Rightarrow> nat \<times> string" where
  "vm_key m = (vm_code m, vm_kind m)"

definition vm_generic :: "'tok variant_model \<Rightarrow> bool" where
  "vm_generic m \<longleftrightarrow> vm_internal m \<and> vm_kind m = INTERNAL_KIND"

definition vm_fields :: "'tok variant_model \<Rightarrow> 'tok error_field list" where
  "vm_fields m = fields_list (ev_fields (vm_variant m))"

type_synonym wire_keys = "(nat \<times> string) set"

definition duplicate_wire_kind_error :: "nat \<Rightarrow> string \<Rightarrow> macro_error" where
  "duplicate_wire_kind_error code kind =
     MacroError (''duplicate service_error wire kind `'' @ kind @ ''` for code '' @ show_nat code @
       ''; rename one variant or use #[kind(...)]'')"

text \<open>
  The keys reserved by generic internal errors, which may share one, and those of all other
  variants, which may not.
\<close>

definition claim_key ::
  "bool \<Rightarrow> nat \<Rightarrow> string \<Rightarrow> wire_keys \<times> wire_keys \<Rightarrow> macro_error + wire_keys \<times> wire_keys" where
  "claim_key generic code kind keys =
     (let (reserved, concrete) = keys; key = (code, kind)
      in if generic then
           (if key \<in> concrete then Inl (duplicate_wire_kind_error code kind)
            else Inr (insert key reserved, concrete))
         else if key \<in> reserved \<or> key \<in> concrete then Inl (duplicate_wire_kind_error code kind)
         else Inr (reserved, insert key concrete))"

definition variant_code_kind ::
  "'tok error_syn \<Rightarrow> string \<Rightarrow> bool \<Rightarrow> bool \<Rightarrow> nat option \<Rightarrow> string option \<Rightarrow> nat \<times> string" where
  "variant_code_kind X ident is_internal expose_kind code_attr kind_attr =
     ((case code_attr of Some c \<Rightarrow> c | None \<Rightarrow> if is_internal then 500 else 400),
      (case kind_attr of
         Some k \<Rightarrow> k
       | None \<Rightarrow> if is_internal \<and> \<not> expose_kind then INTERNAL_KIND else default_kind X ident))"

definition variant_message ::
  "'tok error_syn \<Rightarrow> impl_mode \<Rightarrow> 'tok error_variant \<Rightarrow> macro_error + message_attr option" where
  "variant_message X mode v =
     (if mode = SelfContained then map_ok Some (variant_error_attr_strict X v) else Inr None)"

definition variant_is_transparent ::
  "'tok error_syn \<Rightarrow> impl_mode \<Rightarrow> 'tok error_variant \<Rightarrow> message_attr option \<Rightarrow> bool" where
  "variant_is_transparent X mode v attr =
     (if mode = SelfContained then attr = Some AttrTransparent else variant_is_transparent_light X v)"

definition variant_display ::
  "'tok error_syn \<Rightarrow> 'tok error_variant \<Rightarrow> message_attr option \<Rightarrow> macro_error + display_arm option"
  where
  "variant_display X v attr =
     (case attr of Some a \<Rightarrow> map_ok Some (display_arm_tokens X v a) | None \<Rightarrow> Inr None)"

definition variant_is_internal :: "internal_attr \<Rightarrow> bool \<Rightarrow> nat option \<Rightarrow> bool" where
  "variant_is_internal internal_attr passes_source code_attr \<longleftrightarrow>
     ia_present internal_attr \<or> (passes_source \<and> code_attr = None)"

definition expand_variant ::
  "'tok error_syn \<Rightarrow> impl_mode \<Rightarrow> wire_keys \<times> wire_keys \<Rightarrow> 'tok error_variant \<Rightarrow>
   macro_error + (wire_keys \<times> wire_keys) \<times> 'tok variant_model" where
  "expand_variant X mode keys v =
     try_then (variant_message X mode v) (\<lambda>attr.
     try_then (field_meta_for_variant X v mode (variant_is_transparent X mode v attr)) (\<lambda>meta.
     try_then (variant_code_attr X v) (\<lambda>code_attr.
     try_then (variant_internal_attr X v) (\<lambda>internal_attr.
     try_then (variant_kind_attr X v) (\<lambda>kind_attr.
     let is_internal = variant_is_internal internal_attr
          (fm_has_from meta \<or> variant_is_transparent X mode v attr) code_attr;
        (code, kind) = variant_code_kind X (ev_ident v) is_internal (ia_expose_kind internal_attr)
          code_attr kind_attr
     in try_then (claim_key (is_internal \<and> kind = INTERNAL_KIND) code kind keys) (\<lambda>keys.
     try_then (variant_display X v attr) (\<lambda>display.
     try_then (bind_fields X (ev_fields v)) (\<lambda>_.
       Inr (keys, \<lparr>vm_variant = v, vm_attr = attr, vm_meta = meta, vm_code = code,
         vm_kind = kind, vm_internal = is_internal, vm_display = display\<rparr>)))))))))"

fun expand_variants ::
  "'tok error_syn \<Rightarrow> impl_mode \<Rightarrow> wire_keys \<times> wire_keys \<Rightarrow> 'tok error_variant list \<Rightarrow>
   macro_error + 'tok variant_model list" where
  "expand_variants X mode keys [] = Inr []"
| "expand_variants X mode keys (v # rest) =
     try_then (expand_variant X mode keys v) (\<lambda>(keys, m).
       map_ok (\<lambda>ms. m # ms) (expand_variants X mode keys rest))"

record 'tok expanded_error =
  ee_mode :: impl_mode
  ee_input :: "'tok error_enum"
  ee_variants :: "'tok variant_model list"

text \<open>\<open>client\<close> is the cargo feature \<open>macros_client_feature\<close>.\<close>

definition expand_service_error ::
  "'tok error_syn \<Rightarrow> bool \<Rightarrow> 'tok error_enum \<Rightarrow> macro_error + 'tok expanded_error" where
  "expand_service_error X client input =
     try_then (normalize_v2_error_attrs X input) (\<lambda>input.
       if \<not> en_is_enum input
       then Inl (MacroError ''#[service_error] can only be applied to enums'')
       else if client \<and> \<not> en_public input
       then Inl (MacroError (''#[service_error] enums must be declared `pub` when the `client` '' @
         ''feature is enabled''))
       else let (mode, input) = normalize_service_error_derives X input
            in map_ok (\<lambda>ms. \<lparr>ee_mode = mode, ee_input = strip_service_error_only_attrs mode input,
                ee_variants = ms\<rparr>)
              (expand_variants X mode ({}, {}) (en_variants input)))"

section \<open>Sources and conversions\<close>

definition source_field :: "'tok variant_model \<Rightarrow> nat option" where
  "source_field m =
     (if vm_attr m = None \<or> ev_fields (vm_variant m) = FieldsUnit then None
      else case fm_source_index (vm_meta m) of
             Some i \<Rightarrow> Some i
           | None \<Rightarrow> if vm_attr m = Some AttrTransparent then Some 0 else None)"

type_synonym 'v error_value = "nat \<times> 'v list"

definition error_source :: "'tok variant_model list \<Rightarrow> 'v error_value \<Rightarrow> 'v option" where
  "error_source ms e =
     (case e of (k, vals) \<Rightarrow> map_option (\<lambda>i. vals ! i) (source_field (ms ! k)))"

text \<open>The \<open>From\<close> implementations: for each, the source type and the variant it builds.\<close>

definition from_impl :: "nat \<Rightarrow> 'tok variant_model \<Rightarrow> (rust_type \<times> nat) option" where
  "from_impl k m =
     (if vm_attr m = None \<or> ev_fields (vm_variant m) = FieldsUnit then None
      else map_option (\<lambda>i. (ef_ty (vm_fields m ! i), k)) (fm_from_index (vm_meta m)))"

definition error_from :: "nat \<Rightarrow> 'v \<Rightarrow> 'v error_value" where
  "error_from k v = (k, [v])"

definition error_to_string ::
  "'v formatting \<Rightarrow> 'tok variant_model list \<Rightarrow> 'v error_value \<Rightarrow> string option" where
  "error_to_string F ms e =
     (case e of (k, vals) \<Rightarrow> Option.bind (vm_display (ms ! k)) (\<lambda>arm. run_display F arm vals))"

section \<open>Details\<close>

record ('v, 'j) error_values =
  xv_to_value :: "'v list \<Rightarrow> 'j option"
  xv_from_value :: "rust_type list \<Rightarrow> 'j \<Rightarrow> 'v list option"
  xv_json_string :: "string \<Rightarrow> 'j"
  xv_json_as_str :: "'j \<Rightarrow> string option"
  xv_of_string :: "string \<Rightarrow> 'v"
  xv_to_string :: "'v \<Rightarrow> string"

datatype wire_shape = ShapeUnit | ShapeString | ShapeTuple

definition variant_shape :: "'tok variant_model \<Rightarrow> wire_shape" where
  "variant_shape m =
     (case ev_fields (vm_variant m) of
        FieldsUnit \<Rightarrow> ShapeUnit
      | FieldsUnnamed fs \<Rightarrow>
          (if length fs = 1 \<and> length (wire_indices (vm_meta m)) = 1 \<and>
              path_is_ident ''String'' (ef_ty (hd fs))
           then ShapeString else ShapeTuple)
      | FieldsNamed fs \<Rightarrow> ShapeTuple)"

definition variant_details ::
  "('v, 'j) error_values \<Rightarrow> 'tok variant_model \<Rightarrow> 'v list \<Rightarrow> 'j option" where
  "variant_details E m vals =
     (case variant_shape m of
        ShapeUnit \<Rightarrow> None
      | ShapeString \<Rightarrow>
          if vm_internal m then None else Some (xv_json_string E (xv_to_string E (hd vals)))
      | ShapeTuple \<Rightarrow>
          if vm_internal m \<or> wire_indices (vm_meta m) = [] then None
          else xv_to_value E (map (\<lambda>i. vals ! i) (wire_indices (vm_meta m))))"

text \<open>\<open>into_nats_error\<close>; \<open>show\<close> is the enum's \<open>Display\<close>.\<close>

definition enum_into_nats_error ::
  "('v, 'j) error_values \<Rightarrow> ('v error_value \<Rightarrow> string) \<Rightarrow> 'tok variant_model list \<Rightarrow>
   'v error_value \<Rightarrow> string \<Rightarrow> 'j nats_error_response" where
  "enum_into_nats_error E show ms e request_id =
     (case e of (k, vals) \<Rightarrow>
        (let m = ms ! k;
             error = error_new (vm_code m) (vm_kind m)
               (if vm_internal m then ''an internal error occurred'' else show e) request_id
         in case variant_details E m vals of
              Some details \<Rightarrow> with_details details error
            | None \<Rightarrow> error))"

section \<open>Rebuilding\<close>

datatype response_body = BodyUnit | BodyString | BodyTuple "rust_type list" | BodyUntyped

definition variant_body :: "'tok variant_model \<Rightarrow> response_body" where
  "variant_body m =
     (case variant_shape m of
        ShapeUnit \<Rightarrow> BodyUnit
      | ShapeString \<Rightarrow> BodyString
      | ShapeTuple \<Rightarrow>
          if has_skipped_wire_fields (vm_meta m) then BodyUntyped
          else BodyTuple (map ef_ty (vm_fields m)))"

fun response_arms ::
  "nat \<Rightarrow> 'tok variant_model list \<Rightarrow> ((nat \<times> string) \<times> nat \<times> response_body) list" where
  "response_arms k [] = []"
| "response_arms k (m # ms) =
     (if typed_reconstruction_enabled (vm_internal m) then [(vm_key m, k, variant_body m)]
      else if vm_generic m then [] else [(vm_key m, k, BodyUntyped)]) @
     response_arms (Suc k) ms"

definition run_response_body ::
  "('v, 'j) error_values \<Rightarrow> nat \<Rightarrow> response_body \<Rightarrow> 'j nats_error_response \<Rightarrow>
   ('j, 'v error_value) service_error_match" where
  "run_response_body E k body response =
     (case body of
        BodyUnit \<Rightarrow> Typed (k, [])
      | BodyString \<Rightarrow>
          Typed (k, [xv_of_string E
            (case Option.bind (er_details response) (xv_json_as_str E) of
               Some s \<Rightarrow> s | None \<Rightarrow> er_message response)])
      | BodyTuple types \<Rightarrow>
          (case Option.bind (er_details response) (xv_from_value E types) of
             Some vals \<Rightarrow> Typed (k, vals)
           | None \<Rightarrow> Untyped response)
      | BodyUntyped \<Rightarrow> Untyped response)"

text \<open>A \<open>match\<close> takes the first arm whose pattern is the code and kind.\<close>

definition enum_from_response ::
  "('v, 'j) error_values \<Rightarrow> 'tok variant_model list \<Rightarrow> 'j nats_error_response \<Rightarrow>
   ('j, 'v error_value) service_error_match" where
  "enum_from_response E ms response =
     (case map_of (response_arms 0 ms) (er_code response, er_kind response) of
        Some (k, body) \<Rightarrow> run_response_body E k body response
      | None \<Rightarrow> Untyped response)"

text \<open>The generated implementations keep the contracts of the two traits.\<close>

interpretation enum_from: from_nats_error_trait "enum_from_response E ms"
  by unfold_locales
    (auto simp: enum_from_response_def run_response_body_def
      split: option.splits prod.splits response_body.splits)

interpretation enum_into: into_nats_error_trait "enum_into_nats_error E show ms"
  by unfold_locales (simp add: enum_into_nats_error_def case_prod_beta Let_def split: option.split)

section \<open>The N-API mirror\<close>

text \<open>
  With the feature \<open>macros_napi_feature\<close> the macro also emits an enum for JavaScript: its
  variants, the arms of \<open>AsRef<str>\<close> and those of \<open>From<&Error>\<close>, by the position of the variant.
\<close>

record napi_enum =
  nu_module :: string
  nu_ident :: string
  nu_variants :: "string list"
  nu_as_ref :: "(string \<times> string) list"
  nu_from :: "string list"

definition napi_error_enum ::
  "'tok error_syn \<Rightarrow> bool \<Rightarrow> (string \<Rightarrow> string) \<Rightarrow> string \<Rightarrow> 'tok variant_model list \<Rightarrow> napi_enum option"
  where
  "napi_error_enum X napi snake ident ms =
     (if \<not> napi then None
      else let js = map (\<lambda>m. default_kind X (ev_ident (vm_variant m))) ms
        in Some \<lparr>nu_module = ''__nats_micro_service_error_napi_'' @ snake ident,
             nu_ident = ''Js'' @ ident, nu_variants = js,
             nu_as_ref = zip js (map vm_kind ms), nu_from = js\<rparr>)"

definition napi_error_from :: "napi_enum \<Rightarrow> 'v error_value \<Rightarrow> string" where
  "napi_error_from N e = nu_from N ! fst e"

definition napi_error_as_ref :: "napi_enum \<Rightarrow> string \<Rightarrow> string option" where
  "napi_error_as_ref N js = map_of (nu_as_ref N) js"

text \<open>
  The text of the mirrored error is the kind under which the error travels, provided that the
  variants of the mirror have different names, without which it does not compile.
\<close>

theorem napi_mirror_reports_kind:
  assumes "napi_error_enum X True snake ident ms = Some N" and "distinct (nu_variants N)"
    and "fst e < length ms"
  shows "napi_error_as_ref N (napi_error_from N e) =
    Some (er_kind (enum_into_nats_error E show ms e request_id))"
proof -
  let ?js = "map (\<lambda>m. default_kind X (ev_ident (vm_variant m))) ms"
  have "map_of (zip ?js (map vm_kind ms)) (?js ! fst e) = Some (map vm_kind ms ! fst e)"
    using assms by (intro map_of_zip_nth) (auto simp: napi_error_enum_def Let_def)
  then show ?thesis
    using assms
    by (auto simp: napi_error_enum_def Let_def napi_error_from_def napi_error_as_ref_def
        enum_into_nats_error_def case_prod_beta split: option.split)
qed

section \<open>Wire keys\<close>

lemma claim_key_Inr:
  "claim_key generic code kind (r, c) = Inr (r', c') \<longleftrightarrow>
     (if generic then (code, kind) \<notin> c \<and> r' = insert (code, kind) r \<and> c' = c
      else (code, kind) \<notin> r \<union> c \<and> r' = r \<and> c' = insert (code, kind) c)"
  by (auto simp: claim_key_def Let_def)

lemma variant_code_kind_range:
  "variant_code_attr X v = Inr c \<Longrightarrow>
   400 \<le> fst (variant_code_kind X i b e c k) \<and> fst (variant_code_kind X i b e c k) \<le> 599"
  by (cases c) (auto simp: variant_code_kind_def dest: variant_code_range)

lemma expand_variant_Inr:
  assumes "expand_variant X mode keys v = Inr (keys', m)"
  shows "claim_key (vm_generic m) (vm_code m) (vm_kind m) keys = Inr keys'"
    and "length (fm_roles (vm_meta m)) = length (vm_fields m)" and "vm_variant m = v"
    and "variant_display X v (vm_attr m) = Inr (vm_display m)"
    and "(mode = SelfContained) = (vm_attr m \<noteq> None)" and "400 \<le> vm_code m \<and> vm_code m \<le> 599"
  using assms
  by (auto simp: expand_variant_def Let_def case_prod_beta vm_generic_def vm_fields_def
      variant_message_def variant_code_kind_range dest!: field_meta_roles split: if_splits)

lemma expand_variants_keys:
  assumes "expand_variants X mode (r, c) vs = Inr ms"
  shows "distinct (map vm_key (filter (\<lambda>m. \<not> vm_generic m) ms)) \<and>
    (\<forall>m \<in> set ms. vm_key m \<notin> c) \<and> (\<forall>m \<in> set ms. \<not> vm_generic m \<longrightarrow> vm_key m \<notin> r) \<and>
    (\<forall>m \<in> set ms. \<forall>n \<in> set ms. vm_generic m \<and> \<not> vm_generic n \<longrightarrow> vm_key m \<noteq> vm_key n)"
  using assms
proof (induction vs arbitrary: r c ms)
  case (Cons v vs)
  then obtain r' c' m ms' where m: "expand_variant X mode (r, c) v = Inr ((r', c'), m)"
    "expand_variants X mode (r', c') vs = Inr ms'" "ms = m # ms'"
    by auto
  have distinct: "distinct (map vm_key (filter (\<lambda>m. \<not> vm_generic m) ms'))"
    and fresh: "\<And>n. n \<in> set ms' \<Longrightarrow> vm_key n \<notin> c'"
    "\<And>n. n \<in> set ms' \<Longrightarrow> \<not> vm_generic n \<Longrightarrow> vm_key n \<notin> r'"
    and apart: "\<And>m n. m \<in> set ms' \<Longrightarrow> n \<in> set ms' \<Longrightarrow> vm_generic m \<Longrightarrow> \<not> vm_generic n \<Longrightarrow>
      vm_key m \<noteq> vm_key n"
    using Cons.IH [OF m(2)] by blast+
  have keys: "vm_key m \<notin> c"
    "if vm_generic m then r' = insert (vm_key m) r \<and> c' = c
     else vm_key m \<notin> r \<and> r' = r \<and> c' = insert (vm_key m) c"
    using expand_variant_Inr(1) [OF m(1)] by (auto simp: claim_key_Inr vm_key_def split: if_splits)
  have "vm_key m \<notin> vm_key ` set ms'" if "\<not> vm_generic m"
    using that fresh(1) keys(2) by (metis imageE insertI1)
  then have "distinct (map vm_key (filter (\<lambda>m. \<not> vm_generic m) ms))"
    using distinct by (auto simp: m(3))
  moreover have "\<forall>n \<in> set ms. vm_key n \<notin> c"
    using fresh(1) keys by (auto simp: m(3) split: if_splits)
  moreover have "\<forall>n \<in> set ms. \<not> vm_generic n \<longrightarrow> vm_key n \<notin> r"
    using fresh(2) keys by (auto simp: m(3) split: if_splits)
  moreover have "\<forall>n \<in> set ms'. (vm_generic m \<and> \<not> vm_generic n \<longrightarrow> vm_key m \<noteq> vm_key n) \<and>
      (vm_generic n \<and> \<not> vm_generic m \<longrightarrow> vm_key n \<noteq> vm_key m)"
    using fresh keys(2) by (metis insertI1)
  then have "\<forall>m \<in> set ms. \<forall>n \<in> set ms. vm_generic m \<and> \<not> vm_generic n \<longrightarrow> vm_key m \<noteq> vm_key n"
    using apart by (simp add: m(3))
  ultimately show ?case by blast
qed simp

lemma expand_variants_nth:
  "expand_variants X mode keys vs = Inr ms \<Longrightarrow> m \<in> set ms \<Longrightarrow>
   length (fm_roles (vm_meta m)) = length (vm_fields m) \<and> 400 \<le> vm_code m \<and> vm_code m \<le> 599"
proof (induction vs arbitrary: keys ms)
  case (Cons v vs)
  then obtain keys' n ms' where "expand_variant X mode keys v = Inr (keys', n)"
    "expand_variants X mode keys' vs = Inr ms'" "ms = n # ms'" by auto
  then show ?case using Cons.prems(2) Cons.IH expand_variant_Inr(2,6) by (metis set_ConsD)
qed simp

lemma fst_response_arms:
  "fst ` set (response_arms k ms) = vm_key ` {m \<in> set ms. \<not> vm_generic m}"
  by (induction k ms rule: response_arms.induct)
    (auto simp: typed_reconstruction_enabled_def vm_generic_def)

lemma map_of_response_arms:
  "distinct (map vm_key (filter (\<lambda>m. \<not> vm_generic m) ms)) \<Longrightarrow> i < length ms \<Longrightarrow>
   \<not> vm_generic (ms ! i) \<Longrightarrow>
   map_of (response_arms k ms) (vm_key (ms ! i)) =
     Some (k + i, if vm_internal (ms ! i) then BodyUntyped else variant_body (ms ! i))"
proof (induction ms arbitrary: k i)
  case (Cons m ms)
  show ?case
  proof (cases i)
    case 0
    then show ?thesis using Cons.prems(3) by (simp add: typed_reconstruction_enabled_def)
  next
    case (Suc j)
    then have "vm_key (ms ! j) \<in> vm_key ` {m \<in> set ms. \<not> vm_generic m}"
      using Cons.prems by (intro imageI) simp
    then have "\<not> vm_generic m \<longrightarrow> vm_key (ms ! j) \<noteq> vm_key m"
      using Cons.prems(1) by auto
    then have "map_of (response_arms k (m # ms)) (vm_key (ms ! j)) =
        map_of (response_arms (Suc k) ms) (vm_key (ms ! j))"
      by (auto simp: typed_reconstruction_enabled_def vm_generic_def)
    then show ?thesis using Cons.IH [of j "Suc k"] Cons.prems Suc by (auto split: if_splits)
  qed
qed simp

lemma expanded_variants:
  assumes "expand_service_error X client input = Inr ex" and "k < length (ee_variants ex)"
  shows "distinct (map vm_key (filter (\<lambda>m. \<not> vm_generic m) (ee_variants ex)))"
    and "vm_generic (ee_variants ex ! k) \<Longrightarrow>
      vm_key (ee_variants ex ! k) \<notin> vm_key ` {m \<in> set (ee_variants ex). \<not> vm_generic m}"
    and "length (fm_roles (vm_meta (ee_variants ex ! k))) = length (vm_fields (ee_variants ex ! k))"
    and "400 \<le> vm_code (ee_variants ex ! k) \<and> vm_code (ee_variants ex ! k) \<le> 599"
proof -
  obtain mode vs where ms: "expand_variants X mode ({}, {}) vs = Inr (ee_variants ex)"
    using assms(1)
    by (auto simp: expand_service_error_def normalize_service_error_derives_def Let_def
        split: if_splits prod.splits)
  note keys = expand_variants_keys [OF ms]
  show "distinct (map vm_key (filter (\<lambda>m. \<not> vm_generic m) (ee_variants ex)))" using keys by blast
  show "vm_key (ee_variants ex ! k) \<notin> vm_key ` {m \<in> set (ee_variants ex). \<not> vm_generic m}"
    if "vm_generic (ee_variants ex ! k)"
    using keys that nth_mem [OF assms(2)] by auto
  show "length (fm_roles (vm_meta (ee_variants ex ! k))) = length (vm_fields (ee_variants ex ! k))"
    "400 \<le> vm_code (ee_variants ex ! k) \<and> vm_code (ee_variants ex ! k) \<le> 599"
    using expand_variants_nth [OF ms nth_mem [OF assms(2)]] by simp_all
qed

section \<open>Round trip and opacity\<close>

text \<open>
  The values of a variant survive JSON: a tuple of fields reads back at the fields' types, and
  a \<open>String\<close> field is its own text.
\<close>

definition fields_survive ::
  "('v, 'j) error_values \<Rightarrow> 'tok variant_model \<Rightarrow> 'v list \<Rightarrow> bool" where
  "fields_survive E m vals \<longleftrightarrow>
     (case variant_shape m of
        ShapeUnit \<Rightarrow> True
      | ShapeString \<Rightarrow>
          xv_json_as_str E (xv_json_string E (xv_to_string E (hd vals))) =
            Some (xv_to_string E (hd vals)) \<and>
          xv_of_string E (xv_to_string E (hd vals)) = hd vals
      | ShapeTuple \<Rightarrow>
          (case xv_to_value E vals of
             Some j \<Rightarrow> xv_from_value E (map ef_ty (vm_fields m)) j = Some vals | None \<Rightarrow> False))"

lemma into_nats_error_sel [simp]:
  "er_code (enum_into_nats_error E show ms (k, vals) rid) = vm_code (ms ! k)"
  "er_kind (enum_into_nats_error E show ms (k, vals) rid) = vm_kind (ms ! k)"
  "er_details (enum_into_nats_error E show ms (k, vals) rid) = variant_details E (ms ! k) vals"
  "er_message (enum_into_nats_error E show ms (k, vals) rid) =
     (if vm_internal (ms ! k) then ''an internal error occurred'' else show (k, vals))"
  by (simp_all add: enum_into_nats_error_def Let_def split: option.split)

lemma internal_details: "vm_internal m \<Longrightarrow> variant_details E m vals = None"
  by (simp add: variant_details_def split: wire_shape.split)

lemma public_body_round_trip:
  assumes "\<not> vm_internal m" "\<not> has_skipped_wire_fields (vm_meta m)"
    and "length (fm_roles (vm_meta m)) = length (vm_fields m)" "length vals = length (vm_fields m)"
    and "variant_shape m = ShapeTuple \<Longrightarrow> vals \<noteq> []" and "fields_survive E m vals"
    and "er_details response = variant_details E m vals"
  shows "run_response_body E k (variant_body m) response = Typed (k, vals)"
proof (cases "variant_shape m")
  case ShapeUnit
  then have "vals = []" using assms(4)
    by (auto simp: variant_shape_def vm_fields_def split: error_fields.splits if_splits)
  then show ?thesis using ShapeUnit by (simp add: variant_body_def run_response_body_def)
next
  case ShapeString
  then have "length vals = 1" using assms(4)
    by (auto simp: variant_shape_def vm_fields_def split: error_fields.splits if_splits)
  then have "vals = [hd vals]" by (cases vals) auto
  then show ?thesis using ShapeString assms(1,6,7)
    by (simp add: variant_body_def run_response_body_def variant_details_def fields_survive_def)
next
  case ShapeTuple
  have "wire_indices (vm_meta m) = [0..<length vals]"
    using wire_indices_all [OF assms(2)] assms(3,4) by simp
  then have "map (\<lambda>i. vals ! i) (wire_indices (vm_meta m)) = vals" "wire_indices (vm_meta m) \<noteq> []"
    using assms(5) [OF ShapeTuple] by (simp_all add: map_nth)
  then show ?thesis using ShapeTuple assms(1,2,6,7)
    by (auto simp: variant_body_def run_response_body_def variant_details_def fields_survive_def
        split: option.splits)
qed

lemma public_error_rebuilt:
  assumes "expand_service_error X client input = Inr ex" and "k < length (ee_variants ex)"
    and "m = ee_variants ex ! k" and "\<not> vm_internal m" and "\<not> has_skipped_wire_fields (vm_meta m)"
    and "length vals = length (vm_fields m)" and "variant_shape m = ShapeTuple \<Longrightarrow> vals \<noteq> []"
    and "fields_survive E m vals"
  shows "let response = enum_into_nats_error E show (ee_variants ex) (k, vals) request_id
    in 400 \<le> er_code response \<and> er_code response \<le> 599 \<and>
       enum_from_response E (ee_variants ex) response = Typed (k, vals)"
proof -
  note v = expanded_variants [OF assms(1,2)]
  have "\<not> vm_generic m" using assms(4) by (simp add: vm_generic_def)
  then have "map_of (response_arms 0 (ee_variants ex)) (vm_code m, vm_kind m) =
      Some (k, variant_body m)"
    using map_of_response_arms [OF v(1) assms(2), of 0] assms(3,4) by (simp add: vm_key_def)
  then show ?thesis
    using v(3,4) assms(3) public_body_round_trip [OF assms(4,5) _ assms(6-8)]
    by (simp add: enum_from_response_def Let_def)
qed

text \<open>
  C24: typed errors survive the wire.  For every enum that \<open>#[service_error]\<close> accepts and every
  value of a public variant that skips no field, the response it is turned into has a status
  between 400 and 599 and is turned back into the same value: no other variant can claim it.
  A tuple or struct variant must have a field, since one without sends no details.
\<close>

theorem service_error_round_trip:
  assumes "expand_service_error X client input = Inr ex" and "k < length (ee_variants ex)"
    and "m = ee_variants ex ! k" and "\<not> vm_internal m" and "\<not> has_skipped_wire_fields (vm_meta m)"
    and "length vals = length (vm_fields m)" and "variant_shape m = ShapeTuple \<Longrightarrow> vals \<noteq> []"
    and "fields_survive E m vals"
  shows "let response = enum_into_nats_error E show (ee_variants ex) (k, vals) request_id
    in 400 \<le> er_code response \<and> er_code response \<le> 599 \<and>
       enum_from_response E (ee_variants ex) response = Typed (k, vals)"
  using assms by (rule public_error_rebuilt)

text \<open>A public variant whose fields do not all travel, or a tuple variant without fields, stays untyped.\<close>

lemma partial_error_untyped:
  assumes "expand_service_error X client input = Inr ex" and "k < length (ee_variants ex)"
    and "m = ee_variants ex ! k" and "\<not> vm_internal m" and "variant_shape m = ShapeTuple"
    and "has_skipped_wire_fields (vm_meta m) \<or> vm_fields m = []"
  shows "let response = enum_into_nats_error E show (ee_variants ex) (k, vals) request_id
    in enum_from_response E (ee_variants ex) response = Untyped response"
proof -
  note v = expanded_variants [OF assms(1,2)]
  have "\<not> vm_generic m" using assms(4) by (simp add: vm_generic_def)
  then have "map_of (response_arms 0 (ee_variants ex)) (vm_code m, vm_kind m) =
      Some (k, variant_body m)"
    using map_of_response_arms [OF v(1) assms(2), of 0] assms(3,4) by (simp add: vm_key_def)
  moreover have "wire_indices (vm_meta m) = []" if "vm_fields m = []"
    using v(3) assms(3) that by (simp add: wire_indices_def)
  ultimately show ?thesis
    using assms(3-6)
    by (auto simp: enum_from_response_def Let_def run_response_body_def variant_body_def
        enum_into_nats_error_def variant_details_def split: option.split)
qed

lemma internal_error_untyped:
  assumes "expand_service_error X client input = Inr ex" and "k < length (ee_variants ex)"
    and "vm_internal (ee_variants ex ! k)"
  shows "let response = enum_into_nats_error E show (ee_variants ex) (k, vals) request_id
    in (\<forall>show' vals'. enum_into_nats_error E show' (ee_variants ex) (k, vals') request_id = response) \<and>
       er_message response = ''an internal error occurred'' \<and> er_details response = None \<and>
       enum_from_response E (ee_variants ex) response = Untyped response"
proof -
  let ?m = "ee_variants ex ! k"
  have "map_of (response_arms 0 (ee_variants ex)) (vm_key ?m) \<in> {None, Some (k, BodyUntyped)}"
  proof (cases "vm_generic ?m")
    case True
    then show ?thesis using expanded_variants(2) [OF assms(1,2)]
      by (simp add: map_of_eq_None_iff fst_response_arms)
  next
    case False
    then show ?thesis using map_of_response_arms [OF expanded_variants(1) [OF assms(1,2)] assms(2)] assms(3)
      by simp
  qed
  then have "enum_from_response E (ee_variants ex) response = Untyped response"
    if "er_code response = vm_code ?m" "er_kind response = vm_kind ?m" for response
    using that by (auto simp: enum_from_response_def run_response_body_def vm_key_def)
  moreover have "enum_into_nats_error E show' (ee_variants ex) (k, vals') request_id =
      enum_into_nats_error E show (ee_variants ex) (k, vals) request_id" for show' vals'
    using assms(3) by (simp add: enum_into_nats_error_def internal_details)
  ultimately show ?thesis using assms(3) by (simp add: internal_details Let_def)
qed

text \<open>
  C25: internal errors say nothing.  The response of an internal variant is the same for all
  values of its fields and however the error prints: the fixed message, no details, and a kind
  fixed by the variant; and no client rebuilds a typed error from it, of this or any variant.
\<close>

theorem internal_errors_are_opaque:
  assumes "expand_service_error X client input = Inr ex" and "k < length (ee_variants ex)"
    and "vm_internal (ee_variants ex ! k)"
  shows "let response = enum_into_nats_error E show (ee_variants ex) (k, vals) request_id
    in (\<forall>show' vals'. enum_into_nats_error E show' (ee_variants ex) (k, vals') request_id = response) \<and>
       er_message response = ''an internal error occurred'' \<and> er_details response = None \<and>
       enum_from_response E (ee_variants ex) response = Untyped response"
  using assms by (rule internal_error_untyped)

text \<open>An enum \<open>Range(u32, u32)\<close>, and \<open>Db(String)\<close> that is internal, for the witnesses.\<close>

definition demo_error_field :: "string \<Rightarrow> string error_field" where
  "demo_error_field ty =
     \<lparr>ef_ident = None, ef_ty = TyPath False False [Segment ty NoArguments], ef_attrs = []\<rparr>"

definition demo_enum :: "string error_enum" where
  "demo_enum =
     \<lparr>en_is_enum = True, en_public = True, en_attrs = [],
      en_variants =
       [\<lparr>ev_ident = ''Range'', ev_attrs = [list_attr ''error'' ''bad range''],
         ev_fields = FieldsUnnamed [demo_error_field ''u32'', demo_error_field ''u32'']\<rparr>,
        \<lparr>ev_ident = ''Db'', ev_attrs = [list_attr ''error'' ''db'',
           \<lparr>ea_ident = Some ''internal'', ea_meta = MetaPath\<rparr>],
         ev_fields = FieldsUnnamed [demo_error_field ''String'']\<rparr>]\<rparr>"

definition demo_expanded :: "string expanded_error" where
  "demo_expanded =
     (case expand_service_error demo_error_syn True demo_enum of
        Inr ex \<Rightarrow> ex | Inl _ \<Rightarrow> \<lparr>ee_mode = SelfContained, ee_input = demo_enum, ee_variants = []\<rparr>)"

lemma demo_expand: "expand_service_error demo_error_syn True demo_enum = Inr demo_expanded"
proof -
  have "is_ok (expand_service_error demo_error_syn True demo_enum)" by code_simp
  then show ?thesis by (auto simp: demo_expanded_def is_ok_iff)
qed

definition demo_values :: "(nat, nat list) error_values" where
  "demo_values =
     \<lparr>xv_to_value = Some, xv_from_value = (\<lambda>types j. if length j = length types then Some j else None),
      xv_json_string = map of_char, xv_json_as_str = (\<lambda>j. Some (map char_of j)),
      xv_of_string = length, xv_to_string = (\<lambda>n. replicate n CHR ''x'')\<rparr>"

theorem service_error_round_trip_witness:
  "\<forall>show. enum_from_response demo_values (ee_variants demo_expanded)
     (enum_into_nats_error demo_values show (ee_variants demo_expanded) (0, [3, 8]) ''r1'') =
     Typed (0, [3, 8])"
proof
  fix "show" :: "nat error_value \<Rightarrow> string"
  have m: "0 < length (ee_variants demo_expanded)" "\<not> vm_internal (ee_variants demo_expanded ! 0)"
    "\<not> has_skipped_wire_fields (vm_meta (ee_variants demo_expanded ! 0))"
    "length [3, 8 :: nat] = length (vm_fields (ee_variants demo_expanded ! 0))"
    "fields_survive demo_values (ee_variants demo_expanded ! 0) [3, 8]"
    by code_simp+
  show "enum_from_response demo_values (ee_variants demo_expanded)
      (enum_into_nats_error demo_values show (ee_variants demo_expanded) (0, [3, 8]) ''r1'') =
    Typed (0, [3, 8])"
    using service_error_round_trip [OF demo_expand m(1) refl m(2,3,4) _ m(5), of "show" "''r1''"]
    by (simp add: Let_def)
qed

theorem internal_errors_are_opaque_witness:
  "\<forall>show vals. er_message (enum_into_nats_error demo_values show (ee_variants demo_expanded) (1, vals) ''r1'') =
     ''an internal error occurred''"
proof (intro allI)
  fix "show" :: "nat error_value \<Rightarrow> string" and vals
  have m: "1 < length (ee_variants demo_expanded)" "vm_internal (ee_variants demo_expanded ! 1)"
    by code_simp+
  show "er_message (enum_into_nats_error demo_values show (ee_variants demo_expanded) (1, vals) ''r1'') =
      ''an internal error occurred''"
    using internal_errors_are_opaque [OF demo_expand m, of demo_values "show" vals "''r1''"]
    unfolding Let_def by blast
qed

end
