(* ===== verification/Worker_Effects.thy ===== *)
theory Worker_Effects
  imports Worker_Loops "HOL-Library.Sublist"
begin

text \<open>
  Worker runs with their effects.  A loop of \<open>Worker_Loops\<close> decides what it accepts and when it
  ends; here its in-flight futures are the calls of \<open>process\<close>, so a run also yields what they
  sent.  The locale \<open>effect_worker\<close> joins the contract of a loop to the contract of \<open>process\<close>:
  a run that ends well has sent the one reply of every message it took, in the order in which
  it completed them.  \<open>answering_worker\<close> adds that \<open>process\<close> replies even when it fails.
\<close>

section \<open>Runs\<close>

text \<open>
  One iteration: the shutdown channel, the in-flight future that is ready, by index, with what
  its environment decided (\<open>None\<close> if its handler panicked), and the next item of the stream.
\<close>

record ('i, 'd) worker_event =
  we_shutdown :: "shutdown_state option option"
  we_completed :: "(nat \<times> 'd option) option"
  we_incoming :: "'i option"

type_synonym ('m, 'd, 'e) message_process = "'m \<Rightarrow> 'd \<Rightarrow> ('e list \<times> (string + unit)) option"

definition endpoint_outcome ::
  "('m, 'd, 'e) message_process \<Rightarrow> 'm \<Rightarrow> 'd option \<Rightarrow> handler_outcome \<times> 'e list" where
  "endpoint_outcome process message decided =
     (case Option.bind decided (process message) of
        None \<Rightarrow> (HandlerPanic, [])
      | Some (effects, Inr _) \<Rightarrow> (HandlerOk, effects)
      | Some (effects, Inl e) \<Rightarrow> (HandlerErr e, effects))"

definition event_poll ::
  "('m, 'd, 'e) message_process \<Rightarrow> ('i, 'd) worker_event \<Rightarrow> 'm worker_state \<Rightarrow> 'i poll" where
  "event_poll process e s =
     \<lparr>po_shutdown = we_shutdown e,
      po_completed = map_option (\<lambda>(i, decided).
        (i, fst (endpoint_outcome process (ws_in_flight s ! i) decided))) (we_completed e),
      po_incoming = we_incoming e\<rparr>"

text \<open>The effects of the future that an iteration completed, if it completed one.\<close>

definition step_effects ::
  "('m, 'd, 'e) message_process \<Rightarrow> ('i, 'd) worker_event \<Rightarrow> 'm worker_state \<Rightarrow> 'm worker_state \<Rightarrow>
   'e list" where
  "step_effects process e s s' =
     (if ws_completed s' = ws_completed s then []
      else case we_completed e of
             None \<Rightarrow> []
           | Some (i, decided) \<Rightarrow> snd (endpoint_outcome process (ws_in_flight s ! i) decided))"

fun effect_run ::
  "('i poll \<Rightarrow> 'm worker_state \<Rightarrow> 'm worker_result) \<Rightarrow> ('m, 'd, 'e) message_process \<Rightarrow>
   ('i, 'd) worker_event list \<Rightarrow> 'm worker_state \<Rightarrow> 'e list \<Rightarrow> 'm worker_result \<times> 'e list" where
  "effect_run step process [] s effects = (Continue s, effects)"
| "effect_run step process (e # es) s effects =
     (let r = step (event_poll process e s) s;
          effects = effects @ step_effects process e s (result_state r)
      in case r of
           Continue s' \<Rightarrow> effect_run step process es s' effects
         | _ \<Rightarrow> (r, effects))"

section \<open>The contract\<close>

locale effect_worker = bounded_worker step capacity who policy
  for step :: "'i poll \<Rightarrow> 'm worker_state \<Rightarrow> 'm worker_result" and capacity :: nat
    and who :: string and policy :: handler_panic_policy +
  fixes process :: "('m, 'd, 'e) message_process"
    and replies :: "'e list \<Rightarrow> 'r list" and reply :: "'m \<Rightarrow> 'r"
  assumes step_completes: "ws_completed (result_state (step p s)) = ws_completed s \<or>
      (\<exists>i outcome. ready_completion p s = Some (i, outcome) \<and>
         step p s = complete_step who policy i outcome s)"
    and replies_append: "replies (xs @ ys) = replies xs @ replies ys"
    and answers: "process message decided = Some (effects, Inr ()) \<Longrightarrow> replies effects = [reply message]"
begin

lemma replies_Nil: "replies [] = []"
  using replies_append [of "[]" "[]"] by simp

text \<open>An iteration completes no message, or the ready one, whose effects are then those of its call.\<close>

lemma step_completion:
  obtains "ws_completed (result_state (step (event_poll process e s) s)) = ws_completed s"
      "step_effects process e s (result_state (step (event_poll process e s) s)) = []"
  | i decided where "we_completed e = Some (i, decided)" "i < length (ws_in_flight s)"
      "step (event_poll process e s) s =
        complete_step who policy i (fst (endpoint_outcome process (ws_in_flight s ! i) decided)) s"
      "ws_completed (result_state (step (event_poll process e s) s)) =
        ws_completed s @ [ws_in_flight s ! i]"
      "step_effects process e s (result_state (step (event_poll process e s) s)) =
        snd (endpoint_outcome process (ws_in_flight s ! i) decided)"
proof (cases "ws_completed (result_state (step (event_poll process e s) s)) = ws_completed s")
  case True
  then show ?thesis by (rule that(1)) (simp add: step_effects_def True)
next
  case False
  then obtain i outcome where ready: "ready_completion (event_poll process e s) s = Some (i, outcome)"
    and complete: "step (event_poll process e s) s = complete_step who policy i outcome s"
    using step_completes by blast
  obtain decided where "we_completed e = Some (i, decided)" "i < length (ws_in_flight s)"
    "outcome = fst (endpoint_outcome process (ws_in_flight s ! i) decided)"
    using ready by (auto simp: ready_completion_def event_poll_def split: option.splits if_splits)
  then show ?thesis
    by (intro that(2)) (simp_all add: complete step_effects_def finish_message_def)
qed

text \<open>Without \<open>LogAndContinue\<close> an iteration that goes on, or returns \<open>Ok\<close>, has answered what it completed.\<close>

lemma step_answers:
  assumes "policy \<noteq> LogAndContinue" and r: "r = step (event_poll process e s) s"
    and "(\<exists>s'. r = Continue s') \<or> (\<exists>s'. r = Returned (Inr ()) s')"
    and "replies effects = map reply (ws_completed s)"
  shows "replies (effects @ step_effects process e s (result_state r)) =
    map reply (ws_completed (result_state r))"
proof (cases e s rule: step_completion)
  case 1
  then show ?thesis using assms(4) r by simp
next
  case (2 i decided)
  then have "fst (endpoint_outcome process (ws_in_flight s ! i) decided) = HandlerOk"
    using assms(1,3) r by (auto simp: complete_step_def Let_def handle_completion_def
        split: handler_outcome.splits if_splits)
  then have "replies (snd (endpoint_outcome process (ws_in_flight s ! i) decided)) =
      [reply (ws_in_flight s ! i)]"
    by (auto simp: endpoint_outcome_def bind_eq_Some_conv dest: answers
        split: option.splits sum.splits prod.splits)
  then show ?thesis using 2 assms(4) r by (simp add: replies_append)
qed

lemma run_answers:
  assumes "policy \<noteq> LogAndContinue"
    and "replies effects = map reply (ws_completed s)"
    and "effect_run step process es s effects = (r, effects')"
    and "(\<exists>s'. r = Continue s') \<or> (\<exists>s'. r = Returned (Inr ()) s')"
  shows "replies effects' = map reply (ws_completed (result_state r))"
  using assms(2-4)
proof (induction es arbitrary: s effects)
  case (Cons e es)
  show ?case
  proof (cases "step (event_poll process e s) s")
    case (Continue s1)
    have "replies (effects @ step_effects process e s s1) = map reply (ws_completed s1)"
      using step_answers [OF assms(1) refl _ Cons.prems(1), of e] Continue by simp
    then show ?thesis by (rule Cons.IH) (use Cons.prems(2,3) Continue in simp_all)
  next
    case (Returned e' s1)
    then show ?thesis
      using step_answers [OF assms(1) refl _ Cons.prems(1), of e] Cons.prems(2,3) by auto
  next
    case (Unwound s1)
    then show ?thesis using Cons.prems(2,3) by auto
  qed
qed auto

lemma effect_run_result:
  "\<exists>polls. fst (effect_run step process es s effects) = worker_run step polls s"
proof (induction es arbitrary: s effects)
  case Nil
  show ?case by (rule exI [of _ "[]"]) simp
next
  case (Cons e es)
  let ?p = "event_poll process e s"
  show ?case
  proof (cases "step ?p s")
    case (Continue s1)
    then obtain polls where "fst (effect_run step process es s1
        (effects @ step_effects process e s s1)) = worker_run step polls s1"
      using Cons.IH by blast
    then show ?thesis using Continue by (intro exI [of _ "?p # polls"]) simp
  qed (auto intro!: exI [of _ "[?p]"])
qed

lemma worker_answers:
  assumes "policy \<noteq> LogAndContinue"
    and "effect_run step process es worker_start [] = (Returned (Inr ()) s', effects)"
  shows "mset (replies effects) = mset (map reply (ws_accepted s'))"
proof -
  obtain polls where "worker_run step polls worker_start = Returned (Inr ()) s'"
    using effect_run_result [of es worker_start "[]"] assms(2) by auto
  from run_exit [OF worker_start_inv this] have "mset (ws_completed s') = mset (ws_accepted s')"
    by simp
  moreover have "replies effects = map reply (ws_completed s')"
    using run_answers [OF assms(1) _ assms(2)] by (simp add: worker_start_def replies_Nil)
  ultimately show ?thesis by (simp add: mset_map)
qed

end

text \<open>
  Where \<open>process\<close> answers whatever its result, the messages without a reply are exactly those
  whose handler panicked.
\<close>

definition no_panics :: "('i, 'd) worker_event list \<Rightarrow> bool" where
  "no_panics es \<longleftrightarrow> list_all (\<lambda>e. case we_completed e of Some (i, None) \<Rightarrow> False | _ \<Rightarrow> True) es"

locale answering_worker = effect_worker +
  assumes returns: "\<exists>effects r. process message decided = Some (effects, r)"
    and always: "process message decided = Some (effects, r) \<Longrightarrow> replies effects = [reply message]"
begin

lemma outcome_replies:
  "replies (snd (endpoint_outcome process message decided)) =
     (if decided = None then [] else [reply message])"
proof (cases decided)
  case None
  then show ?thesis by (simp add: endpoint_outcome_def replies_Nil)
next
  case (Some d)
  obtain effects r where p: "process message d = Some (effects, r)" using returns by blast
  then have "replies effects = [reply message]" by (rule always)
  then show ?thesis using Some p by (cases r) (simp_all add: endpoint_outcome_def)
qed

lemma step_replies:
  assumes "subseq (replies effects) (map reply (ws_completed s))" "s' = result_state (step (event_poll process e s) s)"
  shows "subseq (replies (effects @ step_effects process e s s')) (map reply (ws_completed s'))"
    and "no_panics [e] \<Longrightarrow> replies effects = map reply (ws_completed s) \<Longrightarrow>
      replies (effects @ step_effects process e s s') = map reply (ws_completed s')"
proof -
  have "subseq (replies (effects @ step_effects process e s s')) (map reply (ws_completed s')) \<and>
    (no_panics [e] \<longrightarrow> replies effects = map reply (ws_completed s) \<longrightarrow>
      replies (effects @ step_effects process e s s') = map reply (ws_completed s'))"
  proof (cases e s rule: step_completion)
    case 1
    then show ?thesis using assms by (simp add: replies_append replies_Nil)
  next
    case (2 i decided)
    then show ?thesis using assms
      by (simp add: replies_append outcome_replies list_emb_append_mono no_panics_def)
  qed
  then show "subseq (replies (effects @ step_effects process e s s')) (map reply (ws_completed s'))"
    and "no_panics [e] \<Longrightarrow> replies effects = map reply (ws_completed s) \<Longrightarrow>
      replies (effects @ step_effects process e s s') = map reply (ws_completed s')" by blast+
qed

lemma run_replies:
  "effect_run step process es s effects = (r, effects') \<Longrightarrow>
   subseq (replies effects) (map reply (ws_completed s)) \<Longrightarrow>
   subseq (replies effects') (map reply (ws_completed (result_state r))) \<and>
   (no_panics es \<longrightarrow> replies effects = map reply (ws_completed s) \<longrightarrow>
      replies effects' = map reply (ws_completed (result_state r)))"
proof (induction es arbitrary: s effects)
  case (Cons e es)
  note step = step_replies [OF Cons.prems(2) refl, of e]
  show ?case
  proof (cases "step (event_poll process e s) s")
    case (Continue s1)
    then show ?thesis
      using Cons.IH [of s1 "effects @ step_effects process e s s1"] Cons.prems(1) step
      by (simp add: no_panics_def)
  next
    case (Returned e' s1)
    then have "r = Returned e' s1" "effects' = effects @ step_effects process e s s1"
      using Cons.prems(1) by simp_all
    then show ?thesis
      using step unfolding Returned result_state_simps by (simp add: no_panics_def)
  next
    case (Unwound s1)
    then have "r = Unwound s1" "effects' = effects @ step_effects process e s s1"
      using Cons.prems(1) by simp_all
    then show ?thesis
      using step unfolding Unwound result_state_simps by (simp add: no_panics_def)
  qed
qed auto

lemma worker_replies:
  assumes "effect_run step process es worker_start [] = (r, effects)"
  shows "subseq (replies effects) (map reply (ws_completed (result_state r)))"
    and "no_panics es \<or>
        policy \<noteq> LogAndContinue \<and> ((\<exists>s. r = Continue s) \<or> (\<exists>s. r = Returned (Inr ()) s)) \<Longrightarrow>
      replies effects = map reply (ws_completed (result_state r))"
  using run_replies [OF assms] run_answers [OF _ _ assms] by (auto simp: worker_start_def replies_Nil)

end

lemma request_step_completes:
  "ws_completed (result_state (request_worker_step concurrency policy p s)) = ws_completed s \<or>
     (\<exists>i outcome. ready_completion p s = Some (i, outcome) \<and>
        request_worker_step concurrency policy p s = complete_step ''request'' policy i outcome s)"
  by (auto simp: request_worker_step_def stop_accepting_def accept_message_def split: option.splits)

lemma consumer_step_completes:
  "ws_completed (result_state (consumer_worker_step concurrency policy p s)) = ws_completed s \<or>
     (\<exists>i outcome. ready_completion p s = Some (i, outcome) \<and>
        consumer_worker_step concurrency policy p s = complete_step ''consumer'' policy i outcome s)"
  by (auto simp: consumer_worker_step_def stop_accepting_def accept_message_def
      split: option.splits sum.splits)

end
