(* ===== verification/Request_Workers.thy ===== *)
theory Request_Workers
  imports Worker_Effects Processing
begin

text \<open>
  The entry points of \<open>nats-micro/src/runtime/request_worker.rs\<close>: the loop
  \<open>request_worker_step\<close> with the calls of \<open>EndpointDispatch::process\<close> as its in-flight futures.
  The trait is the locale \<open>endpoint_dispatch\<close>, interpreted for \<open>PlainEndpoint\<close> and
  \<open>EncryptedEndpoint\<close>.
\<close>

section \<open>Dispatch\<close>

record ('q, 'k) dispatch_context =
  dx_state :: 'q
  dx_keypair :: "'k option"
  dx_telemetry :: "telemetry_config option"

text \<open>
  \<open>sent\<close> is the result of sending the answer.  The result \<open>None\<close> of the encrypted endpoint is
  the panic of \<open>expect\<close> without a key pair.
\<close>

definition plain_endpoint_process ::
  "'h header_ops \<Rightarrow> operation_spec \<Rightarrow> ('q \<Rightarrow> 'h request \<Rightarrow> error_reply + 'h response) \<Rightarrow>
   ('q, 'k) dispatch_context \<Rightarrow> 'h raw_request \<Rightarrow> string + unit \<Rightarrow>
   ('h request_effect list \<times> (string + unit)) option" where
  "plain_endpoint_process H spec call ctx raw sent =
     Some (process_plain_request H (dx_telemetry ctx) spec (call (dx_state ctx)) sent raw)"

definition encrypted_endpoint_process ::
  "'h header_ops \<Rightarrow> operation_spec \<Rightarrow> ('q \<Rightarrow> 'k \<Rightarrow> 'h request \<Rightarrow> error_reply + 'h response) \<Rightarrow>
   ('q, 'k) dispatch_context \<Rightarrow> 'h raw_request \<Rightarrow> string + unit \<Rightarrow>
   ('h request_effect list \<times> (string + unit)) option" where
  "encrypted_endpoint_process H spec call ctx raw sent =
     (case dx_keypair ctx of
        None \<Rightarrow> None
      | Some keypair \<Rightarrow> Some (process_encrypted_request H (dx_telemetry ctx) spec
          (call (dx_state ctx)) keypair sent raw))"

section \<open>Entry points\<close>

type_synonym 'h request_event = "('h raw_request option, string + unit) worker_event"

text \<open>\<open>run_request_endpoint_inner\<close> and the public entry points that fix its dispatch.\<close>

definition endpoint_run ::
  "('h raw_request, string + unit, 'h request_effect) message_process \<Rightarrow> nat \<Rightarrow>
   handler_panic_policy \<Rightarrow> 'h request_event list \<Rightarrow> 'h raw_request worker_state \<Rightarrow>
   'h request_effect list \<Rightarrow> 'h raw_request worker_result \<times> 'h request_effect list" where
  "endpoint_run process concurrency policy =
     effect_run (request_worker_step concurrency policy) process"

definition endpoint_worker ::
  "('h raw_request, string + unit, 'h request_effect) message_process \<Rightarrow>
   nat \<Rightarrow> handler_panic_policy \<Rightarrow> 'h request_event list \<Rightarrow>
   'h raw_request worker_result \<times> 'h request_effect list" where
  "endpoint_worker process concurrency policy events =
     (if concurrency = 0
      then (Returned (Inl ''endpoint concurrency must be non-zero'') worker_start, [])
      else endpoint_run process concurrency policy events worker_start [])"

definition plain_worker_telemetry ::
  "'h header_ops \<Rightarrow> operation_spec \<Rightarrow> ('q \<Rightarrow> 'h request \<Rightarrow> error_reply + 'h response) \<Rightarrow> 'q \<Rightarrow> nat \<Rightarrow>
   handler_panic_policy \<Rightarrow> telemetry_config option \<Rightarrow> 'h request_event list \<Rightarrow>
   'h raw_request worker_result \<times> 'h request_effect list" where
  "plain_worker_telemetry H spec call q concurrency policy telemetry =
     endpoint_worker (plain_endpoint_process H spec call
       \<lparr>dx_state = q, dx_keypair = None :: unit option, dx_telemetry = telemetry\<rparr>)
       concurrency policy"

definition plain_worker_policy ::
  "'h header_ops \<Rightarrow> operation_spec \<Rightarrow> ('q \<Rightarrow> 'h request \<Rightarrow> error_reply + 'h response) \<Rightarrow> 'q \<Rightarrow> nat \<Rightarrow>
   handler_panic_policy \<Rightarrow> 'h request_event list \<Rightarrow>
   'h raw_request worker_result \<times> 'h request_effect list" where
  "plain_worker_policy H spec call q concurrency policy =
     endpoint_worker (plain_endpoint_process H spec call
       \<lparr>dx_state = q, dx_keypair = None :: unit option, dx_telemetry = None\<rparr>) concurrency policy"

definition plain_worker ::
  "'h header_ops \<Rightarrow> operation_spec \<Rightarrow> ('q \<Rightarrow> 'h request \<Rightarrow> error_reply + 'h response) \<Rightarrow> 'q \<Rightarrow> nat \<Rightarrow>
   'h request_event list \<Rightarrow> 'h raw_request worker_result \<times> 'h request_effect list" where
  "plain_worker H spec call q concurrency = plain_worker_policy H spec call q concurrency FailWorker"

definition encrypted_worker_telemetry ::
  "'h header_ops \<Rightarrow> operation_spec \<Rightarrow> ('q \<Rightarrow> 'k \<Rightarrow> 'h request \<Rightarrow> error_reply + 'h response) \<Rightarrow> 'q \<Rightarrow> 'k \<Rightarrow>
   nat \<Rightarrow> handler_panic_policy \<Rightarrow> telemetry_config option \<Rightarrow> 'h request_event list \<Rightarrow>
   'h raw_request worker_result \<times> 'h request_effect list" where
  "encrypted_worker_telemetry H spec call q keypair concurrency policy telemetry =
     endpoint_worker (encrypted_endpoint_process H spec call
       \<lparr>dx_state = q, dx_keypair = Some keypair, dx_telemetry = telemetry\<rparr>) concurrency policy"

definition encrypted_worker_policy ::
  "'h header_ops \<Rightarrow> operation_spec \<Rightarrow> ('q \<Rightarrow> 'k \<Rightarrow> 'h request \<Rightarrow> error_reply + 'h response) \<Rightarrow> 'q \<Rightarrow> 'k \<Rightarrow>
   nat \<Rightarrow> handler_panic_policy \<Rightarrow> 'h request_event list \<Rightarrow>
   'h raw_request worker_result \<times> 'h request_effect list" where
  "encrypted_worker_policy H spec call q keypair concurrency policy =
     endpoint_worker (encrypted_endpoint_process H spec call
       \<lparr>dx_state = q, dx_keypair = Some keypair, dx_telemetry = None\<rparr>) concurrency policy"

section \<open>The contract of a dispatch\<close>

text \<open>
  What a run has sent when it ends with \<open>r\<close>, or waits: answers only for messages it completed, at
  most one for each and in the order of completion; all of them, unless a handler panicked and the
  policy swallows it or the panic ended the worker; and after \<open>Ok\<close> nothing it took is open.
\<close>

definition answered_run ::
  "handler_panic_policy \<Rightarrow> 'h request_event list \<Rightarrow> ('h raw_request \<Rightarrow> bytes \<times> 'h option) \<Rightarrow>
   'h raw_request worker_result \<Rightarrow> 'h request_effect list \<Rightarrow> bool" where
  "answered_run policy es reply r effects \<longleftrightarrow>
     subseq (responses effects) (map reply (ws_completed (result_state r))) \<and>
     (no_panics es \<or> policy \<noteq> LogAndContinue \<and>
        (r = Continue (result_state r) \<or> r = Returned (Inr ()) (result_state r)) \<longrightarrow>
      responses effects = map reply (ws_completed (result_state r))) \<and>
     (r = Returned (Inr ()) (result_state r) \<longrightarrow>
      mset (ws_completed (result_state r)) = mset (ws_accepted (result_state r)))"

text \<open>
  Whatever the outcome of sending, processing a request answers it once with \<open>reply\<close>; so a
  worker with such a dispatch is an \<open>answering_worker\<close>.
\<close>

locale endpoint_dispatch =
  fixes process :: "'h raw_request \<Rightarrow> string + unit \<Rightarrow>
      ('h request_effect list \<times> (string + unit)) option"
    and reply :: "'h raw_request \<Rightarrow> bytes \<times> 'h option"
  assumes returns: "\<exists>effects r. process raw sent = Some (effects, r)"
    and answers: "process raw sent = Some (effects, r) \<Longrightarrow> responses effects = [reply raw]"

sublocale endpoint_dispatch \<subseteq> worker: answering_worker "request_worker_step concurrency policy"
  concurrency "''request''" policy process responses reply
  by unfold_locales (use request_step_completes returns in \<open>auto dest: answers\<close>)

context endpoint_dispatch begin

lemma worker_replies:
  assumes "endpoint_worker process concurrency policy es = (r, effects)"
  shows "answered_run policy es reply r effects"
proof (cases "concurrency = 0")
  case True
  then show ?thesis
    using assms by (auto simp: endpoint_worker_def answered_run_def worker_start_def)
next
  case False
  then have run: "effect_run (request_worker_step concurrency policy) process es worker_start [] =
      (r, effects)"
    using assms by (simp add: endpoint_worker_def endpoint_run_def)
  obtain polls where "worker_run (request_worker_step concurrency policy) polls worker_start = r"
    using worker.effect_run_result [of concurrency policy es worker_start "[]"] run by auto
  then show ?thesis
    using worker.worker_replies [OF run]
      worker.run_exit [OF worker_start_inv, of concurrency policy polls]
    by (auto simp: answered_run_def)
qed

end

text \<open>The answer of a frame: the response of the endpoint, or its error with its headers.\<close>

definition frame_reply ::
  "'h header_ops \<Rightarrow> ('h request \<Rightarrow> error_reply + 'h response) \<Rightarrow> 'h raw_request \<Rightarrow> bytes \<times> 'h option"
  where
  "frame_reply H call raw =
     (case call (raw_view H raw) of
        Inr REmpty \<Rightarrow> ([], None)
      | Inr (RPayload payload) \<Rightarrow> (payload, None)
      | Inr (RWithHeaders payload headers) \<Rightarrow> (payload, Some headers)
      | Inl error \<Rightarrow> (rp_payload error, Some (service_error_headers H error)))"

interpretation plain_dispatch: endpoint_dispatch "plain_endpoint_process H spec call ctx"
  "frame_reply H (call (dx_state ctx))"
  by unfold_locales (auto simp: plain_endpoint_process_def process_plain_request_def
      respond_with_responses frame_reply_def)

interpretation encrypted_dispatch: endpoint_dispatch
  "encrypted_endpoint_process H spec call \<lparr>dx_state = q, dx_keypair = Some keypair, dx_telemetry = t\<rparr>"
  "frame_reply H (call q keypair)"
  by unfold_locales (auto simp: encrypted_endpoint_process_def process_encrypted_request_def
      respond_with_responses frame_reply_def)

text \<open>
  C4: the request workers answer in completion order and lose nothing.  For every run of the plain
  and of the encrypted worker, however shutdown, completions and arrivals interleave and however it
  ends: the messages it sent are answers to requests it completed, at most one each, in the
  order of completion, namely the response of the endpoint on that frame or the error with its
  headers.  No completed request is left out, even when sending failed, if no handler panicked; nor
  if one did, as long as the policy does not swallow panics and the worker has not ended with an
  error.  And when it returns \<open>Ok\<close>, every request it took is completed.
\<close>

theorem workers_answer_every_request:
  "(\<forall>r effects. plain_worker_telemetry H spec call q concurrency policy telemetry events = (r, effects) \<longrightarrow>
      subseq (responses effects) (map (frame_reply H (call q)) (ws_completed (result_state r))) \<and>
      (no_panics events \<or> policy \<noteq> LogAndContinue \<and>
         (r = Continue (result_state r) \<or> r = Returned (Inr ()) (result_state r)) \<longrightarrow>
       responses effects = map (frame_reply H (call q)) (ws_completed (result_state r))) \<and>
      (r = Returned (Inr ()) (result_state r) \<longrightarrow>
       mset (ws_completed (result_state r)) = mset (ws_accepted (result_state r)))) \<and>
   (\<forall>r effects. encrypted_worker_telemetry H spec sealed_call q keypair concurrency policy telemetry
        events = (r, effects) \<longrightarrow>
      subseq (responses effects)
        (map (frame_reply H (sealed_call q keypair)) (ws_completed (result_state r))) \<and>
      (no_panics events \<or> policy \<noteq> LogAndContinue \<and>
         (r = Continue (result_state r) \<or> r = Returned (Inr ()) (result_state r)) \<longrightarrow>
       responses effects = map (frame_reply H (sealed_call q keypair)) (ws_completed (result_state r))) \<and>
      (r = Returned (Inr ()) (result_state r) \<longrightarrow>
       mset (ws_completed (result_state r)) = mset (ws_accepted (result_state r))))"
  unfolding plain_worker_telemetry_def encrypted_worker_telemetry_def
  by (intro conjI allI impI)
    (auto dest!: plain_dispatch.worker_replies encrypted_dispatch.worker_replies
      simp: answered_run_def)

definition demo_frame :: "alist_map raw_request" where
  "demo_frame = \<lparr>rr_subject = ''a.b'', rr_reply = Some ''i'', rr_payload = [1], rr_headers = None\<rparr>"

definition demo_worker_events :: "alist_map request_event list" where
  "demo_worker_events =
     [\<lparr>we_shutdown = None, we_completed = None, we_incoming = Some (Some demo_frame)\<rparr>,
      \<lparr>we_shutdown = None, we_completed = None,
        we_incoming = Some (Some (demo_frame\<lparr>rr_payload := [2]\<rparr>))\<rparr>,
      \<lparr>we_shutdown = Some None, we_completed = None, we_incoming = None\<rparr>,
      \<lparr>we_shutdown = None, we_completed = Some (1, Some (Inr ())), we_incoming = None\<rparr>,
      \<lparr>we_shutdown = None, we_completed = Some (0, Some (Inl ''gone'')), we_incoming = None\<rparr>]"

text \<open>The second request finishes first, and the answer to the first cannot be sent.\<close>

theorem workers_answer_every_request_witness:
  "\<forall>spec. \<exists>r effects. plain_worker_telemetry alist_headers spec (\<lambda>q r. Inr (RPayload (rq_payload r))) ()
       2 FailWorker None demo_worker_events = (Returned (Inl ''gone'') r, effects) \<and>
     responses effects = [([2], None), ([1], None)]"
proof
  fix spec
  have run: "\<exists>s' effects. plain_worker_telemetry alist_headers spec
       (\<lambda>q r. Inr (RPayload (rq_payload r))) () 2 FailWorker None demo_worker_events =
       (Returned (Inl ''gone'') s', effects) \<and>
       ws_completed s' = [demo_frame\<lparr>rr_payload := [2]\<rparr>, demo_frame]"
    by (simp add: plain_worker_telemetry_def endpoint_worker_def endpoint_run_def demo_worker_events_def
        request_worker_step_def event_poll_def worker_start_def ready_completion_def stop_signal_def
        accept_message_def stop_accepting_def complete_step_def handle_completion_def Let_def
        endpoint_outcome_def plain_endpoint_process_def process_plain_request_def
        finish_message_def remove_at_def)
  have calm: "no_panics demo_worker_events" by (simp add: no_panics_def demo_worker_events_def)
  show "\<exists>r effects. plain_worker_telemetry alist_headers spec (\<lambda>q r. Inr (RPayload (rq_payload r))) ()
       2 FailWorker None demo_worker_events = (Returned (Inl ''gone'') r, effects) \<and>
     responses effects = [([2], None), ([1], None)]"
    using run calm workers_answer_every_request [of alist_headers spec
        "\<lambda>q r. Inr (RPayload (rq_payload r))" "()" 2 FailWorker None demo_worker_events]
    by (fastforce simp: frame_reply_def raw_view_def request_new_def demo_frame_def)
qed

end
