(* ===== verification/Consumer_Workers.thy ===== *)
theory Consumer_Workers
  imports Worker_Effects Processing
begin

text \<open>
  The entry points of \<open>runtime/consumer_worker.rs\<close> and \<open>runtime/subscription_worker.rs\<close>: their
  loops with \<open>process_consumer\<close> and \<open>process_message\<close> as the in-flight futures.  A consumer worker
  that returns has settled every message it took exactly once.
\<close>

section \<open>Consumers\<close>

text \<open>
  What the environment decides about one message: how many progress ticks pass while the handler
  runs, which acknowledgements get through, and how long all of it takes.
\<close>

record consumer_decision =
  cd_ticks :: nat
  cd_ack :: "nat \<Rightarrow> string + unit"
  cd_elapsed :: duration

type_synonym 'h consumer_event = "((string + 'h raw_request) option, consumer_decision) worker_event"

definition consumer_process ::
  "'h header_ops \<Rightarrow> telemetry_config option \<Rightarrow> consumer_spec \<Rightarrow>
   ('h request \<Rightarrow> error_reply + consumer_action) \<Rightarrow>
   ('h raw_request, consumer_decision, consumer_effect) message_process" where
  "consumer_process H telemetry spec call message decided =
     Some (process_consumer H telemetry spec call (cd_ticks decided) (cd_ack decided)
       (cd_elapsed decided) message)"

text \<open>
  What is recorded when a message is taken, \<open>delivered\<close> times so far if its metadata parses; it
  is not among the effects of a run, which are those of the futures.
\<close>

definition delivery_metrics ::
  "telemetry_config \<Rightarrow> consumer_spec \<Rightarrow> string \<Rightarrow> string option \<Rightarrow> int option \<Rightarrow> metric_event list"
  where
  "delivery_metrics config spec subject request_id delivered =
     telemetry_consumer config ConsumerDeliveries 1 None spec (Some subject) request_id None @
     (if (case delivered of Some n \<Rightarrow> 1 < n | None \<Rightarrow> False)
      then telemetry_consumer config ConsumerRedeliveries 1 None spec (Some subject) request_id None
      else [])"

definition consumer_worker_telemetry ::
  "'h header_ops \<Rightarrow> consumer_spec \<Rightarrow> ('q \<Rightarrow> 'h request \<Rightarrow> error_reply + consumer_action) \<Rightarrow> 'q \<Rightarrow>
   nat \<Rightarrow> handler_panic_policy \<Rightarrow> telemetry_config option \<Rightarrow> 'h consumer_event list \<Rightarrow>
   'h raw_request worker_result \<times> consumer_effect list" where
  "consumer_worker_telemetry H spec call q concurrency policy telemetry events =
     (if concurrency = 0
      then (Returned (Inl ''consumer concurrency must be non-zero'') worker_start, [])
      else effect_run (consumer_worker_step concurrency policy)
        (consumer_process H telemetry spec (call q)) events worker_start [])"

definition consumer_worker_policy ::
  "'h header_ops \<Rightarrow> consumer_spec \<Rightarrow> ('q \<Rightarrow> 'h request \<Rightarrow> error_reply + consumer_action) \<Rightarrow> 'q \<Rightarrow>
   nat \<Rightarrow> handler_panic_policy \<Rightarrow> 'h consumer_event list \<Rightarrow>
   'h raw_request worker_result \<times> consumer_effect list" where
  "consumer_worker_policy H spec call q concurrency policy =
     consumer_worker_telemetry H spec call q concurrency policy None"

definition consumer_worker ::
  "'h header_ops \<Rightarrow> consumer_spec \<Rightarrow> ('q \<Rightarrow> 'h request \<Rightarrow> error_reply + consumer_action) \<Rightarrow> 'q \<Rightarrow>
   nat \<Rightarrow> 'h consumer_event list \<Rightarrow> 'h raw_request worker_result \<times> consumer_effect list" where
  "consumer_worker H spec call q concurrency =
     consumer_worker_policy H spec call q concurrency FailWorker"

section \<open>Subscriptions\<close>

text \<open>The effects are the requests that reach the handler; a decision is a handler that returns.\<close>

type_synonym 'h subscription_event = "('h raw_request option, unit) worker_event"

definition subscription_process ::
  "'h header_ops \<Rightarrow> ('h request \<Rightarrow> error_reply + unit) \<Rightarrow>
   ('h raw_request, unit, 'h request) message_process" where
  "subscription_process H call message decided =
     Some ([raw_view H message], process_message H call message)"

definition subscription_worker_policy ::
  "'h header_ops \<Rightarrow> ('q \<Rightarrow> 'h request \<Rightarrow> error_reply + unit) \<Rightarrow> 'q \<Rightarrow> string + unit \<Rightarrow> nat \<Rightarrow>
   handler_panic_policy \<Rightarrow> 'h subscription_event list \<Rightarrow>
   'h raw_request worker_result \<times> 'h request list" where
  "subscription_worker_policy H call q unsubscribe concurrency policy events =
     (if concurrency = 0
      then (Returned (Inl ''subscription concurrency must be non-zero'') worker_start, [])
      else effect_run (subscription_worker_step unsubscribe concurrency policy)
        (subscription_process H (call q)) events worker_start [])"

definition subscription_worker ::
  "'h header_ops \<Rightarrow> ('q \<Rightarrow> 'h request \<Rightarrow> error_reply + unit) \<Rightarrow> 'q \<Rightarrow> string + unit \<Rightarrow> nat \<Rightarrow>
   'h subscription_event list \<Rightarrow> 'h raw_request worker_result \<times> 'h request list" where
  "subscription_worker H call q unsubscribe concurrency =
     subscription_worker_policy H call q unsubscribe concurrency FailWorker"

section \<open>Every message once\<close>

text \<open>The acknowledgements that settle a message, and the one its handler decides.\<close>

definition settlements :: "consumer_effect list \<Rightarrow> ack_kind list" where
  "settlements effects = filter (\<lambda>k. k \<noteq> AckProgress) (acks effects)"

definition settlement_of ::
  "'h header_ops \<Rightarrow> ('h request \<Rightarrow> error_reply + consumer_action) \<Rightarrow> 'h raw_request \<Rightarrow> ack_kind" where
  "settlement_of H call message =
     (case call (raw_view H message) of Inl _ \<Rightarrow> AckNak None | Inr action \<Rightarrow> final_ack action)"

lemma final_ack_not_progress [simp]: "final_ack action \<noteq> AckProgress"
  by (cases action) simp_all

lemma process_consumer_settles:
  assumes "process_consumer H telemetry spec call ticks ack elapsed message = (effects, Inr ())"
  shows "settlements effects = [settlement_of H call message]"
proof -
  let ?t = "if progress_period (cs_ack_wait_ms spec) = None then 0 else ticks"
  obtain sent n where loop: "progress_loop ack 0 ?t = (sent, Inr n)"
    using assms by (cases "progress_loop ack 0 ?t"; cases "snd (progress_loop ack 0 ?t)")
      (auto simp: process_consumer_def Let_def)
  have "filter (\<lambda>k. k \<noteq> AckProgress) sent = []"
    using progress_loop_kinds [of ack 0 ?t] loop by (auto simp: filter_empty_conv)
  then show ?thesis
    using assms loop
    by (auto simp: process_consumer_def Let_def settlements_def settlement_of_def
        split: sum.splits)
qed

interpretation consumer_effects: effect_worker "consumer_worker_step concurrency policy" concurrency
  "''consumer''" policy "consumer_process H telemetry spec call" settlements "settlement_of H call"
  by unfold_locales
    (use consumer_step_completes in \<open>auto dest: process_consumer_settles
      simp: settlements_def consumer_process_def\<close>)

lemma subscription_step_completes:
  "ws_completed (result_state (subscription_worker_step unsubscribe concurrency policy p s)) =
     ws_completed s \<or>
     (\<exists>i outcome. ready_completion p s = Some (i, outcome) \<and>
        subscription_worker_step unsubscribe concurrency policy p s =
        complete_step ''subscription'' policy i outcome s)"
  by (auto simp: subscription_worker_step_def Let_def stop_accepting_def accept_message_def
      split: option.splits sum.splits)

interpretation subscription_effects: effect_worker
  "subscription_worker_step unsubscribe concurrency policy" concurrency "''subscription''" policy
  "subscription_process H call" "\<lambda>effects. effects" "raw_view H"
  by unfold_locales (rule subscription_step_completes, auto simp: subscription_process_def)

text \<open>
  C16: nothing a worker took is left behind.  If a consumer worker returns \<open>Ok\<close> and panics are
  not swallowed by policy, the final acknowledgements it sent are, up to their order, exactly one
  for each message it took, namely the one its handler chose, or a negative one on an error;
  and a subscription worker has passed every message it took to the handler exactly once.
\<close>

theorem workers_settle_every_message:
  assumes "policy \<noteq> LogAndContinue"
  shows "(\<forall>s' effects. consumer_worker_telemetry H spec call q concurrency policy telemetry events =
      (Returned (Inr ()) s', effects) \<longrightarrow>
      mset (settlements effects) = mset (map (settlement_of H (call q)) (ws_accepted s'))) \<and>
    (\<forall>s' effects. subscription_worker_policy H handler q unsubscribe concurrency policy messages =
      (Returned (Inr ()) s', effects) \<longrightarrow>
      mset effects = mset (map (raw_view H) (ws_accepted s')))"
  using consumer_effects.worker_answers [OF assms] subscription_effects.worker_answers [OF assms]
  unfolding consumer_worker_telemetry_def subscription_worker_policy_def
  by (auto split: if_splits)

definition demo_decision :: consumer_decision where
  "demo_decision = \<lparr>cd_ticks = 1, cd_ack = \<lambda>_. Inr (), cd_elapsed = 0\<rparr>"

definition demo_message :: "alist_map raw_request" where
  "demo_message = \<lparr>rr_subject = ''a'', rr_reply = None, rr_payload = [1], rr_headers = None\<rparr>"

definition demo_consumer_events :: "alist_map consumer_event list" where
  "demo_consumer_events =
     [\<lparr>we_shutdown = None, we_completed = None, we_incoming = Some (Some (Inl ''lost''))\<rparr>,
      \<lparr>we_shutdown = None, we_completed = None, we_incoming = Some (Some (Inr demo_message))\<rparr>,
      \<lparr>we_shutdown = Some None, we_completed = None, we_incoming = None\<rparr>,
      \<lparr>we_shutdown = None, we_completed = Some (0, Some demo_decision), we_incoming = None\<rparr>,
      \<lparr>we_shutdown = None, we_completed = None, we_incoming = None\<rparr>]"

theorem workers_settle_every_message_witness:
  "\<forall>spec. \<exists>s' effects. consumer_worker_telemetry alist_headers spec (\<lambda>_ _. Inr (NackAfter 5)) () 1
       FailWorker None demo_consumer_events = (Returned (Inr ()) s', effects) \<and>
     ws_accepted s' = [demo_message] \<and> mset (settlements effects) = {#AckNak (Some 5)#}"
proof
  fix spec
  have run: "\<exists>s' effects. consumer_worker_telemetry alist_headers spec (\<lambda>_ _. Inr (NackAfter 5)) () 1
       FailWorker None demo_consumer_events = (Returned (Inr ()) s', effects) \<and>
     ws_accepted s' = [demo_message]"
    by (simp add: consumer_worker_telemetry_def demo_consumer_events_def consumer_worker_step_def
        event_poll_def worker_start_def ready_completion_def stop_signal_def accept_message_def
        stop_accepting_def complete_step_def handle_completion_def Let_def endpoint_outcome_def
        consumer_process_def process_consumer_def demo_decision_def progress_loop_ok
        finish_message_def remove_at_def)
  have policy: "FailWorker \<noteq> LogAndContinue" by simp
  from run workers_settle_every_message [OF policy, of alist_headers spec "\<lambda>_ _. Inr (NackAfter 5)" "()" 1
      None demo_consumer_events "\<lambda>_ _. Inr ()" "Inr ()" "[]"]
  show "\<exists>s' effects. consumer_worker_telemetry alist_headers spec (\<lambda>_ _. Inr (NackAfter 5)) () 1
       FailWorker None demo_consumer_events = (Returned (Inr ()) s', effects) \<and>
     ws_accepted s' = [demo_message] \<and> mset (settlements effects) = {#AckNak (Some 5)#}"
    by (fastforce simp: settlement_of_def)
qed

end
