(* ===== verification/Transport_Calls.thy ===== *)
theory Transport_Calls
  imports Encrypted_Calls Connecting
begin

text \<open>
  \<open>NatsTransport\<close> of \<open>nats-micro/src/client/transport.rs\<close> and the constructors and header
  setters of the four kinds of calls in \<open>client/v2.rs\<close>.  The client of \<open>async_nats\<close> is the
  parameter \<open>nats_client_ops\<close>: sending a request yields a message or the kind of its error.
\<close>

section \<open>The NATS transport\<close>

text \<open>The request builder of \<open>async_nats\<close>: an override of the timeout is \<open>Some (Some t)\<close>.\<close>

record 'h nats_request =
  nq_payload :: bytes
  nq_headers :: "'h option"
  nq_timeout :: "duration option option"

record 'h nats_message =
  nm_payload :: bytes
  nm_headers :: "'h option"

record 'h nats_client_ops =
  nc_send_request :: "string \<Rightarrow> 'h nats_request \<Rightarrow> request_error_kind + 'h nats_message"
  nc_publish_with_headers :: "string \<Rightarrow> 'h \<Rightarrow> bytes \<Rightarrow> publish_error_kind + unit"
  nc_publish :: "string \<Rightarrow> bytes \<Rightarrow> publish_error_kind + unit"

primrec into_nats_subject :: "client_subject \<Rightarrow> string" where
  "into_nats_subject (SStatic v) = v"
| "into_nats_subject (SBorrowed v) = v"
| "into_nats_subject (SOwned v) = v"

definition nats_transport_request ::
  "'h nats_client_ops \<Rightarrow> 'h client_request \<Rightarrow> transport_error + 'h client_response" where
  "nats_transport_request N r =
     (let nats_request = \<lparr>nq_payload = cq_payload r, nq_headers = None, nq_timeout = None\<rparr>;
          nats_request = (case cq_headers r of
              Some headers \<Rightarrow> nats_request\<lparr>nq_headers := Some headers\<rparr> | None \<Rightarrow> nats_request);
          nats_request = (case cq_timeout r of
              Some timeout \<Rightarrow> nats_request\<lparr>nq_timeout := Some (Some timeout)\<rparr> | None \<Rightarrow> nats_request)
      in try_then (map_err request_error
             (nc_send_request N (into_nats_subject (cq_subject r)) nats_request))
           (\<lambda>response. Inr \<lparr>cx_payload = nm_payload response, cx_headers = nm_headers response\<rparr>))"

definition nats_transport_publish ::
  "'h nats_client_ops \<Rightarrow> client_subject \<Rightarrow> bytes \<Rightarrow> 'h option \<Rightarrow> transport_error + unit" where
  "nats_transport_publish N subject payload headers =
     (let subject = into_nats_subject subject
      in map_err publish_error
           (case headers of
              Some h \<Rightarrow> nc_publish_with_headers N subject h payload
            | None \<Rightarrow> nc_publish N subject payload))"

definition nats_transport :: "'h nats_client_ops \<Rightarrow> 'h client_transport" where
  "nats_transport N =
     \<lparr>tr_request = nats_transport_request N, tr_publish = nats_transport_publish N\<rparr>"

section \<open>Calls\<close>

definition encrypted_request_call_new ::
  "bytes option \<Rightarrow> client_subject \<Rightarrow> error_reply + bytes \<Rightarrow> 'h option \<Rightarrow> duration option \<Rightarrow> bool \<Rightarrow>
   bool \<Rightarrow> 'h encrypted_call" where
  "encrypted_request_call_new recipient subject payload default_headers timeout encrypt_payload
     decrypt =
     \<lparr>ce_recipient = recipient,
      ce_call = \<lparr>ca_subject = subject, ca_payload = payload, ca_default_headers = default_headers,
        ca_headers = None, ca_timeout = timeout\<rparr>,
      ce_encrypted_headers = [], ce_encrypt_payload = encrypt_payload,
      ce_decrypt_response = decrypt\<rparr>"

definition encrypted_call_timeout :: "duration \<Rightarrow> 'h encrypted_call \<Rightarrow> 'h encrypted_call" where
  "encrypted_call_timeout timeout c = c\<lparr>ce_call := call_timeout timeout (ce_call c)\<rparr>"

text \<open>A publish call is a request call without a timeout.\<close>

definition publish_call_new ::
  "client_subject \<Rightarrow> error_reply + bytes \<Rightarrow> 'h option \<Rightarrow> 'h request_call" where
  "publish_call_new subject payload default_headers =
     \<lparr>ca_subject = subject, ca_payload = payload, ca_default_headers = default_headers,
      ca_headers = None, ca_timeout = None\<rparr>"

definition publish_call_header ::
  "'h header_ops \<Rightarrow> 'h request_call \<Rightarrow> string \<Rightarrow> string \<Rightarrow> string + 'h request_call" where
  "publish_call_header H c name v =
     try_then (map_err (client_build_error name) (ho_parse_name H name)) (\<lambda>n.
     try_then (map_err (client_build_error name) (ho_parse_value H v)) (\<lambda>w.
     Inr (c\<lparr>ca_headers := Some (ho_insert H n w
       (case ca_headers c of Some h \<Rightarrow> h | None \<Rightarrow> ho_empty H))\<rparr>)))"

definition encrypted_publish_call_new ::
  "bytes option \<Rightarrow> client_subject \<Rightarrow> error_reply + bytes \<Rightarrow> 'h option \<Rightarrow> bool \<Rightarrow> 'h encrypted_call" where
  "encrypted_publish_call_new recipient subject payload default_headers encrypt_payload =
     \<lparr>ce_recipient = recipient, ce_call = publish_call_new subject payload default_headers,
      ce_encrypted_headers = [], ce_encrypt_payload = encrypt_payload,
      ce_decrypt_response = False\<rparr>"

definition encrypted_publish_header ::
  "'h header_ops \<Rightarrow> 'h encrypted_call \<Rightarrow> string \<Rightarrow> string \<Rightarrow> string + 'h encrypted_call" where
  "encrypted_publish_header H c name v =
     try_then (insert_header H (ca_headers (ce_call c)) name v) (\<lambda>headers.
       Inr (c\<lparr>ce_call := (ce_call c)\<lparr>ca_headers := headers\<rparr>\<rparr>))"

definition encrypted_publish_encrypted_header ::
  "'h header_ops \<Rightarrow> 'h encrypted_call \<Rightarrow> string \<Rightarrow> string \<Rightarrow> string + 'h encrypted_call" where
  "encrypted_publish_encrypted_header H c name v =
     try_then (validate_header H name v) (\<lambda>_.
       if is_reserved_encryption_header_name name
       then Inl (client_build_error name ''header is reserved for encryption transport metadata'')
       else Inr (c\<lparr>ce_encrypted_headers := ce_encrypted_headers c @ [(name, v)]\<rparr>))"

lemma generated_calls_new:
  "om_kind op = MRequest \<Longrightarrow> generated_encrypted_call J U op c params input =
     encrypted_request_call_new (gc_recipient c) (subject_expression (om_subject op) params)
       (run_payload J U (payload_expression op) input) (gc_default_headers c)
       (map_option from_millis (oo_timeout_ms (om_options op))) (request_encrypted op)
       (rs_encrypted (om_response op))"
  "om_kind op = MPublish \<Longrightarrow> generated_encrypted_call J U op c params input =
     encrypted_publish_call_new (gc_recipient c) (subject_expression (om_subject op) params)
       (run_payload J U (payload_expression op) input) (gc_default_headers c) (request_encrypted op)"
  "om_kind op = MPublish \<Longrightarrow> generated_call J U op c params input =
     publish_call_new (subject_expression (om_subject op) params)
       (run_payload J U (payload_expression op) input) (gc_default_headers c)"
  by (simp_all add: generated_encrypted_call_def generated_call_def request_call_new_def
      encrypted_request_call_new_def encrypted_publish_call_new_def publish_call_new_def)

text \<open>A header that a call accepted is sent; one that it refuses names itself in the error.\<close>

lemma publish_call_header_get:
  assumes "header_map_laws H" "publish_call_header H c name v = Inr c'"
  shows "Option.bind (ca_headers c') (\<lambda>h. ho_get H h k) =
    (if k = name then Some v else Option.bind (ca_headers c) (\<lambda>h. ho_get H h k))"
proof -
  obtain n w where p: "ho_parse_name H name = Inr n" "ho_parse_value H v = Inr w"
    using assms(2) by (cases "ho_parse_name H name"; cases "ho_parse_value H v")
      (auto simp: publish_call_header_def)
  then have "n = name" "w = v" using header_get_laws(6,7) [OF assms(1)] by blast+
  then show ?thesis
    using assms(2) p by (cases "ca_headers c")
      (auto simp: publish_call_header_def header_get_laws(1,2) [OF assms(1)])
qed

section \<open>Where a call can fail\<close>

text \<open>What NATS reports, as the error of a client.\<close>

lemma nats_request_outcome:
  "map_err transport_client_error (tr_request (nats_transport N)
      \<lparr>cq_subject = s, cq_payload = p, cq_headers = h, cq_timeout = t\<rparr>) =
   (case nc_send_request N (subject_as_str s)
      \<lparr>nq_payload = p, nq_headers = h, nq_timeout = map_option Some t\<rparr> of
      Inl kind \<Rightarrow> Inl (client_error_request (transport
        (case kind of TimedOut \<Rightarrow> Timeout | KNoResponders \<Rightarrow> NoResponders | _ \<Rightarrow> NatsRequestFailed)
        ''NATS client transport operation failed''))
    | Inr m \<Rightarrow> Inr \<lparr>cx_payload = nm_payload m, cx_headers = nm_headers m\<rparr>)"
proof -
  have "into_nats_subject s = subject_as_str s" by (cases s) simp_all
  moreover have "request_error k = (case k of TimedOut \<Rightarrow> Timeout | KNoResponders \<Rightarrow> NoResponders
      | _ \<Rightarrow> NatsRequestFailed)" for k by (cases k) simp_all
  ultimately show ?thesis
    by (cases h; cases t)
      (simp_all add: nats_transport_def nats_transport_request_def transport_client_error_def Let_def
        split: sum.split)
qed

lemma nats_publish_outcome:
  "map_err transport_client_error (tr_publish (nats_transport N) s p h) =
   (case (case h of Some hs \<Rightarrow> nc_publish_with_headers N (subject_as_str s) hs p
          | None \<Rightarrow> nc_publish N (subject_as_str s) p) of
      Inl kind \<Rightarrow> Inl (client_error_request (transport
        (case kind of PSend \<Rightarrow> Disconnected | _ \<Rightarrow> TransportFailure)
        ''NATS client transport operation failed''))
    | Inr _ \<Rightarrow> Inr ())"
proof -
  have "into_nats_subject s = subject_as_str s" by (cases s) simp_all
  moreover have "publish_error k = (case k of PSend \<Rightarrow> Disconnected | _ \<Rightarrow> TransportFailure)" for k
    by (cases k) simp_all
  ultimately show ?thesis
    by (cases h) (simp_all add: nats_transport_def nats_transport_publish_def
        transport_client_error_def Let_def split: sum.split)
qed


end
