(* ===== verification/Recipients.thy ===== *)
theory Recipients
  imports Encrypted_Requests
begin

text \<open>
  \<open>ServiceRecipient\<close>, the accessors of the ephemeral context and the deprecated entry points
  of \<open>nats-micro/src/encryption/mod.rs\<close>.  Keys are byte lists of length 32; the NATS client a
  recipient may hold is a value of type \<open>'c\<close>.
\<close>

section \<open>Recipients\<close>

record 'c service_recipient =
  sr_public_key :: bytes
  sr_client :: "'c option"

definition recipient_from_bytes :: "bytes \<Rightarrow> 'c service_recipient" where
  "recipient_from_bytes bs = \<lparr>sr_public_key = bs, sr_client = None\<rparr>"

definition recipient_to_bytes :: "'c service_recipient \<Rightarrow> bytes" where
  "recipient_to_bytes r = sr_public_key r"

definition recipient_with_client :: "'c \<Rightarrow> 'c service_recipient \<Rightarrow> 'c service_recipient" where
  "recipient_with_client client r = r\<lparr>sr_client := Some client\<rparr>"

definition recipient_builder ::
  "crypto_ops \<Rightarrow> bytes \<Rightarrow> 'c service_recipient \<Rightarrow> 'c request_builder" where
  "recipient_builder C eph_secret r =
     \<lparr>rb_ctx = recipient_begin C eph_secret (sr_public_key r), rb_client = sr_client r,
      rb_plaintext_headers = [], rb_encrypted_headers = [], rb_payload = None,
      rb_encrypt_payload = False\<rparr>"

text \<open>\<open>RequestBuilder::bearer_token\<close>; \<open>None\<close> is its panic.\<close>

definition builder_bearer_token ::
  "'h header_ops \<Rightarrow> 'c request_builder \<Rightarrow> string \<Rightarrow> 'c request_builder option" where
  "builder_bearer_token H b token =
     (case try_bearer_token H b token of Inr b' \<Rightarrow> Some b' | Inl _ \<Rightarrow> None)"

section \<open>The ephemeral context\<close>

definition context_encryption_key :: "ephemeral_context \<Rightarrow> bytes" where
  "context_encryption_key ctx = dk_encryption (ec_keys ctx)"

definition context_signature_key :: "ephemeral_context \<Rightarrow> bytes" where
  "context_signature_key ctx = dk_signature (ec_keys ctx)"

section \<open>Signature transcripts\<close>

definition transcript_request_id :: "string option \<Rightarrow> signature_transcript \<Rightarrow> signature_transcript"
  where "transcript_request_id v t = t\<lparr>st_request_id := v\<rparr>"

definition transcript_client_version ::
  "string option \<Rightarrow> signature_transcript \<Rightarrow> signature_transcript" where
  "transcript_client_version v t = t\<lparr>st_client_version := v\<rparr>"

definition transcript_encrypted_headers ::
  "string option \<Rightarrow> signature_transcript \<Rightarrow> signature_transcript" where
  "transcript_encrypted_headers v t = t\<lparr>st_encrypted_headers := v\<rparr>"

section \<open>Deprecated entry points\<close>

definition derive_shared_key :: "crypto_ops \<Rightarrow> service_key_pair \<Rightarrow> bytes \<Rightarrow> bytes" where
  "derive_shared_key C kp eph = derive_encryption_key C kp eph"

definition decrypt_with_shared_key ::
  "crypto_ops \<Rightarrow> bytes \<Rightarrow> bytes \<Rightarrow> encryption_error + bytes" where
  "decrypt_with_shared_key C key data = decrypt_with_encryption_key C key data"

definition encrypt_response_with_shared_key ::
  "crypto_ops \<Rightarrow> bytes \<Rightarrow> bytes \<Rightarrow> bytes \<Rightarrow> encryption_error + bytes" where
  "encrypt_response_with_shared_key C nonce key plaintext =
     encrypt_response_with_encryption_key C nonce key plaintext"

definition context_shared_secret :: "ephemeral_context \<Rightarrow> bytes" where
  "context_shared_secret ctx = context_encryption_key ctx"

definition builder_build ::
  "crypto_ops \<Rightarrow> 'h header_ops \<Rightarrow> map_json \<Rightarrow> 'c request_builder \<Rightarrow> bytes \<Rightarrow> bytes \<Rightarrow>
   encryption_error + 'h built_request" where
  "builder_build C H M b nonce1 nonce2 = build_for_subject C H M b [] nonce1 nonce2"

section \<open>Lemmas\<close>

lemma recipient_builder_new:
  "recipient_builder C eph_secret r =
     request_builder_new C eph_secret (sr_public_key r) (sr_client r)"
  by (simp add: recipient_builder_def request_builder_new_def)

text \<open>A recipient without a client neither publishes nor requests.\<close>

lemma recipient_without_client:
  "builder_publish C H M publish (recipient_builder C eph_secret (recipient_from_bytes bs))
     subject nonce1 nonce2 = Inl NoClient"
  "builder_nats_request C H M request (recipient_builder C eph_secret (recipient_from_bytes bs))
     subject nonce1 nonce2 = Inl NoClient"
  by (simp_all add: builder_publish_def builder_nats_request_def recipient_builder_def
      recipient_from_bytes_def)

text \<open>
  A bearer token goes into the encrypted headers only: the plaintext headers and the body of
  the builder are unchanged.
\<close>

lemma bearer_token_encrypted:
  assumes "builder_bearer_token H b token = Some b'"
  shows "rb_encrypted_headers b' = rb_encrypted_headers b @ [(''authorization'', ''Bearer '' @ token)]"
    and "rb_plaintext_headers b' = rb_plaintext_headers b" "rb_payload b' = rb_payload b"
    and "rb_ctx b' = rb_ctx b"
  using assms
  by (auto simp: builder_bearer_token_def try_bearer_token_def try_encrypted_header_def try_then_def
      map_err_def split: sum.splits if_splits)

text \<open>
  The context of the client and the key pair of the service agree on both keys, under their
  current and their deprecated names.
\<close>

lemma context_keys_agree:
  assumes "crypto_laws C" "length eph_secret = 32" "length secret = 32"
  defines "ctx \<equiv> rb_ctx (recipient_builder C eph_secret
      (recipient_from_bytes (cr_public C secret) :: 'c service_recipient))"
  shows "context_encryption_key ctx =
      derive_encryption_key C (from_private_bytes C secret) (ec_ephemeral_pub ctx)"
    and "context_shared_secret ctx =
      derive_shared_key C (from_private_bytes C secret) (ec_ephemeral_pub ctx)"
    and "context_signature_key ctx =
      derive_signature_key C (from_private_bytes C secret) (ec_ephemeral_pub ctx)"
  using derive_keys_as_begin [OF assms(1-3)]
  by (simp_all add: ctx_def recipient_builder_def recipient_from_bytes_def context_encryption_key_def
      context_shared_secret_def derive_shared_key_def context_signature_key_def)

end
