(* ===== verification/Nats_Server.thy ===== *)
theory Nats_Server
  imports Prelude "HOL-Library.Sublist"
begin

text \<open>
  \<open>nats-server/src/lib.rs\<close>: the local NATS servers that live tests start, restart and clean
  up.  The operating system is the record \<open>host\<close> (processes, files, directories), passed from
  call to call; the regular expressions and the JSON parser are arguments, and so is the
  content of each file read.  A panic is the value \<open>None\<close>.
\<close>

section \<open>The host\<close>

text \<open>\<open>hs_spawn_error\<close> is the error of spawning \<open>nats-server\<close>, if it cannot be executed.\<close>

record host =
  hs_temp_dir :: string
  hs_spawn_error :: "string option"
  hs_processes :: "(nat \<times> string list) list"
  hs_next_pid :: nat
  hs_files :: "string \<rightharpoonup> string"
  hs_dirs :: "string set"

definition host_wf :: "host \<Rightarrow> bool" where
  "host_wf h \<longleftrightarrow> list_all (\<lambda>(pid, args). pid < hs_next_pid h) (hs_processes h)"

definition spawn_command :: "string list \<Rightarrow> host \<Rightarrow> (string + nat) \<times> host" where
  "spawn_command args h =
     (case hs_spawn_error h of
        Some e \<Rightarrow> (Inl e, h)
      | None \<Rightarrow> (Inr (hs_next_pid h),
          h\<lparr>hs_processes := hs_processes h @ [(hs_next_pid h, args)],
            hs_next_pid := Suc (hs_next_pid h)\<rparr>))"

text \<open>\<open>Child::kill\<close> followed by \<open>wait\<close>; killing a child that has exited is no error.\<close>

definition kill_child :: "nat \<Rightarrow> host \<Rightarrow> host" where
  "kill_child pid h = h\<lparr>hs_processes := filter (\<lambda>(p, args). p \<noteq> pid) (hs_processes h)\<rparr>"

definition remove_file :: "string \<Rightarrow> host \<Rightarrow> host" where
  "remove_file path h = h\<lparr>hs_files := (hs_files h)(path := None)\<rparr>"

definition path_join :: "string \<Rightarrow> string \<Rightarrow> string" where
  "path_join dir name =
     (if dir = [] \<or> last dir = CHR ''/'' then dir @ name else dir @ ''/'' @ name)"

text \<open>
  \<open>fs::remove_dir_all\<close>, its error ignored: if \<open>path\<close> is a directory, it is removed with every file and
  directory beneath it.  A removal that the file system refuses half way is not modelled.
\<close>

definition beneath :: "string \<Rightarrow> string \<Rightarrow> bool" where
  "beneath dir path \<longleftrightarrow>
     path = dir \<or> take (length (path_join dir [])) path = path_join dir []"

definition remove_dir_all :: "string \<Rightarrow> host \<Rightarrow> host" where
  "remove_dir_all path h =
     (if path \<in> hs_dirs h
      then h\<lparr>hs_files := (\<lambda>p. if beneath path p then None else hs_files h p),
             hs_dirs := Set.filter (\<lambda>d. \<not> beneath path d) (hs_dirs h)\<rparr>
      else h)"

section \<open>Starting a server\<close>

record nats_process =
  ns_cfg :: string
  ns_id :: string
  ns_port :: "string option"
  ns_child :: nat
  ns_logfile :: string
  ns_pidfile :: string
  ns_keep_logs :: bool

definition log_file :: "string \<Rightarrow> string \<Rightarrow> string" where
  "log_file tmp i = path_join tmp (''nats-server-'' @ i @ ''.log'')"

definition pid_file :: "string \<Rightarrow> string \<Rightarrow> string" where
  "pid_file tmp i = path_join tmp (''nats-server-'' @ i @ ''.pid'')"

definition store_dir :: "string \<Rightarrow> string \<Rightarrow> string" where
  "store_dir tmp i = path_join tmp (''store-dir-'' @ i)"

definition config_arguments :: "string \<Rightarrow> string list" where
  "config_arguments cfg = (if cfg = [] then [] else [''-c'', cfg])"

definition server_arguments :: "string \<Rightarrow> string \<Rightarrow> string option \<Rightarrow> string \<Rightarrow> string list" where
  "server_arguments tmp cfg port i =
     [''--store_dir'', store_dir tmp i, ''-p'', case port of Some p \<Rightarrow> p | None \<Rightarrow> ''-1'',
      ''-l'', log_file tmp i, ''-P'', pid_file tmp i] @ config_arguments cfg"

text \<open>\<open>fresh\<close> is the identifier drawn by \<open>nuid::next\<close>.\<close>

definition do_run ::
  "string \<Rightarrow> string \<Rightarrow> string option \<Rightarrow> string option \<Rightarrow> host \<Rightarrow> (string + nats_process) \<times> host" where
  "do_run fresh cfg port i h =
     (let i = (case i of Some x \<Rightarrow> x | None \<Rightarrow> fresh);
          tmp = hs_temp_dir h
      in case spawn_command (server_arguments tmp cfg port i) h of
           (Inl e, h) \<Rightarrow> (Inl e, h)
         | (Inr child, h) \<Rightarrow>
             (Inr \<lparr>ns_cfg = cfg, ns_id = i, ns_port = port, ns_child = child,
                ns_logfile = log_file tmp i, ns_pidfile = pid_file tmp i, ns_keep_logs = False\<rparr>, h))"

definition try_run_server_with_port ::
  "string \<Rightarrow> string \<Rightarrow> string option \<Rightarrow> host \<Rightarrow> (string + nats_process) \<times> host" where
  "try_run_server_with_port fresh cfg port h = do_run fresh cfg port None h"

definition run_server_with_port ::
  "string \<Rightarrow> string \<Rightarrow> string option \<Rightarrow> host \<Rightarrow> (nats_process \<times> host) option" where
  "run_server_with_port fresh cfg port h =
     (case try_run_server_with_port fresh cfg port h of
        (Inr s, h) \<Rightarrow> Some (s, h)
      | (Inl _, _) \<Rightarrow> None)"

definition run_server :: "string \<Rightarrow> string \<Rightarrow> host \<Rightarrow> (nats_process \<times> host) option" where
  "run_server fresh cfg h = run_server_with_port fresh cfg None h"

definition try_run_server :: "string \<Rightarrow> string \<Rightarrow> host \<Rightarrow> (string + nats_process) \<times> host" where
  "try_run_server fresh cfg h = try_run_server_with_port fresh cfg None h"

definition try_run_server_with_jetstream ::
  "string \<Rightarrow> string \<Rightarrow> host \<Rightarrow> (string + nats_process) \<times> host" where
  "try_run_server_with_jetstream workspace fresh h =
     try_run_server fresh
       (path_join (path_join (path_join workspace ''nats-server'') ''configs'') ''jetstream.conf'') h"

definition run_server_with_jetstream ::
  "string \<Rightarrow> string \<Rightarrow> host \<Rightarrow> (nats_process \<times> host) option" where
  "run_server_with_jetstream workspace fresh h =
     (case try_run_server_with_jetstream workspace fresh h of
        (Inr s, h) \<Rightarrow> Some (s, h)
      | (Inl _, _) \<Rightarrow> None)"

definition run_basic_server :: "string \<Rightarrow> host \<Rightarrow> (nats_process \<times> host) option" where
  "run_basic_server fresh h = run_server fresh [] h"

definition try_run_basic_server :: "string \<Rightarrow> host \<Rightarrow> (string + nats_process) \<times> host" where
  "try_run_basic_server fresh h = try_run_server fresh [] h"

definition preserve_logs :: "bool \<Rightarrow> nats_process \<Rightarrow> nats_process" where
  "preserve_logs preserve s = s\<lparr>ns_keep_logs := preserve\<rparr>"

text \<open>\<open>is_server_available\<close>: \<open>version\<close> is how \<open>nats-server --version\<close> ended.\<close>

definition is_server_available :: "string + bool \<Rightarrow> bool" where
  "is_server_available version = (case version of Inr success \<Rightarrow> success | Inl _ \<Rightarrow> False)"

section \<open>Its address\<close>

fun localhost_of :: "string \<Rightarrow> string" where
  "localhost_of [] = []"
| "localhost_of (c # cs) =
     (if take 7 (c # cs) = ''0.0.0.0'' then ''localhost'' @ localhost_of (drop 6 cs)
      else c # localhost_of cs)"

text \<open>
  \<open>client_addr\<close>: \<open>reads i\<close> is what reading the log yields at the attempt \<open>i\<close> and \<open>client_re\<close>
  the capture of \<open>CLIENT_RE\<close>.  The second component is the time slept, in milliseconds.
\<close>

fun client_addr_loop ::
  "(string \<Rightarrow> string option) \<Rightarrow> (nat \<Rightarrow> string option) \<Rightarrow> nat \<Rightarrow> nat \<Rightarrow> nat \<Rightarrow> string option \<times> nat" where
  "client_addr_loop client_re reads i 0 slept = (None, slept)"
| "client_addr_loop client_re reads i (Suc n) slept =
     (case reads i of
        Some l \<Rightarrow>
          (case client_re l of
             Some addr \<Rightarrow> (Some (localhost_of addr), slept)
           | None \<Rightarrow> client_addr_loop client_re reads (Suc i) n (slept + 500))
      | None \<Rightarrow> client_addr_loop client_re reads (Suc i) n (slept + 500))"

definition client_addr ::
  "(string \<Rightarrow> string option) \<Rightarrow> (nat \<Rightarrow> string option) \<Rightarrow> string option \<times> nat" where
  "client_addr client_re reads = client_addr_loop client_re reads 0 100 0"

text \<open>The fields of the server's \<open>INFO\<close> line that are used, as \<open>as_u64\<close> and \<open>as_bool\<close> read them.\<close>

record server_info =
  si_port :: "nat option"
  si_tls_required :: "bool option"

text \<open>
  \<open>line addr\<close> is the first line the server sends on a connection; a failed connection or read
  is \<open>None\<close>.
\<close>

definition server_info_of ::
  "(string \<Rightarrow> server_info option) \<Rightarrow> (string \<Rightarrow> string option) \<Rightarrow> string option \<Rightarrow> server_info option"
  where
  "server_info_of parse line addr =
     Option.bind addr (\<lambda>a. Option.bind (line a) (\<lambda>l.
       Option.bind (str_get l 4 (length l)) parse))"

definition client_port ::
  "(string \<Rightarrow> server_info option) \<Rightarrow> (string \<Rightarrow> string option) \<Rightarrow> string option \<Rightarrow> nat option" where
  "client_port parse line addr =
     Option.bind (server_info_of parse line addr) (\<lambda>si.
       map_option (\<lambda>port. port mod 2 ^ 16) (si_port si))"

definition client_url ::
  "(string \<Rightarrow> server_info option) \<Rightarrow> (string \<Rightarrow> string option) \<Rightarrow> string option \<Rightarrow> string option" where
  "client_url parse line addr =
     Option.bind (server_info_of parse line addr) (\<lambda>si.
       map_option (\<lambda>port.
         (if si_tls_required si = Some True then ''tls://'' else ''nats://'') @ ''localhost:'' @
         show_nat (port mod 2 ^ 16)) (si_port si))"

text \<open>\<open>Url\<close> is third party: parsing, the two setters (whose failure is ignored) and printing.\<close>

record 'u url_ops =
  ur_parse :: "string \<Rightarrow> 'u option"
  ur_set_username :: "string \<Rightarrow> 'u \<Rightarrow> 'u"
  ur_set_password :: "string \<Rightarrow> 'u \<Rightarrow> 'u"
  ur_as_str :: "'u \<Rightarrow> string"

definition client_url_with ::
  "'u url_ops \<Rightarrow> string option \<Rightarrow> string \<Rightarrow> string \<Rightarrow> string option" where
  "client_url_with U url user pass =
     map_option (\<lambda>u. ur_as_str U (ur_set_password U pass (ur_set_username U user u)))
       (Option.bind url (ur_parse U))"

definition client_url_with_token :: "'u url_ops \<Rightarrow> string option \<Rightarrow> string \<Rightarrow> string option" where
  "client_url_with_token U url token =
     map_option (\<lambda>u. ur_as_str U (ur_set_username U token u)) (Option.bind url (ur_parse U))"

definition client_pid :: "nats_process \<Rightarrow> host \<Rightarrow> nat option" where
  "client_pid s h =
     Option.bind (hs_files h (ns_pidfile s)) (\<lambda>content.
       case parse_unsigned u64_max content of Inr pid \<Rightarrow> Some pid | Inl _ \<Rightarrow> None)"

text \<open>\<open>set_lame_duck_mode\<close>: the arguments of the command it runs to its end.\<close>

definition lame_duck_arguments :: "nats_process \<Rightarrow> host \<Rightarrow> string list option" where
  "lame_duck_arguments s h =
     map_option (\<lambda>pid. [''--signal'', ''ldm='' @ show_nat pid]) (client_pid s h)"


section \<open>Restart and cleanup\<close>

text \<open>
  \<open>Server::restart\<close>: \<open>port\<close> is what \<open>client_port\<close> would return.  The files stay in place.
\<close>

definition restart_server ::
  "nat option \<Rightarrow> nats_process \<Rightarrow> host \<Rightarrow> (nats_process \<times> host) option" where
  "restart_server port s h =
     Option.bind (case ns_port s of Some p \<Rightarrow> Some p | None \<Rightarrow> map_option show_nat port) (\<lambda>port.
       case do_run [] (ns_cfg s) (Some port) (Some (ns_id s)) (kill_child (ns_child s) h) of
         (Inr inner, h) \<Rightarrow> Some (inner\<lparr>ns_keep_logs := ns_keep_logs s\<rparr>, h)
       | (Inl _, _) \<Rightarrow> None)"

text \<open>\<open>Drop for Server\<close>: \<open>sd_re\<close> is the capture of \<open>SD_RE\<close>, the JetStream storage directory.\<close>

definition drop_server :: "(string \<Rightarrow> string option) \<Rightarrow> nats_process \<Rightarrow> host \<Rightarrow> host" where
  "drop_server sd_re s h =
     (let h = kill_child (ns_child s) h;
          h = (case hs_files h (ns_logfile s) of
                 None \<Rightarrow> h
               | Some log \<Rightarrow> (case sd_re log of None \<Rightarrow> h | Some sd \<Rightarrow> remove_dir_all sd h));
          h = (if ns_keep_logs s then h else remove_file (ns_logfile s) h)
      in remove_file (ns_pidfile s) h)"

section \<open>Clusters\<close>

text \<open>
  The ports are drawn at random: \<open>draws\<close> are the numbers that the generator yields after the
  first one, and \<open>available\<close> is \<open>is_port_available\<close>.  The value \<open>None\<close> means that the loop
  still looks for a port when the draws are used up.
\<close>

fun pick_port :: "(nat \<Rightarrow> bool) \<Rightarrow> nat \<Rightarrow> nat list \<Rightarrow> (nat \<times> nat list) option" where
  "pick_port available p [] =
     (if \<not> available p \<or> \<not> available (p + 1) then None else Some (p, []))"
| "pick_port available p (d # ds) =
     (if \<not> available p \<or> \<not> available (p + 1) then pick_port available d ds else Some (p, d # ds))"

fun pick_ports :: "(nat \<Rightarrow> bool) \<Rightarrow> nat list \<Rightarrow> nat list \<Rightarrow> nat list option" where
  "pick_ports available [] draws = Some []"
| "pick_ports available (p # ps) draws =
     Option.bind (pick_port available p draws) (\<lambda>(port, draws).
       map_option (\<lambda>ports. port # ports) (pick_ports available ps draws))"

definition cluster_ports :: "(nat \<Rightarrow> bool) \<Rightarrow> nat \<Rightarrow> nat list \<Rightarrow> nat list option" where
  "cluster_ports available port draws =
     pick_ports available [port, port + 100, port + 200] draws"

definition node_arguments ::
  "string \<Rightarrow> string \<Rightarrow> string option \<Rightarrow> nat list \<Rightarrow> string \<Rightarrow> string \<Rightarrow> nat \<Rightarrow> string \<Rightarrow> string list" where
  "node_arguments tmp cfg port routes name cluster_name cluster i =
     [''--store_dir'', store_dir tmp i, ''-p'', case port of Some p \<Rightarrow> p | None \<Rightarrow> ''-1'',
      ''-l'', log_file tmp i, ''-P'', pid_file tmp i,
      ''--routes'', join_with '','' (map (\<lambda>r. ''nats://127.0.0.1:'' @ show_nat r) routes),
      ''--cluster'', ''nats://127.0.0.1:'' @ show_nat cluster,
      ''--cluster_name'', cluster_name, ''-n'', name] @ config_arguments cfg"

definition run_cluster_node_with_port ::
  "string \<Rightarrow> string \<Rightarrow> string option \<Rightarrow> nat list \<Rightarrow> string \<Rightarrow> string \<Rightarrow> nat \<Rightarrow> host \<Rightarrow>
   (nats_process \<times> host) option" where
  "run_cluster_node_with_port fresh cfg port routes name cluster_name cluster h =
     (let tmp = hs_temp_dir h
      in case spawn_command
           (node_arguments tmp cfg port routes name cluster_name cluster fresh) h of
           (Inl _, _) \<Rightarrow> None
         | (Inr child, h) \<Rightarrow>
             Some (\<lparr>ns_cfg = cfg, ns_id = fresh, ns_port = port, ns_child = child,
               ns_logfile = log_file tmp fresh, ns_pidfile = pid_file tmp fresh,
               ns_keep_logs = False\<rparr>, h))"

text \<open>\<open>IntoConfig\<close>: one configuration for all nodes, or one for each.\<close>

datatype cluster_config = OneConfig string | NodeConfigs string string string

primrec into_config :: "cluster_config \<Rightarrow> string list" where
  "into_config (OneConfig c) = [c, c, c]"
| "into_config (NodeConfigs a b c) = [a, b, c]"

definition run_cluster ::
  "string list \<Rightarrow> (nat \<Rightarrow> bool) \<Rightarrow> nat \<Rightarrow> nat list \<Rightarrow> cluster_config \<Rightarrow> host \<Rightarrow>
   (nats_process list \<times> host) option" where
  "run_cluster fresh available port draws cfg h =
     Option.bind (cluster_ports available port draws) (\<lambda>ports.
     let cfg = into_config cfg;
         cluster = map (\<lambda>p. p + 1) ports
     in Option.bind (run_cluster_node_with_port (fresh ! 0) (cfg ! 0) (Some (show_nat (ports ! 0)))
          [cluster ! 1, cluster ! 2] ''node1'' ''cluster'' (cluster ! 0) h) (\<lambda>(s1, h).
        Option.bind (run_cluster_node_with_port (fresh ! 1) (cfg ! 1) (Some (show_nat (ports ! 1)))
          [cluster ! 0, cluster ! 2] ''node2'' ''cluster'' (cluster ! 1) h) (\<lambda>(s2, h).
        Option.bind (run_cluster_node_with_port (fresh ! 2) (cfg ! 2) (Some (show_nat (ports ! 2)))
          [cluster ! 0, cluster ! 1] ''node3'' ''cluster'' (cluster ! 2) h) (\<lambda>(s3, h).
        Some ([s1, s2, s3], h)))))"

definition cluster_client_url :: "(nats_process \<Rightarrow> string option) \<Rightarrow> nats_process list \<Rightarrow> string option"
  where "cluster_client_url url servers = url (servers ! 0)"

section \<open>Finding the address\<close>

lemma find_in_set: "find P xs = Some x \<Longrightarrow> x \<in> set xs"
  by (auto simp: find_Some_iff)

lemma client_addr_loop_conv:
  defines "hit client_re reads \<equiv> (\<lambda>i. Option.bind (reads i) client_re)"
  shows "client_addr_loop client_re reads i n slept =
    (case find (\<lambda>j. hit client_re reads j \<noteq> None) [i..<i + n] of
       Some j \<Rightarrow> (Some (localhost_of (the (hit client_re reads j))), slept + 500 * (j - i))
     | None \<Rightarrow> (None, slept + 500 * n))"
proof (induction n arbitrary: i slept)
  case (Suc n)
  have upt: "[i..<i + Suc n] = i # [Suc i..<Suc i + n]"
    by (simp add: upt_conv_Cons del: upt_Suc)
  have shift: "slept + 500 + 500 * (j - Suc i) = slept + 500 * (j - i)" if "j \<in> set [Suc i..<Suc i + n]" for j
    using that by (auto simp: algebra_simps)
  show ?case
  proof (cases "hit client_re reads i")
    case None
    then have "client_addr_loop client_re reads i (Suc n) slept =
        client_addr_loop client_re reads (Suc i) n (slept + 500)"
      by (auto simp: hit_def split: option.splits)
    also have "\<dots> = (case find (\<lambda>j. hit client_re reads j \<noteq> None) [Suc i..<Suc i + n] of
       Some j \<Rightarrow> (Some (localhost_of (the (hit client_re reads j))), slept + 500 * (j - i))
     | None \<Rightarrow> (None, slept + 500 * Suc n))"
      unfolding Suc.IH using shift by (auto split: option.split dest!: find_in_set)
    also have "find (\<lambda>j. hit client_re reads j \<noteq> None) [Suc i..<Suc i + n] =
        find (\<lambda>j. hit client_re reads j \<noteq> None) [i..<i + Suc n]"
      using None by (simp only: upt find.simps) simp
    finally show ?thesis .
  next
    case (Some a)
    have "client_addr_loop client_re reads i (Suc n) slept = (Some (localhost_of a), slept)"
      using Some by (auto simp: hit_def bind_eq_Some_conv)
    moreover have "find (\<lambda>j. hit client_re reads j \<noteq> None) [i..<i + Suc n] = Some i"
      using Some by (simp only: upt find.simps) simp
    ultimately show ?thesis using Some by (simp only: option.case) simp
  qed
qed simp

text \<open>
  \<open>client_addr\<close> gives up after 100 reads without an address and has slept 50 seconds by then,
  not the 10 seconds of its comment.
\<close>

theorem client_addr_gives_up:
  "(\<forall>i<100. Option.bind (reads i) client_re = None) \<Longrightarrow> client_addr client_re reads = (None, 50000)"
  by (simp add: client_addr_def client_addr_loop_conv split: option.split)
    (auto simp: find_None_iff)

theorem client_addr_finds:
  assumes "i < 100" "Option.bind (reads i) client_re = Some addr"
    and "\<forall>j<i. Option.bind (reads j) client_re = None"
  shows "client_addr client_re reads = (Some (localhost_of addr), 500 * i)"
proof -
  have "find (\<lambda>j. Option.bind (reads j) client_re \<noteq> None) [0..<100] = Some i"
    using assms by (subst find_Some_iff) (auto intro!: exI [of _ i])
  then show ?thesis using assms(2) by (simp add: client_addr_def client_addr_loop_conv)
qed


section \<open>Nothing is left behind\<close>

lemma do_run_ok:
  assumes "do_run fresh cfg port i h = (Inr s, h')"
  shows "ns_cfg s = cfg \<and> ns_port s = port \<and> ns_id s = (case i of Some x \<Rightarrow> x | None \<Rightarrow> fresh) \<and>
    ns_child s = hs_next_pid h \<and> ns_logfile s = log_file (hs_temp_dir h) (ns_id s) \<and>
    ns_pidfile s = pid_file (hs_temp_dir h) (ns_id s) \<and> \<not> ns_keep_logs s \<and>
    h' = h\<lparr>hs_processes := hs_processes h @
        [(ns_child s, server_arguments (hs_temp_dir h) cfg port (ns_id s))],
      hs_next_pid := Suc (hs_next_pid h)\<rparr>"
  using assms by (auto simp: do_run_def spawn_command_def Let_def split: option.splits)

lemma kill_child_others:
  "list_all (\<lambda>(p, args). p \<noteq> pid) ps \<Longrightarrow>
   hs_processes (kill_child pid (h\<lparr>hs_processes := ps @ [(pid, args)]\<rparr>)) = ps"
  by (auto simp: kill_child_def list_all_iff filter_id_conv)

text \<open>
  The state in which a server \<open>s\<close> runs beside the processes \<open>ps\<close>: one child more, which no
  other process number equals.
\<close>

definition running_beside :: "(nat \<times> string list) list \<Rightarrow> nats_process \<Rightarrow> host \<Rightarrow> bool" where
  "running_beside ps s h \<longleftrightarrow>
     (\<exists>args. hs_processes h = ps @ [(ns_child s, args)]) \<and>
     list_all (\<lambda>(p, args). p \<noteq> ns_child s) ps \<and> host_wf h \<and>
     ns_logfile s = log_file (hs_temp_dir h) (ns_id s) \<and>
     ns_pidfile s = pid_file (hs_temp_dir h) (ns_id s)"

lemma do_run_beside:
  assumes "do_run fresh cfg port i h = (Inr s, h')" "host_wf h"
  shows "running_beside (hs_processes h) s h'"
  using assms(2) do_run_ok [OF assms(1)]
  by (auto simp: running_beside_def host_wf_def list_all_iff)

lemma running_beside_killed:
  assumes "running_beside ps s h"
  shows "hs_processes (kill_child (ns_child s) h) = ps" "host_wf (kill_child (ns_child s) h)"
  using assms by (auto simp: running_beside_def kill_child_def host_wf_def list_all_iff filter_id_conv)

lemma restart_beside:
  assumes "running_beside ps s h" "restart_server port s h = Some (s', h')"
  shows "running_beside ps s' h' \<and> ns_cfg s' = ns_cfg s \<and> ns_id s' = ns_id s \<and>
    ns_keep_logs s' = ns_keep_logs s \<and> hs_temp_dir h' = hs_temp_dir h \<and> hs_files h' = hs_files h \<and>
    ns_port s' = (case ns_port s of Some p \<Rightarrow> Some p | None \<Rightarrow> map_option show_nat port)"
proof -
  let ?h = "kill_child (ns_child s) h"
  note killed = running_beside_killed [OF assms(1)]
  obtain p where port: "(case ns_port s of Some p \<Rightarrow> Some p | None \<Rightarrow> map_option show_nat port) = Some p"
    using assms(2) by (auto simp: restart_server_def bind_eq_Some_conv)
  obtain inner where p: "do_run [] (ns_cfg s) (Some p) (Some (ns_id s)) ?h = (Inr inner, h')"
    "s' = inner\<lparr>ns_keep_logs := ns_keep_logs s\<rparr>"
    using assms(2) port
    by (cases "do_run [] (ns_cfg s) (Some p) (Some (ns_id s)) ?h")
      (auto simp: restart_server_def split: sum.splits)
  have same: "hs_temp_dir ?h = hs_temp_dir h" "hs_files ?h = hs_files h"
    by (simp_all add: kill_child_def)
  have "running_beside ps inner h'"
    using do_run_beside [OF p(1) killed(2)] killed(1) by simp
  then show ?thesis
    using do_run_ok [OF p(1)] p(2) port same killed(1) by (simp add: running_beside_def)
qed

lemma beneath_prefix: "beneath dir path \<longleftrightarrow> path = dir \<or> prefix (path_join dir []) path"
  by (auto simp: beneath_def prefix_def) (metis append_take_drop_id)

text \<open>A sequence of restarts, each with the port that the server would report.\<close>

fun restart_all :: "nat option list \<Rightarrow> nats_process \<Rightarrow> host \<Rightarrow> (nats_process \<times> host) option" where
  "restart_all [] s h = Some (s, h)"
| "restart_all (port # ports) s h =
     Option.bind (restart_server port s h) (\<lambda>(s, h). restart_all ports s h)"

lemma restart_all_beside:
  "running_beside ps s h \<Longrightarrow> restart_all ports s h = Some (s', h') \<Longrightarrow>
   running_beside ps s' h' \<and> ns_cfg s' = ns_cfg s \<and> ns_id s' = ns_id s \<and>
   ns_keep_logs s' = ns_keep_logs s \<and> hs_temp_dir h' = hs_temp_dir h"
proof (induction ports arbitrary: s h)
  case (Cons port ports)
  then obtain s1 h1 where "restart_server port s h = Some (s1, h1)"
    "restart_all ports s1 h1 = Some (s', h')"
    by (auto simp: bind_eq_Some_conv)
  then show ?case using restart_beside [OF Cons.prems(1)] Cons.IH by metis
qed simp

lemma drop_server_processes [simp]:
  "hs_processes (drop_server sd_re s h) = hs_processes (kill_child (ns_child s) h)"
  by (simp add: drop_server_def Let_def remove_file_def remove_dir_all_def split: option.split)

text \<open>
  C18: a test server leaves nothing behind.  Start a server on a host, restart it any number of
  times, let it write whatever files it wants, and drop it: exactly the processes that ran
  before are running, the pid file is gone, the log file is gone unless its preservation was
  requested, and the JetStream storage directory that the log names is gone with everything in
  it; all other files and directories are as the server left them.  So a server whose files are
  these and the content of its storage directory leaves none of them but a preserved log.
  All restarts keep the configuration and the identity.
\<close>

theorem server_leaves_nothing_behind:
  fixes sd_re :: "string \<Rightarrow> string option"
  assumes "run_server_with_port fresh cfg port h = Some (s0, h0)" "host_wf h"
    and "restart_all ports (preserve_logs keep s0) h0 = Some (s, h1)"
    and "h2 = h1\<lparr>hs_files := files, hs_dirs := dirs\<rparr>"
  defines "storage \<equiv> (\<lambda>path. case Option.bind (files (log_file (hs_temp_dir h) fresh)) sd_re of
      Some sd \<Rightarrow> sd \<in> dirs \<and> (path = sd \<or> prefix (path_join sd []) path) | None \<Rightarrow> False)"
  shows "ns_cfg s = cfg \<and> ns_id s = fresh \<and>
    hs_processes (drop_server sd_re s h2) = hs_processes h \<and>
    hs_files (drop_server sd_re s h2) = (\<lambda>path.
      if path = pid_file (hs_temp_dir h) fresh \<or> \<not> keep \<and> path = log_file (hs_temp_dir h) fresh \<or>
        storage path
      then None else files path) \<and>
    hs_dirs (drop_server sd_re s h2) = {d \<in> dirs. \<not> storage d} \<and>
    ((\<forall>path. files path \<noteq> hs_files h path \<longrightarrow> storage path \<or>
        path = pid_file (hs_temp_dir h) fresh \<or> path = log_file (hs_temp_dir h) fresh) \<longrightarrow>
     (\<forall>path content. hs_files (drop_server sd_re s h2) path = Some content \<longrightarrow>
        hs_files h path = Some content \<or> keep \<and> path = log_file (hs_temp_dir h) fresh))"
proof -
  have run: "do_run fresh cfg port None h = (Inr s0, h0)"
    using assms(1) by (auto simp: run_server_with_port_def try_run_server_with_port_def
        split: prod.splits sum.splits)
  note ok = do_run_ok [OF run]
  have "running_beside (hs_processes h) (preserve_logs keep s0) h0"
    using do_run_beside [OF run assms(2)] by (simp add: running_beside_def preserve_logs_def)
  note r = restart_all_beside [OF this assms(3)]
  have s: "ns_cfg s = cfg" "ns_id s = fresh" "ns_keep_logs s = keep"
    "ns_logfile s = log_file (hs_temp_dir h) fresh" "ns_pidfile s = pid_file (hs_temp_dir h) fresh"
    using r ok by (auto simp: preserve_logs_def running_beside_def)
  have "running_beside (hs_processes h) s h2"
    using r by (simp add: running_beside_def host_wf_def assms(4))
  note killed = running_beside_killed(1) [OF this]
  have parts: "hs_files (kill_child (ns_child s) h2) = files" "hs_dirs (kill_child (ns_child s) h2) = dirs"
    by (simp_all add: kill_child_def assms(4))
  have files: "hs_files (drop_server sd_re s h2) = (\<lambda>path.
      if path = pid_file (hs_temp_dir h) fresh \<or> \<not> keep \<and> path = log_file (hs_temp_dir h) fresh \<or>
        storage path
      then None else files path)"
    using s parts
    by (auto simp: drop_server_def Let_def remove_file_def remove_dir_all_def beneath_prefix
        storage_def fun_eq_iff split: option.splits)
  have dirs: "hs_dirs (drop_server sd_re s h2) = {d \<in> dirs. \<not> storage d}"
    using s parts
    by (auto simp: drop_server_def Let_def remove_file_def remove_dir_all_def beneath_prefix
        storage_def split: option.splits)
  have left: "hs_files h path = Some content \<or> keep \<and> path = log_file (hs_temp_dir h) fresh"
    if written: "\<forall>path. files path \<noteq> hs_files h path \<longrightarrow> storage path \<or>
        path = pid_file (hs_temp_dir h) fresh \<or> path = log_file (hs_temp_dir h) fresh"
      and left: "hs_files (drop_server sd_re s h2) path = Some content" for path content
  proof -
    have "files path = Some content" "path \<noteq> pid_file (hs_temp_dir h) fresh" "\<not> storage path"
      "path = log_file (hs_temp_dir h) fresh \<longrightarrow> keep"
      using left unfolding files by (auto split: if_splits)
    then show ?thesis using written by metis
  qed
  show ?thesis
    unfolding drop_server_processes
    by (intro conjI allI impI s killed files dirs) (rule left)
qed

definition demo_host :: host where
  "demo_host =
     \<lparr>hs_temp_dir = ''/tmp'', hs_spawn_error = None, hs_processes = [(1, [''init''])],
      hs_next_pid = 2, hs_files = Map.empty, hs_dirs = {}\<rparr>"

text \<open>The files a JetStream server has written, beside one that was there before.\<close>

definition demo_written :: "string \<rightharpoonup> string" where
  "demo_written = [''/etc/hosts'' \<mapsto> ''h'', log_file ''/tmp'' ''x'' \<mapsto> ''log'', pid_file ''/tmp'' ''x'' \<mapsto> ''2'',
     ''/tmp/store/jetstream/a'' \<mapsto> ''m'']"

theorem server_leaves_nothing_behind_witness:
  "\<exists>s0 h0 s h1 h2. run_server_with_port ''x'' [] None (demo_host\<lparr>hs_files := [''/etc/hosts'' \<mapsto> ''h'']\<rparr>) =
       Some (s0, h0) \<and>
     restart_all [Some 4222] (preserve_logs False s0) h0 = Some (s, h1) \<and>
     h2 = h1\<lparr>hs_files := demo_written, hs_dirs := {''/tmp'', ''/tmp/store'', ''/tmp/store/jetstream''}\<rparr> \<and>
     length (hs_processes h2) = 2 \<and>
     hs_processes (drop_server (\<lambda>_. Some ''/tmp/store'') s h2) = [(1, [''init''])] \<and>
     hs_files (drop_server (\<lambda>_. Some ''/tmp/store'') s h2) = [''/etc/hosts'' \<mapsto> ''h''] \<and>
     hs_dirs (drop_server (\<lambda>_. Some ''/tmp/store'') s h2) = {''/tmp''}"
proof -
  let ?h = "demo_host\<lparr>hs_files := [''/etc/hosts'' \<mapsto> ''h'']\<rparr>"
  have wf: "host_wf ?h" by (simp add: host_wf_def demo_host_def)
  obtain s0 h0 where run: "run_server_with_port ''x'' [] None ?h = Some (s0, h0)"
    by (simp add: run_server_with_port_def try_run_server_with_port_def do_run_def Let_def
        spawn_command_def demo_host_def)
  moreover from this have restart: "\<exists>s h1. restart_all [Some 4222] (preserve_logs False s0) h0 = Some (s, h1) \<and>
      length (hs_processes h1) = 2"
    by (auto simp: run_server_with_port_def try_run_server_with_port_def do_run_def Let_def
        spawn_command_def demo_host_def restart_server_def preserve_logs_def kill_child_def)
  moreover obtain s h1 where s: "restart_all [Some 4222] (preserve_logs False s0) h0 = Some (s, h1)"
    "length (hs_processes h1) = 2"
    using restart by blast
  moreover have names: "log_file (hs_temp_dir ?h) ''x'' = ''/tmp/nats-server-x.log''"
    "pid_file (hs_temp_dir ?h) ''x'' = ''/tmp/nats-server-x.pid''"
    "demo_written ''/tmp/nats-server-x.log'' = Some ''log''" "path_join ''/tmp/store'' [] = ''/tmp/store/''"
    by (simp_all add: demo_host_def demo_written_def log_file_def pid_file_def path_join_def)
  moreover have "(if path = ''/tmp/nats-server-x.pid'' \<or> path = ''/tmp/nats-server-x.log'' \<or>
      path = ''/tmp/store'' \<or> prefix ''/tmp/store/'' path then None else demo_written path) =
      [''/etc/hosts'' \<mapsto> ''h''] path" for path
    by (cases "path \<in> {''/etc/hosts'', ''/tmp/store/jetstream/a''}")
      (auto simp: demo_written_def log_file_def pid_file_def path_join_def prefix_def)
  moreover have "{d \<in> {''/tmp'', ''/tmp/store'', ''/tmp/store/jetstream''}.
      \<not> (d = ''/tmp/store'' \<or> prefix ''/tmp/store/'' d)} = {''/tmp''}"
    by (auto simp: prefix_def)
  moreover note server_leaves_nothing_behind [OF run wf s(1) refl, where sd_re = "\<lambda>_. Some ''/tmp/store''"
        and files = demo_written and dirs = "{''/tmp'', ''/tmp/store'', ''/tmp/store/jetstream''}"]
  ultimately show ?thesis
    by (intro exI conjI) (assumption | rule refl | simp add: demo_host_def fun_eq_iff)+
qed

section \<open>Ports of a cluster\<close>

text \<open>The ports a cluster uses are free, and so are the ports of its routes.\<close>

lemma pick_port_available:
  "pick_port available p draws = Some (q, rest) \<Longrightarrow> available q \<and> available (q + 1)"
  by (induction available p draws rule: pick_port.induct) (auto split: if_splits)

text \<open>
  The three searches do not look at each other: two nodes may be given the same port, because
  neither is in use while the ports are drawn.
\<close>

theorem cluster_ports_may_coincide:
  "cluster_ports (\<lambda>p. p = 5000 \<or> p = 5001) 4000 [5000, 5000, 5000] = Some [5000, 5000, 5000]"
  by (simp add: cluster_ports_def)

end
