(* ===== verification/Runtime_Start.thy ===== *)
theory Runtime_Start
  imports Generated_Service Supervisor
begin

text \<open>
  The runtime while it starts services (\<open>nats-micro/src/app/typed_runtime.rs\<close>, the \<open>start\<close>
  functions of \<open>app/services.rs\<close> and of the generated services).  The NATS server is the
  parameter \<open>server_ops\<close>: it answers each call, given the calls before it, with a result or
  not at all (\<open>None\<close>, so that the caller's timeout strikes).  Errors are their texts.
\<close>

section \<open>The server\<close>

datatype ack_policy = AckExplicit

record consumer_config =
  pc_durable_name :: "string option"
  pc_deliver_subject :: string
  pc_filter_subject :: string
  pc_ack_policy :: ack_policy
  pc_ack_wait :: duration
  pc_max_deliver :: int
  pc_backoff :: "duration list"

datatype server_call =
    StartService string string string
  | AddEndpoint string string "string option" string
  | QueueSubscribe string string
  | CoreSubscribe string
  | GetStream string
  | GetOrCreateConsumer string string consumer_config
  | ConsumerMessages string string

record server_ops =
  so_answer :: "server_call list \<Rightarrow> server_call \<Rightarrow> (string + unit) option"
  so_new_inbox :: "server_call list \<Rightarrow> string"

section \<open>The runtime\<close>

datatype 'k worker_task =
    RequestTask operation_spec
  | EncryptedRequestTask operation_spec 'k
  | SubscriptionTask operation_spec
  | ConsumerTask consumer_spec

text \<open>A spawned worker: what its supervisor captured.\<close>

record 'k worker =
  wk_task :: "'k worker_task"
  wk_concurrency :: nat
  wk_panic_policy :: handler_panic_policy
  wk_failure_policy :: worker_failure_policy
  wk_telemetry :: "telemetry_config option"

text \<open>
  \<open>rn_calls\<close> are the calls made through the client, \<open>rn_channel\<close> what the shutdown channel
  holds; the shutdown hook is the result its call has.
\<close>

record 'k runtime =
  rn_calls :: "server_call list"
  rn_config :: app_config
  rn_channel :: shutdown_state
  rn_services :: "service_spec list"
  rn_workers :: "'k worker list"
  rn_shutdown_hook :: "(string + unit) option"
  rn_encryption :: "'k option"
  rn_telemetry :: "telemetry_config option"

definition runtime_new :: "app_config \<Rightarrow> 'k runtime" where
  "runtime_new config =
     \<lparr>rn_calls = [], rn_config = config,
      rn_channel = shutdown_running (Some (ac_shutdown_drain_timeout config)),
      rn_services = [], rn_workers = [], rn_shutdown_hook = None, rn_encryption = None,
      rn_telemetry = None\<rparr>"

definition set_shutdown_hook :: "(string + unit) option \<Rightarrow> 'k runtime \<Rightarrow> 'k runtime" where
  "set_shutdown_hook hook R = R\<lparr>rn_shutdown_hook := hook\<rparr>"

definition set_encryption_key :: "'k option \<Rightarrow> 'k runtime \<Rightarrow> 'k runtime" where
  "set_encryption_key keypair R = R\<lparr>rn_encryption := keypair\<rparr>"

text \<open>\<open>layer\<close>: whether a telemetry layer is installed.\<close>

definition set_telemetry_layer :: "bool \<Rightarrow> 'k runtime \<Rightarrow> 'k runtime" where
  "set_telemetry_layer layer R =
     R\<lparr>rn_telemetry := (if layer then Some (ac_telemetry (rn_config R)) else None)\<rparr>"

text \<open>
  An asynchronous step that may fail or be cut off by a timeout (\<open>None\<close>); either way the
  runtime keeps what was done so far.
\<close>

type_synonym 'k start_step = "'k runtime \<Rightarrow> (string + unit) option \<times> 'k runtime"

definition done_with :: "'k runtime \<Rightarrow> (string + unit) option \<times> 'k runtime" where
  "done_with R = (Some (Inr ()), R)"

definition fail_with :: "string \<Rightarrow> 'k start_step" where
  "fail_with e R = (Some (Inl e), R)"

definition step_then :: "(string + unit) option \<times> 'k runtime \<Rightarrow> 'k start_step \<Rightarrow>
    (string + unit) option \<times> 'k runtime" where
  "step_then r f = (if fst r = Some (Inr ()) then f (snd r) else r)"

definition call_server :: "server_ops \<Rightarrow> server_call \<Rightarrow> 'k start_step" where
  "call_server N c R = (so_answer N (rn_calls R) c, R\<lparr>rn_calls := rn_calls R @ [c]\<rparr>)"

definition start_service :: "server_ops \<Rightarrow> service_spec \<Rightarrow> 'k start_step" where
  "start_service N spec R =
     step_then (call_server N (StartService (ss_description spec) (ss_name spec) (ss_version spec)) R)
       (\<lambda>R. done_with (R\<lparr>rn_services := rn_services R @ [spec]\<rparr>))"

definition push_worker :: "'k worker_task \<Rightarrow> nat \<Rightarrow> 'k runtime \<Rightarrow> 'k runtime" where
  "push_worker task declared R =
     R\<lparr>rn_workers := rn_workers R @
        [\<lparr>wk_task = task, wk_concurrency = effective_concurrency (rn_config R) declared,
          wk_panic_policy = ac_handler_panic (rn_config R),
          wk_failure_policy = ac_worker_failure (rn_config R), wk_telemetry = rn_telemetry R\<rparr>]\<rparr>"

definition register_request :: "server_ops \<Rightarrow> service_spec \<Rightarrow> operation_spec \<Rightarrow> 'k start_step" where
  "register_request N service spec =
     call_server N (AddEndpoint (ss_name service) (os_rust_name spec) (os_queue_group spec)
       (os_subject spec))"

definition spawn_request :: "server_ops \<Rightarrow> operation_spec \<Rightarrow> 'k start_step" where
  "spawn_request N spec R =
     (if rn_services R = [] then fail_with ''request endpoint started before its service'' R
      else step_then (register_request N (last (rn_services R)) spec R)
        (\<lambda>R. done_with (push_worker (RequestTask spec) (os_concurrency spec) R)))"

definition spawn_encrypted_request :: "server_ops \<Rightarrow> operation_spec \<Rightarrow> 'k start_step" where
  "spawn_encrypted_request N spec R =
     (if rn_services R = []
      then fail_with ''encrypted request endpoint started before its service'' R
      else step_then (register_request N (last (rn_services R)) spec R)
        (\<lambda>R. case rn_encryption R of
             None \<Rightarrow> fail_with (''service `'' @ os_rust_name spec @
               ''` declares encrypted operations but App has no encryption key'') R
           | Some keypair \<Rightarrow>
               done_with (push_worker (EncryptedRequestTask spec keypair) (os_concurrency spec) R)))"

definition spawn_subscription :: "server_ops \<Rightarrow> operation_spec \<Rightarrow> 'k start_step" where
  "spawn_subscription N spec R =
     step_then (call_server N (case os_queue_group spec of
          Some queue \<Rightarrow> QueueSubscribe (os_subject spec) queue
        | None \<Rightarrow> CoreSubscribe (os_subject spec)) R)
       (\<lambda>R. done_with (push_worker (SubscriptionTask spec) (os_concurrency spec) R))"

definition consumer_config_of :: "consumer_spec \<Rightarrow> string \<Rightarrow> consumer_config" where
  "consumer_config_of spec inbox =
     \<lparr>pc_durable_name = Some (cs_durable spec), pc_deliver_subject = inbox,
      pc_filter_subject = cs_filter_subject spec, pc_ack_policy = AckExplicit,
      pc_ack_wait = from_millis (cs_ack_wait_ms spec), pc_max_deliver = cs_max_deliver spec,
      pc_backoff = map from_millis (cs_backoff_ms spec)\<rparr>"

definition bind_consumer :: "server_ops \<Rightarrow> consumer_spec \<Rightarrow> 'k start_step" where
  "bind_consumer N spec R =
     step_then (call_server N (GetStream (cs_stream spec)) R) (\<lambda>R.
     step_then (call_server N (GetOrCreateConsumer (cs_stream spec) (cs_durable spec)
          (consumer_config_of spec (so_new_inbox N (rn_calls R)))) R)
       (call_server N (ConsumerMessages (cs_stream spec) (cs_durable spec))))"

definition spawn_consumer :: "server_ops \<Rightarrow> consumer_spec \<Rightarrow> 'k start_step" where
  "spawn_consumer N spec R =
     step_then (bind_consumer N spec R)
       (\<lambda>R. done_with (push_worker (ConsumerTask spec) (cs_concurrency spec) R))"

section \<open>Starting services\<close>

text \<open>The body of a generated \<open>start\<close>: its spec and the spawning calls in order.\<close>

datatype spawn =
    DoRequest operation_spec
  | DoEncryptedRequest operation_spec
  | DoSubscription operation_spec
  | DoConsumer consumer_spec

record service_code =
  sc_spec :: service_spec
  sc_spawns :: "spawn list"

primrec run_spawn :: "server_ops \<Rightarrow> spawn \<Rightarrow> 'k start_step" where
  "run_spawn N (DoRequest spec) = spawn_request N spec"
| "run_spawn N (DoEncryptedRequest spec) = spawn_encrypted_request N spec"
| "run_spawn N (DoSubscription spec) = spawn_subscription N spec"
| "run_spawn N (DoConsumer spec) = spawn_consumer N spec"

fun run_spawns :: "server_ops \<Rightarrow> spawn list \<Rightarrow> 'k start_step" where
  "run_spawns N [] R = done_with R"
| "run_spawns N (s # rest) R = step_then (run_spawn N s R) (run_spawns N rest)"

definition service_start :: "server_ops \<Rightarrow> service_code \<Rightarrow> 'k start_step" where
  "service_start N code R =
     step_then (start_service N (sc_spec code) R) (run_spawns N (sc_spawns code))"

fun start_all :: "server_ops \<Rightarrow> service_code list \<Rightarrow> 'k start_step" where
  "start_all N [] R = done_with R"
| "start_all N (head # tail) R = step_then (service_start N head R) (start_all N tail)"

text \<open>The \<open>start\<close> that the macro generates for a service model.\<close>

primrec spawn_of_starter :: "'tok syn_ops \<Rightarrow> string \<Rightarrow> string \<Rightarrow> 'tok starter \<Rightarrow> spawn" where
  "spawn_of_starter X n v (SpawnRequest op) = DoRequest (spec_of_operation X op n v)"
| "spawn_of_starter X n v (SpawnEncryptedRequest op) =
     DoEncryptedRequest (spec_of_operation X op n v)"
| "spawn_of_starter X n v (SpawnSubscription op) = DoSubscription (spec_of_operation X op n v)"
| "spawn_of_starter X n v (SpawnConsumer op) = DoConsumer (spec_of_consumer op n v)"

definition code_of_model :: "'tok syn_ops \<Rightarrow> 'tok service_model \<Rightarrow> service_code" where
  "code_of_model X m =
     (let spec = spec_of_service X m
      in \<lparr>sc_spec = spec,
          sc_spawns = map (spawn_of_starter X (ss_name spec) (ss_version spec))
            (generated_starters m)\<rparr>)"

section \<open>What a start leaves behind\<close>

lemma step_then_eq_ok:
  "step_then r f = (Some (Inr ()), R') \<longleftrightarrow>
     (\<exists>R. r = (Some (Inr ()), R) \<and> f R = (Some (Inr ()), R'))"
  by (cases r) (auto simp: step_then_def)

lemma done_with_eq [simp]: "done_with R = (r, R') \<longleftrightarrow> r = Some (Inr ()) \<and> R' = R"
  by (auto simp: done_with_def)

lemma fail_with_eq [simp]: "fail_with e R = (r, R') \<longleftrightarrow> r = Some (Inl e) \<and> R' = R"
  by (auto simp: fail_with_def)

lemmas start_defs = start_service_def register_request_def spawn_request_def
  spawn_encrypted_request_def spawn_subscription_def bind_consumer_def spawn_consumer_def
  push_worker_def

text \<open>No step touches the configuration, the key, telemetry, the hook or the channel.\<close>

definition same_setup :: "'k runtime \<Rightarrow> 'k runtime \<Rightarrow> bool" where
  "same_setup R R' \<longleftrightarrow>
     rn_config R' = rn_config R \<and> rn_channel R' = rn_channel R \<and>
     rn_shutdown_hook R' = rn_shutdown_hook R \<and> rn_encryption R' = rn_encryption R \<and>
     rn_telemetry R' = rn_telemetry R"

lemma same_setup_refl [simp]: "same_setup R R"
  by (simp add: same_setup_def)

lemma same_setup_trans: "same_setup R S \<Longrightarrow> same_setup S T \<Longrightarrow> same_setup R T"
  by (simp add: same_setup_def)

lemma same_setup_step_then:
  "same_setup R (snd r) \<Longrightarrow> (\<And>S. same_setup S (snd (f S))) \<Longrightarrow> same_setup R (snd (step_then r f))"
  by (auto simp: step_then_def intro: same_setup_trans)

lemma same_setup_simple [simp]:
  "same_setup R (snd (done_with R))" "same_setup R (snd (fail_with e R))"
  "same_setup R (snd (call_server N c R))" "same_setup R (push_worker task n R)"
  "same_setup R (snd (done_with (push_worker task n R)))"
  "same_setup R (snd (done_with (R\<lparr>rn_services := ss\<rparr>)))"
  by (simp_all add: same_setup_def done_with_def fail_with_def call_server_def push_worker_def)

lemma same_setup_run_spawn: "same_setup R (snd (run_spawn N s R))"
  by (cases s) (auto simp: spawn_request_def spawn_encrypted_request_def spawn_subscription_def
      bind_consumer_def spawn_consumer_def register_request_def
      intro!: same_setup_step_then split: option.split)

lemma same_setup_run_spawns: "same_setup R (snd (run_spawns N ss R))"
  by (induction N ss R rule: run_spawns.induct)
    (auto intro!: same_setup_step_then same_setup_run_spawn simp: step_then_def
      intro: same_setup_trans same_setup_run_spawn)

lemma same_setup_start_all: "same_setup R (snd (start_all N codes R))"
proof (induction codes arbitrary: R)
  case (Cons c codes)
  have "same_setup R (snd (service_start N c R))"
    by (auto simp: service_start_def start_service_def
        intro!: same_setup_step_then same_setup_run_spawns)
  then show ?case using Cons.IH by (auto intro: same_setup_step_then)
qed simp

text \<open>The worker a successful spawn adds.\<close>

primrec spawn_task :: "'k option \<Rightarrow> spawn \<Rightarrow> 'k worker_task" where
  "spawn_task key (DoRequest spec) = RequestTask spec"
| "spawn_task key (DoEncryptedRequest spec) = EncryptedRequestTask spec (the key)"
| "spawn_task key (DoSubscription spec) = SubscriptionTask spec"
| "spawn_task key (DoConsumer spec) = ConsumerTask spec"

primrec spawn_concurrency :: "spawn \<Rightarrow> nat" where
  "spawn_concurrency (DoRequest spec) = os_concurrency spec"
| "spawn_concurrency (DoEncryptedRequest spec) = os_concurrency spec"
| "spawn_concurrency (DoSubscription spec) = os_concurrency spec"
| "spawn_concurrency (DoConsumer spec) = cs_concurrency spec"

definition spawned_worker :: "'k runtime \<Rightarrow> spawn \<Rightarrow> 'k worker" where
  "spawned_worker R s =
     \<lparr>wk_task = spawn_task (rn_encryption R) s,
      wk_concurrency = effective_concurrency (rn_config R) (spawn_concurrency s),
      wk_panic_policy = ac_handler_panic (rn_config R),
      wk_failure_policy = ac_worker_failure (rn_config R), wk_telemetry = rn_telemetry R\<rparr>"

lemma spawned_worker_setup: "same_setup R S \<Longrightarrow> spawned_worker S = spawned_worker R"
  by (simp add: fun_eq_iff same_setup_def spawned_worker_def)

definition needs_key :: "spawn \<Rightarrow> bool" where
  "needs_key s = (case s of DoEncryptedRequest _ \<Rightarrow> True | _ \<Rightarrow> False)"

lemma run_spawn_ok:
  assumes "run_spawn N s R = (Some (Inr ()), R')"
  shows "rn_workers R' = rn_workers R @ [spawned_worker R s] \<and> rn_services R' = rn_services R \<and>
    (needs_key s \<longrightarrow> rn_encryption R \<noteq> None) \<and> same_setup R R'"
proof -
  have "rn_workers R' = rn_workers R @ [spawned_worker R s] \<and> rn_services R' = rn_services R \<and>
      (needs_key s \<longrightarrow> rn_encryption R \<noteq> None)"
    using assms
    by (cases s) (auto simp: start_defs step_then_eq_ok call_server_def spawned_worker_def
        needs_key_def split: if_splits option.splits)
  then show ?thesis using same_setup_run_spawn [of R N s] assms by simp
qed

lemma run_spawns_ok:
  "run_spawns N ss R = (Some (Inr ()), R') \<Longrightarrow>
   rn_workers R' = rn_workers R @ map (spawned_worker R) ss \<and> rn_services R' = rn_services R \<and>
   (list_ex needs_key ss \<longrightarrow> rn_encryption R \<noteq> None) \<and> same_setup R R'"
proof (induction ss arbitrary: R)
  case (Cons s ss)
  then obtain S where S: "run_spawn N s R = (Some (Inr ()), S)"
    "run_spawns N ss S = (Some (Inr ()), R')" by (auto simp: step_then_eq_ok)
  have "rn_encryption S = rn_encryption R" using run_spawn_ok [OF S(1)] by (simp add: same_setup_def)
  then show ?case
    using run_spawn_ok [OF S(1)] Cons.IH [OF S(2)] spawned_worker_setup [of R S] same_setup_trans
    by auto
qed simp

lemma start_all_ok:
  "start_all N codes R = (Some (Inr ()), R') \<Longrightarrow>
   rn_workers R' = rn_workers R @ map (spawned_worker R) (concat (map sc_spawns codes)) \<and>
   rn_services R' = rn_services R @ map sc_spec codes \<and>
   (list_ex needs_key (concat (map sc_spawns codes)) \<longrightarrow> rn_encryption R \<noteq> None)"
proof (induction codes arbitrary: R)
  case (Cons c codes)
  then obtain S S' where S: "start_service N (sc_spec c) R = (Some (Inr ()), S)"
    "run_spawns N (sc_spawns c) S = (Some (Inr ()), S')"
    "start_all N codes S' = (Some (Inr ()), R')" by (auto simp: step_then_eq_ok service_start_def)
  have s: "rn_workers S = rn_workers R" "rn_services S = rn_services R @ [sc_spec c]" "same_setup R S"
    using S(1) by (auto simp: start_service_def step_then_eq_ok call_server_def same_setup_def)
  note s' = run_spawns_ok [OF S(2)]
  have "same_setup R S'" using s(3) s' same_setup_trans by blast
  then have "spawned_worker S' = spawned_worker R" "spawned_worker S = spawned_worker R"
    "rn_encryption S' = rn_encryption R" "rn_encryption S = rn_encryption R"
    using spawned_worker_setup s(3) by (auto simp: same_setup_def)
  then show ?case using s s' Cons.IH [OF S(3)] by auto
qed simp

text \<open>However a start ends, it added at most one worker per spawn.\<close>

lemma run_spawn_workers: "length (rn_workers (snd (run_spawn N s R))) \<le> Suc (length (rn_workers R))"
  by (cases s) (auto simp: start_defs step_then_def call_server_def done_with_def fail_with_def
      split: option.split)

lemma run_spawns_workers:
  "length (rn_workers (snd (run_spawns N ss R))) \<le> length (rn_workers R) + length ss"
proof (induction ss arbitrary: R)
  case (Cons s ss)
  show ?case using run_spawn_workers [of N s R] Cons.IH [of "snd (run_spawn N s R)"]
    by (auto simp: step_then_def)
qed (simp add: done_with_def)

lemma start_all_workers:
  "length (rn_workers (snd (start_all N codes R))) \<le>
     length (rn_workers R) + length (concat (map sc_spawns codes))"
proof (induction codes arbitrary: R)
  case (Cons c codes)
  have "rn_workers (snd (start_service N (sc_spec c) R)) = rn_workers R"
    by (simp add: start_service_def step_then_def call_server_def done_with_def)
  then have "length (rn_workers (snd (service_start N c R))) \<le> length (rn_workers R) + length (sc_spawns c)"
    using run_spawns_workers [of N "sc_spawns c" "snd (start_service N (sc_spec c) R)"]
    by (simp add: service_start_def step_then_def)
  then show ?case using Cons.IH [of "snd (service_start N c R)"] by (auto simp: step_then_def)
qed (simp add: done_with_def)

section \<open>Generated services\<close>

lemma code_of_model_spec [simp]: "sc_spec (code_of_model X m) = spec_of_service X m"
  by (simp add: code_of_model_def Let_def)

text \<open>The operation or consumer a worker serves.\<close>

primrec task_operation :: "'k worker_task \<Rightarrow> operation_spec option" where
  "task_operation (RequestTask spec) = Some spec"
| "task_operation (EncryptedRequestTask spec k) = Some spec"
| "task_operation (SubscriptionTask spec) = Some spec"
| "task_operation (ConsumerTask spec) = None"

primrec task_consumer :: "'k worker_task \<Rightarrow> consumer_spec option" where
  "task_consumer (RequestTask spec) = None"
| "task_consumer (EncryptedRequestTask spec k) = None"
| "task_consumer (SubscriptionTask spec) = None"
| "task_consumer (ConsumerTask spec) = Some spec"

lemma map_filter_concat:
  "List.map_filter f (concat xss) = concat (map (List.map_filter f) xss)"
  by (induction xss) (simp_all add: map_filter_def)

lemma served_by_starters:
  "List.map_filter task_operation (map (spawn_task key \<circ> spawn_of_starter X n v)
       (List.map_filter operation_starter ops)) =
     filter (\<lambda>s. os_kind s \<noteq> KPublish)
       (map (\<lambda>op. spec_of_operation X op n v) (filter (\<lambda>op. om_kind op \<noteq> MConsumer) ops))"
  "List.map_filter task_consumer (map (spawn_task key \<circ> spawn_of_starter X n v)
       (List.map_filter operation_starter ops)) =
     map (\<lambda>op. spec_of_consumer op n v) (filter (\<lambda>op. om_kind op = MConsumer) ops)"
  by (induction ops)
    (auto simp: map_filter_def operation_starter_def spec_of_operation_def split: macro_kind.split)

text \<open>Encrypted requests, and only those, are served with the key.\<close>

definition served_with :: "'k option \<Rightarrow> 'k worker_task \<Rightarrow> bool" where
  "served_with key task \<longleftrightarrow>
     (case task of
        RequestTask spec \<Rightarrow> \<not> os_request_encrypted spec \<and> \<not> os_response_encrypted spec
      | EncryptedRequestTask spec k \<Rightarrow>
          (os_request_encrypted spec \<or> os_response_encrypted spec) \<and> key = Some k
      | _ \<Rightarrow> True)"

lemma served_with_starters:
  assumes "task \<in> (spawn_task key \<circ> spawn_of_starter X n v) ` set (List.map_filter operation_starter ops)"
    and "list_ex needs_key (map (spawn_of_starter X n v) (List.map_filter operation_starter ops)) \<Longrightarrow>
      key \<noteq> None"
  shows "served_with key task"
  using assms
  by (induction ops)
    (auto simp: map_filter_def operation_starter_def spec_of_operation_def served_with_def
      operation_is_encrypted_def needs_key_def split: macro_kind.splits if_splits)

end
