(* ===== verification/Runtime_Run.thy ===== *)
theory Runtime_Run
  imports Runtime_Start Telemetry
begin

text \<open>
  The life of an application (\<open>nats-micro/src/app/{typed_runtime,typed}.rs\<close>): the loop of
  \<open>Runtime::run\<close> that watches the workers and the shutdown channel, the drain, the teardown;
  the \<open>App\<close> builder, \<open>start\<close> and \<open>run_until\<close>.  What the environment does is the record
  \<open>run_env\<close>; a run is \<open>None\<close> while it still waits for more of it.
\<close>

section \<open>Watching the workers\<close>

text \<open>How a joined worker ended: its own result, or the text of the \<open>JoinError\<close>.\<close>

datatype completion = Exited "string + unit" | JoinFailed string

definition completion_failure :: "completion \<Rightarrow> string" where
  "completion_failure c =
     (case c of
        Exited (Inr _) \<Rightarrow> ''static worker exited unexpectedly''
      | Exited (Inl e) \<Rightarrow> e
      | JoinFailed e \<Rightarrow> ''static worker task failed: '' @ e)"

text \<open>
  What wakes the loop: the channel changed (\<open>None\<close>: all senders are gone), or a worker
  completed, with the channel's content when the completion is handled.
\<close>

datatype run_event =
    ChannelChanged "shutdown_state option"
  | WorkerCompleted completion shutdown_state

text \<open>
  The loop ends with the number of workers still running and the first failure.  With no
  worker left, only the channel is awaited.
\<close>

fun run_loop ::
  "worker_failure_policy \<Rightarrow> shutdown_state \<Rightarrow> nat \<Rightarrow> run_event list \<Rightarrow> (nat \<times> string option) option"
  where
  "run_loop policy channel workers [] =
     (if sd_requested channel then Some (workers, None) else None)"
| "run_loop policy channel workers (e # rest) =
     (if sd_requested channel then Some (workers, None)
      else case e of
          ChannelChanged None \<Rightarrow> Some (workers, None)
        | ChannelChanged (Some s) \<Rightarrow>
            if sd_requested s then Some (workers, None) else run_loop policy s workers rest
        | WorkerCompleted c s \<Rightarrow>
            if workers = 0 then run_loop policy channel workers rest
            else if sd_requested s then Some (workers - 1, None)
            else (case policy of
                WIgnore \<Rightarrow> run_loop policy s (workers - 1) rest
              | _ \<Rightarrow> Some (workers - 1, Some (completion_failure c))))"

section \<open>The drain and the teardown\<close>

text \<open>
  One turn per worker: the clock, and how the next worker ends, if it does before the deadline.
  The result is what the joined workers returned, which the code then drops, and the number of
  workers aborted, if the drain timed out.
\<close>

fun drain_workers ::
  "nat \<Rightarrow> instant \<Rightarrow> (instant \<times> completion option) list \<Rightarrow> (completion list \<times> nat option) option"
  where
  "drain_workers 0 deadline turns = Some ([], None)"
| "drain_workers (Suc workers) deadline [] = None"
| "drain_workers (Suc workers) deadline ((now, ended) # rest) =
     (let remaining = deadline - now
      in case (if remaining = 0 then None else ended) of
           None \<Rightarrow> Some ([], Some (Suc workers))
         | Some completion \<Rightarrow>
             map_option (\<lambda>(joined, aborted). (completion # joined, aborted))
               (drain_workers workers deadline rest))"

text \<open>\<open>Arc::try_unwrap\<close> of a service and its \<open>stop\<close>.\<close>

datatype service_end = Stopped "string + unit" | StillReferenced

definition get_or_insert :: "string option \<Rightarrow> string \<Rightarrow> string option" where
  "get_or_insert failure e = (case failure of None \<Rightarrow> Some e | Some f \<Rightarrow> Some f)"

fun stop_services :: "service_end list \<Rightarrow> string option \<Rightarrow> string option" where
  "stop_services [] failure = failure"
| "stop_services (Stopped r # rest) failure = stop_services rest failure"
| "stop_services (StillReferenced # rest) failure =
     stop_services rest
       (get_or_insert failure ''service registration remained referenced after worker drain'')"

record run_env =
  re_events :: "run_event list"
  re_drain_started :: instant
  re_drain :: "(instant \<times> completion option) list"
  re_drain_elapsed :: duration
  re_service_end :: "nat \<Rightarrow> service_end"
  re_client_drain :: "string + unit"

datatype run_effect =
    Sent shutdown_state
  | HookCalled
  | Joined completion
  | Aborted nat
  | Recorded "metric_event list"
  | ServiceEnded service_spec service_end
  | ClientDrained

text \<open>The registered services in order, each with how its end goes.\<close>

definition service_ends :: "run_env \<Rightarrow> 'k runtime \<Rightarrow> (service_spec \<times> service_end) list" where
  "service_ends E R =
     map (\<lambda>i. (rn_services R ! i, re_service_end E i)) [0..<length (rn_services R)]"

definition run_hook :: "(string + unit) option \<Rightarrow> string option \<Rightarrow> run_effect list \<times> string option" where
  "run_hook hook failure =
     (case hook of
        None \<Rightarrow> ([], failure)
      | Some (Inl error) \<Rightarrow> ([HookCalled], if failure = None then Some error else failure)
      | Some (Inr _) \<Rightarrow> ([HookCalled], failure))"

definition failure_result :: "string option \<Rightarrow> string + unit" where
  "failure_result failure = (case failure of Some error \<Rightarrow> Inl error | None \<Rightarrow> Inr ())"

text \<open>Everything after the loop, in order.\<close>

definition shut_down ::
  "run_env \<Rightarrow> 'k runtime \<Rightarrow> nat \<Rightarrow> string option \<Rightarrow> (run_effect list \<times> (string + unit)) option" where
  "shut_down E R workers failure =
     (let timeout = ac_shutdown_drain_timeout (rn_config R);
          hook = run_hook (rn_shutdown_hook R) failure;
          deadline = re_drain_started E + timeout
      in map_option (\<lambda>(joined, aborted).
           let failure = (case aborted of
                 None \<Rightarrow> snd hook
               | Some _ \<Rightarrow> get_or_insert (snd hook) ''timed out draining static workers'');
               failure = stop_services (map snd (service_ends E R)) failure;
               failure = (case re_client_drain E of
                 Inl error \<Rightarrow> get_or_insert failure error | Inr _ \<Rightarrow> failure)
           in (fst hook @ [Sent (shutdown_draining (Some timeout) deadline)] @
               map Joined joined @ (case aborted of None \<Rightarrow> [] | Some n \<Rightarrow> [Aborted n]) @
               (case rn_telemetry R of
                  None \<Rightarrow> []
                | Some t \<Rightarrow> [Recorded (telemetry_application t ShutdownDrainDuration
                    (Some (re_drain_elapsed E)))]) @
               map (case_prod ServiceEnded) (service_ends E R) @ [ClientDrained],
               failure_result failure))
         (drain_workers workers deadline (re_drain E)))"

definition runtime_run :: "run_env \<Rightarrow> 'k runtime \<Rightarrow> (run_effect list \<times> (string + unit)) option" where
  "runtime_run E R =
     Option.bind (run_loop (ac_worker_failure (rn_config R)) (rn_channel R) (length (rn_workers R))
         (re_events E)) (\<lambda>(workers, failure).
       map_option (\<lambda>(effects, result).
         ((if failure = None then []
           else [Sent (shutdown_requested (Some (ac_shutdown_drain_timeout (rn_config R))))]) @
          effects, result))
         (shut_down E R workers failure))"

definition shutdown_after_failed_start ::
  "run_env \<Rightarrow> 'k runtime \<Rightarrow> (run_effect list \<times> (string + unit)) option" where
  "shutdown_after_failed_start E R =
     (let s = shutdown_requested (Some (ac_shutdown_drain_timeout (rn_config R)))
      in map_option (\<lambda>(effects, result). (Sent s # effects, result))
        (runtime_run E (R\<lparr>rn_channel := s\<rparr>)))"

section \<open>The application\<close>

text \<open>A startup hook's result and the time it takes.\<close>

datatype startup_hook = NoStartupHook | StartupHook "string + unit" duration

record ('k, 'c, 'opts) app =
  ap_services :: "service_code list"
  ap_startup_hook :: startup_hook
  ap_config :: app_config
  ap_connection :: "'opts connection_config"
  ap_connected_client :: "'c option"
  ap_shutdown_hook :: "(string + unit) option"
  ap_encryption :: "'k option"
  ap_telemetry_layer :: bool

definition app_new :: "string option \<Rightarrow> ('k, 'c, 'opts) app" where
  "app_new nats_url =
     \<lparr>ap_services = [], ap_startup_hook = NoStartupHook, ap_config = config_default,
      ap_connection = connection_from_env nats_url, ap_connected_client = None,
      ap_shutdown_hook = None, ap_encryption = None, ap_telemetry_layer = False\<rparr>"

definition app_serve :: "service_code \<Rightarrow> ('k, 'c, 'opts) app \<Rightarrow> ('k, 'c, 'opts) app" where
  "app_serve service a = a\<lparr>ap_services := service # ap_services a\<rparr>"

definition app_profile :: "profile \<Rightarrow> ('k, 'c, 'opts) app \<Rightarrow> ('k, 'c, 'opts) app" where
  "app_profile p a = a\<lparr>ap_config := apply_profile p (ap_config a)\<rparr>"

definition app_with_config :: "app_config \<Rightarrow> ('k, 'c, 'opts) app \<Rightarrow> ('k, 'c, 'opts) app" where
  "app_with_config config a = a\<lparr>ap_config := config\<rparr>"

definition app_with_connection ::
  "'opts connection_config \<Rightarrow> ('k, 'c, 'opts) app \<Rightarrow> ('k, 'c, 'opts) app" where
  "app_with_connection connection a =
     a\<lparr>ap_connection := connection, ap_connected_client := None\<rparr>"

definition app_with_client :: "'c \<Rightarrow> ('k, 'c, 'opts) app \<Rightarrow> ('k, 'c, 'opts) app" where
  "app_with_client client a = a\<lparr>ap_connected_client := Some client\<rparr>"

definition app_with_encryption :: "'k \<Rightarrow> ('k, 'c, 'opts) app \<Rightarrow> ('k, 'c, 'opts) app" where
  "app_with_encryption keypair a = a\<lparr>ap_encryption := Some keypair\<rparr>"

definition app_with_telemetry_layer :: "('k, 'c, 'opts) app \<Rightarrow> ('k, 'c, 'opts) app" where
  "app_with_telemetry_layer a = a\<lparr>ap_telemetry_layer := True\<rparr>"

definition app_with_startup_hook ::
  "startup_hook \<Rightarrow> ('k, 'c, 'opts) app \<Rightarrow> ('k, 'c, 'opts) app" where
  "app_with_startup_hook hook a = a\<lparr>ap_startup_hook := hook\<rparr>"

definition app_with_shutdown_hook ::
  "string + unit \<Rightarrow> ('k, 'c, 'opts) app \<Rightarrow> ('k, 'c, 'opts) app" where
  "app_with_shutdown_hook hook a = a\<lparr>ap_shutdown_hook := Some hook\<rparr>"

text \<open>The startup hook raced against the startup timeout.\<close>

definition run_startup_hook :: "duration \<Rightarrow> startup_hook \<Rightarrow> string + unit" where
  "run_startup_hook timeout hook =
     (case hook of
        NoStartupHook \<Rightarrow> Inr ()
      | StartupHook r takes \<Rightarrow>
          if takes \<le> timeout then r else Inl ''application startup hook timed out'')"

record ('c, 'opts) start_env =
  se_connect :: "'opts connection_config \<Rightarrow> string + 'c"
  se_server :: "'c \<Rightarrow> server_ops"
  se_cleanup :: run_env

text \<open>
  \<open>start\<close>: the effects of the cleanup, if there was one, and the error or the runtime that
  was spawned.  \<open>None\<close> is a cleanup that does not end.
\<close>

definition app_start ::
  "('c, 'opts) start_env \<Rightarrow> ('k, 'c, 'opts) app \<Rightarrow> (run_effect list \<times> (string + 'k runtime)) option"
  where
  "app_start E a =
     (case try_then (validate_config (ap_config a)) (\<lambda>_.
          try_then (validate_service_set (map sc_spec (ap_services a))) (\<lambda>_.
          case ap_connected_client a of
            Some client \<Rightarrow> Inr client
          | None \<Rightarrow> se_connect E (ap_connection a))) of
        Inl error \<Rightarrow> Some ([], Inl error)
      | Inr client \<Rightarrow>
          (let R = set_shutdown_hook (ap_shutdown_hook a)
                (set_telemetry_layer (ap_telemetry_layer a)
                (set_encryption_key (ap_encryption a) (runtime_new (ap_config a))));
               fail = (\<lambda>error R. map_option (\<lambda>(effects, _). (effects, Inl error))
                (shutdown_after_failed_start (se_cleanup E) R))
           in case run_startup_hook (ac_startup_timeout (ap_config a)) (ap_startup_hook a) of
                Inl error \<Rightarrow> fail error R
              | Inr _ \<Rightarrow>
                  (case start_all (se_server E client) (ap_services a) R of
                     (Some (Inl error), R) \<Rightarrow> fail error R
                   | (None, R) \<Rightarrow> fail ''application startup timed out'' R
                   | (Some (Inr _), R) \<Rightarrow> Some ([], Inr R))))"

section \<open>The running application\<close>

text \<open>The request on the channel that every handle of the application sends.\<close>

definition request_shutdown :: "'k runtime \<Rightarrow> run_event" where
  "request_shutdown R =
     ChannelChanged (Some (shutdown_requested (Some (ac_shutdown_drain_timeout (rn_config R)))))"

text \<open>\<open>RunningApp::shutdown\<close>, called when the runtime has handled the events of \<open>E\<close>.\<close>

definition running_shutdown ::
  "run_env \<Rightarrow> 'k runtime \<Rightarrow> (run_effect list \<times> (string + unit)) option" where
  "running_shutdown E R = runtime_run (E\<lparr>re_events := re_events E @ [request_shutdown R]\<rparr>) R"

text \<open>
  \<open>RunningApp::run_until\<close>, where the signal fires with result \<open>signal\<close> when the runtime has
  handled \<open>n\<close> events: a runtime that is done by then wins, and a signal that fails returns at
  once, without asking the runtime to stop.
\<close>

definition running_run_until ::
  "run_env \<Rightarrow> nat \<Rightarrow> string + unit \<Rightarrow> 'k runtime \<Rightarrow> (run_effect list \<times> (string + unit)) option" where
  "running_run_until E n signal R =
     (let before = E\<lparr>re_events := take n (re_events E)\<rparr>
      in case runtime_run before R of
           Some done \<Rightarrow> Some done
         | None \<Rightarrow>
             (case signal of
                Inl error \<Rightarrow> Some ([], Inl error)
              | Inr _ \<Rightarrow> running_shutdown before R))"

text \<open>
  \<open>RunningApp::ready\<close>: the value of the watch channel, and what its sender does while the loop
  waits, a new value or (\<open>None\<close>) its end.  \<open>start\<close> sends \<open>true\<close> before it hands out the application.
\<close>

fun running_ready :: "bool \<Rightarrow> bool option list \<Rightarrow> (string + unit) option" where
  "running_ready True changes = Some (Inr ())"
| "running_ready False [] = None"
| "running_ready False (Some value # rest) = running_ready value rest"
| "running_ready False (None # rest) = Some (Inl ''application stopped before becoming ready'')"

definition app_run_until ::
  "('c, 'opts) start_env \<Rightarrow> run_env \<Rightarrow> nat \<Rightarrow> string + unit \<Rightarrow> ('k, 'c, 'opts) app \<Rightarrow>
   (run_effect list \<times> (string + unit)) option" where
  "app_run_until S E n signal a =
     Option.bind (app_start S a) (\<lambda>(effects, started).
       case started of
         Inl error \<Rightarrow> Some (effects, Inl error)
       | Inr R \<Rightarrow> Option.bind (running_ready True []) (\<lambda>ready.
           case ready of
             Inl error \<Rightarrow> Some (effects, Inl error)
           | Inr _ \<Rightarrow> running_run_until E n signal R))"

text \<open>\<open>App::run\<close>: until \<open>ctrl_c\<close> fires, or fails to listen.\<close>

definition app_run ::
  "('c, 'opts) start_env \<Rightarrow> run_env \<Rightarrow> nat \<Rightarrow> string + unit \<Rightarrow> ('k, 'c, 'opts) app \<Rightarrow>
   (run_effect list \<times> (string + unit)) option" where
  "app_run S E n ctrl_c =
     app_run_until S E n (map_err (\<lambda>_. ''failed to listen for the shutdown signal'') ctrl_c)"

section \<open>What a run reports\<close>

text \<open>
  The reference: the events that end the loop, the failure it reports, and the failures that a run
  keeps, in the order in which they happen.  A worker that completes after the stop is not
  among them: the code drops its result.
\<close>

definition asks_stop :: "run_event \<Rightarrow> bool" where
  "asks_stop e =
     (case e of
        ChannelChanged None \<Rightarrow> True | ChannelChanged (Some s) \<Rightarrow> sd_requested s
      | WorkerCompleted _ _ \<Rightarrow> False)"

definition is_completed :: "run_event \<Rightarrow> bool" where
  "is_completed e = (case e of WorkerCompleted _ _ \<Rightarrow> True | _ \<Rightarrow> False)"

definition worker_failures :: "worker_failure_policy \<Rightarrow> nat \<Rightarrow> run_event list \<Rightarrow> string list" where
  "worker_failures policy workers events =
     (if policy = WIgnore \<or> workers = 0 then []
      else case find (\<lambda>e. asks_stop e \<or> is_completed e) events of
             Some (WorkerCompleted c s) \<Rightarrow> if sd_requested s then [] else [completion_failure c]
           | _ \<Rightarrow> [])"

definition teardown_failures :: "run_env \<Rightarrow> 'k runtime \<Rightarrow> bool \<Rightarrow> string list" where
  "teardown_failures E R timed_out =
     (case rn_shutdown_hook R of Some (Inl e) \<Rightarrow> [e] | _ \<Rightarrow> []) @
     (if timed_out then [''timed out draining static workers''] else []) @
     (if StillReferenced \<in> set (map snd (service_ends E R))
      then [''service registration remained referenced after worker drain''] else []) @
     (case re_client_drain E of Inl e \<Rightarrow> [e] | Inr _ \<Rightarrow> [])"

definition loop_failures :: "run_env \<Rightarrow> 'k runtime \<Rightarrow> string list" where
  "loop_failures E R =
     (if sd_requested (rn_channel R) then []
      else worker_failures (ac_worker_failure (rn_config R)) (length (rn_workers R)) (re_events E))"

definition run_failures :: "run_env \<Rightarrow> 'k runtime \<Rightarrow> bool \<Rightarrow> string list" where
  "run_failures E R timed_out = loop_failures E R @ teardown_failures E R timed_out"

definition first_failure :: "string list \<Rightarrow> string option" where
  "first_failure es = (case es of [] \<Rightarrow> None | e # _ \<Rightarrow> Some e)"

lemma first_failure_append:
  "first_failure (xs @ ys) = (case first_failure xs of None \<Rightarrow> first_failure ys | Some e \<Rightarrow> Some e)"
  by (cases xs) (simp_all add: first_failure_def)

lemma run_loop_ends:
  "list_ex asks_stop events \<or> sd_requested channel \<Longrightarrow>
   \<exists>left. left \<le> workers \<and> run_loop policy channel workers events =
     Some (left, first_failure (if sd_requested channel then [] else worker_failures policy workers events))"
proof (induction events arbitrary: channel workers)
  case Nil
  then show ?case by (auto simp: first_failure_def)
next
  case (Cons e rest)
  show ?case
  proof (cases "sd_requested channel \<or> asks_stop e")
    case True
    then show ?thesis
      by (auto simp: asks_stop_def first_failure_def worker_failures_def split: run_event.splits option.splits)
  next
    case False
    then have rest: "list_ex asks_stop rest" using Cons.prems by auto
    show ?thesis
    proof (cases e)
      case (ChannelChanged c)
      then obtain s where s: "c = Some s" "\<not> sd_requested s"
        using False by (auto simp: asks_stop_def split: option.splits)
      have "worker_failures policy workers (e # rest) = worker_failures policy workers rest"
        using s ChannelChanged by (simp add: worker_failures_def asks_stop_def is_completed_def)
      then show ?thesis using Cons.IH [of s workers] rest False s ChannelChanged by simp
    next
      case (WorkerCompleted c s)
      consider (none) "workers = 0" | (ends) "workers \<noteq> 0" "sd_requested s \<or> policy \<noteq> WIgnore"
        | (ignored) "workers \<noteq> 0" "\<not> sd_requested s" "policy = WIgnore" by blast
      then show ?thesis
      proof cases
        case none
        then show ?thesis
          using Cons.IH [of channel workers] rest False WorkerCompleted
          by (simp add: worker_failures_def)
      next
        case ends
        then show ?thesis
          using False WorkerCompleted
          by (auto simp: worker_failures_def first_failure_def is_completed_def
              split: worker_failure_policy.split)
      next
        case F: ignored
        obtain left where "left \<le> workers - 1" "run_loop policy s (workers - 1) rest =
            Some (left, first_failure (worker_failures policy (workers - 1) rest))"
          using Cons.IH [of s "workers - 1"] rest F by auto
        then show ?thesis
          using F False WorkerCompleted by (intro exI [of _ left]) (simp add: worker_failures_def)
      qed
    qed
  qed
qed

definition aborted_count :: "nat option \<Rightarrow> nat" where
  "aborted_count aborted = (case aborted of None \<Rightarrow> 0 | Some n \<Rightarrow> n)"

lemma drain_workers_ends:
  "workers \<le> length turns \<Longrightarrow>
   \<exists>joined aborted. drain_workers workers deadline turns = Some (joined, aborted) \<and>
     length joined + aborted_count aborted = workers"
proof (induction workers deadline turns rule: drain_workers.induct)
  case (3 workers deadline now ended rest)
  show ?case
  proof (cases "if deadline - now = 0 then None else ended")
    case None
    then show ?thesis by (simp add: Let_def aborted_count_def)
  next
    case (Some completion)
    obtain joined aborted where "drain_workers workers deadline rest = Some (joined, aborted)"
      "length joined + aborted_count aborted = workers"
      using "3.IH" [OF refl Some] "3.prems" by auto
    then show ?thesis
      using Some by (intro exI [of _ "completion # joined"] exI [of _ aborted]) (simp add: Let_def)
  qed
qed (simp_all add: aborted_count_def)

lemma get_or_insert_first [simp]: "get_or_insert (first_failure fs) e = first_failure (fs @ [e])"
  by (cases fs) (simp_all add: get_or_insert_def first_failure_def)

lemma run_hook_first:
  "run_hook hook (first_failure fs) =
     (if hook = None then [] else [HookCalled],
      first_failure (fs @ (case hook of Some (Inl e) \<Rightarrow> [e] | _ \<Rightarrow> [])))"
  by (cases fs) (auto simp: run_hook_def first_failure_def split: option.split sum.split)

lemma stop_services_failure:
  "stop_services ends (first_failure fs) = first_failure (fs @
     (if StillReferenced \<in> set ends
      then [''service registration remained referenced after worker drain''] else []))"
proof (induction ends "first_failure fs" arbitrary: fs rule: stop_services.induct)
  case (3 rest)
  show ?case using 3 [of "fs @ [''service registration remained referenced after worker drain'']"]
    by (auto simp: first_failure_append split: option.splits) (auto simp: first_failure_def)
qed simp_all

lemma client_drain_failure:
  "(case drained of Inl error \<Rightarrow> get_or_insert (first_failure fs) error | Inr _ \<Rightarrow> first_failure fs) =
     first_failure (fs @ (case drained of Inl e \<Rightarrow> [e] | Inr _ \<Rightarrow> []))"
  by (cases drained) simp_all

lemma drain_failure:
  "(case aborted of None \<Rightarrow> first_failure fs | Some _ \<Rightarrow> get_or_insert (first_failure fs) e) =
     first_failure (fs @ (if aborted \<noteq> None then [e] else []))"
  by (cases aborted) simp_all

lemma service_ends_zip:
  "map (case_prod ServiceEnded) (service_ends E R) =
     map2 ServiceEnded (rn_services R) (map (re_service_end E) [0..<length (rn_services R)])"
  by (rule nth_equalityI) (simp_all add: service_ends_def)

lemma still_referenced_iff:
  "StillReferenced \<in> snd ` set (service_ends E R) \<longleftrightarrow>
     (\<exists>i < length (rn_services R). re_service_end E i = StillReferenced)"
  by (auto simp: service_ends_def image_iff) (metis atLeastLessThan_iff zero_le)

text \<open>What follows the loop: \<open>left\<close> workers are joined or aborted, the services end, the client drains.\<close>

definition teardown_effects ::
  "run_env \<Rightarrow> 'k runtime \<Rightarrow> completion list \<Rightarrow> nat option \<Rightarrow> run_effect list" where
  "teardown_effects E R joined aborted =
     (if rn_shutdown_hook R = None then [] else [HookCalled]) @
     [Sent (shutdown_draining (Some (ac_shutdown_drain_timeout (rn_config R)))
        (re_drain_started E + ac_shutdown_drain_timeout (rn_config R)))] @
     map Joined joined @ (case aborted of None \<Rightarrow> [] | Some n \<Rightarrow> [Aborted n]) @
     (case rn_telemetry R of
        None \<Rightarrow> []
      | Some t \<Rightarrow> [Recorded (telemetry_application t ShutdownDrainDuration (Some (re_drain_elapsed E)))]) @
     map (case_prod ServiceEnded) (service_ends E R) @ [ClientDrained]"

lemma shut_down_effects:
  assumes "left \<le> length (re_drain E)"
  shows "\<exists>joined aborted. shut_down E R left (first_failure fs) =
      Some (teardown_effects E R joined aborted,
        failure_result (first_failure (fs @ teardown_failures E R (aborted \<noteq> None)))) \<and>
    length joined + aborted_count aborted = left"
proof -
  obtain joined aborted where "drain_workers left
      (re_drain_started E + ac_shutdown_drain_timeout (rn_config R)) (re_drain E) = Some (joined, aborted)"
    "length joined + aborted_count aborted = left"
    using drain_workers_ends [OF assms] by blast
  then show ?thesis
    by (intro exI [of _ joined] exI [of _ aborted] conjI)
      (simp_all only: shut_down_def Let_def option.map prod.case run_hook_first fst_conv snd_conv
        drain_failure stop_services_failure client_drain_failure teardown_failures_def
        teardown_effects_def append.assoc append_Cons append_Nil)
qed

lemma runtime_run_outcome:
  assumes "list_ex asks_stop (re_events E) \<or> sd_requested (rn_channel R)"
    and "length (rn_workers R) \<le> length (re_drain E)"
  obtains left joined aborted where
    "run_loop (ac_worker_failure (rn_config R)) (rn_channel R) (length (rn_workers R)) (re_events E) =
      Some (left, first_failure (loop_failures E R))"
    and "length joined + aborted_count aborted = left" and "left \<le> length (rn_workers R)"
    and "runtime_run E R =
      Some ((if loop_failures E R = [] then []
         else [Sent (shutdown_requested (Some (ac_shutdown_drain_timeout (rn_config R))))]) @
       teardown_effects E R joined aborted,
       failure_result (first_failure (run_failures E R (aborted \<noteq> None))))"
proof -
  obtain left where left: "left \<le> length (rn_workers R)"
    "run_loop (ac_worker_failure (rn_config R)) (rn_channel R) (length (rn_workers R)) (re_events E) =
      Some (left, first_failure (loop_failures E R))"
    using run_loop_ends [OF assms(1)] unfolding loop_failures_def by blast
  have empty: "first_failure fs = None \<longleftrightarrow> fs = []" for fs
    by (cases fs) (simp_all add: first_failure_def)
  obtain joined aborted where "shut_down E R left (first_failure (loop_failures E R)) =
      Some (teardown_effects E R joined aborted,
        failure_result (first_failure (run_failures E R (aborted \<noteq> None))))"
    "length joined + aborted_count aborted = left"
    using shut_down_effects [of left E R "loop_failures E R"] left(1) assms(2)
    unfolding run_failures_def by (meson le_trans)
  then show ?thesis
    using that [OF left(2) _ left(1)] left(2) by (simp add: runtime_run_def empty)
qed

lemma runtime_run_ends:
  assumes "list_ex asks_stop (re_events E) \<or> sd_requested (rn_channel R)"
    and "length (rn_workers R) \<le> length (re_drain E)"
  shows "runtime_run E R \<noteq> None"
  by (rule runtime_run_outcome [OF assms]) simp

text \<open>
  An application that runs until a signal always returns once the signal fires.  A signal that
  fails is returned at once: nothing is sent to the workers, which then run on unsupervised.
\<close>

theorem app_run_until_returns:
  assumes "app_start S a = Some (effects, Inr R)" "length (rn_workers R) \<le> length (re_drain E)"
  shows "\<exists>result. app_run_until S E n signal a = Some result"
    and "signal = Inl error \<Longrightarrow> runtime_run (E\<lparr>re_events := take n (re_events E)\<rparr>) R = None \<Longrightarrow>
      app_run_until S E n signal a = Some ([], Inl error)"
proof -
  let ?E = "E\<lparr>re_events := take n (re_events E)\<rparr>"
  have "running_shutdown ?E R \<noteq> None"
    using assms(2) unfolding running_shutdown_def
    by (intro runtime_run_ends) (simp_all add: asks_stop_def request_shutdown_def shutdown_requested_def)
  then show "\<exists>result. app_run_until S E n signal a = Some result"
    using assms(1)
    by (auto simp: app_run_until_def running_run_until_def Let_def split: option.split sum.split)
  show "signal = Inl error \<Longrightarrow> runtime_run ?E R = None \<Longrightarrow>
      app_run_until S E n signal a = Some ([], Inl error)"
    using assms(1) by (simp add: app_run_until_def running_run_until_def)
qed

text \<open>
  C13: shutting down ends and reports the first failure that counts.  Once a stop is requested (or
  every sender of the channel is gone), \<open>run\<close> returns, provided the environment answers for
  each worker of the drain.  Its effects are, in this order: the request to stop if a worker's
  failure caused it, the shutdown hook once, the signal to drain, each worker that is still running
  joined or aborted, every registered service ended, the client drained.  The result is the
  earliest of: the failure of the worker that ended the loop, the hook's, a drain that timed
  out, a service still referenced, the client's drain.  What a worker returns after the stop is
  dropped, so \<open>Ok\<close> does not mean that every worker ended well.
\<close>

theorem runtime_run_reports_first_failure:
  assumes "list_ex asks_stop (re_events E) \<or> sd_requested (rn_channel R)"
    and "length (rn_workers R) \<le> length (re_drain E)"
  shows "\<exists>joined aborted recorded. runtime_run E R =
      Some ((if loop_failures E R = [] then []
         else [Sent (shutdown_requested (Some (ac_shutdown_drain_timeout (rn_config R))))]) @
        (if rn_shutdown_hook R = None then [] else [HookCalled]) @
        [Sent (shutdown_draining (Some (ac_shutdown_drain_timeout (rn_config R)))
          (re_drain_started E + ac_shutdown_drain_timeout (rn_config R)))] @
        map Joined joined @ (case aborted of None \<Rightarrow> [] | Some n \<Rightarrow> [Aborted n]) @
        map Recorded recorded @
        map2 ServiceEnded (rn_services R) (map (re_service_end E) [0..<length (rn_services R)]) @
        [ClientDrained],
        failure_result (first_failure
          (loop_failures E R @
           (case rn_shutdown_hook R of Some (Inl e) \<Rightarrow> [e] | _ \<Rightarrow> []) @
           (if aborted = None then [] else [''timed out draining static workers'']) @
           (if \<exists>i < length (rn_services R). re_service_end E i = StillReferenced
            then [''service registration remained referenced after worker drain''] else []) @
           (case re_client_drain E of Inl e \<Rightarrow> [e] | Inr _ \<Rightarrow> [])))) \<and>
    map_option fst (run_loop (ac_worker_failure (rn_config R)) (rn_channel R)
        (length (rn_workers R)) (re_events E)) =
      Some (length joined + (case aborted of None \<Rightarrow> 0 | Some n \<Rightarrow> n))"
proof (rule runtime_run_outcome [OF assms])
  fix left joined aborted
  assume loop: "run_loop (ac_worker_failure (rn_config R)) (rn_channel R) (length (rn_workers R))
      (re_events E) = Some (left, first_failure (loop_failures E R))"
    and count: "length joined + aborted_count aborted = left"
    and run: "runtime_run E R =
      Some ((if loop_failures E R = [] then []
         else [Sent (shutdown_requested (Some (ac_shutdown_drain_timeout (rn_config R))))]) @
       teardown_effects E R joined aborted,
       failure_result (first_failure (run_failures E R (aborted \<noteq> None))))"
  show ?thesis
    using loop count
    by (intro exI [of _ joined] exI [of _ aborted] exI [of _ "case rn_telemetry R of None \<Rightarrow> []
        | Some t \<Rightarrow> [telemetry_application t ShutdownDrainDuration (Some (re_drain_elapsed E))]"])
      (simp add: run teardown_effects_def run_failures_def teardown_failures_def aborted_count_def
        service_ends_zip still_referenced_iff split: option.split)
qed

definition idle_env :: run_env where
  "idle_env =
     \<lparr>re_events = [WorkerCompleted (Exited (Inl ''lost'')) (shutdown_running None),
        ChannelChanged None],
      re_drain_started = 5,
      re_drain = [(5, Some (Exited (Inl ''dropped''))), (6, Some (Exited (Inr ())))],
      re_drain_elapsed = 1, re_service_end = (\<lambda>_. Stopped (Inr ())), re_client_drain = Inr ()\<rparr>"

definition demo_worker :: "nat worker" where
  "demo_worker =
     \<lparr>wk_task = EncryptedRequestTask undefined 0, wk_concurrency = 1, wk_panic_policy = FailWorker,
      wk_failure_policy = WShutdownApp, wk_telemetry = None\<rparr>"

theorem runtime_run_reports_first_failure_witness:
  "\<exists>effects. runtime_run idle_env
     ((runtime_new (for_profile TestProfile))\<lparr>rn_workers := [demo_worker, demo_worker]\<rparr>) =
     Some (effects, Inl ''lost'')"
proof -
  let ?R = "(runtime_new (for_profile TestProfile))\<lparr>rn_workers := [demo_worker, demo_worker]\<rparr>"
  have "list_ex asks_stop (re_events idle_env) \<or> sd_requested (rn_channel ?R)"
    "length (rn_workers ?R) \<le> length (re_drain idle_env)"
    by (simp_all add: idle_env_def asks_stop_def)
  moreover have "loop_failures idle_env ?R = [''lost'']"
    by (simp add: loop_failures_def worker_failures_def runtime_new_def idle_env_def asks_stop_def
        is_completed_def completion_failure_def shutdown_running_def)
  ultimately show ?thesis
    using runtime_run_reports_first_failure [of idle_env ?R]
    by (auto simp: first_failure_def failure_result_def)
qed

section \<open>What a start achieves\<close>

definition fresh_runtime :: "('k, 'c, 'opts) app \<Rightarrow> 'k runtime" where
  "fresh_runtime a =
     set_shutdown_hook (ap_shutdown_hook a) (set_telemetry_layer (ap_telemetry_layer a)
       (set_encryption_key (ap_encryption a) (runtime_new (ap_config a))))"

lemma fresh_runtime_sel [simp]:
  "rn_config (fresh_runtime a) = ap_config a" "rn_encryption (fresh_runtime a) = ap_encryption a"
  "rn_workers (fresh_runtime a) = []" "rn_services (fresh_runtime a) = []"
  "rn_shutdown_hook (fresh_runtime a) = ap_shutdown_hook a" "\<not> sd_requested (rn_channel (fresh_runtime a))"
  by (simp_all add: fresh_runtime_def runtime_new_def set_shutdown_hook_def set_telemetry_layer_def
      set_encryption_key_def)

lemma app_start_Inr:
  assumes "app_start E a = Some (effects, Inr R)"
  shows "validate_config (ap_config a) = Inr ()"
    and "validate_service_set (map sc_spec (ap_services a)) = Inr ()" and "effects = []"
    and "\<exists>client. start_all (se_server E client) (ap_services a) (fresh_runtime a) = (Some (Inr ()), R)"
  using assms
  by (auto simp: app_start_def fresh_runtime_def Let_def split: sum.splits option.splits prod.splits)

lemma started_tasks:
  "map (spawn_task key) (concat (map (sc_spawns \<circ> code_of_model X) ms)) =
     concat (map (\<lambda>m. map (spawn_task key \<circ> spawn_of_starter X (sa_name (sv_args m)) (sa_version (sv_args m)))
       (List.map_filter operation_starter (model_operations m))) ms)"
  by (induction ms) (simp_all add: code_of_model_def spec_of_service_def generated_starters_def Let_def)

text \<open>
  C14: a started application serves exactly what its services declare.  After a successful
  start of generated services, there is one worker for every request and subscription of the
  services' specs and one for every consumer, in order, and no other; no two serve the same
  subject or the same consumer; encrypted operations, and only they, are served with the
  application's key; and every worker's concurrency is positive and within the maximum.
\<close>

theorem started_app_serves_every_operation:
  assumes "app_start E a = Some (effects, Inr R)"
    and "ap_services a = map (code_of_model X) ms"
  shows "List.map_filter task_operation (map wk_task (rn_workers R)) =
      filter (\<lambda>s. os_kind s \<noteq> KPublish) (concat (map (\<lambda>m. ss_operations (spec_of_service X m)) ms)) \<and>
    List.map_filter task_consumer (map wk_task (rn_workers R)) =
      concat (map (\<lambda>m. ss_consumers (spec_of_service X m)) ms) \<and>
    distinct (map os_subject (List.map_filter task_operation (map wk_task (rn_workers R)))) \<and>
    distinct (map consumer_key (List.map_filter task_consumer (map wk_task (rn_workers R)))) \<and>
    list_all (\<lambda>w. served_with (ap_encryption a) (wk_task w) \<and> 0 < wk_concurrency w \<and>
      wk_concurrency w \<le> ac_max_concurrency (ap_config a)) (rn_workers R)"
proof -
  obtain client where "start_all (se_server E client) (ap_services a) (fresh_runtime a) = (Some (Inr ()), R)"
    using app_start_Inr(4) [OF assms(1)] by blast
  from start_all_ok [OF this]
  have w: "rn_workers R = map (spawned_worker (fresh_runtime a)) (concat (map (sc_spawns \<circ> code_of_model X) ms))"
    "list_ex needs_key (concat (map (sc_spawns \<circ> code_of_model X) ms)) \<longrightarrow> ap_encryption a \<noteq> None"
    by (simp_all add: assms(2))
  have tasks: "map wk_task (rn_workers R) = concat (map (\<lambda>m. map (spawn_task (ap_encryption a) \<circ>
      spawn_of_starter X (sa_name (sv_args m)) (sa_version (sv_args m)))
      (List.map_filter operation_starter (model_operations m))) ms)"
    unfolding started_tasks [symmetric] by (simp add: w(1) spawned_worker_def comp_def)
  have ops: "List.map_filter task_operation (map wk_task (rn_workers R)) =
      filter (\<lambda>s. os_kind s \<noteq> KPublish) (concat (map (\<lambda>m. ss_operations (spec_of_service X m)) ms))"
    and cons: "List.map_filter task_consumer (map wk_task (rn_workers R)) =
      concat (map (\<lambda>m. ss_consumers (spec_of_service X m)) ms)"
    unfolding tasks map_filter_concat map_map comp_def
    by (simp_all add: served_by_starters [unfolded comp_def] spec_of_service_def Let_def filter_concat comp_def)
  have valid: "distinct (concat (map service_subjects (map (spec_of_service X) ms)))"
    "distinct (concat (map service_consumer_keys (map (spec_of_service X) ms)))"
    using app_start_Inr(2) [OF assms(1)] unfolding validate_service_set_distinct
    by (simp_all add: assms(2) comp_def)
  have "distinct (map os_subject (List.map_filter task_operation (map wk_task (rn_workers R))))"
    using valid(1) unfolding ops
    by (auto simp: service_subjects_def map_concat comp_def intro: distinct_map_filter)
  moreover have "distinct (map consumer_key (List.map_filter task_consumer (map wk_task (rn_workers R))))"
    using valid(2) unfolding cons by (simp add: service_consumer_keys_def map_concat comp_def)
  moreover have "served_with (ap_encryption a) (wk_task w)" if "w \<in> set (rn_workers R)" for w
  proof -
    have "wk_task w \<in> set (map wk_task (rn_workers R))" using that by simp
    then obtain m where m: "m \<in> set ms" "wk_task w \<in> (spawn_task (ap_encryption a) \<circ>
        spawn_of_starter X (sa_name (sv_args m)) (sa_version (sv_args m))) `
        set (List.map_filter operation_starter (model_operations m))"
      unfolding tasks by auto
    show ?thesis
      by (rule served_with_starters [OF m(2)])
        (use w(2) m(1) in \<open>auto simp: list_ex_iff code_of_model_def spec_of_service_def
          generated_starters_def Let_def\<close>)
  qed
  moreover have "0 < wk_concurrency w \<and> wk_concurrency w \<le> ac_max_concurrency (ap_config a)"
    if "w \<in> set (rn_workers R)" for w
    using that effective_concurrency_pos [OF app_start_Inr(1) [OF assms(1)]]
    by (auto simp: w(1) spawned_worker_def effective_concurrency_def Let_def)
  ultimately show ?thesis using ops cons by (simp add: list_all_iff)
qed

definition demo_app :: "(nat, unit, unit) app" where
  "demo_app = app_serve (code_of_model demo_syn demo_service) (app_with_client () (app_new None))"

definition willing_server :: server_ops where
  "willing_server = \<lparr>so_answer = (\<lambda>_ _. Some (Inr ())), so_new_inbox = (\<lambda>_. ''_INBOX'')\<rparr>"

definition demo_start :: "(unit, unit) start_env" where
  "demo_start = \<lparr>se_connect = (\<lambda>_. Inr ()), se_server = (\<lambda>_. willing_server), se_cleanup = idle_env\<rparr>"

lemma demo_app_accepted:
  "try_then (validate_config (ap_config demo_app)) (\<lambda>_.
     try_then (validate_service_set (map sc_spec (ap_services demo_app))) (\<lambda>_.
     case ap_connected_client demo_app of Some client \<Rightarrow> Inr client
     | None \<Rightarrow> se_connect E (ap_connection demo_app))) = Inr ()"
proof -
  have "validate_config (ap_config demo_app) = Inr ()"
    by (simp add: demo_app_def app_serve_def app_with_client_def app_new_def config_default_def
        validate_config_iff policy_valid_def from_secs_def)
  moreover have "validate_service_set (map sc_spec (ap_services demo_app)) = Inr ()"
    unfolding validate_service_set_distinct
    by (simp add: demo_app_def app_serve_def app_with_client_def app_new_def service_subjects_def
        service_consumer_keys_def spec_of_service_def Let_def model_operations_def demo_service_def
        demo_operation_def spec_of_operation_def)
  ultimately show ?thesis by (simp add: demo_app_def app_serve_def app_with_client_def)
qed

lemma demo_app_starts: "\<exists>R. app_start demo_start demo_app = Some ([], Inr R)"
  using demo_app_accepted [of demo_start]
  by (simp add: app_start_def Let_def demo_app_def app_serve_def app_with_client_def app_new_def
      run_startup_hook_def demo_start_def willing_server_def code_of_model_def
      generated_starters_def model_operations_def demo_service_def map_filter_def
      operation_starter_def operation_is_encrypted_def request_encrypted_def demo_operation_def
      service_start_def start_defs step_then_def call_server_def done_with_def)

theorem started_app_serves_every_operation_witness:
  "\<exists>R. app_start demo_start demo_app = Some ([], Inr R) \<and>
     map os_subject (List.map_filter task_operation (map wk_task (rn_workers R))) = [''demo.v1.get'']"
proof -
  obtain R where R: "app_start demo_start demo_app = Some ([], Inr R)" using demo_app_starts by blast
  have "ap_services demo_app = map (code_of_model demo_syn) [demo_service]"
    by (simp add: demo_app_def app_serve_def app_with_client_def app_new_def)
  from started_app_serves_every_operation [OF R this] R show ?thesis
    by (simp add: spec_of_service_def Let_def model_operations_def demo_service_def
        demo_operation_def spec_of_operation_def)
qed

section \<open>Failed starts\<close>

lemma cleanup_effects:
  assumes "length (rn_workers R) \<le> length (re_drain E)"
  shows "\<exists>joined aborted result. shutdown_after_failed_start E R =
    Some (Sent (shutdown_requested (Some (ac_shutdown_drain_timeout (rn_config R)))) #
      teardown_effects E R joined aborted, result) \<and>
    length joined + aborted_count aborted = length (rn_workers R)"
proof -
  let ?s = "shutdown_requested (Some (ac_shutdown_drain_timeout (rn_config R)))"
  let ?R = "R\<lparr>rn_channel := ?s\<rparr>"
  have loop: "run_loop p ?s n events = Some (n, None)" for p n events by (cases events) simp_all
  have same: "teardown_effects E ?R = teardown_effects E R"
    by (intro ext) (simp add: teardown_effects_def service_ends_def)
  from shut_down_effects [OF assms, of ?R "[]"] show ?thesis
    by (auto simp: shutdown_after_failed_start_def runtime_run_def loop first_failure_def Let_def same)
qed

text \<open>
  The run of a start once the client is there: the error it fails with, or \<open>Ok\<close>, and the runtime
  with what was started until then.
\<close>

definition start_attempt ::
  "('c, 'opts) start_env \<Rightarrow> 'c \<Rightarrow> ('k, 'c, 'opts) app \<Rightarrow> (string + unit) \<times> 'k runtime" where
  "start_attempt E client a =
     (case run_startup_hook (ac_startup_timeout (ap_config a)) (ap_startup_hook a) of
        Inl error \<Rightarrow> (Inl error, fresh_runtime a)
      | Inr _ \<Rightarrow>
          (case start_all (se_server E client) (ap_services a) (fresh_runtime a) of
             (Some r, R) \<Rightarrow> (r, R)
           | (None, R) \<Rightarrow> (Inl ''application startup timed out'', R)))"

lemma start_attempt_workers:
  "length (rn_workers (snd (start_attempt E client a))) \<le> length (concat (map sc_spawns (ap_services a)))"
  "same_setup (fresh_runtime a) (snd (start_attempt E client a))"
proof -
  obtain r R where R: "start_all (se_server E client) (ap_services a) (fresh_runtime a) = (r, R)"
    by fastforce
  have "same_setup (fresh_runtime a) R"
    "length (rn_workers R) \<le> length (concat (map sc_spawns (ap_services a)))"
    using R same_setup_start_all [of "fresh_runtime a" "se_server E client" "ap_services a"]
      start_all_workers [of "se_server E client" "ap_services a" "fresh_runtime a"] by simp_all
  then show "length (rn_workers (snd (start_attempt E client a))) \<le>
      length (concat (map sc_spawns (ap_services a)))"
    "same_setup (fresh_runtime a) (snd (start_attempt E client a))"
    by (auto simp: start_attempt_def R split: sum.split option.split)
qed

lemma app_start_attempt:
  assumes "try_then (validate_config (ap_config a)) (\<lambda>_.
      try_then (validate_service_set (map sc_spec (ap_services a))) (\<lambda>_.
      case ap_connected_client a of Some client \<Rightarrow> Inr client | None \<Rightarrow> se_connect E (ap_connection a))) =
    Inr client"
  shows "app_start E a =
    (case start_attempt E client a of
       (Inr _, R) \<Rightarrow> Some ([], Inr R)
     | (Inl error, R) \<Rightarrow> map_option (\<lambda>(effects, _). (effects, Inl error))
         (shutdown_after_failed_start (se_cleanup E) R))"
  using assms by (simp add: app_start_def start_attempt_def fresh_runtime_def [symmetric] Let_def
      split: sum.split option.split prod.split)

lemma app_start_returns:
  assumes "length (concat (map sc_spawns (ap_services a))) \<le> length (re_drain (se_cleanup E))"
  shows "app_start E a \<noteq> None"
proof (cases "try_then (validate_config (ap_config a)) (\<lambda>_.
      try_then (validate_service_set (map sc_spec (ap_services a))) (\<lambda>_.
      case ap_connected_client a of Some client \<Rightarrow> Inr client | None \<Rightarrow> se_connect E (ap_connection a)))")
  case (Inl error)
  then show ?thesis by (simp add: app_start_def)
next
  case (Inr client)
  have "shutdown_after_failed_start (se_cleanup E) (snd (start_attempt E client a)) \<noteq> None"
    using cleanup_effects [of "snd (start_attempt E client a)" "se_cleanup E"]
      start_attempt_workers(1) [where E = E and client = client and a = a] assms by force
  then show ?thesis
    using app_start_attempt [OF Inr] by (auto split: prod.split sum.split)
qed

text \<open>
  C15: a failed start leaves nothing behind.  \<open>start\<close> always returns, provided the drain is
  answered for as many workers as the services spawn.  It fails without any effect when the
  configuration, the service list or the connection is refused, with that error.  When the startup
  hook or a service fails or takes too long, it returns the error of the hook, the error of the
  service or the timeout, whatever the cleanup returns; and before that it asks every worker
  spawned so far to stop, runs the shutdown hook, joins or aborts exactly those workers, ends every
  service registered so far and drains the client, in this order.
\<close>

theorem failed_start_cleans_up:
  assumes "length (concat (map sc_spawns (ap_services a))) \<le> length (re_drain (se_cleanup E))"
  shows "case try_then (validate_config (ap_config a)) (\<lambda>_.
      try_then (validate_service_set (map sc_spec (ap_services a))) (\<lambda>_.
      case ap_connected_client a of Some client \<Rightarrow> Inr client | None \<Rightarrow> se_connect E (ap_connection a))) of
      Inl error \<Rightarrow> app_start E a = Some ([], Inl error)
    | Inr client \<Rightarrow>
        (case (case run_startup_hook (ac_startup_timeout (ap_config a)) (ap_startup_hook a) of
               Inl error \<Rightarrow> (Inl error, fresh_runtime a)
             | Inr _ \<Rightarrow>
                 (case start_all (se_server E client) (ap_services a) (fresh_runtime a) of
                    (Some r, R) \<Rightarrow> (r, R)
                  | (None, R) \<Rightarrow> (Inl ''application startup timed out'', R))) of
           (Inr _, R) \<Rightarrow> app_start E a = Some ([], Inr R) \<and> \<not> sd_requested (rn_channel R)
         | (Inl error, R) \<Rightarrow> \<exists>joined aborted recorded. app_start E a = Some (
               [Sent (shutdown_requested (Some (ac_shutdown_drain_timeout (ap_config a))))] @
               (if ap_shutdown_hook a = None then [] else [HookCalled]) @
               [Sent (shutdown_draining (Some (ac_shutdown_drain_timeout (ap_config a)))
                 (re_drain_started (se_cleanup E) + ac_shutdown_drain_timeout (ap_config a)))] @
               map Joined joined @ (case aborted of None \<Rightarrow> [] | Some n \<Rightarrow> [Aborted n]) @
               map Recorded recorded @
               map2 ServiceEnded (rn_services R)
                 (map (re_service_end (se_cleanup E)) [0..<length (rn_services R)]) @
               [ClientDrained], Inl error) \<and>
             length joined + (case aborted of None \<Rightarrow> 0 | Some n \<Rightarrow> n) = length (rn_workers R))"
proof (cases "try_then (validate_config (ap_config a)) (\<lambda>_.
      try_then (validate_service_set (map sc_spec (ap_services a))) (\<lambda>_.
      case ap_connected_client a of Some client \<Rightarrow> Inr client | None \<Rightarrow> se_connect E (ap_connection a)))")
  case (Inl error)
  then show ?thesis by (simp add: app_start_def)
next
  case client: (Inr client)
  obtain r R where attempt: "start_attempt E client a = (r, R)" by fastforce
  have R: "same_setup (fresh_runtime a) R" "length (rn_workers R) \<le> length (re_drain (se_cleanup E))"
    using start_attempt_workers [where E = E and client = client and a = a] assms by (simp_all add: attempt)
  obtain joined aborted result where cleanup: "shutdown_after_failed_start (se_cleanup E) R =
      Some (Sent (shutdown_requested (Some (ac_shutdown_drain_timeout (rn_config R)))) #
        teardown_effects (se_cleanup E) R joined aborted, result)"
    "length joined + aborted_count aborted = length (rn_workers R)"
    using cleanup_effects [OF R(2)] by blast
  have kept: "rn_config R = ap_config a" "rn_shutdown_hook R = ap_shutdown_hook a"
    "\<not> sd_requested (rn_channel R)"
    using R(1) by (simp_all add: same_setup_def)
  show ?thesis
  proof (cases r)
    case error: (Inl error)
    then show ?thesis
      unfolding start_attempt_def [symmetric] client sum.case attempt prod.case error
      using app_start_attempt [OF client] cleanup kept
      by (intro exI [of _ joined] exI [of _ aborted] exI [of _ "case rn_telemetry R of None \<Rightarrow> []
          | Some t \<Rightarrow> [telemetry_application t ShutdownDrainDuration (Some (re_drain_elapsed (se_cleanup E)))]"])
        (simp add: attempt error teardown_effects_def aborted_count_def service_ends_zip split: option.split)
  next
    case (Inr u)
    then show ?thesis
      unfolding start_attempt_def [symmetric] client sum.case attempt prod.case Inr
      using app_start_attempt [OF client] kept by (simp add: attempt Inr)
  qed
qed

text \<open>
  The service is registered, its endpoint is refused; what the cleanup itself returns (the drain
  of the client fails) does not matter.
\<close>

definition refusing_start :: "(unit, unit) start_env" where
  "refusing_start =
     \<lparr>se_connect = (\<lambda>_. Inr ()),
      se_server = (\<lambda>_. \<lparr>so_answer = (\<lambda>calls _. if calls = [] then Some (Inr ()) else Some (Inl ''refused'')),
        so_new_inbox = (\<lambda>_. ''_INBOX'')\<rparr>),
      se_cleanup = idle_env\<lparr>re_client_drain := Inl ''closed''\<rparr>\<rparr>"

theorem failed_start_cleans_up_witness:
  "\<exists>effects. app_start refusing_start demo_app = Some (effects, Inl ''refused'') \<and>
     last effects = ClientDrained"
proof -
  have "length (concat (map sc_spawns (ap_services demo_app))) \<le> length (re_drain (se_cleanup refusing_start))"
    by (simp add: demo_app_def app_serve_def app_with_client_def app_new_def code_of_model_def
        generated_starters_def model_operations_def demo_service_def map_filter_def Let_def
        operation_starter_def demo_operation_def refusing_start_def idle_env_def)
  moreover have "run_startup_hook t (ap_startup_hook demo_app) = Inr ()" for t
    by (simp add: demo_app_def app_serve_def app_with_client_def app_new_def run_startup_hook_def)
  moreover have "fst (start_all (se_server refusing_start ()) (ap_services demo_app)
      (fresh_runtime demo_app)) = Some (Inl ''refused'')"
    by (simp add: demo_app_def app_serve_def app_with_client_def app_new_def
        refusing_start_def code_of_model_def generated_starters_def model_operations_def
        demo_service_def map_filter_def operation_starter_def operation_is_encrypted_def
        request_encrypted_def demo_operation_def fresh_runtime_def runtime_new_def
        set_shutdown_hook_def set_telemetry_layer_def set_encryption_key_def
        service_start_def start_defs step_then_def call_server_def done_with_def)
  then obtain R where "start_all (se_server refusing_start ()) (ap_services demo_app)
      (fresh_runtime demo_app) = (Some (Inl ''refused''), R)" by (metis prod.collapse)
  ultimately show ?thesis
    using failed_start_cleans_up [where a = demo_app and E = refusing_start]
    by (auto simp: demo_app_accepted)
qed

end
