(* ===== verification/Live_Harness.thy ===== *)
theory Live_Harness
  imports Runtime_Run Nats_Server Test_Harness
begin

text \<open>
  \<open>nats-micro/src/testing/live.rs\<close>: the harness that runs an application against a local NATS
  server.  Starting the server, connecting, creating streams and starting the application are
  composed as in \<open>LiveTestApp::start\<close>, with the ways to leave it (a value, an error, a panic) as
  the type \<open>live_exit\<close>; the server is a local variable of \<open>start\<close> and is dropped with it
  unless the value that leaves owns it.  What the environment answers is the record \<open>live_env\<close>.
\<close>

section \<open>Environment variables\<close>

definition env_flag :: "string option \<Rightarrow> bool" where
  "env_flag v \<longleftrightarrow> v = Some ''1''"

definition strip_suffix :: "string \<Rightarrow> string \<Rightarrow> string option" where
  "strip_suffix suf s =
     (let n = length s - length suf
      in if length suf \<le> length s \<and> drop n s = suf then Some (take n s) else None)"

definition parse_u64 :: "string \<Rightarrow> nat option" where
  "parse_u64 s = (case parse_unsigned u64_max s of Inr n \<Rightarrow> Some n | Inl _ \<Rightarrow> None)"

text \<open>\<open>Duration::from_mins\<close> panics when the number of seconds does not fit 64 bits.\<close>

definition from_mins :: "nat \<Rightarrow> duration option" where
  "from_mins n = (if n * 60 \<le> u64_max then Some (from_secs (n * 60)) else None)"

text \<open>\<open>parse_duration\<close>: the outer \<open>None\<close> is the panic of \<open>from_mins\<close>.\<close>

definition parse_live_duration :: "string \<Rightarrow> duration option option" where
  "parse_live_duration v =
     (case strip_suffix ''ms'' v of
        Some w \<Rightarrow> Some (map_option from_millis (parse_u64 w))
      | None \<Rightarrow>
          (case strip_suffix ''s'' v of
             Some w \<Rightarrow> Some (map_option from_secs (parse_u64 w))
           | None \<Rightarrow>
               (case strip_suffix ''m'' v of
                  Some w \<Rightarrow> (case parse_u64 w of
                      None \<Rightarrow> Some None
                    | Some n \<Rightarrow> map_option Some (from_mins n))
                | None \<Rightarrow> Some (map_option from_secs (parse_u64 v)))))"

definition live_test_timeout :: "string option \<Rightarrow> duration option" where
  "live_test_timeout var =
     (case var of
        None \<Rightarrow> Some (from_secs 30)
      | Some v \<Rightarrow> map_option (\<lambda>d. case d of Some d \<Rightarrow> d | None \<Rightarrow> from_secs 30)
          (parse_live_duration v))"

section \<open>Skipping\<close>

definition SKIP_PREFIX :: string where
  "SKIP_PREFIX = ''NATS_MICRO_LIVE_TEST_SKIPPED:''"

definition missing_server_for_requirement :: "string \<Rightarrow> bool \<Rightarrow> string" where
  "missing_server_for_requirement message required =
     (if required
      then ''`nats-server` is required by NATS_MICRO_REQUIRE_NATS_SERVER=1: '' @ message
      else SKIP_PREFIX @ '' '' @ message)"

definition is_live_test_skip :: "string \<Rightarrow> bool" where
  "is_live_test_skip error = (take (length SKIP_PREFIX) error = SKIP_PREFIX)"

section \<open>Streams\<close>

text \<open>A \<open>BTreeMap\<close> is an association list sorted by key.\<close>

fun btree_insert :: "string \<Rightarrow> 'v \<Rightarrow> (string \<times> 'v) list \<Rightarrow> (string \<times> 'v) list" where
  "btree_insert k v [] = [(k, v)]"
| "btree_insert k v ((k', v') # m) =
     (if k = k' then (k, v) # m
      else if k < k' then (k, v) # (k', v') # m
      else (k', v') # btree_insert k v m)"

definition collect_consumer ::
  "consumer_spec \<Rightarrow> (string \<times> string list) list \<Rightarrow> (string \<times> string list) list" where
  "collect_consumer c streams =
     (let subjects = (case map_of streams (cs_stream c) of Some xs \<Rightarrow> xs | None \<Rightarrow> [])
      in btree_insert (cs_stream c)
           (if cs_filter_subject c \<in> set subjects then subjects
            else subjects @ [cs_filter_subject c]) streams)"

fun collect_streams ::
  "service_spec list \<Rightarrow> (string \<times> string list) list \<Rightarrow> (string \<times> string list) list" where
  "collect_streams [] streams = streams"
| "collect_streams (spec # specs) streams =
     collect_streams specs (fold collect_consumer (ss_consumers spec) streams)"

section \<open>The live application\<close>

record 'k live_app =
  lt_services :: "service_code list"
  lt_jetstream :: bool
  lt_config :: app_config
  lt_encryption :: "'k option"
  lt_telemetry_layer :: bool

definition live_app_new :: "'k live_app" where
  "live_app_new =
     \<lparr>lt_services = [], lt_jetstream = False, lt_config = for_profile TestProfile,
      lt_encryption = None, lt_telemetry_layer = False\<rparr>"

text \<open>\<open>state\<close> replaces the application state of an application without services.\<close>

definition live_app_state :: "'k live_app \<Rightarrow> 'k live_app" where
  "live_app_state a =
     \<lparr>lt_services = [], lt_jetstream = lt_jetstream a, lt_config = lt_config a,
      lt_encryption = lt_encryption a, lt_telemetry_layer = lt_telemetry_layer a\<rparr>"

definition live_app_jetstream :: "'k live_app \<Rightarrow> 'k live_app" where
  "live_app_jetstream a = a\<lparr>lt_jetstream := True\<rparr>"

definition live_app_config :: "app_config \<Rightarrow> 'k live_app \<Rightarrow> 'k live_app" where
  "live_app_config config a = a\<lparr>lt_config := config\<rparr>"

definition live_app_telemetry_layer :: "'k live_app \<Rightarrow> 'k live_app" where
  "live_app_telemetry_layer a = a\<lparr>lt_telemetry_layer := True\<rparr>"

definition live_app_encryption :: "'k \<Rightarrow> 'k live_app \<Rightarrow> 'k live_app" where
  "live_app_encryption keypair a = a\<lparr>lt_encryption := Some keypair\<rparr>"

definition live_app_serve :: "service_code \<Rightarrow> 'k live_app \<Rightarrow> 'k live_app" where
  "live_app_serve service a = a\<lparr>lt_services := service # lt_services a\<rparr>"

section \<open>Starting\<close>

text \<open>
  \<open>le_require\<close> and \<open>le_keep\<close> are environment variables, \<open>le_version\<close> the outcome of
  \<open>nats-server --version\<close>, \<open>le_join_error\<close> the failure of the blocking task, \<open>le_url\<close> what
  \<open>client_url\<close> returns (\<open>None\<close>: it panics), \<open>le_sd_re\<close> the capture used on cleanup.
\<close>

record ('c, 'opts) live_env =
  le_require :: "string option"
  le_keep :: "string option"
  le_version :: "string + bool"
  le_workspace :: string
  le_fresh :: string
  le_join_error :: "string option"
  le_url :: "string option"
  le_connect :: "string \<Rightarrow> string + 'c"
  le_create_stream :: "'c \<Rightarrow> string \<Rightarrow> string list \<Rightarrow> string + unit"
  le_start :: "('c, 'opts) start_env"
  le_nats_url :: "string option"
  le_sd_re :: "string \<Rightarrow> string option"

definition missing_server :: "('c, 'opts) live_env \<Rightarrow> string \<Rightarrow> string" where
  "missing_server E message = missing_server_for_requirement message (env_flag (le_require E))"

definition start_server ::
  "('c, 'opts) live_env \<Rightarrow> bool \<Rightarrow> bool \<Rightarrow> host \<Rightarrow> (string + nats_process) \<times> host" where
  "start_server E jetstream keep_logs h =
     (if \<not> is_server_available (le_version E)
      then (Inl (missing_server E ''`nats-server` is not available on PATH''), h)
      else case le_join_error E of
             Some error \<Rightarrow> (Inl (''live server startup task failed: '' @ error), h)
           | None \<Rightarrow>
               (case (if jetstream
                  then try_run_server_with_jetstream (le_workspace E) (le_fresh E) h
                  else try_run_basic_server (le_fresh E) h) of
                  (Inr server, h) \<Rightarrow> (Inr (preserve_logs keep_logs server), h)
                | (Inl error, h) \<Rightarrow>
                    (Inl (missing_server E (''failed to start `nats-server`: '' @ error)), h)))"

text \<open>The streams in key order, each created or found before the next.\<close>

fun create_streams ::
  "(string \<Rightarrow> string list \<Rightarrow> string + unit) \<Rightarrow> (string \<times> string list) list \<Rightarrow> string + unit" where
  "create_streams create [] = Inr ()"
| "create_streams create ((name, subjects) # rest) =
     try_then (create name subjects) (\<lambda>_. create_streams create rest)"

record 'k live_harness =
  lh_running :: "'k runtime option"
  lh_server :: "nats_process option"
  lh_server_url :: string
  lh_recipient :: "bytes option"

text \<open>The application that is started, and the recipient for its key pair.\<close>

definition app_from_service_set :: "string option \<Rightarrow> service_code list \<Rightarrow> ('k, 'c, 'opts) app" where
  "app_from_service_set nats_url services =
     \<lparr>ap_services = services, ap_startup_hook = NoStartupHook, ap_config = config_default,
      ap_connection = connection_from_env nats_url, ap_connected_client = None,
      ap_shutdown_hook = None, ap_encryption = None, ap_telemetry_layer = False\<rparr>"

definition live_application ::
  "('c, 'opts) live_env \<Rightarrow> string \<Rightarrow> 'k live_app \<Rightarrow> ('k, 'c, 'opts) app" where
  "live_application E url a =
     (let app = app_with_connection (connection_new url)
            (app_with_config (lt_config a) (app_from_service_set (le_nats_url E) (lt_services a)));
          app = (if lt_telemetry_layer a then app_with_telemetry_layer app else app)
      in case lt_encryption a of
           Some keypair \<Rightarrow> app_with_encryption keypair app | None \<Rightarrow> app)"

text \<open>
  Everything \<open>start\<close> does once the server runs.  \<open>None\<close> is a cleanup of the application that
  does not end.
\<close>

datatype 'a live_exit = Started 'a | Failed string | Panicked

definition live_start_on ::
  "('c, 'opts) live_env \<Rightarrow> bool \<Rightarrow> (string \<times> string list) list \<Rightarrow> nats_process \<Rightarrow>
   service_key_pair live_app \<Rightarrow> service_key_pair live_harness live_exit option" where
  "live_start_on E with_jetstream streams server a =
     (case le_url E of
        None \<Rightarrow> Some Panicked
      | Some url \<Rightarrow>
          (case try_then (le_connect E url) (\<lambda>client.
                 if with_jetstream then create_streams (le_create_stream E client) streams
                 else Inr ()) of
             Inl error \<Rightarrow> Some (Failed error)
           | Inr _ \<Rightarrow>
               Option.bind (app_start (le_start E) (live_application E url a)) (\<lambda>(effects, started).
                 case started of
                   Inl error \<Rightarrow> Some (Failed error)
                 | Inr R \<Rightarrow>
                     map_option (\<lambda>ready. case ready of
                         Inl error \<Rightarrow> Failed error
                       | Inr _ \<Rightarrow> Started \<lparr>lh_running = Some R, lh_server = Some server,
                           lh_server_url = url, lh_recipient = map_option kp_public (lt_encryption a)\<rparr>)
                       (running_ready True []))))"

text \<open>The end of the scope of \<open>server\<close>: dropped, unless it was moved into the harness.\<close>

definition leave_scope ::
  "(string \<Rightarrow> string option) \<Rightarrow> nats_process \<Rightarrow> 'k live_harness live_exit \<Rightarrow> host \<Rightarrow> host" where
  "leave_scope sd_re server r h =
     (if (case r of Started L \<Rightarrow> lh_server L = Some server | _ \<Rightarrow> False) then h
      else drop_server sd_re server h)"

definition live_start ::
  "('c, 'opts) live_env \<Rightarrow> service_key_pair live_app \<Rightarrow> host \<Rightarrow>
   (service_key_pair live_harness live_exit \<times> host) option" where
  "live_start E a h =
     (let streams = collect_streams (map sc_spec (lt_services a)) [];
          with_jetstream = (lt_jetstream a \<or> streams \<noteq> []);
          keep_logs = env_flag (le_keep E)
      in case start_server E with_jetstream keep_logs h of
           (Inl error, h) \<Rightarrow> Some (Failed error, h)
         | (Inr server, h) \<Rightarrow>
             map_option (\<lambda>r. (r, leave_scope (le_sd_re E) server r h))
               (live_start_on E with_jetstream streams server a))"

section \<open>The harness\<close>

definition live_client :: "'k live_harness \<Rightarrow> 'h generated_client" where
  "live_client L = service_client"

definition live_encrypted_client :: "'k live_harness \<Rightarrow> 'h generated_client option" where
  "live_encrypted_client L = map_option service_encrypted_client (lh_recipient L)"

definition server_log_path :: "'k live_harness \<Rightarrow> string option" where
  "server_log_path L = map_option ns_logfile (lh_server L)"

text \<open>\<open>shutdown\<close>: the result of the application, after which the server is dropped.\<close>

definition live_shutdown ::
  "(string \<Rightarrow> string option) \<Rightarrow> run_env \<Rightarrow> 'k live_harness \<Rightarrow> host \<Rightarrow> ((string + unit) \<times> host) option"
  where
  "live_shutdown sd_re E L h =
     map_option (\<lambda>result.
         (result, case lh_server L of Some server \<Rightarrow> drop_server sd_re server h | None \<Rightarrow> h))
       (case lh_running L of
          Some R \<Rightarrow> map_option snd (running_shutdown E R)
        | None \<Rightarrow> Some (Inr ()))"

text \<open>
  \<open>Drop for LiveTestHarness\<close> by the kind of the current Tokio runtime.  Dropping the fields
  afterwards drops a server that is still there.
\<close>

datatype runtime_flavor = NoRuntime | MultiThread | CurrentThread

datatype live_effect =
    RequestShutdown
  | AwaitShutdown
  | DropServer
  | SpawnTask "live_effect list"

definition live_drop :: "runtime_flavor \<Rightarrow> 'k live_harness \<Rightarrow> live_effect list" where
  "live_drop flavor L =
     (let server = (if lh_server L = None then [] else [DropServer])
      in case lh_running L of
           None \<Rightarrow> server
         | Some R \<Rightarrow>
             RequestShutdown #
             (case flavor of
                MultiThread \<Rightarrow> AwaitShutdown # server
              | CurrentThread \<Rightarrow> [SpawnTask (AwaitShutdown # server)]
              | NoRuntime \<Rightarrow> server))"

text \<open>
  What the effects do to the host.  \<open>ends\<close>: the shutdown that is awaited returns.  A spawned task
  runs to its end; if its runtime goes before that, dropping the task drops the server it owns.
\<close>

fun perform_drop :: "(host \<Rightarrow> host) \<Rightarrow> bool \<Rightarrow> live_effect list \<Rightarrow> host \<Rightarrow> host option" where
  "perform_drop drop_it ends [] h = Some h"
| "perform_drop drop_it ends (RequestShutdown # es) h = perform_drop drop_it ends es h"
| "perform_drop drop_it ends (AwaitShutdown # es) h =
     (if ends then perform_drop drop_it ends es h else None)"
| "perform_drop drop_it ends (DropServer # es) h = perform_drop drop_it ends es (drop_it h)"
| "perform_drop drop_it ends (SpawnTask task # es) h =
     Option.bind (perform_drop drop_it ends task h) (perform_drop drop_it ends es)"

definition drop_harness ::
  "(string \<Rightarrow> string option) \<Rightarrow> bool \<Rightarrow> runtime_flavor \<Rightarrow> 'k live_harness \<Rightarrow> host \<Rightarrow> host option" where
  "drop_harness sd_re ends flavor L =
     perform_drop (case lh_server L of Some server \<Rightarrow> drop_server sd_re server | None \<Rightarrow> id) ends
       (live_drop flavor L)"

section \<open>Lemmas\<close>

lemma btree_insert_map_of: "map_of (btree_insert k v m) = (map_of m)(k \<mapsto> v)"
  by (induction k v m rule: btree_insert.induct) (auto simp: fun_eq_iff)

lemma btree_insert_keys: "fst ` set (btree_insert k v m) = insert k (fst ` set m)"
  by (induction k v m rule: btree_insert.induct) auto

lemma btree_insert_sorted:
  "sorted_wrt (<) (map fst m) \<Longrightarrow> sorted_wrt (<) (map fst (btree_insert k v m))"
proof (induction k v m rule: btree_insert.induct)
  case (2 k v k' v' m)
  then show ?case
    using btree_insert_keys [of k v m]
    by (auto simp: not_less_iff_gr_or_eq simp flip: set_map)
qed simp

text \<open>The map as a relation between streams and subjects.\<close>

definition streams_ok :: "(string \<times> string list) list \<Rightarrow> (string \<times> string) set \<Rightarrow> bool" where
  "streams_ok m R \<longleftrightarrow>
     sorted_wrt (<) (map fst m) \<and>
     (\<forall>stream subjects. map_of m stream = Some subjects \<longrightarrow> distinct subjects \<and> subjects \<noteq> []) \<and>
     (\<forall>stream subject. (\<exists>subjects. map_of m stream = Some subjects \<and> subject \<in> set subjects) \<longleftrightarrow>
        (stream, subject) \<in> R)"

lemma collect_consumer_ok:
  assumes "streams_ok m R"
  shows "streams_ok (collect_consumer c m) (insert (cs_stream c, cs_filter_subject c) R)"
proof -
  let ?s = "cs_stream c" and ?f = "cs_filter_subject c"
  define olds where "olds = (case map_of m ?s of Some xs \<Rightarrow> xs | None \<Rightarrow> [])"
  define ys where "ys = (if ?f \<in> set olds then olds else olds @ [?f])"
  have sorted: "sorted_wrt (<) (map fst m)"
    and old: "\<And>s xs. map_of m s = Some xs \<Longrightarrow> distinct xs \<and> xs \<noteq> []"
    and R: "\<And>s f. (\<exists>xs. map_of m s = Some xs \<and> f \<in> set xs) \<longleftrightarrow> (s, f) \<in> R"
    using assms unfolding streams_ok_def by blast+
  have m': "map_of (collect_consumer c m) = (map_of m)(?s \<mapsto> ys)"
    by (simp only: collect_consumer_def Let_def btree_insert_map_of ys_def olds_def)
  have "distinct olds"
  proof (cases "map_of m ?s")
    case (Some xs)
    then show ?thesis using old [OF Some] by (simp add: olds_def)
  qed (simp add: olds_def)
  then have ys: "distinct ys" "ys \<noteq> []" "set ys = insert ?f (set olds)" by (auto simp: ys_def)
  have "f \<in> set olds \<longleftrightarrow> (?s, f) \<in> R" for f
    using R [of ?s f] by (cases "map_of m ?s") (auto simp: olds_def)
  then have "(\<exists>xs. map_of (collect_consumer c m) s = Some xs \<and> f \<in> set xs) \<longleftrightarrow>
      (s, f) \<in> insert (?s, ?f) R" for s f
    using R [of s f] ys(3) by (cases "s = ?s") (auto simp: m')
  moreover have "distinct xs \<and> xs \<noteq> []" if "map_of (collect_consumer c m) s = Some xs" for s xs
  proof (cases "s = ?s")
    case True
    then show ?thesis using that ys(1,2) by (simp add: m')
  next
    case False
    then show ?thesis using that old [of s xs] by (simp add: m')
  qed
  moreover have "sorted_wrt (<) (map fst (collect_consumer c m))"
    using btree_insert_sorted [OF sorted] by (simp add: collect_consumer_def Let_def)
  ultimately show ?thesis unfolding streams_ok_def by blast
qed

lemma collect_consumers_ok:
  "streams_ok m R \<Longrightarrow> streams_ok (fold collect_consumer cs m)
     (R \<union> {(cs_stream c, cs_filter_subject c) | c. c \<in> set cs})"
proof (induction cs arbitrary: m R)
  case (Cons c cs)
  have "R \<union> {(cs_stream c', cs_filter_subject c') | c'. c' \<in> set (c # cs)} =
      insert (cs_stream c, cs_filter_subject c) R \<union>
        {(cs_stream c', cs_filter_subject c') | c'. c' \<in> set cs}" by auto
  then show ?case using Cons.IH [OF collect_consumer_ok [OF Cons.prems, of c]] by simp
qed simp

lemma collect_streams_ok:
  "streams_ok m R \<Longrightarrow> streams_ok (collect_streams specs m)
     (R \<union> {(cs_stream c, cs_filter_subject c) | c. \<exists>spec\<in>set specs. c \<in> set (ss_consumers spec)})"
proof (induction specs arbitrary: m R)
  case (Cons spec specs)
  have "R \<union> {(cs_stream c, cs_filter_subject c) | c. \<exists>spec'\<in>set (spec # specs). c \<in> set (ss_consumers spec')} =
      (R \<union> {(cs_stream c, cs_filter_subject c) | c. c \<in> set (ss_consumers spec)}) \<union>
        {(cs_stream c, cs_filter_subject c) | c. \<exists>spec'\<in>set specs. c \<in> set (ss_consumers spec')}"
    by auto
  then show ?case
    using Cons.IH [OF collect_consumers_ok [OF Cons.prems, of "ss_consumers spec"]] by simp
qed simp

text \<open>
  The live harness declares exactly the streams that the services consume: one per stream, in
  key order, with the filter subjects of its consumers, each once.
\<close>

theorem live_streams_are_consumed:
  "sorted_wrt (<) (map fst (collect_streams specs [])) \<and>
   (\<forall>stream subjects. map_of (collect_streams specs []) stream = Some subjects \<longrightarrow> distinct subjects) \<and>
   (\<forall>stream subject.
      (\<exists>subjects. map_of (collect_streams specs []) stream = Some subjects \<and> subject \<in> set subjects) \<longleftrightarrow>
      (\<exists>spec\<in>set specs. \<exists>c\<in>set (ss_consumers spec).
         cs_stream c = stream \<and> cs_filter_subject c = subject))"
proof -
  have "streams_ok [] {}" by (simp add: streams_ok_def)
  define S where "S = {(cs_stream c, cs_filter_subject c) | c.
    \<exists>spec\<in>set specs. c \<in> set (ss_consumers spec)}"
  have iff: "(stream, subject) \<in> S \<longleftrightarrow> (\<exists>spec\<in>set specs. \<exists>c\<in>set (ss_consumers spec).
      cs_stream c = stream \<and> cs_filter_subject c = subject)" for stream subject
    by (auto simp: S_def)
  have "streams_ok (collect_streams specs []) S"
    using collect_streams_ok [OF \<open>streams_ok [] {}\<close>, of specs] by (simp add: S_def)
  then have ok: "sorted_wrt (<) (map fst (collect_streams specs []))"
    "\<And>stream subjects. map_of (collect_streams specs []) stream = Some subjects \<Longrightarrow> distinct subjects"
    "\<And>stream subject. (\<exists>subjects. map_of (collect_streams specs []) stream = Some subjects \<and>
      subject \<in> set subjects) \<longleftrightarrow> (stream, subject) \<in> S"
    unfolding streams_ok_def by blast+
  show ?thesis unfolding ok(3) iff using ok(1,2) by blast
qed

section \<open>The time limit\<close>

lemma strip_suffix_Some: "strip_suffix suf s = Some p \<longleftrightarrow> s = p @ suf"
  by (auto simp: strip_suffix_def Let_def) (metis append_take_drop_id)

lemma strip_suffix_other: "a \<noteq> b \<Longrightarrow> strip_suffix (w @ [a]) (s @ [b]) = None"
  by (metis append.assoc last_snoc not_None_eq strip_suffix_Some)

lemma live_test_timeout_units:
  assumes "n \<le> u64_max"
  shows "live_test_timeout (Some (show_nat n @ ''s'')) = Some (from_secs n)"
    and "live_test_timeout (Some (show_nat n @ ''ms'')) = Some (from_millis n)"
proof -
  have "strip_suffix ''ms'' (show_nat n @ ''s'') = None"
  proof (rule ccontr)
    assume "strip_suffix ''ms'' (show_nat n @ ''s'') \<noteq> None"
    then obtain p where "show_nat n = p @ ''m''" by (auto simp: strip_suffix_Some)
    then show False
      using show_nat_digits [of "CHR ''m''" n] by (simp add: is_ascii_digit_def byte_of_def)
  qed
  moreover have "strip_suffix ''s'' (show_nat n @ ''s'') = Some (show_nat n)"
    and "strip_suffix ''ms'' (show_nat n @ ''ms'') = Some (show_nat n)"
    by (simp_all add: strip_suffix_Some)
  ultimately show "live_test_timeout (Some (show_nat n @ ''s'')) = Some (from_secs n)"
    and "live_test_timeout (Some (show_nat n @ ''ms'')) = Some (from_millis n)"
    using assms by (simp_all add: live_test_timeout_def parse_live_duration_def parse_u64_def)
qed

text \<open>
  A number of minutes that fits 64 bits is used if its seconds fit as well; otherwise reading
  the time limit panics instead of falling back to the default.
\<close>

theorem live_test_timeout_minutes:
  assumes "n \<le> u64_max"
  shows "live_test_timeout (Some (show_nat n @ ''m'')) =
    (if n * 60 \<le> u64_max then Some (from_secs (n * 60)) else None)"
proof -
  have "strip_suffix ''ms'' (show_nat n @ ''m'') = None"
    and "strip_suffix ''s'' (show_nat n @ ''m'') = None"
    using strip_suffix_other [of "CHR ''s''" "CHR ''m''" "''m''"]
      strip_suffix_other [of "CHR ''s''" "CHR ''m''" "[]"] by simp_all
  moreover have "strip_suffix ''m'' (show_nat n @ ''m'') = Some (show_nat n)"
    by (simp add: strip_suffix_Some)
  ultimately show ?thesis
    using assms by (simp add: live_test_timeout_def parse_live_duration_def parse_u64_def from_mins_def)
qed

section \<open>Cleaning up\<close>

text \<open>
  A missing server is a skip exactly when the server is not required.
\<close>

lemma is_live_test_skip_missing:
  "is_live_test_skip (missing_server_for_requirement message required) \<longleftrightarrow> \<not> required"
  by (simp add: is_live_test_skip_def missing_server_for_requirement_def SKIP_PREFIX_def)

lemma start_server_beside:
  assumes "host_wf h" "start_server E jetstream keep h = (r, h')"
  shows "case r of
      Inl e \<Rightarrow> h' = h
    | Inr s \<Rightarrow> running_beside (hs_processes h) s h' \<and> ns_keep_logs s = keep"
proof (cases "is_server_available (le_version E) \<and> le_join_error E = None")
  case True
  let ?cfg = "if jetstream then path_join (path_join (path_join (le_workspace E) ''nats-server'')
      ''configs'') ''jetstream.conf'' else []"
  have run: "start_server E jetstream keep h =
      (case do_run (le_fresh E) ?cfg None None h of
         (Inr server, h) \<Rightarrow> (Inr (preserve_logs keep server), h)
       | (Inl error, h) \<Rightarrow>
           (Inl (missing_server E (''failed to start `nats-server`: '' @ error)), h))"
    using True by (simp add: start_server_def try_run_server_with_jetstream_def
        try_run_basic_server_def try_run_server_def try_run_server_with_port_def)
  obtain r' h1 where d: "do_run (le_fresh E) ?cfg None None h = (r', h1)"
    by (cases "do_run (le_fresh E) ?cfg None None h")
  show ?thesis
  proof (cases r')
    case (Inl e)
    then have "h1 = h"
      using d by (auto simp: do_run_def spawn_command_def Let_def split: option.splits)
    then show ?thesis using assms(2) d Inl by (auto simp: run)
  next
    case (Inr s)
    then show ?thesis
      using assms(2) run d do_run_beside [of "le_fresh E" ?cfg None None h s h1, OF _ assms(1)]
      by (auto simp: running_beside_def preserve_logs_def)
  qed
next
  case False
  then show ?thesis
    using assms(2)
    by (cases "is_server_available (le_version E)"; cases "le_join_error E")
      (auto simp: start_server_def)
qed

lemma live_start_on_exits:
  assumes "live_start_on E with_jetstream streams server a = Some r"
  shows "case r of
      Panicked \<Rightarrow> le_url E = None
    | Failed error \<Rightarrow> True
    | Started L \<Rightarrow> lh_server L = Some server \<and> (\<exists>R. lh_running L = Some R)"
proof (cases "le_url E")
  case None
  then show ?thesis using assms by (simp add: live_start_on_def)
next
  case (Some url)
  let ?prepared = "try_then (le_connect E url) (\<lambda>client.
      if with_jetstream then create_streams (le_create_stream E client) streams else Inr ())"
  show ?thesis
  proof (cases ?prepared)
    case (Inl error)
    then show ?thesis using assms Some by (auto simp: live_start_on_def)
  next
    case (Inr u)
    then obtain effects started where
      "app_start (le_start E) (live_application E url a) = Some (effects, started)"
      using assms Some by (auto simp: live_start_on_def bind_eq_Some_conv)
    then show ?thesis using assms Some Inr by (cases started) (auto simp: live_start_on_def)
  qed
qed

lemma live_application_services [simp]: "ap_services (live_application E url a) = lt_services a"
  by (simp add: live_application_def app_from_service_set_def app_with_connection_def
      app_with_config_def app_with_telemetry_layer_def app_with_encryption_def Let_def split: option.split)

lemma live_start_on_returns:
  assumes "length (concat (map sc_spawns (lt_services a))) \<le> length (re_drain (se_cleanup (le_start E)))"
  shows "\<exists>r. live_start_on E with_jetstream streams server a = Some r"
proof (cases "le_url E")
  case (Some url)
  obtain effects started where
    "app_start (le_start E) (live_application E url a) = Some (effects, started)"
    using app_start_returns [of "live_application E url a" "le_start E"] assms by fastforce
  then show ?thesis
    using Some by (cases started) (auto simp: live_start_on_def split: sum.split)
qed (simp add: live_start_on_def)

lemma live_start_cleanup:
  assumes "host_wf h" "live_start E a h = Some (r, h1)"
  shows "case r of
      Failed error \<Rightarrow> hs_processes h1 = hs_processes h \<and>
        (\<not> is_server_available (le_version E) \<longrightarrow> is_live_test_skip error = (le_require E \<noteq> Some ''1''))
    | Panicked \<Rightarrow> hs_processes h1 = hs_processes h \<and> le_url E = None
    | Started L \<Rightarrow> \<exists>server R. lh_server L = Some server \<and> lh_running L = Some R \<and>
        running_beside (hs_processes h) server h1 \<and> ns_keep_logs server = (le_keep E = Some ''1'')"
proof -
  define streams where "streams = collect_streams (map sc_spec (lt_services a)) []"
  define js where "js = (lt_jetstream a \<or> streams \<noteq> [])"
  obtain r0 h0 where s: "start_server E js (env_flag (le_keep E)) h = (r0, h0)"
    by (cases "start_server E js (env_flag (le_keep E)) h")
  note start = start_server_beside [OF assms(1) s]
  have live: "live_start E a h = (case (r0, h0) of
      (Inl error, h) \<Rightarrow> Some (Failed error, h)
    | (Inr server, h) \<Rightarrow> map_option (\<lambda>r. (r, leave_scope (le_sd_re E) server r h))
        (live_start_on E js streams server a))"
    using s by (simp only: live_start_def Let_def flip: streams_def js_def)
  show ?thesis
  proof (cases r0)
    case (Inl e)
    then have "r = Failed e" "h1 = h" using assms(2) live start by simp_all
    moreover have "is_live_test_skip e = (le_require E \<noteq> Some ''1'')"
      if "\<not> is_server_available (le_version E)"
      using s Inl that by (auto simp: start_server_def missing_server_def is_live_test_skip_missing env_flag_def)
    ultimately show ?thesis by simp
  next
    case (Inr server)
    note beside = start [unfolded Inr, simplified]
    have available: "is_server_available (le_version E)"
      using s Inr by (auto simp: start_server_def split: if_splits)
    have on: "live_start_on E js streams server a = Some r" "h1 = leave_scope (le_sd_re E) server r h0"
      using assms(2) live Inr by auto
    show ?thesis
      using on(2) beside available live_start_on_exits [OF on(1)]
        running_beside_killed(1) [of "hs_processes h" server h0]
      by (cases r) (auto simp: leave_scope_def env_flag_def)
  qed
qed

text \<open>
  C17: a live test cleans up after itself.  \<open>start\<close> ends, provided the application's own cleanup is
  answered (its drain, for as many workers as the services spawn).  Whether it fails or
  panics, exactly the processes that ran before are running then; a panic needs a server
  whose address cannot be found, and if the server cannot be executed the error is a skip unless
  \<open>NATS_MICRO_REQUIRE_NATS_SERVER=1\<close>.  On success one server more runs, whose logs are preserved
  if and only if \<open>NATS_MICRO_KEEP_TEST_LOGS=1\<close>; and it is gone again after \<open>shutdown\<close>,
  whatever the application returns, and when the harness is dropped without it, in every
  flavour of runtime in which the shutdown that \<open>drop\<close> awaits ends.
\<close>

theorem live_harness_cleans_up:
  assumes "host_wf h"
    and "length (concat (map sc_spawns (lt_services a))) \<le> length (re_drain (se_cleanup (le_start E)))"
  shows "\<exists>r h1. live_start E a h = Some (r, h1) \<and>
    (case r of
       Failed error \<Rightarrow> hs_processes h1 = hs_processes h \<and>
         (\<not> is_server_available (le_version E) \<longrightarrow> is_live_test_skip error = (le_require E \<noteq> Some ''1''))
     | Panicked \<Rightarrow> hs_processes h1 = hs_processes h \<and> le_url E = None
     | Started L \<Rightarrow>
         (\<exists>args server. lh_server L = Some server \<and> hs_processes h1 = hs_processes h @ [(ns_child server, args)] \<and>
           ns_keep_logs server = (le_keep E = Some ''1'')) \<and>
         (\<forall>env R. lh_running L = Some R \<longrightarrow> length (rn_workers R) \<le> length (re_drain env) \<longrightarrow>
           (\<exists>result h2. live_shutdown (le_sd_re E) env L h1 = Some (result, h2) \<and>
              hs_processes h2 = hs_processes h)) \<and>
         (\<forall>flavor ends. flavor = NoRuntime \<or> ends \<longrightarrow>
           (\<exists>h2. drop_harness (le_sd_re E) ends flavor L h1 = Some h2 \<and>
              hs_processes h2 = hs_processes h)))"
proof -
  obtain r h1 where start: "live_start E a h = Some (r, h1)"
    using live_start_on_returns [OF assms(2)]
    by (fastforce simp: live_start_def Let_def split: prod.split sum.split)
  note cleanup = live_start_cleanup [OF assms(1) start]
  show ?thesis
  proof (cases r)
    case (Started L)
    then obtain server R where L: "lh_server L = Some server" "lh_running L = Some R"
      "running_beside (hs_processes h) server h1" "ns_keep_logs server = (le_keep E = Some ''1'')"
      using cleanup by auto
    note killed = running_beside_killed(1) [OF L(3)]
    have "running_shutdown env R \<noteq> None" if "length (rn_workers R) \<le> length (re_drain env)" for env
      using that unfolding running_shutdown_def
      by (intro runtime_run_ends) (simp_all add: asks_stop_def request_shutdown_def shutdown_requested_def)
    then have "\<exists>result h2. live_shutdown (le_sd_re E) env L h1 = Some (result, h2) \<and>
        hs_processes h2 = hs_processes h" if "length (rn_workers R) \<le> length (re_drain env)" for env
      using that killed by (fastforce simp: live_shutdown_def L)
    moreover have "\<exists>h2. drop_harness (le_sd_re E) ends flavor L h1 = Some h2 \<and>
        hs_processes h2 = hs_processes h" if "flavor = NoRuntime \<or> ends" for flavor ends
      using that killed by (cases flavor) (auto simp: drop_harness_def live_drop_def L)
    moreover have "\<exists>args. hs_processes h1 = hs_processes h @ [(ns_child server, args)]"
      using L(3) by (simp add: running_beside_def)
    ultimately show ?thesis using start Started L by simp
  qed (use start cleanup in auto)
qed

definition demo_run_env :: run_env where
  "demo_run_env =
     \<lparr>re_events = [], re_drain_started = 0, re_drain = [], re_drain_elapsed = 0,
      re_service_end = (\<lambda>_. Stopped (Inr ())), re_client_drain = Inr ()\<rparr>"

definition demo_live_env :: "(unit, unit) live_env" where
  "demo_live_env =
     \<lparr>le_require = None, le_keep = Some ''1'', le_version = Inr True, le_workspace = ''/w'',
      le_fresh = ''x'', le_join_error = None, le_url = Some ''u'',
      le_connect = (\<lambda>_. Inr ()), le_create_stream = (\<lambda>_ _ _. Inr ()),
      le_start = \<lparr>se_connect = (\<lambda>_. Inr ()),
        se_server = (\<lambda>_. \<lparr>so_answer = (\<lambda>_ _. Some (Inr ())), so_new_inbox = (\<lambda>_. ''i'')\<rparr>),
        se_cleanup = demo_run_env\<rparr>,
      le_nats_url = None, le_sd_re = (\<lambda>_. None)\<rparr>"

lemma demo_config_ok: "validate_config (for_profile TestProfile) = Inr ()"
  by (simp add: validate_config_iff policy_valid_def from_secs_def)

lemma validate_no_services: "validate_service_set [] = Inr ()"
  by code_simp

theorem live_harness_cleans_up_witness:
  "\<exists>L h1 server h2. live_start demo_live_env live_app_new demo_host = Some (Started L, h1) \<and>
     lh_server L = Some server \<and> ns_keep_logs server \<and> length (hs_processes h1) = 2 \<and>
     drop_harness (\<lambda>_. None) False NoRuntime L h1 = Some h2 \<and> hs_processes h2 = [(1, [''init''])]"
proof -
  let ?app = "live_application demo_live_env ''u'' (live_app_new :: service_key_pair live_app)"
  have wf: "host_wf demo_host" by (simp add: host_wf_def demo_host_def)
  have drain: "length (concat (map sc_spawns (lt_services (live_app_new :: service_key_pair live_app)))) \<le>
      length (re_drain (se_cleanup (le_start demo_live_env)))"
    by (simp add: live_app_new_def)
  obtain s h where server: "start_server demo_live_env False True demo_host = (Inr s, h)"
    by (simp add: start_server_def demo_live_env_def is_server_available_def
        try_run_basic_server_def try_run_server_def try_run_server_with_port_def do_run_def
        spawn_command_def demo_host_def Let_def)
  have "\<exists>R. app_start (le_start demo_live_env) ?app = Some ([], Inr R)"
    using demo_config_ok validate_no_services
    by (simp add: app_start_def Let_def live_application_def app_from_service_set_def live_app_new_def
        app_with_connection_def app_with_config_def demo_live_env_def run_startup_hook_def
        done_with_def del: for_profile.simps)
  then obtain R where "app_start (le_start demo_live_env) ?app = Some ([], Inr R)" by blast
  moreover have "le_url demo_live_env = Some ''u''" "le_connect demo_live_env ''u'' = Inr ()"
    by (simp_all add: demo_live_env_def)
  ultimately have "\<exists>L. live_start_on demo_live_env False [] s live_app_new = Some (Started L)"
    by (simp add: live_start_on_def)
  then obtain L where on: "live_start_on demo_live_env False [] s live_app_new = Some (Started L)" by blast
  then have start: "live_start demo_live_env live_app_new demo_host = Some (Started L, h)"
    using server live_start_on_exits [OF on]
    by (simp add: live_start_def Let_def live_app_new_def env_flag_def demo_live_env_def leave_scope_def)
  have sd: "le_sd_re demo_live_env = (\<lambda>_. None)" by (simp add: demo_live_env_def)
  have before: "hs_processes demo_host = [(1, [''init''])]" "le_keep demo_live_env = Some ''1''"
    by (simp_all add: demo_host_def demo_live_env_def)
  from live_harness_cleans_up [OF wf drain]
  have "\<exists>args server. lh_server L = Some server \<and>
      hs_processes h = [(1, [''init'']), (ns_child server, args)] \<and> ns_keep_logs server"
    "\<forall>flavor ends. flavor = NoRuntime \<or> ends \<longrightarrow>
      (\<exists>h2. drop_harness (\<lambda>_. None) ends flavor L h = Some h2 \<and> hs_processes h2 = [(1, [''init''])])"
    unfolding start by (simp_all add: sd before)
  then show ?thesis using start by fastforce
qed

end
