(* ===== verification/Napi_Bindings.thy ===== *)
theory Napi_Bindings
  imports Generated_Client
begin

text \<open>
  The JavaScript bindings that \<open>#[service(napi)]\<close> generates
  (\<open>nats-micro-macros/src/service/napi.rs\<close>): a class with one method per callable operation,
  which forwards its arguments to the method of the Rust client of the same name.  As elsewhere
  the generator yields the emitted expressions as data; a typing judgement says which of them Rust
  accepts.  Which types N-API can receive and return, and which have the marker of an N-API
  object, is an argument (\<open>napi_types\<close>).
\<close>

section \<open>Parameters\<close>

datatype forward = ByValue | ByReference | AsDeref | AsRef

record napi_parameter =
  np_ident :: string
  np_type :: rust_type
  np_forward :: forward

definition napi_buffer :: rust_type where
  "napi_buffer =
     TyPath False True [Segment ''nats_micro'' NoArguments, Segment ''napi'' NoArguments,
       Segment ''bindgen_prelude'' NoArguments, Segment ''Buffer'' NoArguments]"

definition napi_payload_type :: "rust_type \<Rightarrow> payload_model \<Rightarrow> rust_type" where
  "napi_payload_type ty p =
     (let v = payload_value_type ty p;
          napi_type = (case pm_wrapper p of
              WrapBody \<Rightarrow> napi_buffer
            | WrapText \<Rightarrow> plain_path ''String''
            | WrapJson \<Rightarrow> v
            | WrapProto \<Rightarrow> v
            | WrapDirect \<Rightarrow> v
            | WrapResponse \<Rightarrow> ty)
      in if pm_optional p then option_of napi_type else napi_type)"

definition napi_payload_forward :: "payload_model \<Rightarrow> forward" where
  "napi_payload_forward p =
     (if pm_wrapper p = WrapResponse then ByValue
      else if \<not> pm_optional p then ByReference
      else if pm_wrapper p \<in> {WrapBody, WrapText} then AsDeref else AsRef)"

definition napi_parameter_of :: "argument_model \<Rightarrow> napi_parameter option" where
  "napi_parameter_of a =
     (case am_kind a of
        ArgSubject _ _ \<Rightarrow>
          (case am_ty a of
             TyReference l m elem \<Rightarrow>
               if last_ident elem = Some ''str''
               then Some \<lparr>np_ident = am_ident a, np_type = plain_path ''String'',
                          np_forward = ByReference\<rparr>
               else Some \<lparr>np_ident = am_ident a, np_type = am_ty a, np_forward = ByValue\<rparr>
           | _ \<Rightarrow> Some \<lparr>np_ident = am_ident a, np_type = am_ty a, np_forward = ByValue\<rparr>)
      | ArgPayload p \<Rightarrow>
          Some \<lparr>np_ident = am_ident a, np_type = napi_payload_type (am_ty a) p,
                np_forward = napi_payload_forward p\<rparr>
      | _ \<Rightarrow> None)"

section \<open>Responses and assertions\<close>

definition is_buffer_response :: "response_model \<Rightarrow> bool" where
  "is_buffer_response r \<longleftrightarrow>
     rs_codec r = WireRaw \<and> last_ident (rs_wire_type r) \<in> {Some ''Bytes'', Some ''Vec''}"

definition napi_response_type :: "response_model \<Rightarrow> rust_type" where
  "napi_response_type r =
     (let v = (if is_buffer_response r then napi_buffer else rs_wire_type r)
      in if rs_optional r then option_of v else v)"

datatype response_map = Unchanged | IntoBuffer | MapIntoBuffer

definition napi_response_map :: "response_model \<Rightarrow> response_map" where
  "napi_response_map r =
     (if is_buffer_response r then (if rs_optional r then MapIntoBuffer else IntoBuffer)
      else Unchanged)"

text \<open>The types for which the bindings assert that they are N-API objects.\<close>

definition argument_assertion :: "argument_model \<Rightarrow> rust_type option" where
  "argument_assertion a =
     (case am_kind a of
        ArgPayload p \<Rightarrow>
          if pm_wrapper p \<in> {WrapJson, WrapProto} \<or>
             pm_wrapper p = WrapDirect \<and> pm_codec p \<in> {WireJson, WireProtobuf}
          then Some (payload_value_type (am_ty a) p) else None
      | _ \<Rightarrow> None)"

definition napi_assertions :: "'tok operation_model \<Rightarrow> rust_type list" where
  "napi_assertions op =
     (if om_kind op \<notin> {MRequest, MPublish} then []
      else
        List.map_filter argument_assertion (om_arguments op) @
        (if rs_codec (om_response op) \<in> {WireJson, WireProtobuf} \<and>
            \<not> is_unit (rs_wire_type (om_response op))
         then [rs_wire_type (om_response op)] else []))"

section \<open>Methods and the class\<close>

text \<open>\<open>dispatch::conditional_attrs\<close>.\<close>

definition conditional_attrs :: "'tok impl_fn \<Rightarrow> 'tok attribute list" where
  "conditional_attrs f = filter (\<lambda>a. at_ident a \<in> {Some ''cfg'', Some ''cfg_attr''}) (fn_attrs f)"

record 'tok napi_method =
  nm_attrs :: "'tok attribute list"
  nm_js_name :: string
  nm_ident :: string
  nm_parameters :: "napi_parameter list"
  nm_response :: rust_type
  nm_map :: response_map

text \<open>\<open>lower_camel\<close> is \<open>heck\<close>'s conversion.\<close>

definition napi_method_of ::
  "(string \<Rightarrow> string) \<Rightarrow> 'tok operation_model \<Rightarrow> 'tok napi_method option" where
  "napi_method_of lower_camel op =
     (let m = (\<lambda>response conversion.
            \<lparr>nm_attrs = conditional_attrs (om_method op),
             nm_js_name = lower_camel (fn_ident (om_method op)),
             nm_ident = fn_ident (om_method op),
             nm_parameters = List.map_filter napi_parameter_of (om_arguments op),
             nm_response = response, nm_map = conversion\<rparr>)
      in case om_kind op of
           MRequest \<Rightarrow>
             Some (m (napi_response_type (om_response op)) (napi_response_map (om_response op)))
         | MPublish \<Rightarrow> Some (m (TyTuple []) Unchanged)
         | MSubscribe \<Rightarrow> None
         | MConsumer \<Rightarrow> None)"

record 'tok napi_class =
  nl_assertions :: "rust_type list"
  nl_error_mapper :: string
  nl_ident :: string
  nl_js_name :: string
  nl_inner :: string
  nl_takes_recipient :: bool
  nl_methods :: "'tok napi_method list"

definition napi_generate ::
  "(string \<Rightarrow> string) \<Rightarrow> (string \<Rightarrow> string) \<Rightarrow> 'tok service_model \<Rightarrow> 'tok napi_class option" where
  "napi_generate lower_camel snake m =
     (if \<not> sa_napi (sv_args m) then None
      else let service = sv_service_ident m
        in Some \<lparr>nl_assertions = concat (map napi_assertions (model_operations m)),
            nl_error_mapper = ''__'' @ snake service @ ''_napi_client_error'',
            nl_ident = ''Js'' @ service @ ''Client'', nl_js_name = service @ ''Client'',
            nl_inner = service @ ''Client'',
            nl_takes_recipient = list_ex operation_is_encrypted (model_operations m),
            nl_methods = List.map_filter (napi_method_of lower_camel)
              (filter (\<lambda>op. om_kind op \<in> {MRequest, MPublish}) (model_operations m))\<rparr>)"

section \<open>The emitted functions\<close>

text \<open>
  The error mapper: the reason of the N-API error, for \<open>show_error\<close> the \<open>Display\<close> of the client error.
\<close>

definition napi_error_reason ::
  "'j json_ops \<Rightarrow> (('j, 'e) client_error \<Rightarrow> string) \<Rightarrow> ('j, 'e) client_error \<Rightarrow> string" where
  "napi_error_reason J show_error e =
     (let response = (case as_nats_error_response e of
          Some r \<Rightarrow> r
        | None \<Rightarrow> internal ''NAPI_CLIENT_ERROR'' (show_error e))
      in case jo_error_to_vec J response of
           Some json \<Rightarrow> bytes_to_string json
         | None \<Rightarrow> error_display response)"

text \<open>\<open>connect\<close>: the key is a parameter only of services with encrypted operations.\<close>

definition napi_connect ::
  "'tok napi_class \<Rightarrow> string + unit \<Rightarrow> bytes option \<Rightarrow> string + 'h generated_client" where
  "napi_connect C connected recipient_public_key =
     try_then (map_err (\<lambda>error. ''CLIENT_CONNECT_FAILED: '' @ error) connected) (\<lambda>_.
       let inner = generated_client_new
       in if nl_takes_recipient C
          then (case recipient_public_key of
                  Some key \<Rightarrow>
                    if length key = 32 then Inr (with_recipient key inner)
                    else Inl (''MISSING_RECIPIENT_PUBKEY: expected 32 bytes, received '' @
                      show_nat (length key))
                | None \<Rightarrow> Inr inner)
          else Inr inner)"

section \<open>Typing\<close>

text \<open>
  What Rust accepts of the emitted expressions.  \<open>deref_target\<close> is the \<open>Deref\<close> of the types
  that occur; a reference coerces along it, but not below an \<open>Option\<close>.
\<close>

definition byte_slice :: rust_type where
  "byte_slice = TyOther Slice ''[u8]''"

definition deref_target :: "rust_type \<Rightarrow> rust_type option" where
  "deref_target t =
     (if t = plain_path ''String'' then Some (plain_path ''str'')
      else if t = napi_buffer \<or> is_vec_u8 t then Some byte_slice else None)"

definition same_target :: "rust_type \<Rightarrow> rust_type \<Rightarrow> bool" where
  "same_target t u \<longleftrightarrow> t = u \<or> t = plain_path ''str'' \<and> last_ident u = Some ''str''"

definition coerces :: "rust_type \<Rightarrow> rust_type \<Rightarrow> bool" where
  "coerces t u \<longleftrightarrow> t = u \<or>
     (case (t, u) of
        (TyReference _ False a, TyReference _ False b) \<Rightarrow>
          a = b \<or> (case deref_target a of Some d \<Rightarrow> same_target d b | None \<Rightarrow> False)
      | _ \<Rightarrow> False)"

definition forward_type :: "napi_parameter \<Rightarrow> rust_type option" where
  "forward_type p =
     (case np_forward p of
        ByValue \<Rightarrow> Some (np_type p)
      | ByReference \<Rightarrow> Some (borrowed (np_type p))
      | AsRef \<Rightarrow> map_option (\<lambda>t. option_of (borrowed t)) (option_inner (np_type p))
      | AsDeref \<Rightarrow>
          map_option (\<lambda>t. option_of (borrowed t))
            (Option.bind (option_inner (np_type p)) deref_target))"

definition argument_accepted :: "napi_parameter \<Rightarrow> client_parameter \<Rightarrow> bool" where
  "argument_accepted p c \<longleftrightarrow>
     np_ident p = cp_ident c \<and> (case forward_type p of Some t \<Rightarrow> coerces t (cp_ty c) | None \<Rightarrow> False)"

text \<open>The type of \<open>Ok(map(response))\<close> for a response of the client's type.\<close>

definition into_buffer :: "rust_type \<Rightarrow> rust_type option" where
  "into_buffer t = (if last_ident t \<in> {Some ''Bytes'', Some ''Vec''} then Some napi_buffer else None)"

definition mapped_type :: "response_map \<Rightarrow> rust_type \<Rightarrow> rust_type option" where
  "mapped_type f t =
     (case f of
        Unchanged \<Rightarrow> Some t
      | IntoBuffer \<Rightarrow> into_buffer t
      | MapIntoBuffer \<Rightarrow> map_option option_of (Option.bind (option_inner t) into_buffer))"

definition response_accepted :: "'tok napi_method \<Rightarrow> 'tok operation_model \<Rightarrow> bool" where
  "response_accepted M op \<longleftrightarrow>
     (if om_kind op = MRequest then mapped_type (nm_map M) (client_response_type op) = Some (nm_response M)
      else nm_response M = TyTuple [])"

text \<open>
  The types of N-API, of a library: those that a method receives and returns, and those with the
  marker trait of an object.  Strings and buffers are received, buffers and unit returned, and an
  option is whenever its value is.
\<close>

record napi_types =
  nt_receives :: "rust_type \<Rightarrow> bool"
  nt_returns :: "rust_type \<Rightarrow> bool"
  nt_object :: "rust_type \<Rightarrow> bool"

definition napi_type_laws :: "napi_types \<Rightarrow> bool" where
  "napi_type_laws N \<longleftrightarrow>
     nt_receives N (plain_path ''String'') \<and> nt_receives N napi_buffer \<and>
     nt_returns N napi_buffer \<and> nt_returns N (TyTuple []) \<and>
     (\<forall>t. nt_receives N (option_of t) = nt_receives N t) \<and>
     (\<forall>t. nt_returns N (option_of t) = nt_returns N t)"

text \<open>
  A method compiles: N-API receives its parameters and returns its result, the client accepts the
  forwarded arguments, the converted response has the declared type, and the assertions hold.
\<close>

definition binding_compiles ::
  "napi_types \<Rightarrow> 'tok napi_method \<Rightarrow> 'tok operation_model \<Rightarrow> bool" where
  "binding_compiles N M op \<longleftrightarrow>
     list_all (\<lambda>p. nt_receives N (np_type p)) (nm_parameters M) \<and>
     list_all2 argument_accepted (nm_parameters M) (client_parameters op) \<and>
     response_accepted M op \<and> nt_returns N (nm_response M) \<and>
     list_all (nt_object N) (napi_assertions op)"

section \<open>Which bindings compile\<close>

text \<open>
  The same of the handler's signature.  A subject argument is text, or a type that N-API receives.
  The value of a payload in \<open>Body\<close> or \<open>Text\<close> always fits; any other is of a type that N-API
  receives, an object if it is JSON or a Protobuf message.  A raw \<open>Vec\<close> must be one of bytes, and
  not optional: it is forwarded as \<open>Option<&Vec<u8>>\<close> where the client takes \<open>Option<&[u8]>\<close>.
\<close>

definition argument_bindable :: "napi_types \<Rightarrow> argument_model \<Rightarrow> bool" where
  "argument_bindable N a \<longleftrightarrow>
     (case am_kind a of
        ArgSubject _ _ \<Rightarrow>
          (case am_ty a of
             TyReference l m elem \<Rightarrow>
               if last_ident elem = Some ''str'' then \<not> m else nt_receives N (am_ty a)
           | _ \<Rightarrow> nt_receives N (am_ty a))
      | ArgPayload p \<Rightarrow>
          pm_wrapper p \<in> {WrapBody, WrapText} \<or>
          (let v = payload_value_type (am_ty a) p
           in nt_receives N v \<and>
              (if pm_codec p \<in> {WireJson, WireProtobuf} then nt_object N v
               else pm_codec p = WireRaw \<and> last_ident v = Some ''Vec'' \<longrightarrow>
                 \<not> pm_optional p \<and> is_vec_u8 v))
      | _ \<Rightarrow> True)"

text \<open>
  A response is no \<open>Response\<close> and no \<open>str\<close>, which the client returns under other types; it is bytes
  or of a type that N-API returns.
\<close>

definition response_bindable :: "napi_types \<Rightarrow> 'tok operation_model \<Rightarrow> bool" where
  "response_bindable N op \<longleftrightarrow>
     (let r = om_response op; t = rs_wire_type r
      in (om_kind op = MRequest \<longrightarrow>
            (if rs_wrapper r = WrapResponse then t = nats_micro_type ''ClientResponse''
             else \<not> path_is_ident ''str'' t) \<and>
            (is_buffer_response r \<or> nt_returns N t)) \<and>
         (rs_codec r \<in> {WireJson, WireProtobuf} \<and> \<not> is_unit t \<longrightarrow> nt_object N t))"

lemma option_inner_option_of [simp]: "option_inner (option_of t) = Some t"
  by (simp add: option_inner_def option_of_def last_ident_def last_segment_def
      last_type_argument_def last_type_arguments_def)

lemma option_of_inject [simp]: "option_of t = option_of u \<longleftrightarrow> t = u"
  by (simp add: option_of_def)

lemma coerces_option_of [simp]: "coerces (option_of t) (option_of u) \<longleftrightarrow> t = u"
  by (simp add: coerces_def option_of_def)

lemma borrowed_inject [simp]: "borrowed t = borrowed u \<longleftrightarrow> t = u"
  by (simp add: borrowed_def)

lemma coerces_borrowed:
  "coerces (borrowed t) (borrowed u) \<longleftrightarrow>
     t = u \<or> (case deref_target t of Some d \<Rightarrow> same_target d u | None \<Rightarrow> False)"
  by (simp add: coerces_def borrowed_def)

lemma last_ident_byte_slice [simp]: "last_ident byte_slice = None"
  by (simp add: byte_slice_def last_ident_def last_segment_def)

lemma deref_target_simps [simp]:
  "deref_target (plain_path ''String'') = Some (plain_path ''str'')"
  "deref_target napi_buffer = Some byte_slice"
  "is_vec_u8 t \<Longrightarrow> deref_target t = Some byte_slice"
  by (auto simp: deref_target_def napi_buffer_def plain_path_def is_vec_u8_def last_ident_def
      last_segment_def)

lemma subject_bindable:
  assumes "am_kind a = ArgSubject name i" and "napi_type_laws N"
  shows "\<exists>p c. napi_parameter_of a = Some p \<and> client_parameter_of a = Some c \<and>
    (nt_receives N (np_type p) \<and> argument_accepted p c \<longleftrightarrow> argument_bindable N a)"
proof (cases "\<exists>l m elem. am_ty a = TyReference l m elem \<and> last_ident elem = Some ''str''")
  case True
  then obtain l m elem where ty: "am_ty a = TyReference l m elem" "last_ident elem = Some ''str''"
    by blast
  then have "elem \<noteq> plain_path ''String''" by (auto simp: plain_path_def last_ident_def last_segment_def)
  then have "coerces (borrowed (plain_path ''String'')) (am_ty a) \<longleftrightarrow> \<not> m"
    using ty by (auto simp: coerces_def borrowed_def same_target_def)
  then show ?thesis
    using assms ty
    by (simp add: napi_parameter_of_def client_parameter_of_def argument_accepted_def forward_type_def
        argument_bindable_def napi_type_laws_def)
next
  case False
  then have "napi_parameter_of a =
      Some \<lparr>np_ident = am_ident a, np_type = am_ty a, np_forward = ByValue\<rparr>"
    "argument_bindable N a \<longleftrightarrow> nt_receives N (am_ty a)"
    using assms(1) by (auto simp: napi_parameter_of_def argument_bindable_def split: rust_type.split)
  then show ?thesis
    using assms(1)
    by (simp add: client_parameter_of_def argument_accepted_def forward_type_def coerces_def)
qed

lemma byte_slice_targets [simp]:
  "deref_target t = Some byte_slice \<longleftrightarrow> t = napi_buffer \<or> is_vec_u8 t"
  "same_target t byte_slice \<longleftrightarrow> t = byte_slice"
  "same_target byte_slice t \<longleftrightarrow> t = byte_slice"
  by (auto simp: deref_target_def same_target_def plain_path_def byte_slice_def is_vec_u8_def
      napi_buffer_def last_ident_def last_segment_def)

lemma raw_vec_coerces:
  assumes "last_ident v = Some ''Vec''"
  shows "coerces (borrowed v) (borrowed byte_slice) \<longleftrightarrow> is_vec_u8 v" "v \<noteq> byte_slice"
proof -
  show "v \<noteq> byte_slice" using assms by auto
  have "v \<noteq> plain_path ''String''" "v \<noteq> napi_buffer"
    using assms by (auto simp: plain_path_def napi_buffer_def last_ident_def last_segment_def)
  then show "coerces (borrowed v) (borrowed byte_slice) \<longleftrightarrow> is_vec_u8 v"
    using \<open>v \<noteq> byte_slice\<close> by (auto simp: coerces_borrowed deref_target_def)
qed

lemma payload_bindable:
  assumes "am_kind a = ArgPayload p" and "payload_wf p" and "napi_type_laws N"
  shows "\<exists>n c. napi_parameter_of a = Some n \<and> client_parameter_of a = Some c \<and>
    (nt_receives N (np_type n) \<and> argument_accepted n c \<and>
       (case argument_assertion a of Some t \<Rightarrow> nt_object N t | None \<Rightarrow> True) \<longleftrightarrow>
     argument_bindable N a)"
proof (cases "pm_wrapper p = WrapDirect \<and> pm_codec p = WireRaw \<and>
    last_ident (payload_value_type (am_ty a) p) = Some ''Vec''")
  case True
  then show ?thesis
    using assms raw_vec_coerces [of "payload_value_type (am_ty a) p"]
    by (cases "pm_optional p")
      (auto simp: napi_parameter_of_def client_parameter_of_def argument_accepted_def
        forward_type_def napi_payload_type_def napi_payload_forward_def client_payload_type_def
        argument_bindable_def argument_assertion_def napi_type_laws_def Let_def
        byte_slice_def [symmetric])
next
  case False
  then show ?thesis
    using assms
    by (cases "pm_wrapper p"; cases "pm_optional p"; cases "pm_codec p")
      (simp_all add: napi_parameter_of_def client_parameter_of_def argument_accepted_def
        forward_type_def napi_payload_type_def napi_payload_forward_def client_payload_type_def
        argument_bindable_def argument_assertion_def napi_type_laws_def payload_wf_def Let_def
        coerces_borrowed same_target_def byte_slice_def [symmetric])
qed

lemma response_accepted_iff:
  assumes "napi_method_of lower_camel op = Some M" and "response_wf (om_response op)"
    and "om_kind op = MRequest"
  shows "response_accepted M op \<longleftrightarrow>
    (if rs_wrapper (om_response op) = WrapResponse
     then rs_wire_type (om_response op) = nats_micro_type ''ClientResponse''
     else \<not> path_is_ident ''str'' (rs_wire_type (om_response op)))"
proof -
  let ?r = "om_response op"
  have str: "last_ident (rs_wire_type ?r) = Some ''str''" "rs_wire_type ?r \<noteq> plain_path ''String''"
    if "path_is_ident ''str'' (rs_wire_type ?r)"
    using that
    by (auto simp: path_is_ident_def plain_path_def last_ident_def last_segment_def
        split: rust_type.splits list.splits path_segment.splits path_arguments.splits)
  have other: "last_ident (nats_micro_type ''ClientResponse'') = Some ''ClientResponse''"
    by (simp add: nats_micro_type_def last_ident_def last_segment_def)
  have M: "nm_response M = napi_response_type ?r" "nm_map M = napi_response_map ?r"
    using assms(1,3) by (auto simp: napi_method_of_def Let_def)
  have buffer: "into_buffer (rs_wire_type ?r) = Some napi_buffer" if "is_buffer_response ?r"
    using that by (simp add: is_buffer_response_def into_buffer_def)
  have not_buffer: "into_buffer (nats_micro_type ''ClientResponse'') = None"
    "path_is_ident ''str'' (rs_wire_type ?r) \<Longrightarrow> \<not> is_buffer_response ?r"
    using str(1) other by (auto simp: into_buffer_def is_buffer_response_def)
  have no_path: "rs_wire_type ?r \<noteq> nats_micro_type ''ClientResponse''" if "is_buffer_response ?r"
    using that other by (auto simp: is_buffer_response_def)
  show ?thesis
    using M assms(3) buffer not_buffer str(2) no_path
    by (cases "is_buffer_response ?r"; cases "rs_optional ?r"; cases "rs_wrapper ?r = WrapResponse";
        cases "path_is_ident ''str'' (rs_wire_type ?r)")
      (auto simp: response_accepted_def mapped_type_def napi_response_map_def
        napi_response_type_def client_response_type_def)
qed

lemma returned_type:
  assumes "napi_method_of lower_camel op = Some M" and "napi_type_laws N"
  shows "nt_returns N (nm_response M) \<longleftrightarrow>
    (om_kind op = MRequest \<longrightarrow> is_buffer_response (om_response op) \<or> nt_returns N (rs_wire_type (om_response op)))"
  using assms
  by (auto simp: napi_method_of_def Let_def napi_response_type_def napi_type_laws_def
      split: macro_kind.splits if_splits)

lemma argument_cases:
  assumes "argument_wf subject a" and "napi_type_laws N"
  obtains (bound) p c where "napi_parameter_of a = Some p" "client_parameter_of a = Some c"
      "np_ident p = cp_ident c"
      "nt_receives N (np_type p) \<and> argument_accepted p c \<and>
         (case argument_assertion a of Some t \<Rightarrow> nt_object N t | None \<Rightarrow> True) \<longleftrightarrow>
       argument_bindable N a"
    | (other) "napi_parameter_of a = None" "client_parameter_of a = None"
      "argument_assertion a = None" "argument_bindable N a"
proof (cases "am_kind a")
  case (ArgSubject name i)
  then show thesis
    using subject_bindable [OF ArgSubject assms(2)] that(1)
    by (auto simp: argument_assertion_def napi_parameter_of_def client_parameter_of_def
        split: rust_type.splits if_splits)
next
  case (ArgPayload p)
  then show thesis
    using payload_bindable [OF ArgPayload _ assms(2)] assms(1) that(1)
    by (auto simp: argument_wf_def napi_parameter_of_def client_parameter_of_def)
qed (use that(2) in \<open>simp_all add: napi_parameter_of_def client_parameter_of_def
  argument_assertion_def argument_bindable_def\<close>)

lemma bindable_arguments:
  assumes "list_all (argument_wf subject) args" and "napi_type_laws N"
  shows "map np_ident (List.map_filter napi_parameter_of args) =
      map cp_ident (List.map_filter client_parameter_of args) \<and>
    (list_all (\<lambda>p. nt_receives N (np_type p)) (List.map_filter napi_parameter_of args) \<and>
     list_all2 argument_accepted (List.map_filter napi_parameter_of args)
       (List.map_filter client_parameter_of args) \<and>
     list_all (nt_object N) (List.map_filter argument_assertion args) \<longleftrightarrow>
     list_all (argument_bindable N) args)"
  using assms(1)
proof (induction args)
  case (Cons a args)
  have a: "argument_wf subject a" using Cons.prems by simp
  show ?case using a assms(2)
  proof (cases rule: argument_cases)
    case (bound p c)
    then show ?thesis using Cons by (auto simp: map_filter_def split: option.splits)
  next
    case other
    then show ?thesis using Cons by (simp add: map_filter_def)
  qed
qed (simp add: map_filter_def)


text \<open>N-API with text, numbers, buffers, unit and their options, and one object.\<close>

fun demo_napi_value :: "rust_type \<Rightarrow> bool" where
  "demo_napi_value (TyPath q l [Segment i (AngleBracketed [TypeArgument t])]) =
     (i = ''Option'' \<and> demo_napi_value t)"
| "demo_napi_value (TyTuple ts) = (ts = [])"
| "demo_napi_value t = (last_ident t \<in> {Some ''String'', Some ''u32'', Some ''Buffer'', Some ''Query''})"

definition demo_napi_types :: napi_types where
  "demo_napi_types =
     \<lparr>nt_receives = demo_napi_value, nt_returns = demo_napi_value,
      nt_object = (\<lambda>t. last_ident t = Some ''Query'')\<rparr>"

lemma demo_napi_type_laws: "napi_type_laws demo_napi_types"
  by (simp add: napi_type_laws_def demo_napi_types_def plain_path_def napi_buffer_def option_of_def
      last_ident_def last_segment_def)


section \<open>What the bindings report\<close>

text \<open>The reason of an N-API error is the JSON of the response that the client reports.\<close>

theorem napi_error_carries_response:
  assumes "json_laws J" and "error_wf J (into_nats_error_response e)"
  shows "jo_error_from_slice J (as_bytes (napi_error_reason J show_error e)) =
    Inr (into_nats_error_response e)"
proof -
  have "as_nats_error_response e = Some (into_nats_error_response e)" by (cases e) simp_all
  then show ?thesis
    using assms by (fastforce simp: json_laws_def napi_error_reason_def as_bytes_to_string)
qed

text \<open>
  A key of any other length than 32 bytes is refused, and an encrypted service may be connected
  to without a key.
\<close>

theorem napi_connect_key:
  "napi_connect C connected key = Inr client \<longleftrightarrow>
     connected = Inr () \<and>
     (if nl_takes_recipient C \<and> key \<noteq> None
      then length (the key) = 32 \<and> gc_recipient client = key
      else gc_recipient client = None) \<and>
     gc_default_headers client = None"
  by (cases connected; cases key; cases client)
    (auto simp: napi_connect_def Let_def with_recipient_def generated_client_new_def)

text \<open>
  The check of N-API types looks for the names of unsupported types as text, so it refuses every
  type whose name contains one of them, such as \<open>Archive\<close>.
\<close>

lemma contains_text_append: "contains_text w (p @ w @ s)"
proof (induction p)
  case Nil
  show ?case
  proof (cases "w @ s")
    case (Cons a list)
    then have "take (length w) (a # list) = w" by (metis append_eq_conv_conj)
    then show ?thesis using Cons by simp
  qed simp
qed simp

theorem napi_refuses_names:
  assumes "so_render X ty = p @ ''Arc'' @ s"
  shows "validate_napi_type X ty = Inl (MacroError ''unsupported N-API wire type'')"
  using contains_text_append [of "''Arc''" p s] assms
  by (simp add: validate_napi_type_def)

end
