(* ===== verification/Service_Expansion.thy ===== *)
theory Service_Expansion
  imports Napi_Bindings
begin

text \<open>
  \<open>expand_result\<close> of \<open>nats-micro-macros/src/service/mod.rs\<close>: \<open>#[service]\<close> as a whole, from its
  tokens to everything it emits.  What each generator emits is in the theory of that generator;
  here they are put together, with every panic of the macro (\<open>MacroPanic\<close>).
\<close>

record 'tok expanded_service =
  xs_ident :: string
  xs_impl :: "'tok item_impl"
  xs_spec :: service_spec
  xs_markers :: "(string \<times> nat \<times> operation_spec) list"
  xs_bindings :: "binding list list"
  xs_operation_models :: "(string \<times> nat option) list"
  xs_contract :: service_contract
  xs_napi :: "'tok napi_class option"
  xs_starters :: "'tok starter list"

text \<open>
  The names of identifiers come from \<open>heck\<close>: \<open>shouty\<close>, \<open>camel\<close>, \<open>lower_camel\<close> and \<open>snake\<close>.
  \<open>format_ident!\<close> panics on a text that is no identifier.
\<close>

record heck_ops =
  hk_shouty :: "string \<Rightarrow> string"
  hk_camel :: "string \<Rightarrow> string"
  hk_lower_camel :: "string \<Rightarrow> string"
  hk_snake :: "string \<Rightarrow> string"

definition generated_marker ::
  "heck_ops \<Rightarrow> 'tok syn_ops \<Rightarrow> 'tok service_model \<Rightarrow> 'tok operation_model \<Rightarrow>
   (string \<times> nat \<times> operation_spec) option" where
  "generated_marker K X m op =
     (if so_is_ident X (hk_shouty K (fn_ident (om_method op)))
      then operation_marker (hk_shouty K) X m op else None)"

definition generated_markers ::
  "heck_ops \<Rightarrow> 'tok syn_ops \<Rightarrow> 'tok service_model \<Rightarrow>
   (string \<times> nat \<times> operation_spec) list option" where
  "generated_markers K X m =
     all_some (map (generated_marker K X m)
       (filter (\<lambda>op. om_kind op \<noteq> MConsumer) (model_operations m)))"

text \<open>The bindings of the endpoints and consumers; a publish operation has no body.\<close>

definition generated_bindings :: "'tok service_model \<Rightarrow> binding list list option" where
  "generated_bindings m =
     all_some (map argument_bindings (filter (\<lambda>op. om_kind op \<noteq> MPublish) (model_operations m)))"

definition expand_service ::
  "heck_ops \<Rightarrow> 'tok syn_ops \<Rightarrow> features \<Rightarrow> 'tok attribute \<Rightarrow> 'tok \<Rightarrow> 'tok item_impl \<Rightarrow>
   macro_error + 'tok expanded_service" where
  "expand_service K X F allow args input =
     try_then (service_args_parse X args) (\<lambda>args.
     try_then (build_model X args input) (\<lambda>model.
     try_then (validate_service X F model) (\<lambda>_.
     let m = assign_indexes model in
     try_then (ok_or MacroPanic (cleaned_impl allow m)) (\<lambda>cleaned.
     try_then (ok_or MacroPanic (generated_markers K X m)) (\<lambda>markers.
     try_then (ok_or MacroPanic (generated_bindings m)) (\<lambda>bindings.
       Inr \<lparr>xs_ident = sv_service_ident m, xs_impl = cleaned, xs_spec = spec_of_service X m,
            xs_markers = markers, xs_bindings = bindings,
            xs_operation_models = operation_models (hk_camel K) m,
            xs_contract = generated_contract X m,
            xs_napi = napi_generate (hk_lower_camel K) (hk_snake K) m,
            xs_starters = generated_starters m\<rparr>))))))"

section \<open>Which services expand\<close>

lemma all_some_total: "(\<exists>ys. all_some xs = Some ys) \<longleftrightarrow> None \<notin> set xs"
  using all_some_iff [of xs] by auto

lemma all_some_eq: "all_some xs = Some ys \<longleftrightarrow> xs = map Some ys"
  by (induction xs arbitrary: ys rule: all_some.induct) auto

lemma generated_bindings_total:
  assumes "build_model X args item = Inr m"
  shows "\<exists>b. generated_bindings (assign_indexes m) = Some b"
proof -
  have "argument_bindings op \<noteq> None" if "op \<in> set (model_operations (assign_indexes m))" for op
    using indexed_operation_wf [OF assms that] argument_bindings_total
    unfolding operation_wf_model_def by blast
  then show ?thesis unfolding generated_bindings_def all_some_total by force
qed

lemma assign_indexes_names:
  "map (\<lambda>op. (om_kind op, om_method op))
     (List.map_filter method_operation (assign_indexes_loop i j ms)) =
   map (\<lambda>op. (om_kind op, om_method op)) (List.map_filter method_operation ms)"
  by (induction i j ms rule: assign_indexes_loop.induct) (simp_all add: List.map_filter_def)

lemma indexed_operation_names:
  "(\<exists>op\<in>set (model_operations (assign_indexes m)). P (om_kind op) (om_method op)) \<longleftrightarrow>
   (\<exists>op\<in>set (model_operations m). P (om_kind op) (om_method op))"
proof -
  have "(\<lambda>op. (om_kind op, om_method op)) ` set (model_operations (assign_indexes m)) =
      (\<lambda>op. (om_kind op, om_method op)) ` set (model_operations m)"
    using arg_cong [OF assign_indexes_names [of 0 0 "sv_methods m"], of set]
    by (simp add: model_operations_def assign_indexes_def)
  then show ?thesis by (auto simp: image_iff set_eq_iff) metis+
qed

lemma generated_markers_total:
  "(\<exists>ks. generated_markers K X (assign_indexes m) = Some ks) \<longleftrightarrow>
     (\<forall>op\<in>set (model_operations m). om_kind op \<noteq> MConsumer \<longrightarrow>
        so_is_ident X (hk_shouty K (fn_ident (om_method op))))"
proof -
  have "generated_marker K X (assign_indexes m) op = None \<longleftrightarrow>
      \<not> so_is_ident X (hk_shouty K (fn_ident (om_method op)))"
    if "op \<in> set (model_operations (assign_indexes m))" "om_kind op \<noteq> MConsumer" for op
    using assign_indexes_index_wf [OF that(1), of X "hk_shouty K"] that(2)
    by (auto simp: generated_marker_def index_wf_def)
  then have "None \<in> set (map (generated_marker K X (assign_indexes m))
        (filter (\<lambda>op. om_kind op \<noteq> MConsumer) (model_operations (assign_indexes m)))) \<longleftrightarrow>
      (\<exists>op\<in>set (model_operations (assign_indexes m)). om_kind op \<noteq> MConsumer \<and>
        \<not> so_is_ident X (hk_shouty K (fn_ident (om_method op))))"
    by (force simp: image_iff)
  then show ?thesis
    unfolding generated_markers_def all_some_total
    using indexed_operation_names [of m "\<lambda>k f. k \<noteq> MConsumer \<and> \<not> so_is_ident X (hk_shouty K (fn_ident f))"]
    by blast
qed

lemma generated_markers_enumerate:
  assumes "generated_markers K X (assign_indexes m) = Some markers"
  shows "map snd markers = enumerate 0 (ss_operations (spec_of_service X (assign_indexes m)))"
proof (rule nth_equalityI)
  let ?m = "assign_indexes m"
  let ?ops = "filter (\<lambda>op. om_kind op \<noteq> MConsumer) (model_operations ?m)"
  let ?specs = "ss_operations (spec_of_service X ?m)"
  have specs: "length ?specs = length ?ops" by (simp add: spec_of_service_def Let_def)
  have each: "map (generated_marker K X ?m) ?ops = map Some markers"
    using assms by (simp add: generated_markers_def all_some_eq)
  then have len: "length markers = length ?ops" by (metis length_map)
  then show "length (map snd markers) = length (enumerate 0 ?specs)" using specs by simp
  fix k assume "k < length (map snd markers)"
  then have k: "k < length ?ops" "k < length markers" using len by simp_all
  then have "generated_marker K X ?m (?ops ! k) = Some (markers ! k)"
    using arg_cong [OF each, of "\<lambda>xs. xs ! k"] by simp
  moreover have "om_operation_index (?ops ! k) = Some k"
    using assign_indexes_positions(1) [of k 0 0 "sv_methods m"] k
    by (simp add: model_operations_def assign_indexes_def served_conv)
  ultimately have "snd (markers ! k) = (k, ?specs ! k)"
    by (cases "markers ! k") (auto simp: generated_marker_def operation_marker_def split: if_splits)
  then show "map snd markers ! k = enumerate 0 ?specs ! k"
    using k specs by (simp add: nth_enumerate_eq)
qed

text \<open>
  C29: the macro expands a block if and only if its attribute parses, the block classifies, the
  service validates and the marker of every operation has a valid name: no other panic is
  possible.  The markers then are the entries of the emitted specification, each with its index,
  in order.
\<close>

theorem service_expands_iff:
  "((\<exists>E. expand_service K X F allow args input = Inr E) \<longleftrightarrow>
     (\<exists>args' m. service_args_parse X args = Inr args' \<and> build_model X args' input = Inr m \<and>
        validate_service X F m = Inr () \<and>
        (\<forall>op\<in>set (model_operations m). om_kind op \<noteq> MConsumer \<longrightarrow>
           so_is_ident X (hk_shouty K (fn_ident (om_method op)))))) \<and>
   (\<forall>E. expand_service K X F allow args input = Inr E \<longrightarrow>
      map snd (xs_markers E) = enumerate 0 (ss_operations (xs_spec E)))"
proof (intro conjI iffI allI impI)
  assume "\<exists>E. expand_service K X F allow args input = Inr E"
  then show "\<exists>args' m. service_args_parse X args = Inr args' \<and> build_model X args' input = Inr m \<and>
      validate_service X F m = Inr () \<and>
      (\<forall>op\<in>set (model_operations m). om_kind op \<noteq> MConsumer \<longrightarrow>
         so_is_ident X (hk_shouty K (fn_ident (om_method op))))"
    by (auto simp: expand_service_def Let_def generated_markers_total [symmetric])
next
  assume "\<exists>args' m. service_args_parse X args = Inr args' \<and> build_model X args' input = Inr m \<and>
      validate_service X F m = Inr () \<and>
      (\<forall>op\<in>set (model_operations m). om_kind op \<noteq> MConsumer \<longrightarrow>
         so_is_ident X (hk_shouty K (fn_ident (om_method op))))"
  then obtain args' m where m: "service_args_parse X args = Inr args'"
    "build_model X args' input = Inr m" "validate_service X F m = Inr ()"
    and markers: "\<exists>ks. generated_markers K X (assign_indexes m) = Some ks"
    by (auto simp: generated_markers_total)
  obtain cleaned where "cleaned_impl allow (assign_indexes m) = Some cleaned"
    using build_model_cleaned [OF m(2)] by blast
  then show "\<exists>E. expand_service K X F allow args input = Inr E"
    using m markers generated_bindings_total [OF m(2)]
    by (auto simp: expand_service_def Let_def)
next
  fix E assume "expand_service K X F allow args input = Inr E"
  then obtain m where markers: "generated_markers K X (assign_indexes m) = Some (xs_markers E)"
    and spec: "xs_spec E = spec_of_service X (assign_indexes m)"
    by (auto simp: expand_service_def Let_def)
  show "map snd (xs_markers E) = enumerate 0 (ss_operations (xs_spec E))"
    unfolding spec using markers by (rule generated_markers_enumerate)
qed

definition demo_heck :: heck_ops where
  "demo_heck = \<lparr>hk_shouty = (\<lambda>s. s), hk_camel = (\<lambda>s. s),
     hk_lower_camel = (\<lambda>s. s), hk_snake = (\<lambda>s. s)\<rparr>"

lemma demo_args_parse: "service_args_parse demo_syn ''demo'' = Inr demo_args"
  by code_simp

theorem service_expands_iff_witness:
  "\<exists>E. expand_service demo_heck demo_syn demo_features \<lparr>at_ident = Some ''allow'', at_list = None\<rparr>
       ''demo'' demo_item = Inr E \<and>
     map snd (xs_markers E) = enumerate 0 (ss_operations (xs_spec E))"
proof -
  have "\<forall>op\<in>set (model_operations demo_service).
      so_is_ident demo_syn (hk_shouty demo_heck (fn_ident (om_method op)))"
    by (simp add: model_operations_def demo_service_def demo_operation_def demo_method_def
        clean_method_def demo_heck_def demo_syn_def is_ascii_alphanumeric_def
        is_ascii_lower_def byte_of_def)
  then show ?thesis
    using service_expands_iff [of demo_heck demo_syn demo_features _ "''demo''" demo_item]
      demo_args_parse demo_build_model demo_validate
    by blast
qed

end
