(* ===== verification/Harness_Calls.thy ===== *)
theory Harness_Calls
  imports Encrypted_Calls Test_Harness
begin

text \<open>
  Tests through \<open>nats-micro/src/testing.rs\<close>: the services the macro emits, put behind the
  in-memory transport, and called by the clients of the harness.
\<close>

section \<open>Served services\<close>

text \<open>
  What the code of a service is made of: the outside libraries, the conversions of the user's
  types, a request id and a nonce for those the code generates.
\<close>

record ('j, 'v, 'h, 'q, 'e) dispatch_env =
  de_json :: "'j json_ops"
  de_crypto :: crypto_ops
  de_headers :: "'h header_ops"
  de_map_json :: map_json
  de_user :: "('v, 'h, 'q, 'e) user_ops"
  de_uuid :: string
  de_nonce :: bytes
  de_into :: "('v, 'h) handler_value \<Rightarrow> consumer_action"

text \<open>
  The body of one route of \<open>dispatch_local\<close>.  An endpoint whose generation fails is no code at
  all; for an accepted service there is none (\<open>generated_request_some\<close>).
\<close>

definition local_endpoint ::
  "('j, 'v, 'h, 'q, 'e) dispatch_env \<Rightarrow> ('tok operation_model \<Rightarrow> ('v, 'h, 'q, 'e) handler) \<Rightarrow> 'q \<Rightarrow>
   service_key_pair option \<Rightarrow> 'tok operation_model \<Rightarrow> 'h local_request \<Rightarrow> 'h local_dispatch" where
  "local_endpoint D handlers q keypair op request =
     (if operation_is_encrypted op
      then case generated_encrypted_request (de_json D) (de_crypto D) (de_headers D) (de_map_json D)
             (de_user D) (de_uuid D) (de_nonce D) op (handlers op) of
          Some endpoint \<Rightarrow> dispatch_encrypted (de_json D) (de_headers D) (endpoint q) keypair request
        | None \<Rightarrow> NotMatched request
      else case generated_request (de_json D) (de_headers D) (de_user D) (de_uuid D) op (handlers op) of
          Some endpoint \<Rightarrow> dispatch_endpoint (de_headers D) (endpoint q) request
        | None \<Rightarrow> NotMatched request)"

definition local_consumer_endpoint ::
  "('j, 'v, 'h, 'q, 'e) dispatch_env \<Rightarrow> ('tok operation_model \<Rightarrow> ('v, 'h, 'q, 'e) handler) \<Rightarrow> 'q \<Rightarrow>
   'tok operation_model \<Rightarrow> 'h local_request \<Rightarrow> 'h local_consumer_dispatch" where
  "local_consumer_endpoint D handlers q op request =
     (case generated_consumer (de_json D) (de_headers D) (de_user D) (de_uuid D) (de_into D) op
         (handlers op) of
        Some consume \<Rightarrow> dispatch_consumer_endpoint (de_headers D) (consume q) request
      | None \<Rightarrow> CNotMatched request)"

text \<open>The \<open>Service\<close> implementation that the macro emits, with the handlers of its block.\<close>

definition local_service_of ::
  "('j, 'v, 'h, 'q, 'e) dispatch_env \<Rightarrow> 'tok syn_ops \<Rightarrow>
   'tok service_model \<times> ('tok operation_model \<Rightarrow> ('v, 'h, 'q, 'e) handler) \<Rightarrow>
   ('h, 'q) local_service" where
  "local_service_of D X = (\<lambda>(m, handlers).
     \<lparr>lv_spec = spec_of_service X m,
      lv_dispatch = (\<lambda>q keypair request.
        (local_routes (local_endpoint D handlers q keypair) (model_operations m) request, q)),
      lv_consumer = (\<lambda>q durable request.
        (local_consumer_routes (local_consumer_endpoint D handlers q) (model_operations m)
           durable request, q))\<rparr>)"

text \<open>\<open>LocalTransport\<close> as the transport of a client, at one moment of the test.\<close>

definition harness_transport :: "('h, 'q) harness \<Rightarrow> 'h client_transport" where
  "harness_transport h =
     \<lparr>tr_request = (\<lambda>c. fst (local_transport_request None c h)),
      tr_publish = (\<lambda>subject payload headers.
        fst (local_transport_publish subject payload headers h))\<rparr>"

section \<open>Routing\<close>

definition routes_to :: "string \<Rightarrow> 'tok operation_model \<Rightarrow> bool" where
  "routes_to subject op \<longleftrightarrow>
     om_kind op = MRequest \<and> subject_matches (sm_pattern (om_subject op)) subject"

lemma local_routes_find:
  "local_routes endpoint ops r =
     (case find (routes_to (local_subject_str (lr_subject r))) ops of
        Some op \<Rightarrow> endpoint op r
      | None \<Rightarrow> NotMatched r)"
proof (induction ops)
  case (Cons op ops)
  then show ?case
    by (cases "routes_to (local_subject_str (lr_subject r)) op") (auto simp: routes_to_def)
qed simp

lemma find_SomeD: "find P xs = Some x \<Longrightarrow> x \<in> set xs \<and> P x"
  by (auto simp: find_Some_iff)

text \<open>An operation that is the only one a subject is routed to gets the request.\<close>

definition routed_only_to ::
  "string \<Rightarrow> ('tok service_model \<times> 'a) list \<Rightarrow> 'tok service_model \<times> 'a \<Rightarrow> 'tok operation_model \<Rightarrow> bool"
  where
  "routed_only_to subject services service op \<longleftrightarrow>
     service \<in> set services \<and> op \<in> set (model_operations (fst service)) \<and> routes_to subject op \<and>
     (\<forall>service'\<in>set services. \<forall>op'\<in>set (model_operations (fst service')).
        routes_to subject op' \<longrightarrow> service' = service \<and> op' = op)"

lemma local_service_dispatch:
  "lv_dispatch (local_service_of D X (m, handlers)) q keypair r =
     (case find (routes_to (local_subject_str (lr_subject r))) (model_operations m) of
        Some op \<Rightarrow> local_endpoint D handlers q keypair op r
      | None \<Rightarrow> NotMatched r, q)"
  by (simp add: local_service_of_def local_routes_find)

lemma dispatch_routed:
  assumes "routed_only_to (local_subject_str (lr_subject r)) services (m, handlers) op"
    and "local_endpoint D handlers q keypair op r = Matched x"
  shows "dispatch (map (local_service_of D X) services) q keypair r = (Matched x, q)"
proof -
  let ?s = "local_subject_str (lr_subject r)"
  have "(m, handlers) \<in> set services" "op \<in> set (model_operations m)" "routes_to ?s op"
    using assms(1) unfolding routed_only_to_def fst_conv by blast+
  then have "\<exists>service\<in>set services. find (routes_to ?s) (model_operations (fst service)) \<noteq> None"
    by (intro bexI [of _ "(m, handlers)"]) (auto simp: find_None_iff)
  moreover have "service' = (m, handlers) \<and> op' = op"
    if "service' \<in> set services" "op' \<in> set (model_operations (fst service'))" "routes_to ?s op'"
    for service' op'
    using assms(1) that unfolding routed_only_to_def by blast
  ultimately show ?thesis
  proof (induction services)
    case (Cons service services)
    obtain m' handlers' where s: "service = (m', handlers')" by fastforce
    show ?case
    proof (cases "find (routes_to ?s) (model_operations m')")
      case None
      have "dispatch (map (local_service_of D X) services) q keypair r = (Matched x, q)"
      proof (rule Cons.IH)
        show "\<exists>service\<in>set services. find (routes_to ?s) (model_operations (fst service)) \<noteq> None"
          using Cons.prems(1) None s by auto
      qed (rule Cons.prems(2), simp_all)
      then show ?thesis using None s by (simp add: local_service_dispatch)
    next
      case (Some op')
      have "service = (m, handlers) \<and> op' = op"
        by (rule Cons.prems(2)) (use find_SomeD [OF Some] s in simp_all)
      then show ?thesis using assms(2) Some s by (simp add: local_service_dispatch)
    qed
  qed simp
qed

lemma local_subject_conv [simp]:
  "local_subject_str (local_subject_from subject) = subject_as_str subject"
  by (cases subject) simp_all

lemma dispatch_answered:
  "response_to_local_dispatch H (call (local_view H \<lparr>lr_subject = local_subject_from (cq_subject c),
       lr_payload = cq_payload c, lr_headers = cq_headers c\<rparr>)) = Matched (Inr (answered H None call c))"
  by (simp add: response_to_local_dispatch_def answered_def local_view_def received_def
      split: sum.split response.split)

text \<open>The harness answers a request that is routed to one operation as its endpoint does.\<close>

lemma harness_answers:
  assumes served: "hn_services h = map (local_service_of D X) services"
    and faults: "fst (before_request (subject_as_str (cq_subject c)) (hn_faults h)) = Inr ()"
    and routed: "routed_only_to (subject_as_str (cq_subject c)) services (m, handlers) op"
    and call: "\<And>request. local_endpoint D handlers (hn_state h) (hn_keypair h) op request =
      response_to_local_dispatch H (call (local_view H request))"
  shows "tr_request (harness_transport h) c = Inr (answered H None call c)"
proof -
  let ?r = "\<lparr>lr_subject = local_subject_from (cq_subject c), lr_payload = cq_payload c,
      lr_headers = cq_headers c\<rparr>"
  have "dispatch (hn_services h) (hn_state h) (hn_keypair h) ?r =
      (Matched (Inr (answered H None call c)), hn_state h)"
    unfolding served
    by (rule dispatch_routed [of _ _ m handlers op]) (simp_all add: routed call dispatch_answered)
  then show ?thesis
    using faults by (auto simp: harness_transport_def local_transport_request_def split: prod.splits)
qed

section \<open>Calls\<close>

lemma accepted_bindings:
  assumes "build_model X args item = Inr m" "op \<in> set (model_operations m)"
  shows "\<exists>bindings. argument_bindings op = Some bindings"
  using argument_bindings_total model_operation_wf [OF assms] unfolding operation_wf_model_def by blast

lemma fresh_request_id:
  "uuid = fst (get_or_generate uuid (request_id_new H (headers_new None)))"
  by (simp add: request_id_new_def headers_get_def headers_new_def option_filter_def get_or_generate_def)

text \<open>
  C3: a test through the harness is a call of the handler.  When a test application serves
  services the macro accepts and a subject is routed to one of their operations only, the
  client the harness hands out returns, for a request that no planned fault hits, what the
  handler returns on the caller's arguments, a value or the service error made of the handler's
  error: through the plain client for a plain operation, and for an encrypted one through the
  encrypted client of the application's key.
\<close>

theorem harness_call_is_local_call:
  fixes D :: "('j, 'v, 'h, 'q, 'e) dispatch_env" and h :: "('h, 'q) harness"
    and from_response :: "'j nats_error_response \<Rightarrow> ('j, 'd) service_error_match"
  assumes laws: "json_laws (de_json D)" "header_map_laws (de_headers D)"
      "map_json_laws (de_map_json D)" "crypto_laws (de_crypto D)" "seal_total (de_crypto D)"
    and l: "length eph_secret = 32" "length secret = 32" "length nonce1 = 24" "length nonce2 = 24"
      "length (de_nonce D) = 24"
    and model: "build_model X args item = Inr m"
    and served: "hn_services h = map (local_service_of D X) services"
    and keypair: "operation_is_encrypted op \<Longrightarrow>
      hn_keypair h = Some (from_private_bytes (de_crypto D) secret)"
    and inputs: "inputs_fit (de_user D) display op params input" "response_compiles (om_response op)"
    and subject: "subject =
      subject_as_str (subject_expression (om_subject op) (\<lambda>name. display (params name)))"
    and routed: "routed_only_to subject services (m, handlers) op"
    and faults: "fst (before_request subject (hn_faults h)) = Inr ()"
    and ok: "\<forall>args v. handler_run (handlers op) (hn_state h) args = Inr v \<longrightarrow>
      response_fits (de_headers D) (de_user D) (om_response op) v"
    and err: "\<forall>args e. handler_run (handlers op) (hn_state h) args = Inl e \<longrightarrow>
      (\<forall>i. uo_into_service_error (de_user D) e i =
        into_service_error (de_json D) into_nats_error (de_uuid D) e i) \<and>
      error_wf (de_json D) (into_nats_error e (de_uuid D))"
  shows "\<exists>encoded. run_payload (de_json D) (de_user D) (payload_expression op) input = Inr encoded \<and>
    (let outcome = local_outcome from_response into_nats_error (de_uuid D) (om_response op)
           (handler_run (handlers op) (hn_state h)
             (map (handler_argument (de_user D) (hn_state h) params input encoded) (om_arguments op)));
         decode = run_decoder (de_json D) (de_headers D) (de_user D) from_response (om_response op)
     in if operation_is_encrypted op
        then \<exists>client. harness_encrypted_client h = Some client \<and>
          encrypted_request_send (de_crypto D) (de_headers D) (de_map_json D) eph_secret nonce1 nonce2
            (harness_transport h) decode (generated_encrypted_call (de_json D) (de_user D) op client
              (\<lambda>name. display (params name)) input) = outcome
        else request_call_send (de_headers D) (harness_transport h) decode
          (generated_call (de_json D) (de_user D) op (harness_client h)
            (\<lambda>name. display (params name)) input) = outcome)"
proof -
  let ?subject = "subject_expression (om_subject op) (\<lambda>name. display (params name))"
  have op: "op \<in> set (model_operations m)" "om_kind op = MRequest"
    using routed unfolding routed_only_to_def routes_to_def fst_conv by blast+
  obtain bindings where bindings: "argument_bindings op = Some bindings"
    using accepted_bindings [OF model op(1)] by blast
  have answer: "tr_request (harness_transport h) c = Inr (answered (de_headers D) None call c)"
    if "cq_subject c = ?subject" and "\<And>request. local_endpoint D handlers (hn_state h) (hn_keypair h) op request =
      response_to_local_dispatch (de_headers D) (call (local_view (de_headers D) request))" for c call
    using that routed faults by (intro harness_answers [OF served]) (simp_all add: subject)
  show ?thesis
  proof (cases "operation_is_encrypted op")
    case True
    obtain endpoint where e: "generated_encrypted_request (de_json D) (de_crypto D) (de_headers D)
        (de_map_json D) (de_user D) (de_uuid D) (de_nonce D) op (handlers op) = Some endpoint"
      using bindings by (simp add: generated_encrypted_request_def)
    define client :: "'h generated_client" where
      "client = service_encrypted_client (cr_public (de_crypto D) secret)"
    have c: "harness_encrypted_client h = Some client"
      "gc_recipient client = Some (cr_public (de_crypto D) secret)"
      "gc_default_headers client = None"
      by (simp_all add: harness_encrypted_client_def keypair [OF True] client_def
          service_encrypted_client_def with_recipient_def generated_client_new_def from_private_bytes_def)
    have "tr_request (harness_transport h) c = Inr (answered (de_headers D) None
        (endpoint (hn_state h) (from_private_bytes (de_crypto D) secret)) c)" if "cq_subject c = ?subject" for c
      by (rule answer [OF that])
        (simp add: local_endpoint_def True e dispatch_encrypted_def keypair [OF True])
    from generated_encrypted_call_outcome [OF laws(1-5) l model op True inputs(2,1) c(2) _ e this _ ok err,
        of from_response]
    show ?thesis using True c(1)
      by (auto simp: encrypted_defaults_ok_def c(3) fresh_request_id [symmetric] Let_def)
  next
    case False
    obtain endpoint where e: "generated_request (de_json D) (de_headers D) (de_user D) (de_uuid D) op
        (handlers op) = Some endpoint"
      using bindings by (simp add: generated_request_def)
    have "tr_request (harness_transport h) c =
        Inr (answered (de_headers D) None (endpoint (hn_state h)) c)" if "cq_subject c = ?subject" for c
      by (rule answer [OF that]) (simp add: local_endpoint_def False e dispatch_endpoint_def)
    from generated_call_outcome [OF laws(1,2) model op inputs(2,1) e this _ ok err,
        of "harness_client h" from_response]
    show ?thesis using False
      by (simp add: harness_client_def service_client_def generated_client_new_def Let_def
          fresh_request_id [symmetric])
  qed
qed

section \<open>A concrete test\<close>

definition demo_dispatch_env :: "(string, unit, alist_map, unit, string) dispatch_env" where
  "demo_dispatch_env =
     \<lparr>de_json = demo_json, de_crypto = demo_crypto, de_headers = alist_headers,
      de_map_json = demo_map_json, de_user = demo_user_ops, de_uuid = ''u1'',
      de_nonce = replicate 24 7, de_into = (\<lambda>_. Ack)\<rparr>"

text \<open>The application under test serves the demonstration service alone.\<close>

definition demo_test_app :: "(alist_map, unit) test_app" where
  "demo_test_app =
     serve (local_service_of demo_dispatch_env demo_syn (demo_service, \<lambda>_. echo)) test_app_stateless"

definition demo_harness :: "(alist_map, unit) harness" where
  "demo_harness =
     \<lparr>hn_services = ta_services demo_test_app, hn_keypair = None, hn_state = (), hn_faults = [],
      hn_simulator = simulator_new (ta_jetstream demo_test_app) []\<rparr>"

lemma demo_test_app_starts: "test_app_start demo_test_app = Inr demo_harness"
proof -
  have valid: "validate_service_set [spec_of_service demo_syn demo_service] = Inr ()" by code_simp
  have consumers: "ss_consumers (spec_of_service demo_syn demo_service) = []" by code_simp
  have plain: "\<not> service_requires_encryption (spec_of_service demo_syn demo_service)" by code_simp
  show ?thesis
    by (simp add: test_app_start_def demo_harness_def demo_test_app_def serve_def test_app_stateless_def
        test_app_new_def local_service_of_def valid consumers plain ensure_def)
qed

theorem harness_call_is_local_call_witness:
  "request_call_send alist_headers (harness_transport demo_harness)
     (run_decoder demo_json alist_headers demo_user_ops from_response_self (om_response demo_operation))
     (generated_call demo_json demo_user_ops demo_operation (harness_client demo_harness) (\<lambda>_. [])
       (Some (PvText ''hi''))) = Inr (Present (CvText ''hi''))"
proof -
  have served: "hn_services demo_harness =
      map (local_service_of demo_dispatch_env demo_syn) [(demo_service, \<lambda>_. echo)]"
    by (simp add: demo_harness_def demo_test_app_def serve_def test_app_stateless_def test_app_new_def)
  have "subject_matches (sm_pattern (om_subject demo_operation)) ''demo.v1.get''" by code_simp
  then have routed: "routed_only_to ''demo.v1.get'' [(demo_service, \<lambda>_. echo)]
      (demo_service, \<lambda>_. echo) demo_operation"
    using demo_facts(1)
    by (simp add: routed_only_to_def routes_to_def model_operations_def demo_service_def)
  have subject: "''demo.v1.get'' =
      subject_as_str (subject_expression (om_subject demo_operation) (\<lambda>_. []))"
    by (simp add: demo_operation_def subject_expression_def)
  have seal: "seal_total demo_crypto" by (simp add: seal_total_def demo_crypto_def)
  have env: "de_json demo_dispatch_env = demo_json" "de_crypto demo_dispatch_env = demo_crypto"
    "de_headers demo_dispatch_env = alist_headers" "de_map_json demo_dispatch_env = demo_map_json"
    "de_user demo_dispatch_env = demo_user_ops" "de_uuid demo_dispatch_env = ''u1''"
    "de_nonce demo_dispatch_env = replicate 24 7"
    by (simp_all add: demo_dispatch_env_def)
  have faults: "fst (before_request ''demo.v1.get'' (hn_faults demo_harness)) = Inr ()"
    by (simp add: demo_harness_def before_request_def fault_consume_def)
  note call = harness_call_is_local_call [where D = demo_dispatch_env and h = demo_harness
      and handlers = "\<lambda>_. echo" and from_response = from_response_self
      and into_nats_error = into_nats_error_string and eph_secret = "replicate 32 1"
      and secret = "replicate 32 2" and ?nonce1.0 = "replicate 24 5" and ?nonce2.0 = "replicate 24 6",
      unfolded env, OF demo_json_laws alist_headers_laws demo_map_json_laws demo_crypto_laws seal
        _ _ _ _ _ demo_build_model served _ demo_inputs_fit demo_facts(3) subject routed faults]
  show ?thesis
    using call demo_facts(2,4) echo_ok echo_err demo_arguments echoed
    by (simp add: local_outcome_def handler_run_def echo_def client_result_of_def client_value_of_def)
qed

end
