(* ===== verification/Typed_Errors.thy ===== *)
theory Typed_Errors
  imports Remote_Calls Error_Wire
begin

text \<open>
  The errors of \<open>#[service_error]\<close> through a remote call: what the error macro emits on both sides
  (\<open>Error_Wire\<close>) composed with the call of a generated client (\<open>Remote_Calls\<close>).
\<close>

text \<open>
  C8: typed errors reach the caller.  When the handler of a plain request operation fails with a
  value of an enum that \<open>#[service_error]\<close> accepts, the generated client, which decodes errors
  as that enum, returns for a public variant all of whose fields travel the very value, with its
  response.  A public variant with a field that does not travel (\<open>#[source]\<close>, \<open>#[from]\<close>,
  \<open>#[details(skip)]\<close>), and a tuple variant without fields, reaches the caller as its response
  only; so does an internal variant, with the fixed message and without details.  The error must
  fit the reply (\<open>error_wf\<close>) and its fields must survive serialization (\<open>fields_survive\<close>).
\<close>

theorem typed_error_reaches_caller:
  fixes E :: "('f, 'j) error_values" and U :: "('v, 'h, 'q, 'f error_value) user_ops"
  assumes J: "json_laws J" and H: "header_map_laws H"
    and model: "build_model X args item = Inr m" "op \<in> set (model_operations m)"
    and kind: "om_kind op = MRequest" "\<not> operation_is_encrypted op"
    and compiles: "response_compiles (om_response op)"
    and inputs: "inputs_fit U display op params input"
    and endpoint: "generated_request J H U uuid op handler = Some endpoint"
    and network: "\<forall>c. subject_matches (sm_pattern (om_subject op)) (subject_as_str (cq_subject c)) \<longrightarrow>
      tr_request T c = Inr (worker_reply H telemetry spec (endpoint q) (carried_request inbox c))"
    and id: "request_id = fst (get_or_generate uuid
      (request_id_new H (headers_new (gc_default_headers client))))"
    and enum: "expand_service_error X' to_client input' = Inr ex"
    and converts: "\<forall>e i. uo_into_service_error U e i =
      into_service_error J (enum_into_nats_error E show (ee_variants ex)) uuid e i"
    and ok: "\<forall>args v. handler_run handler q args = Inr v \<longrightarrow> response_fits H U (om_response op) v"
    and wf: "\<forall>args e. handler_run handler q args = Inl e \<longrightarrow>
      error_wf J (enum_into_nats_error E show (ee_variants ex) e request_id)"
    and fails: "\<forall>encoded. run_payload J U (payload_expression op) input = Inr encoded \<longrightarrow>
      handler_run handler q (map (handler_argument U q params input encoded) (om_arguments op)) =
        Inl (k, vals)"
    and variant: "k < length (ee_variants ex)" "v = ee_variants ex ! k"
  shows "let response = enum_into_nats_error E show (ee_variants ex) (k, vals) request_id;
      result = request_call_send H T
        (run_decoder J H U (enum_from_response E (ee_variants ex)) (om_response op))
        (generated_call J U op client (\<lambda>name. display (params name)) input)
    in (\<not> vm_internal v \<and> \<not> has_skipped_wire_fields (vm_meta v) \<and>
          length vals = length (vm_fields v) \<and> (variant_shape v = ShapeTuple \<longrightarrow> vals \<noteq> []) \<and>
          fields_survive E v vals \<longrightarrow> result = Inl (Service (k, vals) response)) \<and>
       (\<not> vm_internal v \<and> variant_shape v = ShapeTuple \<and>
          (has_skipped_wire_fields (vm_meta v) \<or> vm_fields v = []) \<longrightarrow>
          result = Inl (ServiceResponse response)) \<and>
       (vm_internal v \<longrightarrow> result = Inl (ServiceResponse response) \<and>
          er_message response = ''an internal error occurred'' \<and> er_details response = None)"
proof -
  let ?into = "enum_into_nats_error E show (ee_variants ex)"
  let ?from = "enum_from_response E (ee_variants ex)"
  have answer: "tr_request T c = Inr (answered H (Some inbox) (endpoint q) c)"
    if "cq_subject c = subject_expression (om_subject op) (\<lambda>name. display (params name))" for c
    using that network call_subject_received(1) [OF model kind(1) inputs]
    by (simp add: worker_reply_answered)
  have "\<forall>args e. handler_run handler q args = Inl e \<longrightarrow>
      (\<forall>i. uo_into_service_error U e i = into_service_error J ?into uuid e i) \<and>
      error_wf J (?into e request_id)"
    using converts wf by blast
  from generated_call_outcome [OF J H model kind(1) compiles inputs endpoint answer id ok this, of ?from]
  have result: "request_call_send H T (run_decoder J H U ?from (om_response op))
      (generated_call J U op client (\<lambda>name. display (params name)) input) =
    Inl (from_service_response ?from (?into (k, vals) request_id))"
    using fails by (auto simp: local_outcome_def)
  let ?response = "?into (k, vals) request_id"
  have "?from ?response = Typed (k, vals)"
    if "\<not> vm_internal v" "\<not> has_skipped_wire_fields (vm_meta v)" "length vals = length (vm_fields v)"
      "variant_shape v = ShapeTuple \<longrightarrow> vals \<noteq> []" "fields_survive E v vals"
    using public_error_rebuilt [OF enum variant that(1-3) _ that(5), of "show" request_id] that(4)
    by (simp add: Let_def)
  moreover have "?from ?response = Untyped ?response"
    if "\<not> vm_internal v" "variant_shape v = ShapeTuple"
      "has_skipped_wire_fields (vm_meta v) \<or> vm_fields v = []"
    using partial_error_untyped [OF enum variant that, of E "show" vals request_id] by (simp add: Let_def)
  moreover have "?from ?response = Untyped ?response" "er_details ?response = None"
      "er_message ?response = ''an internal error occurred''" if "vm_internal v"
    using internal_error_untyped [OF enum variant(1), of E "show" vals request_id] that variant(2)
    by (simp_all add: Let_def)
  ultimately show ?thesis
    unfolding Let_def result from_service_response_def by (intro conjI impI) simp_all
qed

section \<open>A concrete error\<close>

definition text_values :: "(nat, string) error_values" where
  "text_values =
     \<lparr>xv_to_value = (\<lambda>vals. Some (map char_of vals)),
      xv_from_value = (\<lambda>types j. if length j = length types then Some (map of_char j) else None),
      xv_json_string = id, xv_json_as_str = Some,
      xv_of_string = length, xv_to_string = (\<lambda>n. replicate n CHR ''x'')\<rparr>"

definition range_error :: "nat error_value \<Rightarrow> string \<Rightarrow> string nats_error_response" where
  "range_error = enum_into_nats_error text_values (\<lambda>_. ''bad range'') (ee_variants demo_expanded)"

definition range_user_ops :: "(unit, alist_map, unit, nat error_value) user_ops" where
  "range_user_ops =
     \<lparr>uo_from_state = (\<lambda>_ _. ()), uo_from_subject = (\<lambda>_ _. Inr ()), uo_from_json = (\<lambda>_ _. Inr ()),
      uo_from_proto = (\<lambda>_ _. Inr ()), uo_to_json = (\<lambda>_. ([], None)), uo_to_proto = (\<lambda>_. Inr []),
      uo_claims = (\<lambda>_ _. Inr ()),
      uo_into_service_error = into_service_error demo_json range_error ''u1''\<rparr>"

definition out_of_range :: "(unit, alist_map, unit, nat error_value) handler" where
  "out_of_range = Fallible (\<lambda>q args. Inl (0, [3, 8]))"

definition range_endpoint :: "unit \<Rightarrow> alist_map request \<Rightarrow> error_reply + alist_map response" where
  "range_endpoint = request_body demo_json alist_headers range_user_ops ''u1''
     [BindPayload DecText False] (om_response demo_operation) out_of_range"

definition range_transport :: "operation_spec \<Rightarrow> alist_map client_transport" where
  "range_transport spec =
     \<lparr>tr_request = (\<lambda>c. Inr (worker_reply alist_headers None spec (range_endpoint ())
        (carried_request ''inbox'' c))),
      tr_publish = (\<lambda>_ _ _. Inr ())\<rparr>"

theorem typed_error_reaches_caller_witness:
  "\<forall>spec. request_call_send alist_headers (range_transport spec)
     (run_decoder demo_json alist_headers range_user_ops
       (enum_from_response text_values (ee_variants demo_expanded)) (om_response demo_operation))
     (generated_call demo_json range_user_ops demo_operation generated_client_new (\<lambda>_. [])
       (Some (PvText ''hi''))) = Inl (Service (0, [3, 8]) (range_error (0, [3, 8]) ''u1''))"
proof
  fix spec
  have model: "demo_operation \<in> set (model_operations demo_service)"
    by (simp add: model_operations_def demo_service_def)
  have endpoint: "generated_request demo_json alist_headers range_user_ops ''u1'' demo_operation
      out_of_range = Some range_endpoint"
    by (simp add: generated_request_def range_endpoint_def argument_bindings_def demo_operation_def
        argument_binding_def payload_decode_def)
  have inputs: "inputs_fit range_user_ops (\<lambda>_. []) demo_operation (\<lambda>_. ()) (Some (PvText ''hi''))"
    using demo_facts(7,8) by (simp add: inputs_fit_def demo_operation_def payload_fits_def
        payload_encoding_def subject_expression_def)
  have network: "\<forall>c. subject_matches (sm_pattern (om_subject demo_operation))
      (subject_as_str (cq_subject c)) \<longrightarrow> tr_request (range_transport spec) c =
      Inr (worker_reply alist_headers None spec (range_endpoint ()) (carried_request ''inbox'' c))"
    by (simp add: range_transport_def)
  have id: "''u1'' = fst (get_or_generate ''u1'' (request_id_new alist_headers
      (headers_new (gc_default_headers generated_client_new))))"
    by (simp add: request_id_new_def headers_get_def headers_new_def option_filter_def
        get_or_generate_def generated_client_new_def)
  have converts: "\<forall>e i. uo_into_service_error range_user_ops e i = into_service_error demo_json
      (enum_into_nats_error text_values (\<lambda>_. ''bad range'') (ee_variants demo_expanded)) ''u1'' e i"
    by (simp add: range_user_ops_def range_error_def)
  have ok: "\<forall>args v. handler_run out_of_range () args = Inr v \<longrightarrow>
      response_fits alist_headers range_user_ops (om_response demo_operation) v"
    by (simp add: handler_run_def out_of_range_def)
  have v: "0 < length (ee_variants demo_expanded)" "\<not> vm_internal (ee_variants demo_expanded ! 0)"
    "\<not> has_skipped_wire_fields (vm_meta (ee_variants demo_expanded ! 0))"
    "length [3, 8 :: nat] = length (vm_fields (ee_variants demo_expanded ! 0))"
    "fields_survive text_values (ee_variants demo_expanded ! 0) [3, 8]"
    by code_simp+
  have "vm_code (ee_variants demo_expanded ! 0) \<le> 599"
    using public_error_rebuilt [OF demo_expand v(1) refl v(2-4) _ v(5)] by (simp add: Let_def)
  moreover have "utf8_str ''bad range''" "utf8_str ''u1''"
    "utf8_str (vm_kind (ee_variants demo_expanded ! 0))"
    "variant_shape (ee_variants demo_expanded ! 0) = ShapeTuple"
    "wire_indices (vm_meta (ee_variants demo_expanded ! 0)) = [0, 1]"
    by code_simp+
  moreover have "er_request_id (range_error (0, [3, 8]) ''u1'') = ''u1''"
    by (simp add: range_error_def enum_into_nats_error_def Let_def split: option.split)
  ultimately have "error_wf demo_json (range_error (0, [3, 8]) ''u1'')"
    using v(2) by (simp add: error_wf_def range_error_def demo_json_def variant_details_def text_values_def)
  then have wf: "\<forall>args e. handler_run out_of_range () args = Inl e \<longrightarrow> error_wf demo_json
      (enum_into_nats_error text_values (\<lambda>_. ''bad range'') (ee_variants demo_expanded) e ''u1'')"
    by (simp add: handler_run_def out_of_range_def range_error_def)
  have fails: "\<forall>encoded. run_payload demo_json range_user_ops (payload_expression demo_operation)
      (Some (PvText ''hi'')) = Inr encoded \<longrightarrow> handler_run out_of_range ()
        (map (handler_argument range_user_ops () (\<lambda>_. ()) (Some (PvText ''hi'')) encoded)
          (om_arguments demo_operation)) = Inl (0, [3, 8])"
    by (simp add: handler_run_def out_of_range_def)
  show "request_call_send alist_headers (range_transport spec)
     (run_decoder demo_json alist_headers range_user_ops
       (enum_from_response text_values (ee_variants demo_expanded)) (om_response demo_operation))
     (generated_call demo_json range_user_ops demo_operation generated_client_new (\<lambda>_. [])
       (Some (PvText ''hi''))) = Inl (Service (0, [3, 8]) (range_error (0, [3, 8]) ''u1''))"
    using typed_error_reaches_caller [OF demo_json_laws alist_headers_laws demo_build_model model
        demo_facts(1-3) inputs endpoint network id demo_expand converts ok wf fails v(1) refl] v(2-5)
    by (simp add: Let_def range_error_def)
qed

end
