(* ===== verification/Subject_Floats.thy ===== *)
theory Subject_Floats
  imports Complex_Main Subjects
begin

text \<open>
  The instances of \<open>FromSubject\<close> for \<open>f32\<close> and \<open>f64\<close>: \<open>parse\<close> of the standard library, that is
  the grammar of its documentation and rounding to the nearest value of the format.
\<close>

section \<open>Formats and values\<close>

text \<open>
  A finite value is \<open>m * 2 powi e\<close> with a sign, \<open>m\<close> below two to the precision and \<open>e\<close> between
  the least and the largest exponent.
\<close>

record float_format =
  ff_precision :: nat
  ff_least :: int
  ff_largest :: int

definition f32 :: float_format where
  "f32 = \<lparr>ff_precision = 24, ff_least = -149, ff_largest = 104\<rparr>"

definition f64 :: float_format where
  "f64 = \<lparr>ff_precision = 53, ff_least = -1074, ff_largest = 971\<rparr>"

datatype float_value = FloatNan bool | FloatInfinite bool | FloatFinite bool int int

datatype float_error = FloatEmpty | FloatInvalid

section \<open>Rounding\<close>

definition round_half_even :: "rat \<Rightarrow> int" where
  "round_half_even x =
     (let f = \<lfloor>x\<rfloor>; d = x - of_int f
      in if d < 1 / 2 \<or> d = 1 / 2 \<and> even f then f else f + 1)"

text \<open>The least exponent at which a value has no more digits than the precision.\<close>

function float_exponent :: "float_format \<Rightarrow> rat \<Rightarrow> int \<Rightarrow> int" where
  "float_exponent F x e =
     (if ff_largest F \<le> e \<or> x < 2 powi (int (ff_precision F) + e) then e
      else float_exponent F x (e + 1))"
  by pat_completeness auto

termination
  by (relation "measure (\<lambda>(F, x, e). nat (ff_largest F - e))") auto

declare float_exponent.simps [simp del]

text \<open>Rounding may carry into the next exponent, and beyond the last one to infinity.\<close>

definition round_float :: "float_format \<Rightarrow> bool \<Rightarrow> rat \<Rightarrow> float_value" where
  "round_float F negative x =
     (let e = float_exponent F x (ff_least F);
          m = round_half_even (x / 2 powi e);
          (m, e) = (if 2 ^ ff_precision F \<le> m then (2 ^ (ff_precision F - 1), e + 1) else (m, e))
      in if ff_largest F < e then FloatInfinite negative else FloatFinite negative m e)"

section \<open>The grammar\<close>

definition take_sign :: "string \<Rightarrow> bool \<times> string" where
  "take_sign s =
     (case s of
        c # r \<Rightarrow> if c = CHR ''-'' then (True, r) else if c = CHR ''+'' then (False, r) else (False, s)
      | [] \<Rightarrow> (False, s))"

definition parse_float_exponent :: "string \<Rightarrow> int option" where
  "parse_float_exponent s =
     (case s of
        [] \<Rightarrow> Some 0
      | c # r \<Rightarrow>
          if c \<noteq> CHR ''e'' \<and> c \<noteq> CHR ''E'' then None
          else (case take_sign r of
                  (negative, digits) \<Rightarrow>
                    if digits \<noteq> [] \<and> list_all is_ascii_digit digits
                    then Some (if negative then - int (decimal digits) else int (decimal digits))
                    else None))"

text \<open>A number is its digits and the power of ten they are multiplied with.\<close>

definition parse_float_number :: "string \<Rightarrow> (nat \<times> int) option" where
  "parse_float_number s =
     (let whole = takeWhile is_ascii_digit s; r = dropWhile is_ascii_digit s;
          (fraction, r) = (case r of
             c # r' \<Rightarrow> if c = CHR ''.'' then (takeWhile is_ascii_digit r', dropWhile is_ascii_digit r')
                      else ([], r)
           | [] \<Rightarrow> ([], r))
      in if whole @ fraction = [] then None
         else map_option (\<lambda>e. (decimal (whole @ fraction), e - int (length fraction)))
           (parse_float_exponent r))"

definition from_subject_float :: "float_format \<Rightarrow> string \<Rightarrow> float_error + float_value" where
  "from_subject_float F value =
     (if value = [] then Inl FloatEmpty
      else case take_sign value of
        (negative, s) \<Rightarrow>
          if map ascii_lower s = ''nan'' then Inr (FloatNan negative)
          else if map ascii_lower s \<in> {''inf'', ''infinity''} then Inr (FloatInfinite negative)
          else (case parse_float_number s of
                  Some (digits, e) \<Rightarrow>
                    Inr (round_float F negative (of_nat digits * 10 powi e))
                | None \<Rightarrow> Inl FloatInvalid))"

section \<open>Rounding is to the nearest\<close>

lemma round_half_even_nearest: "\<bar>of_int (round_half_even x) - x\<bar> \<le> 1 / 2"
proof -
  have "of_int \<lfloor>x\<rfloor> \<le> x" "x < of_int \<lfloor>x\<rfloor> + 1" by linarith+
  then show ?thesis by (auto simp: round_half_even_def Let_def abs_le_iff)
qed

lemma round_half_even_of_int [simp]: "round_half_even (of_int n) = n"
  by (simp add: round_half_even_def)

lemma float_exponent_bounds:
  "e \<le> ff_largest F \<Longrightarrow>
   e \<le> float_exponent F x e \<and> float_exponent F x e \<le> ff_largest F \<and>
   (float_exponent F x e < ff_largest F \<longrightarrow>
      x < 2 powi (int (ff_precision F) + float_exponent F x e)) \<and>
   (x < 2 powi (int (ff_precision F) + n) \<longrightarrow> e \<le> n \<longrightarrow> float_exponent F x e \<le> n)"
proof (induction F x e rule: float_exponent.induct)
  case (1 F x e)
  show ?case
  proof (cases "ff_largest F \<le> e \<or> x < 2 powi (int (ff_precision F) + e)")
    case True
    then show ?thesis using "1.prems" by (subst (1 2 3 4 5) float_exponent.simps) auto
  next
    case False
    then have *: "float_exponent F x e = float_exponent F x (e + 1)"
      by (subst float_exponent.simps) simp
    have "e \<noteq> n" if "x < 2 powi (int (ff_precision F) + n)" using False that by auto
    then show ?thesis using "1.IH" [OF False] False unfolding * by auto
  qed
qed

definition format_wf :: "float_format \<Rightarrow> bool" where
  "format_wf F \<longleftrightarrow> 0 < ff_precision F \<and> ff_least F \<le> 0 \<and> 0 \<le> ff_largest F"

lemma format_wf_formats: "format_wf f32" "format_wf f64"
  by (simp_all add: format_wf_def f32_def f64_def)

lemma round_half_even_mono_int: "x < of_int n \<Longrightarrow> round_half_even x \<le> n"
  by (auto simp: round_half_even_def Let_def floor_le_iff)

text \<open>
  A finite result has the digits and the exponent of its format, and no number with its exponent
  is nearer to the number that was written.
\<close>

theorem round_float_nearest:
  assumes F: "format_wf F" and x: "0 \<le> x" and r: "round_float F negative x = FloatFinite s m e"
  shows "s = negative \<and> 0 \<le> m \<and> m < 2 ^ ff_precision F \<and> ff_least F \<le> e \<and> e \<le> ff_largest F \<and>
    \<bar>of_int m * 2 powi e - x\<bar> \<le> 2 powi e / 2"
proof -
  let ?e = "float_exponent F x (ff_least F)"
  let ?y = "x / 2 powi ?e" and ?p = "ff_precision F"
  let ?m = "round_half_even ?y"
  have e: "ff_least F \<le> ?e" "?e \<le> ff_largest F"
    "?e < ff_largest F \<Longrightarrow> x < 2 powi (int ?p + ?e)"
    using float_exponent_bounds [of "ff_least F" F x] F by (simp_all add: format_wf_def)
  have pos: "(0 :: rat) < 2 powi ?e" by simp
  have "of_int ?m * 2 powi ?e - x = (of_int ?m - ?y) * 2 powi ?e"
    using pos by (simp add: field_simps)
  then have near: "\<bar>of_int ?m * 2 powi ?e - x\<bar> \<le> 2 powi ?e / 2"
    using mult_right_mono [OF round_half_even_nearest [of ?y], of "2 powi ?e"] pos
    by (simp add: abs_mult)
  have "0 \<le> ?y" using x pos by simp
  then have m: "0 \<le> ?m" by (simp add: round_half_even_def Let_def)
  show ?thesis
  proof (cases "2 ^ ?p \<le> ?m")
    case False
    then have "s = negative" "m = ?m" "e = ?e"
      using r by (auto simp: round_float_def Let_def split: if_splits)
    then show ?thesis using near e(1,2) m False by simp
  next
    case True
    then have re: "s = negative" "m = 2 ^ (?p - 1)" "e = ?e + 1" "?e < ff_largest F"
      using r by (simp_all add: round_float_def Let_def split: if_splits)
    have "x < 2 powi int ?p * 2 powi ?e" using e(3) [OF re(4)] by (simp add: power_int_add)
    then have "?y < of_int (2 ^ ?p)" using pos by (simp add: divide_less_eq)
    then have m': "?m = 2 ^ ?p" using True round_half_even_mono_int by (metis order_antisym)
    have p: "(2 :: rat) ^ ?p = 2 * 2 ^ (?p - 1)" using F by (cases ?p) (auto simp: format_wf_def)
    have "of_int m * 2 powi e = of_int ?m * (2 powi ?e :: rat)"
      by (simp add: m' re(2,3) p power_int_add)
    moreover have "m < 2 ^ ?p" using F re(2) by (auto simp: format_wf_def)
    moreover have "(2 :: rat) powi ?e / 2 \<le> 2 powi e / 2" by (simp add: re(3) power_int_add)
    ultimately show ?thesis using near e re by (simp add: order_trans)
  qed
qed

lemma round_float_integer:
  assumes F: "format_wf F" and n: "n < 2 ^ ff_precision F"
  shows "\<exists>m e. round_float F negative (of_nat n) = FloatFinite negative m e \<and>
    of_int m * 2 powi e = (of_nat n :: rat)"
proof -
  let ?x = "of_nat n :: rat" and ?p = "ff_precision F"
  let ?e = "float_exponent F ?x (ff_least F)"
  have "(of_nat n :: rat) < of_nat (2 ^ ?p)" using n by (simp only: of_nat_less_iff)
  then have x: "?x < 2 powi (int ?p + 0)" by simp
  have e: "ff_least F \<le> ?e" "?e \<le> ff_largest F" "?e \<le> 0"
    "?e < ff_largest F \<Longrightarrow> ?x < 2 powi (int ?p + ?e)"
    using float_exponent_bounds [of "ff_least F" F ?x 0] F x by (auto simp: format_wf_def)
  have less: "?x < 2 powi (int ?p + ?e)"
    using e(2-4) x F by (cases "?e < ff_largest F") (auto simp: format_wf_def)
  define k where "k = nat (- ?e)"
  have k: "?e = - int k" using e(3) by (simp add: k_def)
  have y: "?x / 2 powi ?e = of_int (int n * 2 ^ k)" by (simp add: k power_int_minus divide_inverse)
  have "?x / 2 powi ?e < 2 powi int ?p"
    using less by (simp add: divide_less_eq power_int_add)
  then have "of_int (int n * 2 ^ k) < (of_int (2 ^ ?p) :: rat)" by (simp add: y)
  then have "int n * 2 ^ k < 2 ^ ?p" by (simp only: of_int_less_iff)
  then have "round_float F negative ?x = FloatFinite negative (int n * 2 ^ k) ?e"
    using e(2) by (simp add: round_float_def Let_def y del: of_int_mult)
  then show ?thesis by (simp add: k power_int_minus)
qed

text \<open>Every integer below two to the precision is read exactly.\<close>

theorem from_subject_float_integer:
  assumes "format_wf F" "list_all is_ascii_digit digits" "digits \<noteq> []"
    and "decimal digits < 2 ^ ff_precision F"
  shows "\<exists>m e. from_subject_float F digits = Inr (FloatFinite False m e) \<and>
    of_int m * 2 powi e = (of_nat (decimal digits) :: rat)"
proof -
  obtain c cs where c: "digits = c # cs" using assms(3) by (cases digits) auto
  have d: "is_ascii_digit c" using assms(2) c by simp
  then have sign: "take_sign digits = (False, digits)"
    by (auto simp: take_sign_def c is_ascii_digit_def byte_of_def)
  have "ascii_lower c = c" using d
    by (auto simp: ascii_lower_def is_ascii_upper_def is_ascii_digit_def)
  then have names: "map ascii_lower digits \<notin> {''nan'', ''inf'', ''infinity''}"
    using d by (auto simp: c is_ascii_digit_def byte_of_def)
  have scan: "takeWhile is_ascii_digit digits = digits" "dropWhile is_ascii_digit digits = []"
    using assms(2) by (simp_all add: takeWhile_eq_all_conv dropWhile_eq_Nil_conv list_all_iff)
  have "from_subject_float F digits = Inr (round_float F False (of_nat (decimal digits)))"
    using assms(3) names
    by (simp add: from_subject_float_def sign parse_float_number_def parse_float_exponent_def scan)
  then show ?thesis using round_float_integer [OF assms(1,4), of False] by simp
qed

end
