(* ===== verification/Deployment.thy ===== *)
theory Deployment
  imports Contracts "HOL-Library.List_Lexorder" "HOL-Library.Char_ord"
begin

text \<open>
  Deployment recommendations derived from a contract (\<open>nats-micro/src/deployment.rs\<close>): the
  metadata and its two renderings.  \<open>yaml_string\<close>, the JSON text of a string, is the argument
  \<open>quote\<close>; a \<open>BTreeSet\<close> of strings is the sorted list of its bytewise ordered elements.
\<close>

section \<open>Metadata\<close>

record deployment_options =
  dp_drain_timeout_seconds :: nat
  dp_readiness_initial_delay_seconds :: nat
  dp_readiness_period_seconds :: nat

definition deployment_options_default :: deployment_options where
  "deployment_options_default =
     \<lparr>dp_drain_timeout_seconds = 30, dp_readiness_initial_delay_seconds = 2,
      dp_readiness_period_seconds = 5\<rparr>"

record endpoint_deployment =
  ed_name :: string
  ed_subject :: string
  ed_queue_group :: "string option"
  ed_concurrency :: nat

record consumer_deployment =
  cd_name :: string
  cd_stream :: string
  cd_durable :: string
  cd_filter_subject :: string
  cd_concurrency :: nat

record readiness_configuration =
  rd_path :: string
  rd_port_name :: string
  rd_initial_delay_seconds :: nat
  rd_period_seconds :: nat

record environment_variable =
  ev_name :: string
  ev_value :: string

record secret_placeholder =
  sp_environment_variable :: string
  sp_secret_name :: string
  sp_secret_key :: string

record deployment_metadata =
  dm_service_name :: string
  dm_service_version :: string
  dm_queue_groups :: "string list"
  dm_endpoints :: "endpoint_deployment list"
  dm_consumers :: "consumer_deployment list"
  dm_drain_timeout_seconds :: nat
  dm_readiness :: readiness_configuration
  dm_telemetry_environment :: "environment_variable list"
  dm_credential_secrets :: "secret_placeholder list"
  dm_termination_grace_period_seconds :: nat

datatype deployment_format = Kubernetes | HelmValues

definition btree_set :: "string list \<Rightarrow> string list" where
  "btree_set ss = sort (remdups ss)"

definition from_contract :: "contract_document \<Rightarrow> deployment_options \<Rightarrow> deployment_metadata" where
  "from_contract contract options =
     (let service = cd_service contract
      in \<lparr>dm_service_name = ct_name service, dm_service_version = ct_version service,
          dm_queue_groups = btree_set (List.map_filter co_queue_group (ct_operations service)),
          dm_endpoints = map (\<lambda>operation.
             \<lparr>ed_name = co_rust_name operation, ed_subject = co_subject operation,
              ed_queue_group = co_queue_group operation,
              ed_concurrency = co_concurrency operation\<rparr>)
             (filter (\<lambda>operation. co_kind operation \<noteq> KConsumer) (ct_operations service)),
          dm_consumers = map (\<lambda>consumer.
             \<lparr>cd_name = cc_rust_name consumer, cd_stream = cc_stream consumer,
              cd_durable = cc_durable consumer, cd_filter_subject = cc_filter_subject consumer,
              cd_concurrency = cc_concurrency consumer\<rparr>) (ct_consumers service),
          dm_drain_timeout_seconds = dp_drain_timeout_seconds options,
          dm_readiness =
            \<lparr>rd_path = ''/ready'', rd_port_name = ''health'',
             rd_initial_delay_seconds = dp_readiness_initial_delay_seconds options,
             rd_period_seconds = dp_readiness_period_seconds options\<rparr>,
          dm_telemetry_environment =
            [\<lparr>ev_name = ''NATS_MICRO_TELEMETRY'', ev_value = ''true''\<rparr>,
             \<lparr>ev_name = ''OTEL_SERVICE_NAME'', ev_value = ct_name service\<rparr>,
             \<lparr>ev_name = ''OTEL_EXPORTER_OTLP_ENDPOINT'',
              ev_value = ''http://otel-collector:4317''\<rparr>],
          dm_credential_secrets =
            [\<lparr>sp_environment_variable = ''NATS_URL'', sp_secret_name = ct_name service @ ''-nats'',
              sp_secret_key = ''url''\<rparr>,
             \<lparr>sp_environment_variable = ''NATS_CREDS'', sp_secret_name = ct_name service @ ''-nats'',
              sp_secret_key = ''creds''\<rparr>],
          dm_termination_grace_period_seconds =
            u64_saturating_add (dp_drain_timeout_seconds options) 10\<rparr>)"

section \<open>Rendering\<close>

text \<open>A document is the list of the strings pushed; one may hold several lines.\<close>

definition newline :: char where
  "newline = CHR 0x0A"

definition push_line :: "string \<Rightarrow> string \<Rightarrow> string" where
  "push_line output v = output @ v @ [newline]"

definition push_lines :: "string list \<Rightarrow> string" where
  "push_lines vs = foldl push_line [] vs"

definition lines_of :: "string list \<Rightarrow> string" where
  "lines_of ls = join_with [newline] ls"

definition kubernetes_endpoint :: "(string \<Rightarrow> string) \<Rightarrow> endpoint_deployment \<Rightarrow> string list" where
  "kubernetes_endpoint quote e =
     [''  endpoint.'' @ ed_name e @ ''.subject: '' @ quote (ed_subject e),
      ''  endpoint.'' @ ed_name e @ ''.concurrency: '' @ show_nat (ed_concurrency e)]"

definition kubernetes_consumer :: "(string \<Rightarrow> string) \<Rightarrow> consumer_deployment \<Rightarrow> string list" where
  "kubernetes_consumer quote c =
     [''  consumer.'' @ cd_name c @ ''.stream: '' @ quote (cd_stream c),
      ''  consumer.'' @ cd_name c @ ''.durable: '' @ quote (cd_durable c),
      ''  consumer.'' @ cd_name c @ ''.concurrency: '' @ show_nat (cd_concurrency c)]"

definition render_kubernetes :: "(string \<Rightarrow> string) \<Rightarrow> deployment_metadata \<Rightarrow> string" where
  "render_kubernetes quote d = push_lines
     ([''apiVersion: v1'', ''kind: ConfigMap'',
       lines_of [''metadata:'', ''  name: '' @ dm_service_name d @ ''-nats-micro''], ''data:'',
       ''  service.name: '' @ quote (dm_service_name d),
       ''  service.version: '' @ quote (dm_service_version d),
       ''  queue.groups: '' @ quote (join_with '','' (dm_queue_groups d))] @
      concat (map (kubernetes_endpoint quote) (dm_endpoints d)) @
      concat (map (kubernetes_consumer quote) (dm_consumers d)) @
      [''---'', ''apiVersion: apps/v1'', ''kind: Deployment'',
       lines_of [''metadata:'', ''  name: '' @ dm_service_name d],
       ''spec:'', ''  template:'', ''    spec:'',
       ''      terminationGracePeriodSeconds: '' @ show_nat (dm_termination_grace_period_seconds d),
       ''      containers:'', ''        - name: '' @ dm_service_name d,
       ''          image: '' @ dm_service_name d @ '':'' @ dm_service_version d,
       ''          env:''] @
      map (\<lambda>v. lines_of [''            - name: '' @ ev_name v,
          ''              value: '' @ quote (ev_value v)]) (dm_telemetry_environment d) @
      map (\<lambda>s. lines_of [''            - name: '' @ sp_environment_variable s,
          ''              valueFrom:'', ''                secretKeyRef:'',
          ''                  name: '' @ sp_secret_name s,
          ''                  key: '' @ sp_secret_key s]) (dm_credential_secrets d) @
      [''          readinessProbe:'',
       lines_of [''            httpGet:'', ''              path: '' @ rd_path (dm_readiness d),
         ''              port: '' @ rd_port_name (dm_readiness d)],
       lines_of [''            initialDelaySeconds: '' @ show_nat (rd_initial_delay_seconds (dm_readiness d)),
         ''            periodSeconds: '' @ show_nat (rd_period_seconds (dm_readiness d))],
       ''          lifecycle:'',
       lines_of [''            preStop:'', ''              exec:'',
         ''                command: [\"nats-micro-drain\", \"--timeout\", \"'' @
           show_nat (dm_drain_timeout_seconds d) @ ''s\"]'']])"

definition helm_endpoint :: "(string \<Rightarrow> string) \<Rightarrow> endpoint_deployment \<Rightarrow> string" where
  "helm_endpoint quote e = lines_of
     [''  - name: '' @ quote (ed_name e), ''    subject: '' @ quote (ed_subject e),
      ''    queueGroup: '' @ (case ed_queue_group e of None \<Rightarrow> ''null'' | Some q \<Rightarrow> quote q),
      ''    concurrency: '' @ show_nat (ed_concurrency e)]"

definition helm_consumer :: "(string \<Rightarrow> string) \<Rightarrow> consumer_deployment \<Rightarrow> string" where
  "helm_consumer quote c = lines_of
     [''  - name: '' @ quote (cd_name c), ''    stream: '' @ quote (cd_stream c),
      ''    durable: '' @ quote (cd_durable c), ''    filterSubject: '' @ quote (cd_filter_subject c),
      ''    concurrency: '' @ show_nat (cd_concurrency c)]"

definition render_helm_values :: "(string \<Rightarrow> string) \<Rightarrow> deployment_metadata \<Rightarrow> string" where
  "render_helm_values quote d = push_lines
     ([lines_of [''service:'', ''  name: '' @ quote (dm_service_name d)],
       ''  version: '' @ quote (dm_service_version d),
       ''terminationGracePeriodSeconds: '' @ show_nat (dm_termination_grace_period_seconds d),
       ''drainTimeoutSeconds: '' @ show_nat (dm_drain_timeout_seconds d), ''queueGroups:''] @
      map (\<lambda>q. ''  - '' @ quote q) (dm_queue_groups d) @ [''endpoints:''] @
      map (helm_endpoint quote) (dm_endpoints d) @ [''consumers:''] @
      map (helm_consumer quote) (dm_consumers d) @
      [lines_of [''readiness:'', ''  path: '' @ quote (rd_path (dm_readiness d)),
         ''  port: '' @ quote (rd_port_name (dm_readiness d)),
         ''  initialDelaySeconds: '' @ show_nat (rd_initial_delay_seconds (dm_readiness d)),
         ''  periodSeconds: '' @ show_nat (rd_period_seconds (dm_readiness d))],
       ''telemetryEnv:''] @
      map (\<lambda>v. ''  '' @ ev_name v @ '': '' @ quote (ev_value v)) (dm_telemetry_environment d) @
      [''credentialSecrets:''] @
      map (\<lambda>s. lines_of [''  '' @ sp_environment_variable s @ '':'',
          ''    secretName: '' @ quote (sp_secret_name s),
          ''    secretKey: '' @ quote (sp_secret_key s)]) (dm_credential_secrets d))"

definition render :: "(string \<Rightarrow> string) \<Rightarrow> deployment_format \<Rightarrow> deployment_metadata \<Rightarrow> string" where
  "render quote format d =
     (case format of Kubernetes \<Rightarrow> render_kubernetes quote d | HelmValues \<Rightarrow> render_helm_values quote d)"

section \<open>The metadata follow the contract\<close>

lemma btree_set_sorted: "sorted (btree_set ss)" "distinct (btree_set ss)" "set (btree_set ss) = set ss"
  by (simp_all add: btree_set_def)

lemma set_map_filter_iff: "q \<in> set (List.map_filter f xs) \<longleftrightarrow> Some q \<in> f ` set xs"
  by (induction xs) (auto simp: map_filter_def)

text \<open>
  Every operation and consumer of the contract is deployed with its own capacity, the queue
  groups are exactly those of the operations, and the pod outlives its drain (unless the
  timeout does not leave 10 seconds in 64 bits).
\<close>

theorem deployment_follows_contract:
  "let s = cd_service contract; d = from_contract contract options
   in sorted (dm_queue_groups d) \<and> distinct (dm_queue_groups d) \<and>
     (\<forall>q. q \<in> set (dm_queue_groups d) \<longleftrightarrow> Some q \<in> co_queue_group ` set (ct_operations s)) \<and>
     map ed_subject (dm_endpoints d) =
       map co_subject (filter (\<lambda>o'. co_kind o' \<noteq> KConsumer) (ct_operations s)) \<and>
     map cd_durable (dm_consumers d) = map cc_durable (ct_consumers s) \<and>
     (dm_drain_timeout_seconds d + 10 < 2 ^ 64 \<longrightarrow>
       dm_termination_grace_period_seconds d = dm_drain_timeout_seconds d + 10)"
  by (simp add: from_contract_def Let_def btree_set_sorted u64_saturating_add_def u64_max_def comp_def
      set_map_filter_iff)

section \<open>Quoting\<close>

text \<open>How many lines a document has.\<close>

definition line_count :: "string \<Rightarrow> nat" where
  "line_count s = length (filter (\<lambda>c. c = newline) s)"

lemma line_count_append [simp]: "line_count (s @ t) = line_count s + line_count t"
  by (simp add: line_count_def)

lemma line_count_simps [simp]:
  "line_count [] = 0" "line_count (c # s) = (if c = newline then Suc (line_count s) else line_count s)"
  by (simp_all add: line_count_def)

lemma line_count_show_nat [simp]: "line_count (show_nat n) = 0"
proof -
  have "c \<noteq> newline" if "c \<in> set (show_nat n)" for c
    using show_nat_digits [OF that] by (auto simp: newline_def is_ascii_digit_def byte_of_def)
  then show ?thesis by (auto simp: line_count_def filter_empty_conv)
qed

lemma line_count_push_lines [simp]:
  "line_count (push_lines vs) = length vs + sum_list (map line_count vs)"
proof -
  have "line_count (foldl push_line out vs) =
      line_count out + length vs + sum_list (map line_count vs)" for out
    by (induction vs arbitrary: out) (simp_all add: push_line_def)
  then show ?thesis by (simp add: push_lines_def)
qed

lemma line_count_lines_of [simp]: "line_count (lines_of ls) = (length ls - 1) + sum_list (map line_count ls)"
  by (induction "[newline]" ls rule: join_with.induct) (simp_all add: lines_of_def)

definition quotes_lines :: "(string \<Rightarrow> string) \<Rightarrow> bool" where
  "quotes_lines quote \<longleftrightarrow> (\<forall>s. line_count (quote s) = 0)"

lemma sum_list_const: "(\<And>x. x \<in> set xs \<Longrightarrow> f x = k) \<Longrightarrow> sum_list (map f xs) = k * length xs"
  by (induction xs) simp_all

text \<open>
  The helm values quote everything a contract says, so no contract can add a line to them: the
  document has one line per queue group, four per endpoint and five per consumer.  The
  Kubernetes rendering writes the service name as it is.
\<close>

theorem helm_values_lines:
  assumes "quotes_lines quote"
  shows "line_count (render quote HelmValues (from_contract contract options)) =
    (let d = from_contract contract options
     in 24 + length (dm_queue_groups d) + 4 * length (dm_endpoints d) + 5 * length (dm_consumers d))"
proof -
  have q [simp]: "line_count (quote s) = 0" for s using assms by (simp add: quotes_lines_def)
  have e: "line_count (helm_endpoint quote e) = 3" for e
    by (simp add: helm_endpoint_def newline_def split: option.split)
  have c: "line_count (helm_consumer quote c) = 4" for c
    by (simp add: helm_consumer_def newline_def)
  show ?thesis
    by (simp add: render_def render_helm_values_def sum_list_const [of _ _ 3]
        sum_list_const [of _ _ 4] e c comp_def Let_def newline_def)
      (simp add: from_contract_def Let_def newline_def)
qed

end
