(* ===== verification/Command_Line.thy ===== *)
theory Command_Line
  imports Deployment
begin

text \<open>
  The \<open>nats-micro\<close> command (\<open>nats-micro-cli/src/main.rs\<close>).  The file system and \<open>serde_json\<close>
  are the parameter \<open>cli_ops\<close>; the process is its exit code and what it prints where.
\<close>

record cli_ops =
  cl_env_contract :: "string option"
  cl_read :: "string \<Rightarrow> string + string"
  cl_parse :: "string \<Rightarrow> string + contract_document"
  cl_pretty :: "contract_document \<Rightarrow> string + string"
  cl_quote :: "string \<Rightarrow> string"

definition take_option :: "string list \<Rightarrow> string \<Rightarrow> string + string option \<times> string list" where
  "take_option arguments name =
     (case position (\<lambda>argument. argument = name) arguments of
        None \<Rightarrow> Inr (None, arguments)
      | Some index \<Rightarrow>
          if length arguments \<le> index + 1 then Inl (''`'' @ name @ ''` requires a value'')
          else Inr (Some (arguments ! (index + 1)), take index arguments @ drop (index + 2) arguments))"

definition require_format :: "string option \<Rightarrow> string \<Rightarrow> string + unit" where
  "require_format actual expected =
     (case actual of
        Some f \<Rightarrow> if f = expected then Inr () else Inl (''unsupported format `'' @ f @ ''`'')
      | None \<Rightarrow> Inl ''contract requires `--format json`'')"

definition reject_format :: "string option \<Rightarrow> string + unit" where
  "reject_format format =
     (case format of
        Some f \<Rightarrow> Inl (''command does not accept format `'' @ f @ ''`'') | None \<Rightarrow> Inr ())"

definition read_contract :: "cli_ops \<Rightarrow> string \<Rightarrow> string + contract_document" where
  "read_contract S path =
     try_then (map_err (\<lambda>error. ''could not read `'' @ path @ ''`: '' @ error) (cl_read S path))
       (\<lambda>contents. map_err (\<lambda>error. ''could not parse `'' @ path @ ''`: '' @ error)
         (cl_parse S contents))"

definition check_contract :: "contract_document \<Rightarrow> string + unit" where
  "check_contract contract =
     map_err (\<lambda>error. case error of ContractValidationError message \<Rightarrow>
         ''invalid contract: '' @ message) (validate_document contract)"

definition deployment_format_of :: "string option \<Rightarrow> string + deployment_format" where
  "deployment_format_of format =
     (case format of
        Some f \<Rightarrow>
          (if f = ''kubernetes'' then Inr Kubernetes
           else if f = ''helm-values'' then Inr HelmValues
           else Inl (''unsupported deployment format `'' @ f @ ''`''))
      | None \<Rightarrow> Inl ''deployment requires `--format`'')"

definition run_command :: "cli_ops \<Rightarrow> string \<Rightarrow> string option \<Rightarrow> contract_document \<Rightarrow> string + string" where
  "run_command S command format contract =
     (if command = ''contract'' then
        try_then (require_format format ''json'') (\<lambda>_.
          map_err (\<lambda>error. ''could not serialize contract: '' @ error) (cl_pretty S contract))
      else if command = ''validate'' then
        try_then (reject_format format) (\<lambda>_.
        try_then (check_contract contract) (\<lambda>_.
          Inr (''valid: '' @ ct_name (cd_service contract) @ '' '' @ ct_version (cd_service contract))))
      else if command = ''subjects'' then
        try_then (reject_format format) (\<lambda>_.
        try_then (check_contract contract) (\<lambda>_.
          Inr (join_with [newline] (document_subjects contract))))
      else if command = ''deployment'' then
        try_then (check_contract contract) (\<lambda>_.
        try_then (deployment_format_of format) (\<lambda>f.
          Inr (render (cl_quote S) f (from_contract contract deployment_options_default))))
      else Inl (''unknown command `'' @ command @ ''`''))"

definition cli_run :: "cli_ops \<Rightarrow> string list \<Rightarrow> string + string" where
  "cli_run S arguments =
     try_then (take_option arguments ''--input'') (\<lambda>(input, arguments).
     try_then (take_option arguments ''--format'') (\<lambda>(format, arguments).
       case arguments of
         [] \<Rightarrow> Inl ''missing command''
       | command # rest \<Rightarrow>
           (case rest of
              extra # _ \<Rightarrow> Inl (''unexpected argument `'' @ extra @ ''`'')
            | [] \<Rightarrow>
                try_then (read_contract S
                  (case input of
                     Some path \<Rightarrow> path
                   | None \<Rightarrow> (case cl_env_contract S of
                       Some path \<Rightarrow> path | None \<Rightarrow> ''nats-micro.contract.json'')))
                  (run_command S command format))))"

text \<open>The exit code, standard output and standard error; \<open>usage\<close> is the usage text.\<close>

definition cli_main :: "cli_ops \<Rightarrow> string \<Rightarrow> string list \<Rightarrow> nat \<times> string \<times> string" where
  "cli_main S usage arguments =
     (case cli_run S arguments of
        Inr out \<Rightarrow> (0, out @ [newline], [])
      | Inl error \<Rightarrow> (1, [], ''nats-micro: '' @ error @ [newline, newline] @ usage @ [newline]))"

section \<open>What the command guarantees\<close>

lemma take_option_length:
  "take_option arguments name = Inr (v, rest) \<Longrightarrow>
   length arguments = length rest + (case v of None \<Rightarrow> 0 | Some _ \<Rightarrow> 2)"
  by (auto simp: take_option_def split: option.splits if_splits)

text \<open>
  Only a contract that validates is listed or deployed, whatever the arguments and files are;
  \<open>contract\<close> alone prints a document it has not validated.
\<close>

theorem cli_success_is_valid:
  assumes "cli_run S arguments = Inr out"
  shows "\<exists>path contract command format. read_contract S path = Inr contract \<and>
    run_command S command format contract = Inr out \<and>
    command \<in> {''contract'', ''validate'', ''subjects'', ''deployment''} \<and>
    (command \<noteq> ''contract'' \<longrightarrow> validate_document contract = Inr ())"
proof -
  obtain input args format args' where parsed: "take_option arguments ''--input'' = Inr (input, args)"
    "take_option args ''--format'' = Inr (format, args')"
    using assms by (auto simp: cli_run_def)
  obtain command where "args' = [command]"
    using assms parsed by (cases args'; cases "tl args'") (auto simp: cli_run_def)
  then obtain path contract where r: "read_contract S path = Inr contract"
    "run_command S command format contract = Inr out"
    using assms parsed by (auto simp: cli_run_def)
  have "command \<in> {''contract'', ''validate'', ''subjects'', ''deployment''} \<and>
      (command \<noteq> ''contract'' \<longrightarrow> validate_document contract = Inr ())"
    using r(2) by (auto simp: run_command_def check_contract_def split: if_splits)
  then show ?thesis using r by blast
qed

end
