(* ===== verification/Small_Macros.thy ===== *)
theory Small_Macros
  imports Runtime_Run Error_Attributes
begin

text \<open>
  The smaller macros of \<open>nats-micro-macros\<close>: \<open>application!\<close>, \<open>#[derive(AppState)]\<close>,
  \<open>#[message]\<close>, \<open>#[object]\<close>, \<open>#[main]\<close>, \<open>#[test]\<close> and \<open>#[live_test]\<close>.  Cargo features are
  arguments; how \<open>syn\<close> reads tokens is a parameter, and emitted code is given by its meaning.
\<close>

section \<open>The application macro\<close>

text \<open>The parsers of \<open>syn\<close> on a cursor: what they read and where they stop.\<close>

record ('tok, 'e) cursor_syn =
  cu_ident :: "'tok \<Rightarrow> (string \<times> 'tok) option"
  cu_colon :: "'tok \<Rightarrow> 'tok option"
  cu_comma :: "'tok \<Rightarrow> 'tok option"
  cu_expr :: "'tok \<Rightarrow> ('e \<times> 'tok) option"
  cu_bracketed :: "'tok \<Rightarrow> ('tok \<times> 'tok) option"
  cu_types :: "'tok \<Rightarrow> rust_type list option"
  cu_empty :: "'tok \<Rightarrow> bool"

record 'e application =
  an_state :: 'e
  an_profile :: string
  an_services :: "rust_type list"

text \<open>\<open>name:\<close>, with the position behind the colon.\<close>

definition expect_option ::
  "('tok, 'e) cursor_syn \<Rightarrow> string \<Rightarrow> 'tok \<Rightarrow> macro_error + 'tok" where
  "expect_option C name input =
     try_then (syn_parse (cu_ident C input)) (\<lambda>(i, input).
       if i \<noteq> name then Inl (MacroError (''expected `'' @ name @ ''`''))
       else syn_parse (cu_colon C input))"

definition application_parse ::
  "('tok, 'e) cursor_syn \<Rightarrow> 'tok \<Rightarrow> macro_error + 'e application" where
  "application_parse C input =
     try_then (expect_option C ''state'' input) (\<lambda>input.
     try_then (syn_parse (cu_expr C input)) (\<lambda>(state, input).
     try_then (syn_parse (cu_comma C input)) (\<lambda>input.
     try_then (expect_option C ''profile'' input) (\<lambda>input.
     try_then (syn_parse (cu_ident C input)) (\<lambda>(profile, input).
     try_then (syn_parse (cu_comma C input)) (\<lambda>input.
     try_then (expect_option C ''services'' input) (\<lambda>input.
     try_then (syn_parse (cu_bracketed C input)) (\<lambda>(content, input).
     try_then (syn_parse (cu_types C content)) (\<lambda>services.
       if services = [] then Inl (MacroError ''application requires at least one service'')
       else if \<not> cu_empty C (case cu_comma C input of Some rest \<Rightarrow> rest | None \<Rightarrow> input)
       then Inl (MacroError ''unexpected application option'')
       else Inr \<lparr>an_state = state, an_profile = profile, an_services = services\<rparr>)))))))))"

text \<open>The pairs for which compile-time assertions are emitted, in order.\<close>

fun service_pairs :: "'s list \<Rightarrow> ('s \<times> 's) list" where
  "service_pairs [] = []"
| "service_pairs (left # rest) = map (\<lambda>right. (left, right)) rest @ service_pairs rest"

text \<open>
  The emitted code compiles when every assertion holds, and its \<open>main\<close> runs this application;
  \<open>code\<close> are the services that the types name.
\<close>

definition application_compiles :: "('s \<Rightarrow> service_code) \<Rightarrow> 's list \<Rightarrow> bool" where
  "application_compiles code services \<longleftrightarrow>
     list_all (\<lambda>(l, r). assert_services_compatible (sc_spec (code l)) (sc_spec (code r)) = Inr ())
       (service_pairs services)"

definition application_app ::
  "string option \<Rightarrow> ('s \<Rightarrow> service_code) \<Rightarrow> profile \<Rightarrow> 's list \<Rightarrow> ('k, 'c, 'opts) app" where
  "application_app nats_url code p services =
     foldl (\<lambda>a s. app_serve (code s) a) (app_profile p (app_new nats_url)) services"

lemma list_all_service_pairs: "list_all (\<lambda>(l, r). P l r) (service_pairs xs) \<longleftrightarrow> sorted_wrt P xs"
  by (induction xs) (auto simp: list_all_iff)

lemma served_services: "ap_services (foldl (\<lambda>a s. app_serve (code s) a) a services) =
    rev (map code services) @ ap_services a"
  by (induction services arbitrary: a) (simp_all add: app_serve_def)

lemma application_app_services:
  "ap_services (application_app nats_url code p services) = rev (map code services)"
  by (simp add: application_app_def served_services) (simp add: app_profile_def app_new_def)

lemma distinct_concat_rev: "distinct (concat (rev xss)) \<longleftrightarrow> distinct (concat xss)"
  by (induction xss) auto

lemma distinct_concat_served:
  "distinct (concat (map f (map sc_spec (rev (map code services))))) \<longleftrightarrow>
     distinct (concat (map (\<lambda>s. f (sc_spec (code s))) services))"
  using distinct_concat_rev [of "map (\<lambda>s. f (sc_spec (code s))) services"]
  by (simp add: rev_map comp_def)

text \<open>
  The compile-time assertions of the macro are what the start checks: an application that
  compiles, of services that are consistent on their own, passes the service validation of
  \<open>start\<close>, and no other application does.
\<close>

theorem application_compiles_iff_valid:
  "validate_service_set (map sc_spec (ap_services (application_app nats_url code p services))) = Inr () \<longleftrightarrow>
     application_compiles code services \<and>
     list_all (\<lambda>s. validate_service_set [sc_spec (code s)] = Inr ()) services"
  unfolding application_app_services validate_service_set_distinct application_compiles_def
    list_all_service_pairs assert_services_compatible_iff sorted_wrt_conj distinct_concat_served
  unfolding distinct_concat_map_iff list_all_iff
  by auto

section \<open>Small attribute macros\<close>

text \<open>\<open>#[derive(AppState)]\<close>: one projection per field with a \<open>state\<close> attribute.\<close>

datatype 'tok struct_data = NotAStruct | StructOf "'tok error_fields"

definition app_state_projections ::
  "'tok struct_data \<Rightarrow> macro_error + (rust_type \<times> string option) list" where
  "app_state_projections data =
     (case data of
        NotAStruct \<Rightarrow> Inl (MacroError ''AppState can only be derived for structs'')
      | StructOf shape \<Rightarrow>
          (case shape of
             FieldsNamed fs \<Rightarrow>
               Inr (map (\<lambda>f. (ef_ty f, ef_ident f)) (filter (\<lambda>f. list_ex (attr_is ''state'') (ef_attrs f)) fs))
           | _ \<Rightarrow> Inl (MacroError ''AppState requires named fields'')))"

section \<open>The path of the library\<close>

text \<open>
  \<open>util.rs\<close>: under which name the user's crate knows \<open>nats-micro\<close>.  \<open>None\<close> is a manifest that
  \<open>proc_macro_crate\<close> cannot read or that does not list the library; \<open>is_path\<close> is what \<open>syn\<close>
  parses as a path.
\<close>

datatype found_crate = Itself | CrateName string

definition nats_micro_path :: "(string \<Rightarrow> bool) \<Rightarrow> found_crate option \<Rightarrow> string" where
  "nats_micro_path is_path found =
     (case found of
        Some (CrateName name) \<Rightarrow>
          if is_path (''::'' @ name) then ''::'' @ name else ''::nats_micro''
      | Some Itself \<Rightarrow> ''::nats_micro''
      | None \<Rightarrow> ''::nats_micro'')"

definition nats_micro_serde_path :: "found_crate option \<Rightarrow> string" where
  "nats_micro_serde_path found =
     (case found of
        Some (CrateName name) \<Rightarrow> name @ ''::serde''
      | Some Itself \<Rightarrow> ''nats_micro::serde''
      | None \<Rightarrow> ''nats_micro::serde'')"

text \<open>Both name the same library, unless the name of the crate is no path.\<close>

theorem library_paths_agree:
  "''::'' @ nats_micro_serde_path found = nats_micro_path is_path found @ ''::serde'' \<longleftrightarrow>
     (\<forall>name. found = Some (CrateName name) \<longrightarrow> is_path (''::'' @ name) \<or> name = ''nats_micro'')"
  by (auto simp: nats_micro_path_def nats_micro_serde_path_def split: option.split found_crate.split)

section \<open>Attributes with options\<close>

text \<open>An option \<open>name = value\<close> of an attribute; \<open>None\<close> is an option without a value.\<close>

datatype option_lit = LitStr string | LitInt "bool \<times> string" | LitBool bool | LitOther

type_synonym attr_option = "string option \<times> option_lit option"

text \<open>\<open>#[message]\<close>: the path of serde, and the options left for serde.\<close>

fun message_options ::
  "attr_option list \<Rightarrow> string \<times> attr_option list \<Rightarrow> macro_error + string \<times> attr_option list" where
  "message_options [] acc = Inr acc"
| "message_options ((path, v) # rest) (serde_crate, serde_options) =
     (if path = Some ''schema'' then
        (case v of
           Some (LitBool _) \<Rightarrow> message_options rest (serde_crate, serde_options)
         | _ \<Rightarrow> Inl (MacroError ''schema requires a boolean value''))
      else if path = Some ''crate'' then
        (case v of
           Some (LitStr c) \<Rightarrow> message_options rest (c, serde_options)
         | _ \<Rightarrow> Inl (MacroError ''crate requires a string path''))
      else message_options rest (serde_crate, serde_options @ [(path, v)]))"

definition expand_message ::
  "bool \<Rightarrow> found_crate option \<Rightarrow> attr_option list option \<Rightarrow>
   macro_error + string \<times> attr_option list" where
  "expand_message json_feature found options =
     (if \<not> json_feature then Inl (MacroError ''#[message] requires the `json` feature'')
      else try_then (syn_parse options) (\<lambda>os. message_options os (nats_micro_serde_path found, [])))"

text \<open>\<open>#[object]\<close>: whether there are generics, and which fields are public.\<close>

definition expand_object :: "bool \<Rightarrow> 'tok error_fields \<Rightarrow> ('tok error_field \<Rightarrow> bool) \<Rightarrow> macro_error + unit"
  where
  "expand_object generic shape public =
     (if generic
      then Inl (MacroError ''#[nats_micro::object] does not support generic structs'')
      else case shape of
             FieldsNamed fs \<Rightarrow> ensure (list_all public fs)
               (MacroError ''#[nats_micro::object] requires all fields to be pub'')
           | _ \<Rightarrow> Inl (MacroError ''#[nats_micro::object] only supports structs with named fields''))"

definition expand_main :: "bool \<Rightarrow> macro_error + unit" where
  "expand_main args_empty =
     ensure args_empty (MacroError ''#[nats_micro::main] takes no arguments'')"

section \<open>Test attributes\<close>

record test_attr =
  ta_flavor :: "string option"
  ta_worker_threads :: "nat option"
  ta_start_paused :: "bool option"

fun read_test_options :: "attr_option list \<Rightarrow> test_attr \<Rightarrow> macro_error + test_attr" where
  "read_test_options [] t = Inr t"
| "read_test_options ((name, None) # rest) t =
     Inl (MacroError ''test options use `name = value` syntax'')"
| "read_test_options ((name, Some v) # rest) t =
     (if name = Some ''flavor'' then
        (if ta_flavor t \<noteq> None then Inl (MacroError ''duplicate `flavor`'')
         else case v of
                LitStr f \<Rightarrow>
                  if f = ''current_thread'' \<or> f = ''multi_thread''
                  then read_test_options rest (t\<lparr>ta_flavor := Some f\<rparr>)
                  else Inl (MacroError ''flavor must be `current_thread` or `multi_thread`'')
              | _ \<Rightarrow> Inl (MacroError ''flavor requires a string''))
      else if name = Some ''worker_threads'' then
        (if ta_worker_threads t \<noteq> None then Inl (MacroError ''duplicate `worker_threads`'')
         else case v of
                LitInt l \<Rightarrow>
                  try_then (map_err (\<lambda>_. SynError) (parse_lit_unsigned usize_max (Some l))) (\<lambda>n.
                    if n = 0 then Inl (MacroError ''worker_threads must be greater than zero'')
                    else read_test_options rest (t\<lparr>ta_worker_threads := Some n\<rparr>))
              | _ \<Rightarrow> Inl (MacroError ''worker_threads requires an integer''))
      else if name = Some ''start_paused'' then
        (if ta_start_paused t \<noteq> None then Inl (MacroError ''duplicate `start_paused`'')
         else case v of
                LitBool b \<Rightarrow> read_test_options rest (t\<lparr>ta_start_paused := Some b\<rparr>)
              | _ \<Rightarrow> Inl (MacroError ''start_paused requires a boolean''))
      else Inl (MacroError ''unknown test option''))"

text \<open>The options forwarded to \<open>tokio::test\<close>, with the flavor filled in.\<close>

definition expand_test ::
  "bool \<Rightarrow> bool \<Rightarrow> attr_option list option \<Rightarrow> macro_error + test_attr" where
  "expand_test test_util is_async options =
     (if \<not> test_util then Inl (MacroError ''#[nats_micro::test] requires the `test-util` feature'')
      else if \<not> is_async then Inl (MacroError ''#[nats_micro::test] requires an async function'')
      else try_then (syn_parse options) (\<lambda>os.
        try_then (read_test_options os
            \<lparr>ta_flavor = None, ta_worker_threads = None, ta_start_paused = None\<rparr>) (\<lambda>t.
          let flavor = (case ta_flavor t of Some f \<Rightarrow> f | None \<Rightarrow> ''current_thread'')
          in if ta_worker_threads t \<noteq> None \<and> flavor \<noteq> ''multi_thread''
             then Inl (MacroError ''worker_threads requires `flavor = \"multi_thread\"`'')
             else Inr (t\<lparr>ta_flavor := Some flavor\<rparr>))))"

definition expand_live_test :: "bool \<Rightarrow> bool \<Rightarrow> bool \<Rightarrow> macro_error + unit" where
  "expand_live_test live_test args_empty is_async =
     (if \<not> live_test
      then Inl (MacroError ''#[nats_micro::live_test] requires the `live-test` feature'')
      else if \<not> args_empty then Inl (MacroError ''live_test macro takes no arguments'')
      else ensure is_async (MacroError ''#[nats_micro::live_test] requires an async function''))"

text \<open>
  The result of a live test: \<open>None\<close> is a body that exceeds the timeout, whose text is
  \<open>timeout\<close>; an error that is a skip counts as success.
\<close>

definition live_test_result ::
  "(string \<Rightarrow> bool) \<Rightarrow> string \<Rightarrow> (string + unit) option \<Rightarrow> string + unit" where
  "live_test_result is_skip timeout outcome =
     (case outcome of
        Some (Inl error) \<Rightarrow> if is_skip error then Inr () else Inl error
      | Some (Inr _) \<Rightarrow> Inr ()
      | None \<Rightarrow> Inl (''live test timed out after '' @ timeout))"

text \<open>An accepted test attribute only asks for worker threads that its flavor has.\<close>

theorem accepted_test_attribute:
  assumes "expand_test test_util is_async options = Inr t"
  shows "ta_flavor t \<in> {Some ''current_thread'', Some ''multi_thread''} \<and>
    (\<forall>n. ta_worker_threads t = Some n \<longrightarrow> 0 < n \<and> ta_flavor t = Some ''multi_thread'')"
proof -
  have read: "pred_option (\<lambda>f. f = ''current_thread'' \<or> f = ''multi_thread'') (ta_flavor r) \<and>
      pred_option (\<lambda>n. 0 < n) (ta_worker_threads r)"
    if "read_test_options os u = Inr r"
      "pred_option (\<lambda>f. f = ''current_thread'' \<or> f = ''multi_thread'') (ta_flavor u)"
      "pred_option (\<lambda>n. 0 < n) (ta_worker_threads u)" for os u r
    using that
    by (induction os u rule: read_test_options.induct)
      (auto split: if_splits option_lit.splits)
  obtain os u where u: "read_test_options os
      \<lparr>ta_flavor = None, ta_worker_threads = None, ta_start_paused = None\<rparr> = Inr u"
    "t = u\<lparr>ta_flavor := Some (case ta_flavor u of Some f \<Rightarrow> f | None \<Rightarrow> ''current_thread'')\<rparr>"
    "ta_worker_threads u \<noteq> None \<longrightarrow>
      (case ta_flavor u of Some f \<Rightarrow> f | None \<Rightarrow> ''current_thread'') = ''multi_thread''"
    using assms by (auto simp: expand_test_def Let_def split: if_splits)
  then show ?thesis using read [OF u(1)] by (auto split: option.splits)
qed

end
