(* ===== verification/Spec2Isabelle.thy ===== *)
theory Spec2Isabelle
  imports Framework_Errors Subjects Contracts App_Services App_Config Supervisor Worker_Loops
    Error_Responses Requests Responses Codecs Telemetry Processing Encryption Envelopes
    Encrypted_Requests Encrypted_Round_Trip Client_Calls Connecting Test_Support
    Jetstream_Simulator Local_Transport Test_Harness Remote_Calls Encrypted_Calls Error_Wire
    Request_Workers Consumer_Workers Transport_Calls Recipients Nats_Server Live_Harness
    Service_Expansion Harness_Calls Typed_Errors Subject_Floats Command_Line Small_Macros
begin

text \<open>
  A verification development for the \<open>nats-micro\<close> workspace: services written as a Rust
  \<open>impl\<close> block, exposed over NATS by macros, run by workers, and called by generated clients.

  \<^bold>\<open>How the parts interact.\<close>  The macro \<open>#[service]\<close> (\<open>src/nats-micro-macros/src/service\<close>)
  reads an \<open>impl\<close> block into a model, validates it, and emits a static specification, endpoint
  code for the server, a client and local routes for tests; \<open>#[service_error]\<close> emits the wire
  form of an error enum.  The crate \<open>src/nats-micro\<close> holds what the emitted code calls: subjects
  and contracts, codecs, requests and responses, encryption, the client, the workers, and the
  application that starts and supervises them.  A call goes from the generated client through
  codec, envelope and transport to a worker, through the generated endpoint to the handler, and
  back; its errors travel as \<open>NatsErrorResponse\<close>.  \<open>src/nats-micro-testing\<close> replays the same path
  in memory.

  \<^bold>\<open>Theories.\<close>
  \<^item> Shared: \<open>Prelude\<close> (results, strings as bytes, UTF-8, numbers, durations, lists),
    \<open>Framework_Errors\<close> (\<open>nats-micro-shared\<close>, the code tables), \<open>Headers\<close> (header maps as an
    interface with a list instance).
  \<^item> Descriptions: \<open>Subjects\<close> and \<open>Subject_Floats\<close> (\<open>subject.rs\<close>), \<open>Contracts\<close> (\<open>spec.rs\<close>, \<open>contract.rs\<close>),
    \<open>Deployment\<close> (\<open>deployment.rs\<close>), \<open>Command_Line\<close> (\<open>nats-micro-cli\<close>).
  \<^item> Messages: \<open>Error_Responses\<close> (\<open>error.rs\<close>), \<open>Requests\<close>, \<open>Responses\<close>, \<open>Codecs\<close>, \<open>Telemetry\<close>.
  \<^item> Encryption (\<open>encryption/\<close>): \<open>Encryption\<close> (keys, derivation, transcripts), \<open>Envelopes\<close>,
    \<open>Encrypted_Requests\<close>, \<open>Encrypted_Round_Trip\<close>, \<open>Recipients\<close> (recipients, contexts and the
    deprecated entry points).
  \<^item> Server: \<open>Processing\<close> (one message), \<open>Worker_Loops\<close> (\<open>runtime/*_worker.rs\<close>),
    \<open>Worker_Effects\<close> (a loop with the effects of its messages), \<open>Request_Workers\<close> and
    \<open>Consumer_Workers\<close> (the loops with their processing), \<open>Supervisor\<close> (restarts,
    \<open>app/typed_runtime.rs\<close>), \<open>App_Config\<close>, \<open>App_Services\<close>, \<open>Runtime_Start\<close> (spawning the
    workers of a service), \<open>Runtime_Run\<close> (the run loop, drain and teardown, and \<open>App\<close>).
  \<^item> Client (\<open>client/\<close>): \<open>Client_Calls\<close>, \<open>Connecting\<close>, \<open>Transport_Calls\<close> (the NATS transport).
  \<^item> Testing: \<open>Test_Support\<close> (fault plans and recorded events), \<open>Jetstream_Simulator\<close>,
    \<open>Local_Transport\<close>, \<open>Test_Harness\<close>; live tests: \<open>Nats_Server\<close> (\<open>nats-server\<close>) and
    \<open>Live_Harness\<close> (\<open>testing/live.rs\<close>).
  \<^item> The service macro: \<open>Macro_Syntax\<close>, \<open>Service_Args\<close>, \<open>Subject_Templates\<close>, \<open>Service_Model\<close>,
    \<open>Service_Validation\<close>, \<open>Service_Metadata\<close>, \<open>Generated_Service\<close>, \<open>Service_Typing\<close>,
    \<open>Generated_Client\<close>, \<open>Napi_Bindings\<close> (the JavaScript bindings) and \<open>Service_Expansion\<close> (the
    macro from its tokens to all it emits); \<open>Remote_Calls\<close> composes client, transport, worker and endpoint, and
    \<open>Encrypted_Calls\<close> does so with encryption, \<open>Harness_Calls\<close> over the in-memory transport.
  \<^item> The error macro: \<open>Error_Attributes\<close>, \<open>Error_Display\<close>, \<open>Error_Wire\<close> (with the
    mirror of the enum for JavaScript), \<open>Typed_Errors\<close> (its errors through a call); the other macros:
    \<open>Small_Macros\<close>.

  \<^bold>\<open>Correspondence.\<close>  A struct is a record, an enum a datatype, a \<open>Result\<close> a sum with \<open>Inl\<close> for
  \<open>Err\<close> and \<open>try_then\<close> for the question mark; a \<open>str\<close> is its list of UTF-8 bytes, a payload a list
  of 8-bit words, a duration its nanoseconds.  Definitions carry the names of the functions they
  translate.  Generating code and running it are two steps: the generators yield the emitted
  expressions as data and the \<open>eval\<close> and \<open>run\<close> functions give their meaning.  Asynchronous code
  is a step function or a loop over the list of events that its environment produces, with
  \<open>None\<close> for a loop that still waits; concurrent handlers are the set of messages in flight, and
  every completion order is an event list.

  \<^bold>\<open>What is shown.\<close>  Calls: a remote call has the outcome of the handler (\<open>Remote_Calls\<close>), with
  encryption as well (\<open>Encrypted_Calls\<close>), where an accepted request is the one that was built and
  is authentic (\<open>Encrypted_Round_Trip\<close>), and so has a call through the test harness
  (\<open>Harness_Calls\<close>); a handler's error reaches the caller as itself (below), typed errors survive
  the wire (\<open>Error_Wire\<close>) and the whole call (\<open>Typed_Errors\<close>), and internal ones say nothing.  Workers: bounded concurrency,
  no message lost, one answer for each request in completion order and one settlement for each
  message, termination after a stop whatever the order of completions, restarts within the budget
  with their exact delays and result.  Applications: a started application serves exactly what its services
  declare, shutting down ends and reports the first failure seen before the drain (the results of
  drained workers are discarded), a failed start cleans up and returns its own error, and a live
  test leaves no server behind, whether it shuts down, fails, panics or is dropped, and no file in
  the storage of the server.  Macros:
  which blocks expand, that accepted services have valid contracts and well-typed code, which
  of their JavaScript bindings type-check, that client subjects reach their endpoints, and which
  messages compile and that they print as written.  Each component theory adds the properties of its own
  operations: equivalences with a reference (subject matching, service sets, fault queues),
  round trips of codes and codecs, exact acceptance of configurations, and bounds of parsers.

  \<^bold>\<open>Interfaces.\<close>  The contracts between components are locales, interpreted on the model: the
  decoders of the client (\<open>response_decoder\<close>), the two error traits (also on the code the error
  macro emits), the dispatch of a request worker, the keyed queues of the fault plan, the worker
  loops (\<open>bounded_worker\<close>), the loops with their effects (\<open>effect_worker\<close>) and those that answer
  every message (\<open>answering_worker\<close>).

  \<^bold>\<open>Parameters.\<close>  What is not in the repository is an argument: \<open>serde_json\<close> and \<open>prost\<close>
  (\<open>json_ops\<close>, \<open>json_laws\<close>), the header map of \<open>async_nats\<close>, the cryptographic primitives
  (\<open>crypto_ops\<close> with their functional laws), \<open>syn\<close>, \<open>quote\<close> and \<open>heck\<close> on tokens (\<open>syn_ops\<close>), the
  NATS server, the types that N-API supports, how a value prints under a format specification,
  clocks, random bytes and user handlers.  Hypotheses about them are documented
  behaviour, and each property that has one is applied to a concrete instance.

  \<^bold>\<open>Bounds.\<close>  No fuel is used in place of a proof: recursions are structural or have a measure.
  Loops over events are as long as their events; where a property says that a loop returns, it
  states which events suffice (a stop request, one completion for each worker).  The simulator's
  loop has an explicit bound that is shown to be enough.  Integers are bounded where the code
  parses, saturates or wraps them.

  \<^bold>\<open>Not modelled.\<close>  Re-exports and trait declarations, the conversion of values by N-API,
  panics of user hooks, what is written to the log, and the
  preemption of a handler between its own effects.
\<close>

section \<open>From the handler to the caller\<close>

text \<open>
  C9: a handler's error reaches the caller as the error it is.  When an endpoint's handler
  fails with \<open>e\<close>, whose response is one that JSON can carry (\<open>error_wf\<close>), the single reply the
  worker sends makes each of the twelve decoders of the client return the service error built
  from exactly \<open>e\<close>'s response: code, kind, message, details and request id, as the client's own
  error type when it knows the kind; and the reply carries the request's id in its headers.
\<close>

theorem service_error_reaches_client:
  fixes J :: "'j json_ops" and H :: "'h header_ops" and raw :: "'h raw_request"
    and into_nats_error :: "'e \<Rightarrow> string \<Rightarrow> 'j nats_error_response"
    and from_response :: "'j nats_error_response \<Rightarrow> ('j, 'd) service_error_match"
  assumes J: "json_laws J" and H: "header_map_laws H"
    and call: "call (raw_view H raw) =
      Inl (into_service_error J into_nats_error uuid e (rq_request_id (raw_view H raw)))"
    and id: "fst (get_or_generate uuid (rq_request_id (raw_view H raw))) = request_id"
    and wf: "error_wf J (into_nats_error e request_id)"
    and sent: "responses (fst (process_plain_request H telemetry spec call sent raw)) =
      [(payload, headers)]"
  shows "let response = \<lparr>cx_payload = payload, cx_headers = headers\<rparr>;
      error = from_service_response from_response (into_nats_error e request_id)
    in json_decoder J H from_response parse response = Inl error \<and>
    optional_json_decoder J H from_response parse response = Inl error \<and>
    proto_decoder J H from_response parse response = Inl error \<and>
    optional_proto_decoder J H from_response parse response = Inl error \<and>
    text_decoder J H from_response response = Inl error \<and>
    optional_text_decoder J H from_response response = Inl error \<and>
    bytes_decoder J H from_response response = Inl error \<and>
    optional_bytes_decoder J H from_response response = Inl error \<and>
    vec_decoder J H from_response response = Inl error \<and>
    optional_vec_decoder J H from_response response = Inl error \<and>
    empty_decoder J H from_response response = Inl error \<and>
    client_response_decoder J H from_response response = Inl error \<and>
    Option.bind headers (\<lambda>h. ho_get H h ''x-request-id'') =
      (let i = er_request_id (into_nats_error e request_id) in if i \<noteq> [] then Some i else None)"
proof -
  let ?response = "\<lparr>cx_payload = payload, cx_headers = headers\<rparr>"
  let ?r = "from_nats_error J (into_nats_error e request_id)"
  have w: "payload = rp_payload ?r" "headers = Some (service_error_headers H ?r)"
    using sent call id
    by (simp_all add: process_plain_request_def respond_with_responses into_service_error_def)
  have reports: "reports_service_error H ?response"
    by (simp add: w reports_service_error_def service_error_headers_get [OF H])
  have decoded: "jo_error_from_slice J (cx_payload ?response) = Inr (into_nats_error e request_id)"
    by (simp add: w from_nats_error_payload [OF J wf])
  note first = reports decoded
  have "Option.bind headers (\<lambda>h. ho_get H h ''x-request-id'') =
      (let i = er_request_id (into_nats_error e request_id) in if i \<noteq> [] then Some i else None)"
    by (simp add: w service_error_headers_get [OF H]) (simp add: from_nats_error_def)
  then show ?thesis
    by (simp add: json_dec.service_error_first [OF first] opt_json_dec.service_error_first [OF first]
        proto_dec.service_error_first [OF first] opt_proto_dec.service_error_first [OF first]
        text_dec.service_error_first [OF first] opt_text_dec.service_error_first [OF first]
        bytes_dec.service_error_first [OF first] opt_bytes_dec.service_error_first [OF first]
        vec_dec.service_error_first [OF first] opt_vec_dec.service_error_first [OF first] empty_dec.service_error_first [OF first]
        resp_dec.service_error_first [OF first])
qed

definition failing_handler :: "alist_map request \<Rightarrow> error_reply + alist_map response" where
  "failing_handler r =
     Inl (into_service_error demo_json into_nats_error_string ''u1'' ''boom'' (rq_request_id r))"

definition bare_request :: "alist_map raw_request" where
  "bare_request = \<lparr>rr_subject = ''a'', rr_reply = Some ''r'', rr_payload = [], rr_headers = None\<rparr>"

theorem service_error_reaches_client_witness:
  "\<forall>spec. \<exists>payload headers.
     responses (fst (process_plain_request alist_headers None spec failing_handler (Inr ())
       bare_request)) = [(payload, headers)] \<and>
     text_decoder demo_json alist_headers from_response_self
       \<lparr>cx_payload = payload, cx_headers = headers\<rparr> =
     Inl (from_service_response from_response_self (into_nats_error_string ''boom'' ''u1''))"
proof
  fix spec
  have id: "fst (get_or_generate ''u1'' (rq_request_id (raw_view alist_headers bare_request))) = ''u1''"
    by (simp add: raw_view_def bare_request_def request_new_def request_id_new_def headers_get_def
        headers_new_def option_filter_def get_or_generate_def)
  have wf: "error_wf demo_json (into_nats_error_string ''boom'' ''u1'')"
    by (simp add: error_wf_def into_nats_error_string_def demo_json_def) (code_simp)
  obtain payload headers where r: "responses (fst (process_plain_request alist_headers None spec
      failing_handler (Inr ()) bare_request)) = [(payload, headers)]"
    by (simp add: process_plain_request_def respond_with_responses failing_handler_def
        into_service_error_def)
  have "let response = \<lparr>cx_payload = payload, cx_headers = headers\<rparr>;
      error = from_service_response from_response_self (into_nats_error_string ''boom'' ''u1'')
    in text_decoder demo_json alist_headers from_response_self response = Inl error"
    using service_error_reaches_client [where J = demo_json and H = alist_headers
        and call = failing_handler and raw = bare_request and uuid = "''u1''" and e = "''boom''"
        and into_nats_error = into_nats_error_string and request_id = "''u1''" and spec = spec
        and telemetry = None and sent = "Inr ()" and payload = payload and headers = headers
        and from_response = from_response_self and parse = "\<lambda>_. Inr ()",
        OF demo_json_laws alist_headers_laws failing_handler_def id wf r]
    by (simp only: Let_def)
  then show "\<exists>payload headers.
      responses (fst (process_plain_request alist_headers None spec failing_handler (Inr ())
        bare_request)) = [(payload, headers)] \<and>
      text_decoder demo_json alist_headers from_response_self
        \<lparr>cx_payload = payload, cx_headers = headers\<rparr> =
      Inl (from_service_response from_response_self (into_nats_error_string ''boom'' ''u1''))"
    using r by (intro exI conjI) (simp_all only: Let_def)
qed

end
